(* ===== verification/Prelude.thy ===== *)
theory Prelude
  imports Main "HOL-Library.Multiset" "HOL-Library.AList" "HOL-Library.Char_ord"
    "HOL-Library.List_Lexorder"
begin

text \<open>
  What every theory of the development shares: Go error values and the three ways a Go call can
  end (it returns, it returns an error, it panics), 64-bit integers with their wrap-around, Go
  maps as association lists in an arbitrary iteration order, and the generic list lemmas the
  component proofs use.  The collection \<open>go_simps\<close> holds the rewrite rules that compute with
  these notions; the component theories add theirs to \<open>comp_simps\<close>.
\<close>

named_theorems go_simps "computation rules of the Go runtime notions"
named_theorems comp_simps "computation rules of the components"

section \<open>Errors and outcomes\<close>

text \<open>
  An error value.  \<open>Errorf\<close> is an error made by \<open>fmt.Errorf\<close> or \<open>errors.New\<close> without a wrapped
  error, \<open>Wrapf\<close> one made with \<open>%w\<close>; the others are the error types the sources construct or
  inspect by type: the service error of the OCI SDK (HTTP status, code, message), a network error,
  a status error of the Kubernetes API (reason, message), the three error types of karpenter's
  cloud-provider interface, and a combination made by \<open>multierr\<close>.
\<close>

datatype api_reason = ReasonNotFound | ReasonConflict | ReasonOther

datatype goerr =
    Errorf string
  | Wrapf string goerr
  | ServiceError int string string
  | NetworkError string
  | StatusError api_reason string
  | InsufficientCapacityError goerr
  | NodeClassNotReadyError goerr
  | NodeClaimNotFoundError "goerr option"
  | MultiErr "goerr list"

text \<open>A Go call returns a value, returns an error, or panics (a nil dereference, an index out of
  range, an explicit \<open>panic\<close>).\<close>

datatype 'a outcome = Ret 'a | Err goerr | Panic string

primrec obind :: "'a outcome \<Rightarrow> ('a \<Rightarrow> 'b outcome) \<Rightarrow> 'b outcome" where
  "obind (Ret x) f = f x"
| "obind (Err e) f = Err e"
| "obind (Panic s) f = Panic s"

primrec omap_err :: "(goerr \<Rightarrow> goerr) \<Rightarrow> 'a outcome \<Rightarrow> 'a outcome" where
  "omap_err g (Ret x) = Ret x"
| "omap_err g (Err e) = Err (g e)"
| "omap_err g (Panic s) = Panic s"

text \<open>Dereferencing a pointer: \<open>nil\<close> is \<open>None\<close> and dereferencing it panics.\<close>

definition deref :: "'a option \<Rightarrow> 'a outcome" where
  "deref p = (case p of None \<Rightarrow> Panic ''nil pointer dereference'' | Some x \<Rightarrow> Ret x)"

text \<open>\<open>lo.FromPtr\<close> and \<open>utils.ToString\<close> read a pointer with the zero value for \<open>nil\<close>.\<close>

definition from_ptr :: "'a \<Rightarrow> 'a option \<Rightarrow> 'a" where
  "from_ptr z p = (case p of None \<Rightarrow> z | Some x \<Rightarrow> x)"

lemma deref_simps [simp, go_simps]:
  "deref (Some x) = Ret x" "deref None = Panic ''nil pointer dereference''"
  by (simp_all add: deref_def)

lemma from_ptr_simps [simp, go_simps]: "from_ptr z None = z" "from_ptr z (Some x) = x"
  by (simp_all add: from_ptr_def)

lemma obind_eq_Ret_iff: "obind m f = Ret y \<longleftrightarrow> (\<exists>x. m = Ret x \<and> f x = Ret y)"
  by (cases m) auto

lemma obind_eq_Err_iff:
  "obind m f = Err e \<longleftrightarrow> m = Err e \<or> (\<exists>x. m = Ret x \<and> f x = Err e)"
  by (cases m) auto

lemma obind_assoc: "obind (obind m f) g = obind m (\<lambda>x. obind (f x) g)"
  by (cases m) auto

lemma obind_Ret_right [simp]: "obind m Ret = m"
  by (cases m) auto

lemma omap_err_eq_Ret_iff [simp]: "omap_err g m = Ret y \<longleftrightarrow> m = Ret y"
  by (cases m) auto

lemma omap_err_eq_Err_iff: "omap_err g m = Err e \<longleftrightarrow> (\<exists>e'. m = Err e' \<and> e = g e')"
  by (cases m) auto

text \<open>A Go loop that stops at the first error: the results of the calls in order.\<close>

primrec omapM :: "('a \<Rightarrow> 'b outcome) \<Rightarrow> 'a list \<Rightarrow> 'b list outcome" where
  "omapM f [] = Ret []"
| "omapM f (x # xs) = obind (f x) (\<lambda>y. obind (omapM f xs) (\<lambda>ys. Ret (y # ys)))"

lemma omapM_Ret_iff:
  "omapM f xs = Ret ys \<longleftrightarrow> list_all2 (\<lambda>x y. f x = Ret y) xs ys"
proof (induction xs arbitrary: ys)
  case Nil
  then show ?case by auto
next
  case (Cons x xs)
  then show ?case by (cases ys) (auto simp: obind_eq_Ret_iff)
qed

lemma omapM_Ret_map: "(\<And>x. x \<in> set xs \<Longrightarrow> f x = Ret (g x)) \<Longrightarrow> omapM f xs = Ret (map g xs)"
  by (induction xs) auto

lemma omapM_Err_in: "omapM f xs = Err e \<Longrightarrow> \<exists>x \<in> set xs. f x = Err e"
  by (induction xs) (auto simp: obind_eq_Err_iff)

section \<open>64-bit and 32-bit integers\<close>

text \<open>Go's \<open>int\<close> and \<open>int64\<close> are two's complement; the value after an operation is the exact one
  wrapped into the range.  \<open>gdiv\<close> is Go's integer division, which truncates towards zero.\<close>

definition wrap64 :: "int \<Rightarrow> int" where
  "wrap64 x = (x + 2 ^ 63) mod 2 ^ 64 - 2 ^ 63"

definition wrap32 :: "int \<Rightarrow> int" where
  "wrap32 x = (x + 2 ^ 31) mod 2 ^ 32 - 2 ^ 31"

definition in_int64 :: "int \<Rightarrow> bool" where
  "in_int64 x \<longleftrightarrow> - (2 ^ 63) \<le> x \<and> x < 2 ^ 63"

definition gdiv :: "int \<Rightarrow> int \<Rightarrow> int" where
  "gdiv a b = sgn a * sgn b * (\<bar>a\<bar> div \<bar>b\<bar>)"

lemma wrap64_range: "in_int64 (wrap64 x)"
proof -
  have "0 \<le> (x + 2 ^ 63) mod 2 ^ 64" "(x + 2 ^ 63) mod 2 ^ 64 < (2 :: int) ^ 64"
    by (auto intro: pos_mod_bound)
  then show ?thesis unfolding in_int64_def wrap64_def by simp
qed

lemma wrap64_id [simp]: "in_int64 x \<Longrightarrow> wrap64 x = x"
  by (simp add: wrap64_def in_int64_def mod_pos_pos_trivial)

lemma gdiv_nonneg: "0 \<le> a \<Longrightarrow> 0 < b \<Longrightarrow> gdiv a b = a div b"
  by (cases "a = 0") (auto simp: gdiv_def)

section \<open>Go maps\<close>

text \<open>
  A Go map is an association list with distinct keys: its list order stands for the order in which
  one \<open>range\<close> over the map visits the entries, which Go leaves open, so every statement quantified
  over such a list covers every iteration order.  \<open>m[k]\<close> is \<^term>\<open>map_of m k\<close>, \<open>m[k] = v\<close> is
  \<^term>\<open>AList.update k v m\<close>.
\<close>

type_synonym ('k, 'v) gomap = "('k \<times> 'v) list"
type_synonym labels = "(string, string) gomap"

definition gomap_wf :: "('k, 'v) gomap \<Rightarrow> bool" where
  "gomap_wf m \<longleftrightarrow> distinct (map fst m)"

text \<open>Reading a string map: a missing key gives the empty string.\<close>

definition mget :: "labels \<Rightarrow> string \<Rightarrow> string" where
  "mget m k = from_ptr '''' (map_of m k)"

text \<open>\<open>lo.Assign(m1, m2)\<close>: the entries of both maps, those of the second winning.\<close>

definition lo_assign :: "('k, 'v) gomap \<Rightarrow> ('k, 'v) gomap \<Rightarrow> ('k, 'v) gomap" where
  "lo_assign m1 m2 = fold (\<lambda>(k, v) m. AList.update k v m) m2 m1"

text \<open>\<open>lo.OmitByKeys(m, ks)\<close>: the entries whose key is not among \<open>ks\<close>.\<close>

definition lo_omit_by_keys :: "('k, 'v) gomap \<Rightarrow> 'k list \<Rightarrow> ('k, 'v) gomap" where
  "lo_omit_by_keys m ks = filter (\<lambda>(k, v). k \<notin> set ks) m"

text \<open>\<open>lo.Find\<close>, \<open>lo.FindOrElse\<close>, \<open>lo.UniqBy\<close> (the first of the elements with the same key, in
  order) and \<open>lo.Compact\<close> on strings (drops the empty ones).\<close>

definition lo_find_or_else :: "'a list \<Rightarrow> 'a \<Rightarrow> ('a \<Rightarrow> bool) \<Rightarrow> 'a" where
  "lo_find_or_else xs d p = from_ptr d (List.find p xs)"

fun lo_uniq_by :: "('a \<Rightarrow> 'k) \<Rightarrow> 'a list \<Rightarrow> 'a list" where
  "lo_uniq_by f [] = []"
| "lo_uniq_by f (x # xs) = x # lo_uniq_by f (filter (\<lambda>y. f y \<noteq> f x) xs)"

definition lo_compact :: "string list \<Rightarrow> string list" where
  "lo_compact xs = filter (\<lambda>s. s \<noteq> []) xs"

lemma gomap_wf_Nil [simp]: "gomap_wf []"
  by (simp add: gomap_wf_def)

lemma gomap_wf_update [simp]: "gomap_wf m \<Longrightarrow> gomap_wf (AList.update k v m)"
  by (simp add: gomap_wf_def distinct_update)

lemma map_of_update [simp]: "map_of (AList.update k v m) = (map_of m)(k \<mapsto> v)"
  by (rule update_conv')

lemma gomap_wf_assign [simp]: "gomap_wf m1 \<Longrightarrow> gomap_wf (lo_assign m1 m2)"
  unfolding lo_assign_def by (induction m2 arbitrary: m1) auto

lemma map_of_assign_cons:
  "lo_assign m1 ((k, v) # m2) = lo_assign (AList.update k v m1) m2"
  by (simp add: lo_assign_def)

lemma map_of_assign: "gomap_wf m2 \<Longrightarrow> map_of (lo_assign m1 m2) = map_of m1 ++ map_of m2"
proof (induction m2 arbitrary: m1)
  case Nil
  then show ?case by (simp add: lo_assign_def)
next
  case (Cons p m2)
  obtain k v where p: "p = (k, v)" by (cases p)
  with Cons.prems have "gomap_wf m2" and "map_of m2 k = None"
    by (auto simp: gomap_wf_def map_of_eq_None_iff)
  with Cons.IH p show ?case
    by (auto simp: map_of_assign_cons fun_eq_iff map_add_def split: option.split)
qed

lemma map_of_omit: "map_of (lo_omit_by_keys m ks) = (\<lambda>k. if k \<in> set ks then None else map_of m k)"
  unfolding lo_omit_by_keys_def by (induction m) (auto simp: fun_eq_iff)

lemma gomap_wf_perm: "mset m = mset m' \<Longrightarrow> gomap_wf m = gomap_wf m'"
  unfolding gomap_wf_def by (rule mset_eq_imp_distinct_iff) simp

lemma map_of_perm:
  assumes "gomap_wf m" and "mset m = mset m'"
  shows "map_of m = map_of m'"
proof -
  have "gomap_wf m'" using assms gomap_wf_perm by blast
  moreover have "set m = set m'" using assms(2) by (rule mset_eq_setD)
  ultimately show ?thesis using assms(1)
    by (auto simp: gomap_wf_def intro: map_of_eqI map_of_inject_set [THEN iffD2])
qed

lemma lo_uniq_by_subset: "set (lo_uniq_by f xs) \<subseteq> set xs"
  by (induction f xs rule: lo_uniq_by.induct) auto

lemma lo_uniq_by_keys: "f ` set (lo_uniq_by f xs) = f ` set xs"
  by (induction f xs rule: lo_uniq_by.induct) (auto simp: image_iff)

lemma lo_uniq_by_distinct: "distinct (map f (lo_uniq_by f xs))"
proof (induction f xs rule: lo_uniq_by.induct)
  case (2 f x xs)
  then show ?case using lo_uniq_by_subset [of f "filter (\<lambda>y. f y \<noteq> f x) xs"] by auto
qed simp

lemma find_Some_split:
  "List.find p xs = Some x \<Longrightarrow> \<exists>us vs. xs = us @ x # vs \<and> p x \<and> (\<forall>u \<in> set us. \<not> p u)"
proof (induction xs)
  case Nil
  then show ?case by simp
next
  case (Cons y ys)
  show ?case
  proof (cases "p y")
    case True
    with Cons.prems have "y # ys = [] @ x # ys \<and> p x \<and> (\<forall>u \<in> set []. \<not> p u)" by simp
    then show ?thesis by blast
  next
    case False
    with Cons obtain us vs where "ys = us @ x # vs" "p x" "\<forall>u \<in> set us. \<not> p u" by auto
    with False have "y # ys = (y # us) @ x # vs \<and> p x \<and> (\<forall>u \<in> set (y # us). \<not> p u)" by simp
    then show ?thesis by blast
  qed
qed

lemma find_Some_D: "List.find p xs = Some x \<Longrightarrow> x \<in> set xs \<and> p x"
  by (drule find_Some_split) auto

lemma find_None_set: "List.find p xs = None \<longleftrightarrow> (\<forall>x \<in> set xs. \<not> p x)"
  by (auto simp: find_None_iff)

end
