(* ===== verification/GoStr.thy ===== *)
theory GoStr
  imports Prelude
begin

text \<open>
  The parts of Go's \<open>strings\<close>, \<open>strconv\<close> and \<open>fmt\<close> that the sources use, on byte strings:
  \<open>HasPrefix\<close>, \<open>HasSuffix\<close>, \<open>Contains\<close>, \<open>Split\<close>, \<open>Join\<close>, \<open>ReplaceAll\<close> of one byte, \<open>ToLower\<close>,
  \<open>TrimSpace\<close>, \<open>Atoi\<close> and the printing of integers, with the laws the components rely on
  (what a search finds, that splitting undoes joining, that \<open>Atoi\<close> reads back a printed integer).
  \<open>ToLower\<close> and \<open>TrimSpace\<close> are given for ASCII text, which is what shape, image and metric names
  are.
\<close>

section \<open>Searching\<close>

definition has_prefix :: "string \<Rightarrow> string \<Rightarrow> bool" where
  "has_prefix s p \<longleftrightarrow> take (length p) s = p"

definition has_suffix :: "string \<Rightarrow> string \<Rightarrow> bool" where
  "has_suffix s p \<longleftrightarrow> has_prefix (rev s) (rev p)"

fun str_contains :: "string \<Rightarrow> string \<Rightarrow> bool" where
  "str_contains [] sub = (sub = [])"
| "str_contains (c # cs) sub = (has_prefix (c # cs) sub \<or> str_contains cs sub)"

lemma has_prefix_iff: "has_prefix s p \<longleftrightarrow> (\<exists>t. s = p @ t)"
  unfolding has_prefix_def by (metis append_eq_conv_conj append_take_drop_id)

lemma has_prefix_Nil [simp]: "has_prefix s []"
  by (simp add: has_prefix_def)

lemma has_prefix_append [simp]: "has_prefix (p @ t) p"
  by (simp add: has_prefix_iff)

lemma has_prefix_Nil_left [simp]: "has_prefix [] p \<longleftrightarrow> p = []"
  by (auto simp: has_prefix_def)

lemma has_prefix_Cons [simp]: "has_prefix (c # cs) (d # ds) \<longleftrightarrow> c = d \<and> has_prefix cs ds"
  by (simp add: has_prefix_def)

lemma has_suffix_iff: "has_suffix s p \<longleftrightarrow> (\<exists>t. s = t @ p)"
  unfolding has_suffix_def has_prefix_iff
  by (metis rev_append rev_rev_ident)

lemma str_contains_iff: "str_contains s sub \<longleftrightarrow> (\<exists>u v. s = u @ sub @ v)"
proof (induction s)
  case Nil
  then show ?case by auto
next
  case (Cons c cs)
  have "(\<exists>u v. c # cs = u @ sub @ v) \<longleftrightarrow>
        (\<exists>v. c # cs = sub @ v) \<or> (\<exists>u v. cs = u @ sub @ v)" (is "?L \<longleftrightarrow> ?A \<or> ?B")
  proof
    assume ?L
    then obtain u v where uv: "c # cs = u @ sub @ v" by blast
    then show "?A \<or> ?B" by (cases u) auto
  next
    assume "?A \<or> ?B"
    then show ?L
    proof
      assume ?A
      then show ?L by (metis append_Nil)
    next
      assume ?B
      then obtain u v where "cs = u @ sub @ v" by blast
      then have "c # cs = (c # u) @ sub @ v" by simp
      then show ?L by blast
    qed
  qed
  with Cons.IH show ?case by (simp add: has_prefix_iff)
qed

lemma str_contains_Nil [simp]: "str_contains s []"
  by (cases s) auto

lemma str_contains_refl [simp]: "str_contains s s"
  by (metis append_Nil append_Nil2 str_contains_iff)

lemma str_contains_append1: "str_contains s sub \<Longrightarrow> str_contains (s @ t) sub"
  by (auto simp: str_contains_iff) metis

lemma str_contains_append2: "str_contains s sub \<Longrightarrow> str_contains (t @ s) sub"
  by (auto simp: str_contains_iff) (metis append.assoc)

section \<open>Splitting and joining\<close>

text \<open>
  \<open>split_aux sep k acc s\<close> reads \<open>s\<close> with \<open>acc\<close>, the current field in reverse, and \<open>k\<close> bytes of a
  separator still to skip.  Only non-empty separators occur in the sources.
\<close>

fun split_aux :: "string \<Rightarrow> nat \<Rightarrow> string \<Rightarrow> string \<Rightarrow> string list" where
  "split_aux sep k acc [] = [rev acc]"
| "split_aux sep (Suc k) acc (c # cs) = split_aux sep k acc cs"
| "split_aux sep 0 acc (c # cs) =
     (if has_prefix (c # cs) sep then rev acc # split_aux sep (length sep - 1) [] cs
      else split_aux sep 0 (c # acc) cs)"

definition split_str :: "string \<Rightarrow> string \<Rightarrow> string list" where
  "split_str s sep = split_aux sep 0 [] s"

fun join_str :: "string \<Rightarrow> string list \<Rightarrow> string" where
  "join_str sep [] = []"
| "join_str sep [x] = x"
| "join_str sep (x # y # ys) = x @ sep @ join_str sep (y # ys)"

lemma split_aux_nonempty [simp]: "split_aux sep k acc s \<noteq> []"
  by (induction sep k acc s rule: split_aux.induct) auto

lemma split_str_nonempty [simp]: "split_str s sep \<noteq> []"
  by (simp add: split_str_def)

lemma length_split_str_pos: "0 < length (split_str s sep)"
  by simp

lemma join_str_Cons: "xs \<noteq> [] \<Longrightarrow> join_str sep (x # xs) = x @ sep @ join_str sep xs"
  by (cases xs) auto

text \<open>Joining the fields gives the string back.\<close>

lemma split_aux_skip: "k \<le> length s \<Longrightarrow> split_aux sep k acc s = split_aux sep 0 acc (drop k s)"
proof (induction k arbitrary: s)
  case 0
  then show ?case by simp
next
  case (Suc k)
  then obtain c cs where "s = c # cs" by (cases s) auto
  with Suc show ?case by simp
qed

lemma join_split_aux:
  assumes "sep \<noteq> []"
  shows "join_str sep (split_aux sep 0 acc s) = rev acc @ s"
proof (induction "length s" arbitrary: acc s rule: less_induct)
  case less
  show ?case
  proof (cases s)
    case Nil
    then show ?thesis by simp
  next
    case (Cons c cs)
    show ?thesis
    proof (cases "has_prefix s sep")
      case True
      then obtain t where t: "s = sep @ t" by (auto simp: has_prefix_iff)
      with assms Cons have cs: "cs = tl sep @ t" by (cases sep) auto
      then have "split_aux sep (length sep - 1) [] cs = split_aux sep 0 [] t"
        using split_aux_skip [of "length sep - 1" cs sep "[]"] by simp
      then have "split_aux sep 0 acc s = rev acc # split_aux sep 0 [] t"
        using True Cons by simp
      moreover have "join_str sep (split_aux sep 0 [] t) = t"
        using less [of t "[]"] t assms by simp
      ultimately show ?thesis using t by (simp add: join_str_Cons)
    next
      case False
      then show ?thesis using less [of cs "c # acc"] Cons by simp
    qed
  qed
qed

lemma join_split: "sep \<noteq> [] \<Longrightarrow> join_str sep (split_str s sep) = s"
  by (simp add: split_str_def join_split_aux)

text \<open>With a one-byte separator: a string without it is one field, and splitting undoes joining
  fields that are free of it.\<close>

lemma split_aux_char:
  "sep \<notin> set x \<Longrightarrow> split_aux [sep] 0 acc (x @ sep # t) = (rev acc @ x) # split_aux [sep] 0 [] t"
  by (induction x arbitrary: acc) (auto simp: has_prefix_def)

lemma split_aux_char_end: "sep \<notin> set x \<Longrightarrow> split_aux [sep] 0 acc x = [rev acc @ x]"
  by (induction x arbitrary: acc) (auto simp: has_prefix_def)

lemma split_char_free: "sep \<notin> set x \<Longrightarrow> split_str x [sep] = [x]"
  by (simp add: split_str_def split_aux_char_end)

lemma split_char_step: "sep \<notin> set x \<Longrightarrow> split_str (x @ sep # t) [sep] = x # split_str t [sep]"
  by (simp add: split_str_def split_aux_char)

lemma split_join:
  "xs \<noteq> [] \<Longrightarrow> (\<And>x. x \<in> set xs \<Longrightarrow> sep \<notin> set x) \<Longrightarrow> split_str (join_str [sep] xs) [sep] = xs"
proof (induction xs)
  case Nil
  then show ?case by simp
next
  case (Cons x xs)
  show ?case
  proof (cases xs)
    case Nil
    with Cons.prems show ?thesis by (simp add: split_char_free)
  next
    case (Cons y ys)
    with Cons.IH Cons.prems show ?thesis by (simp add: split_char_step)
  qed
qed

section \<open>Case, white space, replacement\<close>

definition lower_char :: "char \<Rightarrow> char" where
  "lower_char c = (if CHR ''A'' \<le> c \<and> c \<le> CHR ''Z'' then char_of (of_char c + 32 :: nat) else c)"

definition to_lower :: "string \<Rightarrow> string" where
  "to_lower s = map lower_char s"

definition is_space :: "char \<Rightarrow> bool" where
  "is_space c \<longleftrightarrow> c \<in> {CHR '' '', CHR 0x09, CHR 0x0A, CHR 0x0B, CHR 0x0C, CHR 0x0D}"

definition trim_space :: "string \<Rightarrow> string" where
  "trim_space s = rev (dropWhile is_space (rev (dropWhile is_space s)))"

text \<open>\<open>strings.ReplaceAll(s, old, new)\<close> with one-byte \<open>old\<close>.\<close>

definition replace_byte :: "char \<Rightarrow> string \<Rightarrow> string \<Rightarrow> string" where
  "replace_byte old new s = concat (map (\<lambda>c. if c = old then new else [c]) s)"

lemma replace_byte_free: "old \<notin> set s \<Longrightarrow> replace_byte old new s = s"
  unfolding replace_byte_def by (induction s) auto

lemma in_set_replace_byte:
  "c \<in> set (replace_byte old new s) \<longleftrightarrow> c \<in> set s \<and> c \<noteq> old \<or> old \<in> set s \<and> c \<in> set new"
  unfolding replace_byte_def by auto

lemma length_replace_byte1: "length (replace_byte old [n] s) = length s"
  unfolding replace_byte_def by (induction s) auto

section \<open>Integers as text\<close>

definition digit_char :: "nat \<Rightarrow> char" where
  "digit_char d = char_of (48 + d)"

definition is_digit :: "char \<Rightarrow> bool" where
  "is_digit c \<longleftrightarrow> CHR ''0'' \<le> c \<and> c \<le> CHR ''9''"

definition digit_val :: "char \<Rightarrow> nat" where
  "digit_val c = of_char c - 48"

fun show_nat :: "nat \<Rightarrow> string" where
  "show_nat n = (if n < 10 then [digit_char n] else show_nat (n div 10) @ [digit_char (n mod 10)])"

declare show_nat.simps [simp del]

definition show_int :: "int \<Rightarrow> string" where
  "show_int n = (if n < 0 then CHR ''-'' # show_nat (nat (- n)) else show_nat (nat n))"

definition show_bool :: "bool \<Rightarrow> string" where
  "show_bool b = (if b then ''true'' else ''false'')"

fun read_nat :: "nat \<Rightarrow> string \<Rightarrow> nat option" where
  "read_nat a [] = Some a"
| "read_nat a (c # cs) = (if is_digit c then read_nat (10 * a + digit_val c) cs else None)"

text \<open>\<open>strconv.Atoi\<close>: an optional sign, then decimal digits, the value within 64 bits.\<close>

definition atoi :: "string \<Rightarrow> int option" where
  "atoi s =
     (let (neg, ds) = (case s of [] \<Rightarrow> (False, [])
                       | c # cs \<Rightarrow> if c = CHR ''-'' then (True, cs)
                                   else if c = CHR ''+'' then (False, cs) else (False, c # cs))
      in if ds = [] then None
         else case read_nat 0 ds of None \<Rightarrow> None
              | Some n \<Rightarrow> let v = (if neg then - int n else int n)
                          in if in_int64 v then Some v else None)"

lemma digit_char_val: "d < 10 \<Longrightarrow> digit_val (digit_char d) = d"
  by (simp add: digit_val_def digit_char_def of_char_of)

lemma is_digit_digit_char: "d < 10 \<Longrightarrow> is_digit (digit_char d)"
  by (simp add: is_digit_def digit_char_def less_eq_char_def of_char_of)

lemma read_nat_append:
  "read_nat a (xs @ ys) = (case read_nat a xs of None \<Rightarrow> None | Some b \<Rightarrow> read_nat b ys)"
  by (induction a xs rule: read_nat.induct) auto

lemma read_nat_show: "read_nat 0 (show_nat n) = Some n"
proof (induction n rule: show_nat.induct)
  case (1 n)
  show ?case
  proof (cases "n < 10")
    case True
    then show ?thesis by (simp add: show_nat.simps [of n] is_digit_digit_char digit_char_val)
  next
    case False
    with 1 have "read_nat 0 (show_nat (n div 10)) = Some (n div 10)" by simp
    moreover have "is_digit (digit_char (n mod 10))" "digit_val (digit_char (n mod 10)) = n mod 10"
      by (simp_all add: is_digit_digit_char digit_char_val)
    ultimately show ?thesis using False by (simp add: show_nat.simps [of n] read_nat_append)
  qed
qed

lemma show_nat_nonempty [simp]: "show_nat n \<noteq> []"
  by (subst show_nat.simps) simp

lemma show_nat_digits: "c \<in> set (show_nat n) \<Longrightarrow> is_digit c"
proof (induction n rule: show_nat.induct)
  case (1 n)
  then show ?case
    by (cases "n < 10") (auto simp: show_nat.simps [of n] is_digit_digit_char)
qed

lemma show_nat_inject [simp]: "show_nat m = show_nat n \<longleftrightarrow> m = n"
  by (metis option.inject read_nat_show)

lemma is_digit_not: "is_digit c \<Longrightarrow> c \<noteq> CHR ''-'' \<and> c \<noteq> CHR ''+'' \<and> c \<noteq> CHR '':'' \<and> c \<noteq> CHR '','' \<and> c \<noteq> CHR ''.''"
  by (auto simp: is_digit_def less_eq_char_def)

lemma hd_show_nat: "is_digit (hd (show_nat n))"
  by (rule show_nat_digits [of _ n]) simp

lemma show_int_inject [simp]: "show_int m = show_int n \<longleftrightarrow> m = n"
proof -
  have "show_nat i \<noteq> CHR ''-'' # x" for i x
    using hd_show_nat [of i] is_digit_not by fastforce
  moreover from this have "CHR ''-'' # x \<noteq> show_nat i" for i x
    by metis
  ultimately show ?thesis by (auto simp: show_int_def)
qed

lemma atoi_show_int: "in_int64 n \<Longrightarrow> atoi (show_int n) = Some n"
proof (cases "n < 0")
  case True
  assume "in_int64 n"
  with True show ?thesis by (simp add: show_int_def atoi_def read_nat_show)
next
  case False
  assume r: "in_int64 n"
  obtain c cs where c: "show_nat (nat n) = c # cs" by (cases "show_nat (nat n)") auto
  then have "is_digit c" using hd_show_nat [of "nat n"] by simp
  then have "c \<noteq> CHR ''-''" "c \<noteq> CHR ''+''" using is_digit_not by blast+
  then show ?thesis
    using False r c read_nat_show [of "nat n"] by (simp add: show_int_def atoi_def)
qed

lemma atoi_range: "atoi s = Some v \<Longrightarrow> in_int64 v"
  by (auto simp: atoi_def Let_def split: if_splits option.splits list.splits prod.splits)

lemma show_int_no: "c \<in> set (show_int n) \<Longrightarrow> is_digit c \<or> c = CHR ''-''"
  by (auto simp: show_int_def dest: show_nat_digits split: if_splits)

end
