(* ===== verification/GoFloat.thy ===== *)
theory GoFloat
  imports Complex_Main Prelude "HOL-Library.Log_Nat"
begin

text \<open>
  Go's \<open>float32\<close> and \<open>float64\<close>: a finite value is the rational it denotes, and every operation is the
  exact rational result rounded to the nearest value of the format, ties to the even significand,
  with overflow to an infinity and gradual underflow (IEEE 754 binary32 and binary64).  The two
  zeros are identified: no operation of the sources tells them apart.  Products and sums are
  rounded separately, as the compiler does on amd64 (the language would allow a fused
  multiply-add); a conversion to \<open>int64\<close> truncates, and gives the most negative value outside the
  range, as on amd64.  The lemmas show that rounding is monotone, exact on the values of the
  format and never changes a sign.
\<close>

datatype gofloat = Fin rat | PInf | NInf | NaN

section \<open>Rounding\<close>

definition pow2 :: "int \<Rightarrow> rat" where
  "pow2 e = (if 0 \<le> e then of_int (2 ^ nat e) else 1 / of_int (2 ^ nat (- e)))"

text \<open>Round to the nearest integer, ties to even.\<close>

definition rne :: "rat \<Rightarrow> int" where
  "rne x = (let f = \<lfloor>x\<rfloor>; d = x - of_int f
            in if d < 1 / 2 then f else if 1 / 2 < d then f + 1 else if even f then f else f + 1)"

text \<open>The binary exponent of a positive rational: the largest \<open>k\<close> with \<open>2 ^ k \<le> x\<close>.\<close>

definition ilog2 :: "rat \<Rightarrow> int" where
  "ilog2 x = (let (a, b) = quotient_of x; k = int (nat (bitlen a)) - int (nat (bitlen b))
              in if pow2 k \<le> x then k else k - 1)"

text \<open>Rounding to \<open>p\<close> significant bits with least exponent \<open>emin\<close>.\<close>

definition fexp :: "int \<Rightarrow> int \<Rightarrow> rat \<Rightarrow> int" where
  "fexp p emin x = max emin (ilog2 \<bar>x\<bar> - (p - 1))"

definition rndv :: "int \<Rightarrow> int \<Rightarrow> rat \<Rightarrow> rat" where
  "rndv p emin x =
     (if x = 0 then 0 else of_int (rne (x / pow2 (fexp p emin x))) * pow2 (fexp p emin x))"

definition to_format :: "int \<Rightarrow> int \<Rightarrow> int \<Rightarrow> rat \<Rightarrow> gofloat" where
  "to_format p emin emax x =
     (let v = rndv p emin x
      in if pow2 (emax + 1) \<le> v then PInf else if v \<le> - pow2 (emax + 1) then NInf else Fin v)"

definition r32 :: "rat \<Rightarrow> gofloat" where
  "r32 x = to_format 24 (- 149) 127 x"

definition r64 :: "rat \<Rightarrow> gofloat" where
  "r64 x = to_format 53 (- 1074) 1023 x"

section \<open>Operations\<close>

text \<open>The arithmetic operations take the rounding of their format as first argument.\<close>

fun fneg :: "gofloat \<Rightarrow> gofloat" where
  "fneg (Fin x) = Fin (- x)"
| "fneg PInf = NInf"
| "fneg NInf = PInf"
| "fneg NaN = NaN"

fun fadd :: "(rat \<Rightarrow> gofloat) \<Rightarrow> gofloat \<Rightarrow> gofloat \<Rightarrow> gofloat" where
  "fadd r (Fin x) (Fin y) = r (x + y)"
| "fadd r NaN b = NaN"
| "fadd r a NaN = NaN"
| "fadd r PInf NInf = NaN"
| "fadd r NInf PInf = NaN"
| "fadd r PInf b = PInf"
| "fadd r NInf b = NInf"
| "fadd r a b = b"

definition fsub :: "(rat \<Rightarrow> gofloat) \<Rightarrow> gofloat \<Rightarrow> gofloat \<Rightarrow> gofloat" where
  "fsub r a b = fadd r a (fneg b)"

definition finf :: "bool \<Rightarrow> gofloat" where
  "finf neg = (if neg then NInf else PInf)"

fun fneg_sign :: "gofloat \<Rightarrow> bool" where
  "fneg_sign (Fin x) = (x < 0)"
| "fneg_sign NInf = True"
| "fneg_sign _ = False"

fun fmul :: "(rat \<Rightarrow> gofloat) \<Rightarrow> gofloat \<Rightarrow> gofloat \<Rightarrow> gofloat" where
  "fmul r (Fin x) (Fin y) = r (x * y)"
| "fmul r NaN b = NaN"
| "fmul r a NaN = NaN"
| "fmul r a b = (if a = Fin 0 \<or> b = Fin 0 then NaN else finf (fneg_sign a \<noteq> fneg_sign b))"

fun fdiv :: "(rat \<Rightarrow> gofloat) \<Rightarrow> gofloat \<Rightarrow> gofloat \<Rightarrow> gofloat" where
  "fdiv r NaN b = NaN"
| "fdiv r a NaN = NaN"
| "fdiv r (Fin x) (Fin y) =
     (if y = 0 then (if x = 0 then NaN else finf (x < 0)) else r (x / y))"
| "fdiv r (Fin x) b = Fin 0"
| "fdiv r a (Fin y) = finf (fneg_sign a \<noteq> (y < 0))"
| "fdiv r a b = NaN"

fun flt :: "gofloat \<Rightarrow> gofloat \<Rightarrow> bool" where
  "flt (Fin x) (Fin y) = (x < y)"
| "flt NaN b = False"
| "flt a NaN = False"
| "flt NInf b = (b \<noteq> NInf)"
| "flt a PInf = (a \<noteq> PInf)"
| "flt a b = False"

text \<open>Conversions: between the formats, from integers, and to \<open>int64\<close>.\<close>

fun fconv :: "(rat \<Rightarrow> gofloat) \<Rightarrow> gofloat \<Rightarrow> gofloat" where
  "fconv r (Fin x) = r x"
| "fconv r a = a"

definition rtrunc :: "rat \<Rightarrow> int" where
  "rtrunc x = (if 0 \<le> x then \<lfloor>x\<rfloor> else \<lceil>x\<rceil>)"

fun f_to_int64 :: "gofloat \<Rightarrow> int" where
  "f_to_int64 (Fin x) = (if in_int64 (rtrunc x) then rtrunc x else - (2 ^ 63))"
| "f_to_int64 _ = - (2 ^ 63)"

fun fceil :: "gofloat \<Rightarrow> gofloat" where
  "fceil (Fin x) = Fin (of_int \<lceil>x\<rceil>)"
| "fceil a = a"

fun fle :: "gofloat \<Rightarrow> gofloat \<Rightarrow> bool" where
  "fle NaN b = False"
| "fle a NaN = False"
| "fle (Fin x) (Fin y) = (x \<le> y)"
| "fle NInf b = True"
| "fle a PInf = True"
| "fle a b = False"

section \<open>Lemmas on rounding\<close>

lemma pow2_pos [simp]: "0 < pow2 e"
  by (simp add: pow2_def)

lemma pow2_nz [simp]: "pow2 e \<noteq> 0"
  using pow2_pos [of e] by linarith

lemma pow2_abs [simp]: "\<bar>pow2 e\<bar> = pow2 e"
  by (simp add: less_imp_le)

lemma pow2_nonneg [simp]: "0 \<le> pow2 e"
  by (simp add: less_imp_le)

lemma pow2_powi: "pow2 e = 2 powi e"
  by (simp add: pow2_def power_int_def inverse_eq_divide power_divide)

lemma pow2_add: "pow2 (a + b) = pow2 a * pow2 b"
  by (simp add: pow2_powi power_int_add)

lemma pow2_less: "a < b \<Longrightarrow> pow2 a < pow2 b"
  by (simp add: pow2_powi power_int_strict_increasing)

lemma pow2_less_iff [simp]: "pow2 a < pow2 b \<longleftrightarrow> a < b"
  by (metis linorder_neqE_linordered_idom order_less_asym pow2_less)

lemma pow2_le_iff [simp]: "pow2 a \<le> pow2 b \<longleftrightarrow> a \<le> b"
  by (metis linorder_not_less pow2_less_iff)

lemma pow2_nat: "0 \<le> e \<Longrightarrow> pow2 e = 2 ^ nat e"
  by (simp add: pow2_def)

lemma pow2_is_int: "0 \<le> e \<Longrightarrow> pow2 e = of_int (2 ^ nat e)"
  by (simp add: pow2_def)

lemma rne_mono: "x \<le> y \<Longrightarrow> rne x \<le> rne y"
proof -
  assume xy: "x \<le> y"
  then have f: "\<lfloor>x\<rfloor> \<le> \<lfloor>y\<rfloor>" by (rule floor_mono)
  show ?thesis
  proof (cases "\<lfloor>x\<rfloor> = \<lfloor>y\<rfloor>")
    case True
    with xy show ?thesis by (auto simp: rne_def Let_def)
  next
    case False
    with f have "\<lfloor>x\<rfloor> + 1 \<le> \<lfloor>y\<rfloor>" by simp
    moreover have "rne x \<le> \<lfloor>x\<rfloor> + 1" "\<lfloor>y\<rfloor> \<le> rne y" by (auto simp: rne_def Let_def)
    ultimately show ?thesis by linarith
  qed
qed

lemma rne_of_int [simp]: "rne (of_int n) = n"
  by (simp add: rne_def)

lemma rne_minus: "rne (- x) = - rne x"
proof (cases "x \<in> \<int>")
  case True
  then obtain n where "x = of_int n" by (auto simp: Ints_def)
  then show ?thesis using rne_of_int [of "- n"] by simp
next
  case False
  then have c: "\<lfloor>- x\<rfloor> = - \<lfloor>x\<rfloor> - 1"
    by (metis add_diff_cancel_right' ceiling_altdef ceiling_def minus_diff_eq minus_minus uminus_add_conv_diff diff_minus_eq_add Ints_of_int)
  show ?thesis unfolding rne_def Let_def c by (auto simp: field_simps)
qed


lemma rne_nonneg: "0 \<le> x \<Longrightarrow> 0 \<le> rne x"
  using rne_mono [of 0 x] rne_of_int [of 0] by simp

text \<open>The binary exponent is what it is meant to be.\<close>

lemma bitlen_pow: "0 < a \<Longrightarrow> pow2 (bitlen a - 1) \<le> of_int a \<and> of_int a < pow2 (bitlen a)"
proof -
  assume a: "0 < a"
  then have "1 \<le> bitlen a" by (simp add: bitlen_def floorlog_def)
  then have "pow2 (bitlen a - 1) = of_int (2 ^ nat (bitlen a - 1))"
    and "pow2 (bitlen a) = of_int (2 ^ nat (bitlen a))"
    by (simp_all add: pow2_is_int)
  with a bitlen_bounds [of a] show ?thesis by (metis of_int_le_iff of_int_less_iff)
qed

lemma ilog2_bounds:
  assumes "0 < x"
  shows "pow2 (ilog2 x) \<le> x" and "x < pow2 (ilog2 x + 1)"
proof -
  obtain a b where q: "quotient_of x = (a, b)" by (cases "quotient_of x")
  then have b: "0 < b" and x: "x = of_int a / of_int b"
    by (auto intro: quotient_of_denom_pos quotient_of_div)
  with assms have a: "0 < a" by (simp add: zero_less_divide_iff)
  define k where "k = bitlen a - bitlen b"
  have ab: "pow2 (bitlen a - 1) \<le> of_int a" "of_int a < pow2 (bitlen a)"
    "pow2 (bitlen b - 1) \<le> of_int b" "of_int b < pow2 (bitlen b)"
    using bitlen_pow a b by auto
  have "pow2 (k - 1) * of_int b \<le> pow2 (k - 1) * pow2 (bitlen b)"
    using ab(4) by (intro mult_left_mono) (auto simp: less_imp_le)
  also have "\<dots> = pow2 (bitlen a - 1)" by (simp add: k_def flip: pow2_add)
  finally have lo: "pow2 (k - 1) \<le> x" using ab(1) b by (simp add: x pos_le_divide_eq)
  have "pow2 (bitlen a) = pow2 (k + 1) * pow2 (bitlen b - 1)" by (simp add: k_def flip: pow2_add)
  also have "\<dots> \<le> pow2 (k + 1) * of_int b" using ab(3) by (intro mult_left_mono) (auto simp: less_imp_le)
  finally have hi: "x < pow2 (k + 1)" using ab(2) b by (simp add: x pos_divide_less_eq)
  have il: "ilog2 x = (if pow2 k \<le> x then k else k - 1)"
    using a b by (simp add: ilog2_def q k_def bitlen_nonneg)
  show "pow2 (ilog2 x) \<le> x" using lo il by simp
  show "x < pow2 (ilog2 x + 1)" using hi il by simp
qed

lemma ilog2_unique: "pow2 k \<le> x \<Longrightarrow> x < pow2 (k + 1) \<Longrightarrow> ilog2 x = k"
proof -
  assume k: "pow2 k \<le> x" "x < pow2 (k + 1)"
  then have "0 < x" using pow2_pos [of k] by linarith
  note b = ilog2_bounds [OF this]
  have "pow2 k < pow2 (ilog2 x + 1)" "pow2 (ilog2 x) < pow2 (k + 1)" using k b by linarith+
  then show ?thesis by simp
qed

lemma ilog2_mono: "0 < x \<Longrightarrow> x \<le> y \<Longrightarrow> ilog2 x \<le> ilog2 y"
proof -
  assume xy: "0 < x" "x \<le> y"
  then have "pow2 (ilog2 x) < pow2 (ilog2 y + 1)"
    using ilog2_bounds(1) [of x] ilog2_bounds(2) [of y] by linarith
  then show ?thesis by simp
qed

text \<open>Rounding fixes the values of the format: an integer of at most \<open>p\<close> bits times a power of two
  not below the least exponent.\<close>

lemma rndv_zero [simp]: "rndv p emin 0 = 0"
  by (simp add: rndv_def)

lemma rndv_exact:
  assumes "x = of_int m * pow2 e" and "\<bar>m\<bar> < 2 ^ nat p" and "emin \<le> e" and "0 \<le> p"
  shows "rndv p emin x = x"
proof (cases "x = 0")
  case True
  then show ?thesis by simp
next
  case False
  then have x: "0 < \<bar>x\<bar>" by simp
  have ax: "\<bar>x\<bar> = of_int \<bar>m\<bar> * pow2 e" using assms(1) by (simp add: abs_mult)
  have "of_int \<bar>m\<bar> < pow2 p"
    unfolding pow2_is_int [OF assms(4)] of_int_less_iff by (rule assms(2))
  then have "\<bar>x\<bar> < pow2 p * pow2 e" using ax by simp
  then have "pow2 (ilog2 \<bar>x\<bar>) < pow2 (p + e)"
    using ilog2_bounds(1) [OF x] by (simp add: pow2_add)
  then have "fexp p emin x \<le> e" using assms(3) by (simp add: fexp_def)
  then obtain d where d: "e = fexp p emin x + int d" by (metis zle_iff_zadd)
  define f where "f = fexp p emin x"
  have xf: "x = of_int (m * 2 ^ d) * pow2 f"
    using assms(1) d by (simp add: pow2_add pow2_nat flip: f_def)
  then have "x / pow2 f = of_int (m * 2 ^ d)" by simp
  then have q: "x / pow2 (fexp p emin x) = of_int (m * 2 ^ d)" unfolding f_def .
  show ?thesis using False xf unfolding rndv_def q rne_of_int f_def by simp
qed

lemma rndv_minus: "rndv p emin (- x) = - rndv p emin x"
  by (simp add: rndv_def fexp_def rne_minus)

lemma rndv_nonneg: "0 \<le> x \<Longrightarrow> 0 \<le> rndv p emin x"
  by (simp add: rndv_def rne_nonneg)


text \<open>Rounding is monotone.\<close>

lemma rndv_scaled:
  "x \<noteq> 0 \<Longrightarrow> rndv p emin x = of_int (rne (x / pow2 (fexp p emin x))) * pow2 (fexp p emin x)"
  by (simp add: rndv_def)

lemma rndv_le_pow2:
  assumes "0 < x" and "x \<le> pow2 l" and "fexp p emin x \<le> l"
  shows "rndv p emin x \<le> pow2 l"
proof -
  define f where "f = fexp p emin x"
  have l: "pow2 l = pow2 (l - f) * pow2 f" by (simp flip: pow2_add)
  have i: "pow2 (l - f) = of_int (2 ^ nat (l - f))" using assms(3) by (simp add: f_def pow2_is_int)
  have "x / pow2 f \<le> of_int (2 ^ nat (l - f))"
    using assms(2) l i by (simp add: pos_divide_le_eq)
  then have "rne (x / pow2 f) \<le> 2 ^ nat (l - f)" using rne_mono rne_of_int by metis
  then have "of_int (rne (x / pow2 f)) \<le> pow2 (l - f)" unfolding i by (simp only: of_int_le_iff)
  then show ?thesis using assms(1) l unfolding rndv_scaled [OF less_imp_neq [OF assms(1), symmetric]] f_def
    by (metis mult_right_mono pow2_nonneg)
qed

lemma rndv_ge_pow2:
  assumes "pow2 l \<le> x" and "fexp p emin x \<le> l"
  shows "pow2 l \<le> rndv p emin x"
proof -
  define f where "f = fexp p emin x"
  have x: "0 < x" using assms(1) pow2_pos [of l] by linarith
  have l: "pow2 l = pow2 (l - f) * pow2 f" by (simp flip: pow2_add)
  have i: "pow2 (l - f) = of_int (2 ^ nat (l - f))" using assms(2) by (simp add: f_def pow2_is_int)
  have "of_int (2 ^ nat (l - f)) \<le> x / pow2 f"
    using assms(1) l i by (simp add: pos_le_divide_eq)
  then have "2 ^ nat (l - f) \<le> rne (x / pow2 f)" using rne_mono rne_of_int by metis
  then have "pow2 (l - f) \<le> of_int (rne (x / pow2 f))" unfolding i by (simp only: of_int_le_iff)
  then show ?thesis using l unfolding rndv_scaled [OF less_imp_neq [OF x, symmetric]] f_def
    by (metis mult_right_mono pow2_nonneg)
qed

lemma rndv_mono_pos:
  assumes "0 < x" and "x \<le> y" and "1 \<le> p"
  shows "rndv p emin x \<le> rndv p emin y"
proof (cases "fexp p emin x = fexp p emin y")
  case True
  have "x / pow2 (fexp p emin y) \<le> y / pow2 (fexp p emin y)"
    using assms(2) by (simp add: divide_right_mono)
  then have "rne (x / pow2 (fexp p emin y)) \<le> rne (y / pow2 (fexp p emin y))" by (rule rne_mono)
  then show ?thesis using assms True by (simp add: rndv_def mult_right_mono)
next
  case False
  have ll: "ilog2 x \<le> ilog2 y" using assms ilog2_mono by simp
  have ay: "\<bar>y\<bar> = y" "\<bar>x\<bar> = x" using assms by auto
  with False ll have fy: "fexp p emin y = ilog2 y - (p - 1)" and lt: "ilog2 x < ilog2 y"
    and fx: "fexp p emin x < fexp p emin y"
    by (auto simp: fexp_def)
  have "x \<le> pow2 (ilog2 x + 1)" using ilog2_bounds(2) [OF assms(1)] by simp
  also have "\<dots> \<le> pow2 (ilog2 y)" using lt by simp
  finally have "rndv p emin x \<le> pow2 (ilog2 y)"
    using assms fx fy by (intro rndv_le_pow2) auto
  also have "\<dots> \<le> rndv p emin y"
    using assms fy ilog2_bounds(1) [of y] by (intro rndv_ge_pow2) auto
  finally show ?thesis .
qed

lemma rndv_mono:
  assumes "x \<le> y" and "1 \<le> p"
  shows "rndv p emin x \<le> rndv p emin y"
proof -
  consider "0 < x" | "x \<le> 0" "0 \<le> y" | "y < 0" by linarith
  then show ?thesis
  proof cases
    case 1
    then show ?thesis using assms rndv_mono_pos by blast
  next
    case 2
    have "0 \<le> rndv p emin (- x)" using 2 by (intro rndv_nonneg) simp
    then have "rndv p emin x \<le> 0" by (simp add: rndv_minus)
    then show ?thesis using rndv_nonneg [OF 2(2), of p emin] by linarith
  next
    case 3
    then have "rndv p emin (- y) \<le> rndv p emin (- x)" using assms by (intro rndv_mono_pos) auto
    then show ?thesis by (simp add: rndv_minus)
  qed
qed

section \<open>The two formats\<close>

lemma to_format_mono: "1 \<le> p \<Longrightarrow> x \<le> y \<Longrightarrow> fle (to_format p emin emax x) (to_format p emin emax y)"
  using rndv_mono [of x y p emin] pow2_pos [of "emax + 1"]
  by (simp add: to_format_def Let_def del: pow2_pos)

lemma r32_mono: "x \<le> y \<Longrightarrow> fle (r32 x) (r32 y)"
  unfolding r32_def by (rule to_format_mono) simp_all

lemma r64_mono: "x \<le> y \<Longrightarrow> fle (r64 x) (r64 y)"
  unfolding r64_def by (rule to_format_mono) simp_all

text \<open>\<open>fnonneg\<close> is the invariant of prices and resource amounts: not NaN and not below zero.\<close>

fun fnonneg :: "gofloat \<Rightarrow> bool" where
  "fnonneg (Fin x) = (0 \<le> x)"
| "fnonneg PInf = True"
| "fnonneg _ = False"

lemma to_format_nonneg: "0 \<le> x \<Longrightarrow> fnonneg (to_format p emin emax x)"
  using rndv_nonneg [of x p emin] pow2_pos [of "emax + 1"]
  by (auto simp: to_format_def Let_def simp del: pow2_pos)

lemma r32_nonneg: "0 \<le> x \<Longrightarrow> fnonneg (r32 x)"
  unfolding r32_def by (rule to_format_nonneg)

lemma r64_nonneg: "0 \<le> x \<Longrightarrow> fnonneg (r64 x)"
  unfolding r64_def by (rule to_format_nonneg)

lemma to_format_exact:
  assumes "rndv p emin x = x" and "\<bar>x\<bar> < pow2 (emax + 1)"
  shows "to_format p emin emax x = Fin x"
  using assms by (auto simp: to_format_def Let_def)

lemma r32_int: "\<bar>n\<bar> < 2 ^ 24 \<Longrightarrow> r32 (of_int n) = Fin (of_int n)"
  unfolding r32_def
proof (rule to_format_exact)
  assume n: "\<bar>n\<bar> < 2 ^ 24"
  then show "rndv 24 (- 149) (of_int n) = of_int n"
    by (intro rndv_exact [where m = n and e = 0]) (auto simp: pow2_def)
  have "of_int \<bar>n\<bar> < (of_int (2 ^ 24) :: rat)" using n by (simp only: of_int_less_iff)
  also have "\<dots> \<le> pow2 (127 + 1)" by (simp add: pow2_def)
  finally show "\<bar>of_int n\<bar> < pow2 (127 + 1)" by simp
qed

lemma r64_int: "\<bar>n\<bar> < 2 ^ 53 \<Longrightarrow> r64 (of_int n) = Fin (of_int n)"
  unfolding r64_def
proof (rule to_format_exact)
  assume n: "\<bar>n\<bar> < 2 ^ 53"
  then show "rndv 53 (- 1074) (of_int n) = of_int n"
    by (intro rndv_exact [where m = n and e = 0]) (auto simp: pow2_def)
  have "of_int \<bar>n\<bar> < (of_int (2 ^ 53) :: rat)" using n by (simp only: of_int_less_iff)
  also have "\<dots> \<le> pow2 (1023 + 1)" by (simp add: pow2_def)
  finally show "\<bar>of_int n\<bar> < pow2 (1023 + 1)" by simp
qed

text \<open>A 32-bit float has at most 24 significant bits, so halving it in the 64-bit format is exact.\<close>

lemma rndv_fixed_form:
  assumes "rndv p emin x = x" and "0 \<le> p" and "x \<noteq> 0"
  obtains m e where "x = of_int m * pow2 e" and "\<bar>m\<bar> < 2 ^ nat p" and "emin \<le> e"
proof -
  define k where "k = fexp p emin x"
  define m where "m = rne (x / pow2 k)"
  have x: "x = of_int m * pow2 k" using assms(1,3) by (simp add: rndv_scaled m_def k_def)
  have "\<bar>x\<bar> < pow2 (ilog2 \<bar>x\<bar> + 1)" using ilog2_bounds(2) [of "\<bar>x\<bar>"] assms(3) by simp
  also have "\<dots> \<le> pow2 (p + k)" by (simp add: k_def fexp_def)
  finally have "of_int \<bar>m\<bar> * pow2 k < pow2 p * pow2 k" using x by (simp add: pow2_add abs_mult)
  then have "of_int \<bar>m\<bar> < pow2 p" by simp
  then have "\<bar>m\<bar> < 2 ^ nat p" unfolding pow2_is_int [OF assms(2)] of_int_less_iff .
  moreover have "emin \<le> k" by (simp add: k_def fexp_def)
  ultimately show ?thesis using x that by blast
qed

lemma r32_half:
  assumes "r32 x = Fin x"
  shows "r64 (x / 2) = Fin (x / 2)"
proof (cases "x = 0")
  case True
  then show ?thesis using r64_int [of 0] by simp
next
  case False
  have f: "rndv 24 (- 149) x = x" and b: "\<bar>x\<bar> < pow2 128"
    using assms by (auto simp: r32_def to_format_def Let_def split: if_splits)
  obtain m e where m: "x = of_int m * pow2 e" "\<bar>m\<bar> < 2 ^ nat 24" "- 149 \<le> e"
    by (rule rndv_fixed_form [OF f _ False]) simp_all
  have "pow2 e = pow2 (e - 1) * 2" using pow2_add [of "e - 1" 1] by (simp add: pow2_def)
  then have h: "x / 2 = of_int m * pow2 (e - 1)" using m(1) by simp
  have "rndv 53 (- 1074) (x / 2) = x / 2"
    by (rule rndv_exact [OF h]) (use m in auto)
  moreover have "pow2 128 < pow2 (1023 + 1)" by simp
  then have "\<bar>x / 2\<bar> < pow2 (1023 + 1)" using b by linarith
  ultimately show ?thesis unfolding r64_def by (rule to_format_exact)
qed

section \<open>Integers in the formats\<close>

lemma f_to_int64_int: "in_int64 n \<Longrightarrow> f_to_int64 (Fin (of_int n)) = n"
  by (simp add: rtrunc_def)

lemma r32_scaled:
  assumes "\<bar>m\<bar> < 2 ^ 24" and "k \<le> 64"
  shows "r32 (of_int (m * 2 ^ k)) = Fin (of_int (m * 2 ^ k))"
  unfolding r32_def
proof (rule to_format_exact)
  show "rndv 24 (- 149) (of_int (m * 2 ^ k)) = of_int (m * 2 ^ k)"
    by (intro rndv_exact [where m = m and e = "int k"]) (use assms in \<open>auto simp: pow2_def\<close>)
  have "(2 :: int) ^ k \<le> 2 ^ 64" using assms(2) by (intro power_increasing) simp_all
  then have "\<bar>m * 2 ^ k\<bar> \<le> 2 ^ 24 * 2 ^ 64"
    unfolding abs_mult using assms(1) by (intro mult_mono) auto
  then have "of_int \<bar>m * 2 ^ k\<bar> \<le> (of_int (2 ^ 24 * 2 ^ 64) :: rat)" by (simp only: of_int_le_iff)
  also have "\<dots> < pow2 (127 + 1)" by (simp add: pow2_def)
  finally show "\<bar>of_int (m * 2 ^ k)\<bar> < pow2 (127 + 1)" by simp
qed

lemma r32_between:
  assumes "0 \<le> x" and "x \<le> b" and "r32 b = Fin b"
  obtains y where "r32 x = Fin y" and "0 \<le> y" and "y \<le> b"
proof (cases "r32 x")
  case (Fin y)
  with r32_mono [OF assms(2)] r32_nonneg [OF assms(1)] assms(3) that show ?thesis by simp
next
  case PInf
  with r32_mono [OF assms(2)] assms(3) show ?thesis by simp
qed (use r32_nonneg [OF assms(1)] in auto)

lemma f_to_int64_between:
  assumes "0 \<le> y" and "y \<le> of_int n" and "in_int64 n"
  shows "0 \<le> f_to_int64 (Fin y) \<and> f_to_int64 (Fin y) \<le> n"
proof -
  have "0 \<le> \<lfloor>y\<rfloor>" "\<lfloor>y\<rfloor> \<le> n" using assms(1,2) by (simp_all add: floor_le_iff)
  moreover have "rtrunc y = \<lfloor>y\<rfloor>" using assms(1) by (simp add: rtrunc_def)
  moreover have "in_int64 \<lfloor>y\<rfloor>" using calculation(1,2) assms(3) unfolding in_int64_def by linarith
  ultimately show ?thesis by simp
qed

end
