(* ===== verification/GoParse.thy ===== *)
theory GoParse
  imports GoStr GoFloat
begin

text \<open>
  \<open>strconv.ParseFloat(s, 64)\<close> on decimal input (sign, digits with an optional point, an optional
  exponent, the words for infinity and NaN): \<open>None\<close> is the error return, for a syntax error or a
  value beyond the range of \<open>float64\<close>.  Hexadecimal floats are not read.  And the width of the
  first UTF-8 sequence of a byte string, as Go's \<open>utf8.DecodeRune\<close> reads it (an invalid byte
  counts alone), which is what the regular expressions of the sources step over.
\<close>

section \<open>Decimal floats\<close>

fun span_digits :: "string \<Rightarrow> string \<times> string" where
  "span_digits [] = ([], [])"
| "span_digits (c # cs) =
     (if is_digit c then (let (a, b) = span_digits cs in (c # a, b)) else ([], c # cs))"

definition dec_val :: "string \<Rightarrow> nat" where
  "dec_val ds = foldl (\<lambda>a c. 10 * a + digit_val c) 0 ds"

definition pow10 :: "int \<Rightarrow> rat" where
  "pow10 e = (if 0 \<le> e then of_int (10 ^ nat e) else 1 / of_int (10 ^ nat (- e)))"

definition read_sign :: "string \<Rightarrow> bool \<times> string" where
  "read_sign s = (case s of [] \<Rightarrow> (False, [])
     | c # cs \<Rightarrow> if c = CHR ''-'' then (True, cs) else if c = CHR ''+'' then (False, cs) else (False, s))"

definition read_exponent :: "string \<Rightarrow> int option" where
  "read_exponent s =
     (case s of [] \<Rightarrow> Some 0
      | c # cs \<Rightarrow>
          if lower_char c \<noteq> CHR ''e'' then None
          else let (neg, r) = read_sign cs; (ds, rest) = span_digits r
               in if ds = [] \<or> rest \<noteq> [] then None
                  else Some (if neg then - int (dec_val ds) else int (dec_val ds)))"

definition parse_dec :: "string \<Rightarrow> rat option" where
  "parse_dec s =
     (let (ip, r1) = span_digits s;
          (fp, r2) = (case r1 of [] \<Rightarrow> ([], []) | c # cs \<Rightarrow> if c = CHR ''.'' then span_digits cs else ([], r1))
      in if ip = [] \<and> fp = [] then None
         else case read_exponent r2 of None \<Rightarrow> None
              | Some e \<Rightarrow> Some (of_nat (dec_val (ip @ fp)) * pow10 (e - int (length fp))))"

definition parse_float :: "string \<Rightarrow> gofloat option" where
  "parse_float s =
     (let (neg, r) = read_sign s
      in if to_lower r \<in> {''inf'', ''infinity''} then Some (finf neg)
         else if to_lower s = ''nan'' then Some NaN
         else case parse_dec r of None \<Rightarrow> None
              | Some v \<Rightarrow> (case r64 (if neg then - v else v) of Fin x \<Rightarrow> Some (Fin x) | _ \<Rightarrow> None))"

section \<open>UTF-8\<close>

definition byte_in :: "nat \<Rightarrow> nat \<Rightarrow> string \<Rightarrow> nat \<Rightarrow> bool" where
  "byte_in lo hi s i \<longleftrightarrow> i < length s \<and> lo \<le> of_char (s ! i) \<and> of_char (s ! i) \<le> hi"

definition rune_width :: "string \<Rightarrow> nat" where
  "rune_width s =
     (if byte_in 194 223 s 0 \<and> byte_in 128 191 s 1 then 2
      else if (byte_in 224 224 s 0 \<and> byte_in 160 191 s 1 \<or> byte_in 237 237 s 0 \<and> byte_in 128 159 s 1 \<or>
               (byte_in 225 236 s 0 \<or> byte_in 238 239 s 0) \<and> byte_in 128 191 s 1) \<and>
              byte_in 128 191 s 2 then 3
      else if (byte_in 240 240 s 0 \<and> byte_in 144 191 s 1 \<or> byte_in 241 243 s 0 \<and> byte_in 128 191 s 1 \<or>
               byte_in 244 244 s 0 \<and> byte_in 128 143 s 1) \<and>
              byte_in 128 191 s 2 \<and> byte_in 128 191 s 3 then 4
      else 1)"

lemma rune_width_pos [simp]: "0 < rune_width s"
  by (simp add: rune_width_def)

lemma rune_width_ascii: "of_char c < (128 :: nat) \<Longrightarrow> rune_width (c # cs) = 1"
  by (simp add: rune_width_def byte_in_def)

lemma rune_width_le: "s \<noteq> [] \<Longrightarrow> rune_width s \<le> length s"
  by (auto simp: rune_width_def byte_in_def Suc_le_eq)

end
