(* ===== verification/Utils.thy ===== *)
theory Utils
  imports GoParse
begin

text \<open>
  \<open>pkg/utils\<close>: the label sanitiser, the tag-key sanitiser, the list printer of events, the map
  filter, the environment default and the A1 shape test.  The lemmas give the character set, the
  boundary characters and the length of a sanitised label, and what tag keys can contain.
\<close>

section \<open>Definitions\<close>

definition ToString :: "string option \<Rightarrow> string" where
  "ToString p = (case p of None \<Rightarrow> '''' | Some v \<Rightarrow> v)"

definition ToFloat64 :: "gofloat option \<Rightarrow> gofloat" where
  "ToFloat64 p = (case p of None \<Rightarrow> Fin 0 | Some v \<Rightarrow> v)"

definition ToFloat32 :: "gofloat option \<Rightarrow> gofloat" where
  "ToFloat32 p = (case p of None \<Rightarrow> Fin 0 | Some v \<Rightarrow> v)"

definition String_ptr :: "string \<Rightarrow> string option" where
  "String_ptr v = Some v"

text \<open>\<open>PrettySlice\<close>: the loop from index \<open>i\<close> of a slice of length \<open>n\<close>; \<open>sh\<close> prints one element.\<close>

fun pretty_loop :: "('a \<Rightarrow> string) \<Rightarrow> int \<Rightarrow> int \<Rightarrow> int \<Rightarrow> 'a list \<Rightarrow> string" where
  "pretty_loop sh maxItems n i [] = ''''"
| "pretty_loop sh maxItems n i (x # xs) =
     (if i > maxItems - 1 then '' and '' @ show_int (n - i) @ '' other(s)''
      else (if i > 0 then '', '' else '''') @ sh x @ pretty_loop sh maxItems n (i + 1) xs)"

definition PrettySlice :: "('a \<Rightarrow> string) \<Rightarrow> 'a list \<Rightarrow> int \<Rightarrow> string" where
  "PrettySlice sh s maxItems = pretty_loop sh maxItems (int (length s)) 0 s"

definition is_alnum :: "char \<Rightarrow> bool" where
  "is_alnum c \<longleftrightarrow> (CHR ''a'' \<le> c \<and> c \<le> CHR ''z'') \<or> (CHR ''A'' \<le> c \<and> c \<le> CHR ''Z'') \<or> is_digit c"

definition is_qualified :: "char \<Rightarrow> bool" where
  "is_qualified c \<longleftrightarrow> is_alnum c \<or> c \<in> {CHR ''-'', CHR ''_'', CHR ''.''}"

text \<open>\<open>qualifiedNameRegexp.ReplaceAllString(value, "_")\<close>: one underscore for each rune outside the
  class; the fuel is the length of the text.\<close>

fun replace_unqualified :: "nat \<Rightarrow> string \<Rightarrow> string" where
  "replace_unqualified 0 s = []"
| "replace_unqualified (Suc n) [] = []"
| "replace_unqualified (Suc n) (c # cs) =
     (if is_qualified c then c # replace_unqualified n cs
      else CHR ''_'' # replace_unqualified n (drop (rune_width (c # cs)) (c # cs)))"

definition qualifiedNameRegexp_replace :: "string \<Rightarrow> string" where
  "qualifiedNameRegexp_replace s = replace_unqualified (length s) s"

definition SanitizeLabelValue :: "string \<Rightarrow> string" where
  "SanitizeLabelValue value0 =
     (let value1 = (if length value0 > 63 then take 63 value0 else value0);
          value2 = qualifiedNameRegexp_replace value1
      in if value2 = '''' then value2
         else let value3 = (if \<not> is_alnum (hd value2) then ''a_'' @ value2 else value2)
              in if \<not> is_alnum (last value3) then value3 @ ''_z'' else value3)"

definition FilterMap :: "('k, 'v) gomap \<Rightarrow> ('k \<Rightarrow> 'v \<Rightarrow> bool) \<Rightarrow> ('k, 'v) gomap" where
  "FilterMap m f = filter (\<lambda>(k, v). f k v) m"

text \<open>The environment is a parameter.\<close>

definition WithDefaultFloat64 :: "(string \<Rightarrow> string option) \<Rightarrow> string \<Rightarrow> gofloat \<Rightarrow> gofloat" where
  "WithDefaultFloat64 lookupEnv key def =
     (case lookupEnv key of None \<Rightarrow> def
      | Some val \<Rightarrow> (case parse_float val of None \<Rightarrow> def | Some f \<Rightarrow> f))"

definition IsA1FlexShape :: "string \<Rightarrow> bool" where
  "IsA1FlexShape shapeName = str_contains (to_lower shapeName) ''a1.flex''"

definition SafeTagKey :: "string \<Rightarrow> string" where
  "SafeTagKey origin = replace_byte CHR '' '' ''_'' (replace_byte CHR ''.'' ''_'' origin)"

section \<open>The label sanitiser\<close>

lemma is_alnum_qualified: "is_alnum c \<Longrightarrow> is_qualified c"
  by (simp add: is_qualified_def)

lemma qualified_consts [simp]: "is_qualified CHR ''_''" "is_qualified CHR ''a''" "is_qualified CHR ''z''"
  by (simp_all add: is_qualified_def is_alnum_def less_eq_char_def)

lemma alnum_consts [simp]: "is_alnum CHR ''a''" "is_alnum CHR ''z''"
  by (simp_all add: is_alnum_def less_eq_char_def)

lemma replace_unqualified_chars: "c \<in> set (replace_unqualified n s) \<Longrightarrow> is_qualified c"
  by (induction n s rule: replace_unqualified.induct) (auto split: if_splits)

lemma replace_unqualified_length: "length (replace_unqualified n s) \<le> length s"
proof (induction n s rule: replace_unqualified.induct)
  case (3 n c cs)
  then show ?case
    using rune_width_pos [of "c # cs"] by (auto simp: Suc_le_eq le_less_trans)
qed auto

lemma replace_unqualified_nonempty: "s \<noteq> [] \<Longrightarrow> replace_unqualified (length s) s \<noteq> []"
  by (cases s) auto

lemma replace_unqualified_id: "(\<And>c. c \<in> set s \<Longrightarrow> is_qualified c) \<Longrightarrow> replace_unqualified (length s) s = s"
  by (induction s) auto

lemmas SanitizeLabelValue_unfold = SanitizeLabelValue_def qualifiedNameRegexp_replace_def Let_def

lemma sanitize_chars: "c \<in> set (SanitizeLabelValue v) \<Longrightarrow> is_qualified c"
  by (auto simp: SanitizeLabelValue_unfold dest: replace_unqualified_chars split: if_splits)

lemma sanitize_ends:
  "SanitizeLabelValue v \<noteq> [] \<Longrightarrow> is_alnum (hd (SanitizeLabelValue v)) \<and> is_alnum (last (SanitizeLabelValue v))"
  by (auto simp: SanitizeLabelValue_unfold split: if_splits)

lemma sanitize_length: "length (SanitizeLabelValue v) \<le> 67"
proof -
  have "length (replace_unqualified (length w) w) \<le> 63" if "length w \<le> 63" for w
    using replace_unqualified_length [of "length w" w] that by simp
  moreover have "length (if length v > 63 then take 63 v else v) \<le> 63" by simp
  ultimately show ?thesis by (fastforce simp: SanitizeLabelValue_unfold)
qed

lemma sanitize_id:
  assumes "length v \<le> 63" and "\<And>c. c \<in> set v \<Longrightarrow> is_qualified c"
    and "v \<noteq> [] \<Longrightarrow> is_alnum (hd v) \<and> is_alnum (last v)"
  shows "SanitizeLabelValue v = v"
  using assms by (cases "v = []") (auto simp: SanitizeLabelValue_unfold replace_unqualified_id)

section \<open>Tag keys\<close>

lemma SafeTagKey_free: "CHR ''.'' \<notin> set (SafeTagKey s) \<and> CHR '' '' \<notin> set (SafeTagKey s)"
  by (simp add: SafeTagKey_def in_set_replace_byte)

lemma SafeTagKey_id: "CHR ''.'' \<notin> set s \<Longrightarrow> CHR '' '' \<notin> set s \<Longrightarrow> SafeTagKey s = s"
  by (simp add: SafeTagKey_def replace_byte_free)

lemma SafeTagKey_idem [simp]: "SafeTagKey (SafeTagKey s) = SafeTagKey s"
  using SafeTagKey_free [of s] by (simp add: SafeTagKey_id)

lemma length_SafeTagKey [simp]: "length (SafeTagKey s) = length s"
  by (simp add: SafeTagKey_def length_replace_byte1)

section \<open>The event list printer\<close>

lemma pretty_loop_all:
  "int (length xs) + i \<le> maxItems \<Longrightarrow> 0 < i \<Longrightarrow>
   pretty_loop sh maxItems n i xs = concat (map (\<lambda>x. '', '' @ sh x) xs)"
  by (induction xs arbitrary: i) auto

lemma pretty_loop_cut:
  "0 < i \<Longrightarrow> i \<le> maxItems \<Longrightarrow> maxItems < i + int (length xs) \<Longrightarrow>
   pretty_loop sh maxItems n i xs =
     concat (map (\<lambda>x. '', '' @ sh x) (take (nat (maxItems - i)) xs)) @ '' and '' @ show_int (n - maxItems) @ '' other(s)''"
proof (induction xs arbitrary: i)
  case Nil
  then show ?case by simp
next
  case (Cons x xs)
  show ?case
  proof (cases "i = maxItems")
    case True
    then show ?thesis by simp
  next
    case False
    with Cons.prems have lt: "i < maxItems" by simp
    then have "nat (maxItems - i) = Suc (nat (maxItems - (i + 1)))" by simp
    then show ?thesis using Cons lt by (simp del: nat_diff_distrib)
  qed
qed

lemma join_concat: "join_str sep (x # xs) = x @ concat (map (\<lambda>y. sep @ y) xs)"
  by (induction xs arbitrary: x) auto

lemma FilterMap_lookup: "gomap_wf m \<Longrightarrow> map_of (FilterMap m f) k = (case map_of m k of None \<Rightarrow> None | Some v \<Rightarrow> if f k v then Some v else None)"
  unfolding FilterMap_def gomap_wf_def
  by (induction m) (auto simp: map_of_eq_None_iff split: option.splits)


section \<open>Properties\<close>

text \<open>A sanitised label value consists of letters, digits, dashes, underscores and dots only, begins
  and ends with a letter or digit unless it is empty, has at most 67 bytes, and a value that is
  already a legal label value is left as it is.\<close>

theorem SanitizeLabelValue_spec:
  "(\<forall>c \<in> set (SanitizeLabelValue v). is_qualified c) \<and>
   (SanitizeLabelValue v \<noteq> [] \<longrightarrow>
      is_alnum (hd (SanitizeLabelValue v)) \<and> is_alnum (last (SanitizeLabelValue v))) \<and>
   length (SanitizeLabelValue v) \<le> 67 \<and>
   (v = [] \<longleftrightarrow> SanitizeLabelValue v = []) \<and>
   (length v \<le> 63 \<and> (\<forall>c \<in> set v. is_qualified c) \<and> (v \<noteq> [] \<longrightarrow> is_alnum (hd v) \<and> is_alnum (last v)) \<longrightarrow>
      SanitizeLabelValue v = v)"
proof (intro conjI)
  show "v = [] \<longleftrightarrow> SanitizeLabelValue v = []"
    using replace_unqualified_nonempty [of "take 63 v"] replace_unqualified_nonempty [of v]
    by (cases "length v > 63") (auto simp: SanitizeLabelValue_unfold)
qed (use sanitize_chars sanitize_ends sanitize_length sanitize_id in auto)

theorem SanitizeLabelValue_spec_witness:
  "SanitizeLabelValue ''NVIDIA-A10'' = ''NVIDIA-A10'' \<and> length ''NVIDIA-A10'' \<le> 63"
  using SanitizeLabelValue_spec [of "''NVIDIA-A10''"] by code_simp

text \<open>The padding that makes the ends alphanumeric is added after the value was cut to 63 bytes, so a
  sanitised value can be longer than the 63 bytes Kubernetes allows for a label value.\<close>

theorem SanitizeLabelValue_exceeds_limit:
  "length (SanitizeLabelValue (replicate 63 CHR ''_'')) = 67"
  by code_simp

text \<open>\<open>PrettySlice\<close> with a positive limit prints the elements separated by commas; beyond the limit it prints
  the first \<open>maxItems\<close> and the number of the others.\<close>

theorem PrettySlice_spec:
  assumes "0 < maxItems"
  shows "PrettySlice sh s maxItems =
    join_str '', '' (map sh (take (nat maxItems) s)) @
    (if maxItems < int (length s) then '' and '' @ show_int (int (length s) - maxItems) @ '' other(s)'' else '''')"
proof (cases s)
  case Nil
  then show ?thesis using assms by (simp add: PrettySlice_def)
next
  case (Cons x xs)
  define k where "k = nat (maxItems - 1)"
  have k: "nat maxItems = Suc k" and m: "maxItems = int k + 1" using assms by (auto simp: k_def)
  show ?thesis
  proof (cases "maxItems < int (length s)")
    case True
    then show ?thesis using Cons k m pretty_loop_cut [of 1 maxItems xs sh "int (length s)"]
      by (simp add: PrettySlice_def join_concat comp_def)
  next
    case False
    then show ?thesis using Cons k m pretty_loop_all [of xs 1 maxItems sh "int (length s)"]
      by (simp add: PrettySlice_def join_concat comp_def)
  qed
qed

theorem PrettySlice_spec_witness:
  "PrettySlice id [''a'', ''b'', ''c''] 2 = ''a, b and 1 other(s)''"
  using PrettySlice_spec [of 2 id "[''a'', ''b'', ''c'']"] by code_simp

end
