(* ===== verification/OfferingCache.thy ===== *)
theory OfferingCache
  imports GoStr
begin

text \<open>
  \<open>pkg/cache\<close>: the time-to-live constants and the cache of offerings that recently failed for lack of
  capacity.  The cache it stores them in is the package go-cache, a parameter: a record of its
  operations, each given the current time.  The locale \<open>go_cache\<close> states what that package
  documents (a value set is found until its time to live has passed and not after; other keys are
  not affected; deleting and flushing remove), the locale \<open>offering_store\<close> what this component
  promises to the instance and instance type providers; the first gives the second.  Times are in
  nanoseconds.
\<close>

section \<open>Definitions\<close>

abbreviation second_ns :: int where "second_ns \<equiv> 1000000000"
abbreviation minute_ns :: int where "minute_ns \<equiv> 60000000000"

definition DefaultTTL :: int where
  "DefaultTTL = minute_ns"

definition InstanceTypesAndZonesTTL :: int where
  "InstanceTypesAndZonesTTL = 5 * minute_ns"

definition UnavailableOfferingsTTL :: int where
  "UnavailableOfferingsTTL = 3 * minute_ns"

definition DefaultCleanupInterval :: int where
  "DefaultCleanupInterval = minute_ns"

definition UnavailableOfferingsCleanupInterval :: int where
  "UnavailableOfferingsCleanupInterval = 10 * second_ns"

text \<open>The operations of go-cache.  \<open>cache_delete\<close> and \<open>cache_expire\<close> (the janitor) also return how many
  entries the eviction callback was called for.\<close>

record ('c, 'v) cache_ops =
  cache_new :: "'c"
  cache_get :: "'c \<Rightarrow> int \<Rightarrow> string \<Rightarrow> 'v option"
  cache_setDefault :: "'c \<Rightarrow> int \<Rightarrow> string \<Rightarrow> 'v \<Rightarrow> 'c"
  cache_delete :: "'c \<Rightarrow> int \<Rightarrow> string \<Rightarrow> 'c \<times> nat"
  cache_flush :: "'c \<Rightarrow> 'c"
  cache_expire :: "'c \<Rightarrow> int \<Rightarrow> 'c \<times> nat"

record 'c unavailableOfferings =
  uo_cache :: "'c"
  SeqNum :: int

definition seq_add :: "int \<Rightarrow> nat \<Rightarrow> int" where
  "seq_add s n = (s + int n) mod 2 ^ 64"

definition NewUnavailableOfferings :: "('c, unit) cache_ops \<Rightarrow> 'c unavailableOfferings" where
  "NewUnavailableOfferings ops = \<lparr>uo_cache = cache_new ops, SeqNum = 0\<rparr>"

definition offering_key :: "string \<Rightarrow> string \<Rightarrow> string \<Rightarrow> string" where
  "offering_key instanceType zone capacityType = capacityType @ '':'' @ instanceType @ '':'' @ zone"

definition IsUnavailable ::
  "('c, unit) cache_ops \<Rightarrow> int \<Rightarrow> 'c unavailableOfferings \<Rightarrow> string \<Rightarrow> string \<Rightarrow> string \<Rightarrow> bool" where
  "IsUnavailable ops now u instanceType zone capacityType \<longleftrightarrow>
     cache_get ops (uo_cache u) now (offering_key instanceType zone capacityType) \<noteq> None"

definition MarkUnavailable ::
  "('c, unit) cache_ops \<Rightarrow> int \<Rightarrow> 'c unavailableOfferings \<Rightarrow> string \<Rightarrow> string \<Rightarrow> string \<Rightarrow> 'c unavailableOfferings" where
  "MarkUnavailable ops now u instanceType zone capacityType =
     u\<lparr>uo_cache := cache_setDefault ops (uo_cache u) now (offering_key instanceType zone capacityType) (),
       SeqNum := seq_add (SeqNum u) 1\<rparr>"

definition MarkUnavailableForLaunchInstanceErr ::
  "('c, unit) cache_ops \<Rightarrow> int \<Rightarrow> 'c unavailableOfferings \<Rightarrow> string \<Rightarrow> string \<Rightarrow> string \<Rightarrow> 'c unavailableOfferings" where
  "MarkUnavailableForLaunchInstanceErr ops now u capacityType instanceType zone =
     MarkUnavailable ops now u instanceType zone capacityType"

definition Delete_offering ::
  "('c, unit) cache_ops \<Rightarrow> int \<Rightarrow> 'c unavailableOfferings \<Rightarrow> string \<Rightarrow> string \<Rightarrow> string \<Rightarrow> 'c unavailableOfferings" where
  "Delete_offering ops now u instanceType zone capacityType =
     (let (c, n) = cache_delete ops (uo_cache u) now (offering_key instanceType zone capacityType)
      in u\<lparr>uo_cache := c, SeqNum := seq_add (SeqNum u) n\<rparr>)"

definition Flush_offerings :: "('c, unit) cache_ops \<Rightarrow> 'c unavailableOfferings \<Rightarrow> 'c unavailableOfferings" where
  "Flush_offerings ops u = u\<lparr>uo_cache := cache_flush ops (uo_cache u)\<rparr>"

text \<open>The janitor of the cache runs between the calls and calls the eviction callback.\<close>

definition Expire_offerings :: "('c, unit) cache_ops \<Rightarrow> int \<Rightarrow> 'c unavailableOfferings \<Rightarrow> 'c unavailableOfferings" where
  "Expire_offerings ops now u =
     (let (c, n) = cache_expire ops (uo_cache u) now
      in u\<lparr>uo_cache := c, SeqNum := seq_add (SeqNum u) n\<rparr>)"

section \<open>What go-cache promises\<close>

locale go_cache =
  fixes ops :: "('c, 'v) cache_ops" and ttl :: int
  assumes get_new: "cache_get ops (cache_new ops) t k = None"
    and get_set_live: "t \<le> t' \<Longrightarrow> t' < t + ttl \<Longrightarrow> cache_get ops (cache_setDefault ops c t k v) t' k = Some v"
    and get_set_expired: "t + ttl < t' \<Longrightarrow> cache_get ops (cache_setDefault ops c t k v) t' k = None"
    and get_set_other: "k' \<noteq> k \<Longrightarrow> cache_get ops (cache_setDefault ops c t k v) t' k' = cache_get ops c t' k'"
    and get_delete: "cache_get ops (fst (cache_delete ops c t k)) t' k' = (if k' = k then None else cache_get ops c t' k')"
    and get_flush: "cache_get ops (cache_flush ops c) t' k' = None"
    and get_expire: "t \<le> t' \<Longrightarrow> cache_get ops (fst (cache_expire ops c t)) t' k' = cache_get ops c t' k'"
    and ttl_pos: "0 < ttl"

text \<open>A cache with these properties: each key with its value and the time it expires at.\<close>

definition ttl_get :: "(string \<rightharpoonup> 'v \<times> int) \<Rightarrow> int \<Rightarrow> string \<Rightarrow> 'v option" where
  "ttl_get c t k = (case c k of None \<Rightarrow> None | Some (v, e) \<Rightarrow> if t \<le> e then Some v else None)"

definition ttl_delete :: "(string \<rightharpoonup> 'v \<times> int) \<Rightarrow> int \<Rightarrow> string \<Rightarrow> (string \<rightharpoonup> 'v \<times> int) \<times> nat" where
  "ttl_delete c t k = (c(k := None), (if c k = None then 0 else 1))"

definition ttl_cache :: "int \<Rightarrow> (string \<rightharpoonup> 'v \<times> int, 'v) cache_ops" where
  "ttl_cache ttl = \<lparr>cache_new = Map.empty, cache_get = ttl_get,
     cache_setDefault = (\<lambda>c t k v. c(k \<mapsto> (v, t + ttl))), cache_delete = ttl_delete,
     cache_flush = (\<lambda>c. Map.empty), cache_expire = (\<lambda>c t. (c, 0))\<rparr>"

lemma ttl_cache_go_cache: "0 < ttl \<Longrightarrow> go_cache (ttl_cache ttl) ttl"
  by unfold_locales (auto simp: ttl_cache_def ttl_get_def ttl_delete_def)

interpretation ttl_uo: go_cache "ttl_cache UnavailableOfferingsTTL :: (string \<rightharpoonup> unit \<times> int, unit) cache_ops" UnavailableOfferingsTTL
  by (rule ttl_cache_go_cache) (simp add: UnavailableOfferingsTTL_def)

section \<open>What the offering cache promises\<close>

lemma append_sep_inject:
  "sep \<notin> set a \<Longrightarrow> sep \<notin> set a' \<Longrightarrow> a @ sep # b = a' @ sep # b' \<longleftrightarrow> a = a' \<and> b = b'"
proof (induction a arbitrary: a')
  case Nil
  then show ?case by (cases a') auto
next
  case (Cons x a)
  then show ?case by (cases a') auto
qed

lemma offering_key_inject:
  assumes "CHR '':'' \<notin> set c" "CHR '':'' \<notin> set c'" "CHR '':'' \<notin> set i" "CHR '':'' \<notin> set i'"
  shows "offering_key i z c = offering_key i' z' c' \<longleftrightarrow> i = i' \<and> z = z' \<and> c = c'"
  using assms by (auto simp: offering_key_def append_sep_inject)

text \<open>The contract: an offering is unavailable from the moment it is marked until the time to live has
  passed, and marking or deleting touches no other offering.  \<open>ok\<close> says which offering names the
  keys tell apart.\<close>

locale offering_store =
  fixes unavailable :: "int \<Rightarrow> 's \<Rightarrow> 'o \<Rightarrow> bool"
    and mark :: "int \<Rightarrow> 's \<Rightarrow> 'o \<Rightarrow> 's"
    and del :: "int \<Rightarrow> 's \<Rightarrow> 'o \<Rightarrow> 's"
    and flush :: "'s \<Rightarrow> 's"
    and expire :: "int \<Rightarrow> 's \<Rightarrow> 's"
    and init :: "'s"
    and ok :: "'o \<Rightarrow> bool"
    and ttl :: int
  assumes init_available: "\<not> unavailable t init x"
    and mark_live: "t \<le> t' \<Longrightarrow> t' < t + ttl \<Longrightarrow> unavailable t' (mark t s x) x"
    and mark_expired: "t + ttl < t' \<Longrightarrow> \<not> unavailable t' (mark t s x) x"
    and mark_other: "ok x \<Longrightarrow> ok y \<Longrightarrow> x \<noteq> y \<Longrightarrow> unavailable t' (mark t s x) y = unavailable t' s y"
    and del_same: "\<not> unavailable t' (del t s x) x"
    and del_other: "ok x \<Longrightarrow> ok y \<Longrightarrow> x \<noteq> y \<Longrightarrow> unavailable t' (del t s x) y = unavailable t' s y"
    and flush_available: "\<not> unavailable t' (flush s) x"
    and expire_invisible: "t \<le> t' \<Longrightarrow> unavailable t' (expire t s) x = unavailable t' s x"
    and ttl_positive: "0 < ttl"

text \<open>A history of the cache: what was called when, the latest call last.\<close>

datatype 'o offering_event = EvMark int 'o | EvDelete int 'o | EvFlush | EvExpire int

fun offering_run ::
  "(int \<Rightarrow> 's \<Rightarrow> 'o \<Rightarrow> 's) \<Rightarrow> (int \<Rightarrow> 's \<Rightarrow> 'o \<Rightarrow> 's) \<Rightarrow> ('s \<Rightarrow> 's) \<Rightarrow> (int \<Rightarrow> 's \<Rightarrow> 's) \<Rightarrow> 's \<Rightarrow>
   'o offering_event list \<Rightarrow> 's" where
  "offering_run mark del flush expire s [] = s"
| "offering_run mark del flush expire s (EvMark t x # es) = offering_run mark del flush expire (mark t s x) es"
| "offering_run mark del flush expire s (EvDelete t x # es) = offering_run mark del flush expire (del t s x) es"
| "offering_run mark del flush expire s (EvFlush # es) = offering_run mark del flush expire (flush s) es"
| "offering_run mark del flush expire s (EvExpire t # es) = offering_run mark del flush expire (expire t s) es"

text \<open>The specification reads the history backwards: the latest call about the offering decides.\<close>

fun recently_marked :: "int \<Rightarrow> int \<Rightarrow> 'o \<Rightarrow> 'o offering_event list \<Rightarrow> bool" where
  "recently_marked ttl now x [] = False"
| "recently_marked ttl now x (EvMark t y # es) = (if y = x then now < t + ttl else recently_marked ttl now x es)"
| "recently_marked ttl now x (EvDelete t y # es) = (if y = x then False else recently_marked ttl now x es)"
| "recently_marked ttl now x (EvFlush # es) = False"
| "recently_marked ttl now x (EvExpire t # es) = recently_marked ttl now x es"

fun event_ok :: "('o \<Rightarrow> bool) \<Rightarrow> int \<Rightarrow> int \<Rightarrow> 'o offering_event \<Rightarrow> bool" where
  "event_ok ok ttl now (EvMark t x) = (ok x \<and> t \<le> now \<and> now \<noteq> t + ttl)"
| "event_ok ok ttl now (EvDelete t x) = ok x"
| "event_ok ok ttl now EvFlush = True"
| "event_ok ok ttl now (EvExpire t) = (t \<le> now)"

lemma offering_run_append:
  "offering_run mark del flush expire s (xs @ ys) = offering_run mark del flush expire (offering_run mark del flush expire s xs) ys"
  by (induction mark del flush expire s xs rule: offering_run.induct) auto

context offering_store
begin

lemma store_history:
  assumes "list_all (event_ok ok ttl now) es" and "ok x"
  shows "unavailable now (offering_run mark del flush expire init es) x = recently_marked ttl now x (rev es)"
  using assms(1)
proof (induction es rule: rev_induct)
  case Nil
  then show ?case by (simp add: init_available)
next
  case (snoc e es)
  then have IH: "unavailable now (offering_run mark del flush expire init es) x = recently_marked ttl now x (rev es)"
    and e: "event_ok ok ttl now e"
    by auto
  show ?case
  proof (cases e)
    case (EvMark t y)
    with e have ty: "ok y" "t \<le> now" "now \<noteq> t + ttl" by auto
    show ?thesis
    proof (cases "y = x")
      case True
      with EvMark ty show ?thesis
        using mark_live [of t now] mark_expired [of t now] by (cases "now < t + ttl") (auto simp: offering_run_append)
    next
      case False
      with EvMark ty IH \<open>ok x\<close> show ?thesis by (simp add: offering_run_append mark_other)
    qed
  next
    case (EvDelete t y)
    with e have "ok y" by simp
    with EvDelete IH \<open>ok x\<close> show ?thesis
      by (cases "y = x") (simp_all add: offering_run_append del_same del_other)
  next
    case EvFlush
    then show ?thesis by (simp add: offering_run_append flush_available)
  next
    case (EvExpire t)
    with e IH show ?thesis by (simp add: offering_run_append expire_invisible)
  qed
qed

end

text \<open>An offering is named by its instance type, zone and capacity type; names with a colon in the first
  or last would not be told apart.\<close>

type_synonym offering_name = "string \<times> string \<times> string"

definition offering_ok :: "offering_name \<Rightarrow> bool" where
  "offering_ok x = (case x of (i, z, c) \<Rightarrow> CHR '':'' \<notin> set i \<and> CHR '':'' \<notin> set c)"

definition uo_unavailable :: "('c, unit) cache_ops \<Rightarrow> int \<Rightarrow> 'c unavailableOfferings \<Rightarrow> offering_name \<Rightarrow> bool" where
  "uo_unavailable ops t u x = (case x of (i, z, c) \<Rightarrow> IsUnavailable ops t u i z c)"

definition uo_mark :: "('c, unit) cache_ops \<Rightarrow> int \<Rightarrow> 'c unavailableOfferings \<Rightarrow> offering_name \<Rightarrow> 'c unavailableOfferings" where
  "uo_mark ops t u x = (case x of (i, z, c) \<Rightarrow> MarkUnavailable ops t u i z c)"

definition uo_delete :: "('c, unit) cache_ops \<Rightarrow> int \<Rightarrow> 'c unavailableOfferings \<Rightarrow> offering_name \<Rightarrow> 'c unavailableOfferings" where
  "uo_delete ops t u x = (case x of (i, z, c) \<Rightarrow> Delete_offering ops t u i z c)"

lemmas uo_defs = uo_unavailable_def uo_mark_def uo_delete_def IsUnavailable_def MarkUnavailable_def
  Delete_offering_def Flush_offerings_def Expire_offerings_def NewUnavailableOfferings_def

lemma go_cache_offering_store:
  assumes "go_cache ops ttl"
  shows "offering_store (uo_unavailable ops) (uo_mark ops) (uo_delete ops) (Flush_offerings ops)
           (Expire_offerings ops) (NewUnavailableOfferings ops) offering_ok ttl"
proof -
  note laws = go_cache.get_new [OF assms] go_cache.get_set_live [OF assms] go_cache.get_set_expired [OF assms]
    go_cache.get_set_other [OF assms] go_cache.get_delete [OF assms] go_cache.get_flush [OF assms]
    go_cache.get_expire [OF assms]
  show ?thesis
    by unfold_locales
      (auto simp: uo_defs laws go_cache.ttl_pos [OF assms] offering_ok_def offering_key_inject
        case_prod_beta Let_def prod_eq_iff)
qed

interpretation uo_store: offering_store
  "uo_unavailable (ttl_cache UnavailableOfferingsTTL)" "uo_mark (ttl_cache UnavailableOfferingsTTL)"
  "uo_delete (ttl_cache UnavailableOfferingsTTL)" "Flush_offerings (ttl_cache UnavailableOfferingsTTL)"
  "Expire_offerings (ttl_cache UnavailableOfferingsTTL)"
  "NewUnavailableOfferings (ttl_cache UnavailableOfferingsTTL)" offering_ok UnavailableOfferingsTTL
  by (rule go_cache_offering_store) (rule ttl_uo.go_cache_axioms)

section \<open>Properties\<close>

text \<open>C4. After any history of marks, deletions, flushes and clean-ups, an offering is reported unavailable exactly
  when the latest call about it is a mark made less than the time to live ago: a mark expires by
  itself and never touches another offering.  The go-cache package is any implementation of its
  documented contract; the offering names of the history hold no colon in the instance type or
  the capacity type.\<close>

theorem offering_history_spec:
  assumes "go_cache ops ttl"
    and "list_all (event_ok offering_ok ttl now) es" and "offering_ok (i, z, c)"
  shows "IsUnavailable ops now
      (offering_run (uo_mark ops) (uo_delete ops) (Flush_offerings ops) (Expire_offerings ops)
         (NewUnavailableOfferings ops) es) i z c \<longleftrightarrow>
    recently_marked ttl now (i, z, c) (rev es)"
proof -
  have "uo_unavailable ops now
      (offering_run (uo_mark ops) (uo_delete ops) (Flush_offerings ops) (Expire_offerings ops)
         (NewUnavailableOfferings ops) es) (i, z, c) =
    recently_marked ttl now (i, z, c) (rev es)"
    using offering_store.store_history [OF go_cache_offering_store [OF assms(1)] assms(2,3)] .
  then show ?thesis by (simp add: uo_unavailable_def)
qed

theorem offering_history_spec_witness:
  "IsUnavailable (ttl_cache UnavailableOfferingsTTL) (100 * second_ns)
     (offering_run (uo_mark (ttl_cache UnavailableOfferingsTTL)) (uo_delete (ttl_cache UnavailableOfferingsTTL))
        (Flush_offerings (ttl_cache UnavailableOfferingsTTL)) (Expire_offerings (ttl_cache UnavailableOfferingsTTL))
        (NewUnavailableOfferings (ttl_cache UnavailableOfferingsTTL))
        [EvMark 0 (''VM.Standard.E4.Flex'', ''AD-1'', ''on-demand'')])
     ''VM.Standard.E4.Flex'' ''AD-1'' ''on-demand''"
  using offering_history_spec [OF ttl_uo.go_cache_axioms,
      of "100 * second_ns" "[EvMark 0 (''VM.Standard.E4.Flex'', ''AD-1'', ''on-demand'')]"
         "''VM.Standard.E4.Flex''" "''AD-1''" "''on-demand''"]
  by (simp add: offering_ok_def UnavailableOfferingsTTL_def)

end
