(* ===== verification/External.thy ===== *)
theory External
  imports GoStr GoFloat
begin

text \<open>
  The data of packages outside the repository that the sources read and write (Kubernetes objects,
  karpenter's node claims, instance types and offerings, the OCI SDK's shapes, instances, subnets
  and responses), and the operations of those packages that the sources call, as records of
  functions that the definitions of the components take as arguments: nothing is assumed of them
  but what a theorem states.  The predicates at the end collect the documented behaviour that
  theorems refer to.  A pointer field is an option, a Go map an association list.
\<close>

section \<open>Kubernetes and karpenter data\<close>

datatype selector_op = OpIn | OpNotIn | OpExists | OpDoesNotExist | OpGt | OpLt

record nodeSelectorRequirement =
  nsr_Key :: string
  nsr_Operator :: selector_op
  nsr_Values :: "string list"

datatype condition_status = CondTrue | CondFalse | CondUnknown

record condition =
  cond_Type :: string
  cond_Status :: condition_status
  cond_Reason :: string
  cond_Message :: string

record taint =
  taint_Key :: string
  taint_Value :: string
  taint_Effect :: string

text \<open>\<open>corev1.Taint.ToString\<close> prints \<open>key=value:effect\<close> with the empty parts left out; it is a parameter
  where it is used.\<close>

record 'r offering =
  off_Requirements :: "(string, 'r) gomap"
  off_Price :: gofloat
  off_Available :: bool

record ('r, 'q) instanceType =
  it_Name :: string
  it_Requirements :: "(string, 'r) gomap"
  it_Offerings :: "'r offering list"
  it_Capacity :: "(string, 'q) gomap"
  it_KubeReserved :: "(string, 'q) gomap"
  it_SystemReserved :: "(string, 'q) gomap"
  it_EvictionThreshold :: "(string, 'q) gomap"

record 'q nodeClaim =
  nc_Name :: string
  nc_UID :: string
  nc_Labels :: labels
  nc_Annotations :: labels
  nc_CreationTimestamp :: int
  nc_DeletionTimestamp :: "int option"
  nc_NodeClassRef :: "string option"
  nc_Requirements :: "nodeSelectorRequirement list"
  nc_Requests :: "(string, 'q) gomap"
  nc_Taints :: "taint list"
  nc_StartupTaints :: "taint list"
  nc_ProviderID :: string
  nc_ImageID :: string
  nc_NodeName :: string
  nc_Capacity :: "(string, 'q) gomap"
  nc_Allocatable :: "(string, 'q) gomap"
  nc_Conditions :: "condition list"

record nodePool =
  np_Name :: string
  np_UID :: string
  np_NodeClassRef :: "string option"

record node =
  node_Name :: string
  node_ProviderID :: string
  node_Taints :: "taint list"

record event =
  ev_Object :: string
  ev_Type :: string
  ev_Reason :: string
  ev_Message :: string
  ev_DedupeValues :: "string list"

record reconcile_result =
  res_Requeue :: bool
  res_RequeueAfter :: int

definition no_requeue :: reconcile_result where
  "no_requeue = \<lparr>res_Requeue = False, res_RequeueAfter = 0\<rparr>"

section \<open>OCI data\<close>

record ocpuOptions =
  oo_Min :: "gofloat option"
  oo_Max :: "gofloat option"

record memoryOptions =
  mo_MinInGBs :: "gofloat option"
  mo_MaxInGBs :: "gofloat option"

record bandwidthOptions =
  bo_MinInGbps :: "gofloat option"
  bo_MaxInGbps :: "gofloat option"
  bo_DefaultPerOcpuInGbps :: "gofloat option"

record vnicOptions =
  vo_DefaultPerOcpu :: "gofloat option"

record shape =
  sh_Shape :: "string option"
  sh_IsFlexible :: "bool option"
  sh_Ocpus :: "gofloat option"
  sh_MemoryInGBs :: "gofloat option"
  sh_NetworkingBandwidthInGbps :: "gofloat option"
  sh_MaxVnicAttachments :: "int option"
  sh_Gpus :: "int option"
  sh_GpuDescription :: "string option"
  sh_LocalDisksTotalSizeInGBs :: "gofloat option"
  sh_OcpuOptions :: "ocpuOptions option"
  sh_MemoryOptions :: "memoryOptions option"
  sh_MaxVnicAttachmentOptions :: "vnicOptions option"
  sh_NetworkingBandwidthOptions :: "bandwidthOptions option"

type_synonym defined_tags = "(string, (string, string) gomap) gomap"

datatype lifecycle = LcProvisioning | LcRunning | LcStopped | LcTerminating | LcTerminated | LcOther string

record oci_instance =
  in_Id :: "string option"
  in_Shape :: "string option"
  in_AvailabilityDomain :: "string option"
  in_ImageId :: "string option"
  in_SourceImageId :: "string option option"
  in_TimeCreated :: "int option"
  in_LifecycleState :: lifecycle
  in_DefinedTags :: defined_tags
  in_FreeformTags :: labels
  in_Preemptible :: bool

text \<open>\<open>in_SourceImageId\<close> is \<open>None\<close> when the instance's source details are not an image source (the type
  assertion on them then panics), else the image identifier pointer.\<close>

record oci_image =
  img_Id :: "string option"
  img_DisplayName :: "string option"
  img_CompartmentId :: "string option"

record oci_subnet =
  sn_Id :: "string option"
  sn_DisplayName :: "string option"
  sn_CidrBlock :: "string option"

record oci_nsg =
  sg_Id :: "string option"
  sg_DisplayName :: "string option"

record cidr_utilization =
  cu_Cidr :: "string option"
  cu_Utilization :: "gofloat option"
  cu_AddressType :: "string option"

record vnic_attachment =
  va_VnicId :: "string option"
  va_SubnetId :: "string option"

record vnic =
  vn_IsPrimary :: "bool option"
  vn_NsgIds :: "string list"

section \<open>Operations of the OCI clients\<close>

text \<open>A request gives its response or an error.\<close>

record net_ops =
  net_GetSubnet :: "string option \<Rightarrow> oci_subnet outcome"
  net_ListSubnets :: "string \<Rightarrow> string \<Rightarrow> string \<Rightarrow> oci_subnet list outcome"
  net_GetVnic :: "string option \<Rightarrow> vnic outcome"
  net_GetSubnetCidrUtilization :: "string option \<Rightarrow> cidr_utilization list outcome"
  net_GetNetworkSecurityGroup :: "string option \<Rightarrow> oci_nsg outcome"
  net_ListNetworkSecurityGroups :: "string \<Rightarrow> string \<Rightarrow> string \<Rightarrow> oci_nsg list outcome"

record image_ops =
  img_ListImages :: "string \<Rightarrow> string \<Rightarrow> oci_image list outcome"
  img_GetImage :: "string option \<Rightarrow> oci_image outcome"

text \<open>A list request names the compartment, the network and the display name, and asks for available objects.\<close>

section \<open>Operations of karpenter core and of Kubernetes' resource quantities\<close>

text \<open>
  \<open>'r\<close> is karpenter's \<open>scheduling.Requirement\<close>, \<open>'q\<close> is \<open>resource.Quantity\<close>; \<open>scheduling.Requirements\<close>
  is a map from label keys to requirements.
\<close>

record ('r, 'q) karp_ops =
  newRequirement :: "string \<Rightarrow> selector_op \<Rightarrow> string list \<Rightarrow> 'r"
  reqs_Add :: "(string, 'r) gomap \<Rightarrow> 'r list \<Rightarrow> (string, 'r) gomap"
  reqs_Get :: "(string, 'r) gomap \<Rightarrow> string \<Rightarrow> 'r"
  reqs_Compatible :: "(string, 'r) gomap \<Rightarrow> (string, 'r) gomap \<Rightarrow> bool"
  reqs_OfSelectors :: "nodeSelectorRequirement list \<Rightarrow> (string, 'r) gomap"
  reqs_Selectors :: "(string, 'r) gomap \<Rightarrow> nodeSelectorRequirement list"
  req_Has :: "'r \<Rightarrow> string \<Rightarrow> bool"
  req_Any :: "'r \<Rightarrow> string"
  req_Values :: "'r \<Rightarrow> string list"
  req_Len :: "'r \<Rightarrow> int"
  req_Insert :: "'r \<Rightarrow> string list \<Rightarrow> 'r"
  offs_Available :: "'r offering list \<Rightarrow> 'r offering list"
  offs_Compatible :: "'r offering list \<Rightarrow> (string, 'r) gomap \<Rightarrow> 'r offering list"
  orderByPrice :: "('r, 'q) instanceType list \<Rightarrow> (string, 'r) gomap \<Rightarrow> ('r, 'q) instanceType list"
  it_Allocatable :: "('r, 'q) instanceType \<Rightarrow> (string, 'q) gomap"
  res_Fits :: "(string, 'q) gomap \<Rightarrow> (string, 'q) gomap \<Rightarrow> bool"
  res_MaxResources :: "(string, 'q) gomap \<Rightarrow> (string, 'q) gomap \<Rightarrow> (string, 'q) gomap"
  q_Parse :: "string \<Rightarrow> 'q option"
  q_Value :: "'q \<Rightarrow> int"
  q_Sub :: "'q \<Rightarrow> 'q \<Rightarrow> 'q"
  q_Milli :: "int \<Rightarrow> 'q"
  q_BinarySI :: "int \<Rightarrow> 'q"
  q_AsFloat :: "'q \<Rightarrow> gofloat"
  q_IsZero :: "'q \<Rightarrow> bool"
  rl_Pods :: "(string, 'q) gomap \<Rightarrow> 'q"

text \<open>\<open>resource.MustParse\<close> and karpenter's \<open>resources.Quantity\<close> panic on text that is not a quantity.\<close>

definition mustParse :: "('r, 'q) karp_ops \<Rightarrow> string \<Rightarrow> 'q outcome" where
  "mustParse K s = (case q_Parse K s of None \<Rightarrow> Panic ''cannot parse quantity'' | Some q \<Rightarrow> Ret q)"

text \<open>\<open>scheduling.NewRequirements\<close> adds to an empty map.\<close>

definition newRequirements :: "('r, 'q) karp_ops \<Rightarrow> 'r list \<Rightarrow> (string, 'r) gomap" where
  "newRequirements K rs = reqs_Add K [] rs"

section \<open>Documented behaviour\<close>

text \<open>A requirement made with the operator \<open>In\<close> holds exactly the values it was made with.\<close>

definition requirement_laws :: "('r, 'q) karp_ops \<Rightarrow> bool" where
  "requirement_laws K \<longleftrightarrow>
     (\<forall>k vs v. req_Has K (newRequirement K k OpIn vs) v \<longleftrightarrow> v \<in> set vs) \<and>
     (\<forall>k vs. set (req_Values K (newRequirement K k OpIn vs)) = set vs) \<and>
     (\<forall>k v. req_Any K (newRequirement K k OpIn [v]) = v) \<and>
     (\<forall>k. req_Values K (newRequirement K k OpDoesNotExist []) = []) \<and>
     (\<forall>r vs. set (req_Values K (req_Insert K r vs)) = set (req_Values K r) \<union> set vs) \<and>
     (\<forall>m k r. map_of m k = Some r \<longrightarrow> reqs_Get K m k = r)"

text \<open>Adding requirements on distinct keys that the map does not have yet enters each under its key;
  \<open>keys\<close> are label keys that karpenter does not normalise to another key.\<close>

definition add_law :: "('r, 'q) karp_ops \<Rightarrow> string set \<Rightarrow> bool" where
  "add_law K keys \<longleftrightarrow>
     (\<forall>m specs. distinct (map fst specs) \<and> fst ` set specs \<subseteq> keys \<and> fst ` set specs \<inter> fst ` set m = {} \<longrightarrow>
        map_of (reqs_Add K m (map (\<lambda>(k, op, vs). newRequirement K k op vs) specs)) =
        map_of m ++ map_of (map (\<lambda>(k, op, vs). (k, newRequirement K k op vs)) specs))"

text \<open>Offerings: \<open>Available\<close> keeps the available ones in order.\<close>

definition offerings_law :: "('r, 'q) karp_ops \<Rightarrow> bool" where
  "offerings_law K \<longleftrightarrow> (\<forall>os. offs_Available K os = filter off_Available os)"

text \<open>\<open>OrderByPrice\<close> permutes the instance types.\<close>

definition order_law :: "('r, 'q) karp_ops \<Rightarrow> bool" where
  "order_law K \<longleftrightarrow> (\<forall>its reqs. mset (orderByPrice K its reqs) = mset its)"

text \<open>Quantities: decimal integers, binary suffixes, subtraction of whole quantities.\<close>

definition quantity_laws :: "('r, 'q) karp_ops \<Rightarrow> bool" where
  "quantity_laws K \<longleftrightarrow>
     (\<forall>n. in_int64 n \<longrightarrow> (\<exists>q. q_Parse K (show_int n) = Some q \<and> q_Value K q = n)) \<and>
     (\<forall>n. in_int64 (n * 2 ^ 30) \<longrightarrow> (\<exists>q. q_Parse K (show_int n @ ''Gi'') = Some q \<and> q_Value K q = n * 2 ^ 30)) \<and>
     (\<forall>n. in_int64 (n * 2 ^ 20) \<longrightarrow> (\<exists>q. q_Parse K (show_int n @ ''Mi'') = Some q \<and> q_Value K q = n * 2 ^ 20)) \<and>
     (\<forall>n. in_int64 n \<longrightarrow> q_Value K (q_BinarySI K n) = n) \<and>
     (\<forall>m n a b. q_Parse K (show_int m @ ''Gi'') = Some a \<and> q_Parse K (show_int n @ ''Mi'') = Some b \<and>
        in_int64 (m * 2 ^ 30) \<and> in_int64 (n * 2 ^ 20) \<and> in_int64 (m * 2 ^ 30 - n * 2 ^ 20) \<longrightarrow>
        q_Value K (q_Sub K a b) = m * 2 ^ 30 - n * 2 ^ 20)"

end
