(* ===== verification/Apis.thy ===== *)
theory Apis
  imports External Utils
begin

text \<open>
  The API types of \<open>pkg/apis/v1alpha1\<close>: the node class with its specification and status, the label and
  annotation keys, the validation rules that the kubebuilder markers put into the custom resource
  definition, the status conditions, the specification hash, and the conversion of the launch options of
  \<open>pkg/utils/oci.go\<close>.  The condition set (operatorpkg) and the hash (hashstructure) are parameters.
\<close>

section \<open>Names\<close>

definition Group :: string where "Group = ''karpenter.k8s.oracle''"

text \<open>\<open>apis.Group\<close> of karpenter core.\<close>

definition karpGroup :: string where "karpGroup = ''karpenter.sh''"

definition ConditionTypeSubnetsReady :: string where "ConditionTypeSubnetsReady = ''SubnetsReady''"
definition ConditionTypeSecurityGroupsReady :: string where "ConditionTypeSecurityGroupsReady = ''SecurityGroupsReady''"
definition ConditionTypeImageReady :: string where "ConditionTypeImageReady = ''ImageReady''"

text \<open>\<open>status.ConditionReady\<close> of operatorpkg.\<close>

definition ConditionReady :: string where "ConditionReady = ''Ready''"

definition LabelNodeClass :: string where "LabelNodeClass = Group @ ''/ocinodeclass''"
definition LabelNodeClaim :: string where "LabelNodeClaim = karpGroup @ ''/nodeclaim''"
definition LabelInstanceShapeName :: string where "LabelInstanceShapeName = Group @ ''/instance-shape-name''"
definition LabelInstanceCPU :: string where "LabelInstanceCPU = Group @ ''/instance-cpu''"
definition LabelInstanceMemory :: string where "LabelInstanceMemory = Group @ ''/instance-memory''"
definition LabelInstanceGPU :: string where "LabelInstanceGPU = Group @ ''/instance-gpu''"
definition LabelInstanceGPUDescription :: string where "LabelInstanceGPUDescription = Group @ ''/instance-gpu-description''"
definition LabelInstanceNetworkBandwidth :: string where "LabelInstanceNetworkBandwidth = Group @ ''/instance-network-bandwidth''"
definition LabelInstanceMaxVNICs :: string where "LabelInstanceMaxVNICs = Group @ ''/instance-max-vnics''"
definition LabelIsFlexible :: string where "LabelIsFlexible = Group @ ''/is-flexible''"
definition AnnotationOciNodeClassHash :: string where "AnnotationOciNodeClassHash = Group @ ''/ocinodeclass-hash''"
definition AnnotationOciNodeClassHashVersion :: string where "AnnotationOciNodeClassHashVersion = Group @ ''/ocinodeclass-hash-version''"
definition AnnotationInstanceTagged :: string where "AnnotationInstanceTagged = Group @ ''/tagged''"
definition ManagedByAnnotationKey :: string where "ManagedByAnnotationKey = karpGroup @ ''/managed-by''"
definition ResourceNVIDIAGPU :: string where "ResourceNVIDIAGPU = ''nvidia.com/gpu''"
definition CapacityTypePreemptible :: string where "CapacityTypePreemptible = ''preemptible''"
definition Ubuntu2204ImageFamily :: string where "Ubuntu2204ImageFamily = ''Ubuntu2204''"
definition OracleOKELinuxImageFamily :: string where "OracleOKELinuxImageFamily = ''OracleOKELinux''"
definition CustomImageFamily :: string where "CustomImageFamily = ''Custom''"

text \<open>Label keys and values of Kubernetes and karpenter core.\<close>

definition LabelInstanceTypeStable :: string where "LabelInstanceTypeStable = ''node.kubernetes.io/instance-type''"
definition LabelArchStable :: string where "LabelArchStable = ''kubernetes.io/arch''"
definition LabelOSStable :: string where "LabelOSStable = ''kubernetes.io/os''"
definition LabelTopologyZone :: string where "LabelTopologyZone = ''topology.kubernetes.io/zone''"
definition CapacityTypeLabelKey :: string where "CapacityTypeLabelKey = karpGroup @ ''/capacity-type''"
definition NodePoolLabelKey :: string where "NodePoolLabelKey = karpGroup @ ''/nodepool''"
definition CapacityTypeOnDemand :: string where "CapacityTypeOnDemand = ''on-demand''"
definition ArchitectureAmd64 :: string where "ArchitectureAmd64 = ''amd64''"
definition ArchitectureArm64 :: string where "ArchitectureArm64 = ''arm64''"
definition TerminationFinalizer :: string where "TerminationFinalizer = karpGroup @ ''/termination''"
definition ConditionTypeDrifted :: string where "ConditionTypeDrifted = ''Drifted''"

lemmas label_defs =
  Group_def karpGroup_def LabelNodeClass_def LabelNodeClaim_def LabelInstanceShapeName_def LabelInstanceCPU_def
  LabelInstanceMemory_def LabelInstanceGPU_def LabelInstanceGPUDescription_def LabelInstanceNetworkBandwidth_def
  LabelInstanceMaxVNICs_def LabelIsFlexible_def AnnotationOciNodeClassHash_def AnnotationOciNodeClassHashVersion_def
  AnnotationInstanceTagged_def ManagedByAnnotationKey_def LabelInstanceTypeStable_def LabelArchStable_def
  LabelOSStable_def LabelTopologyZone_def CapacityTypeLabelKey_def NodePoolLabelKey_def

text \<open>\<open>init\<close> of labels.go extends karpenter's sets of restricted domains and well-known labels.\<close>

definition RestrictedLabelDomains :: "string list" where
  "RestrictedLabelDomains = [Group]"

definition wellKnownLabels_init :: "string set \<Rightarrow> string set" where
  "wellKnownLabels_init S = S \<union> {LabelInstanceShapeName, LabelInstanceCPU, LabelInstanceGPU,
     LabelInstanceGPUDescription, LabelInstanceMemory, LabelInstanceNetworkBandwidth, LabelInstanceMaxVNICs,
     LabelIsFlexible}"

definition restrictedDomains_init :: "string set \<Rightarrow> string set" where
  "restrictedDomains_init S = S \<union> set RestrictedLabelDomains"

section \<open>The node class\<close>

record imageSelectorTerm =
  ist_Id :: string
  ist_Name :: string
  ist_CompartmentId :: string

record subnetSelectorTerm =
  sst_Id :: string
  sst_Name :: string

record securityGroupSelectorTerm =
  sgt_Id :: string
  sgt_Name :: string

record bootConfig =
  BootVolumeSizeInGBs :: int
  BootVolumeVpusPerGB :: int

record launchOptions =
  lopt_BootVolumeType :: "string option"
  lopt_Firmware :: "string option"
  lopt_NetworkType :: "string option"
  lopt_RemoteDataVolumeType :: "string option"
  lopt_IsConsistentVolumeNamingEnabled :: "bool option"

record volumeAttributes =
  SizeInGBs :: int
  VpusPerGB :: int

text \<open>Durations are in nanoseconds.  Only for the system reservation do the sources tell a nil map from an empty one.\<close>

record kubeletConfiguration =
  ClusterDNS :: "string list"
  MaxPods :: "int option"
  PodsPerCore :: "int option"
  SystemReserved :: "labels option"
  KubeReserved :: labels
  EvictionHard :: labels
  EvictionSoft :: labels
  EvictionSoftGracePeriod :: "(string, int) gomap"
  EvictionMaxPodGracePeriod :: "int option"
  ImageGCHighThresholdPercent :: "int option"
  ImageGCLowThresholdPercent :: "int option"
  CPUCFSQuota :: "bool option"

type_synonym definedTagValue = labels

record ociNodeClassSpec =
  VcnId :: string
  ImageSelector :: "imageSelectorTerm list"
  SubnetSelector :: "subnetSelectorTerm list"
  SecurityGroupSelector :: "securityGroupSelectorTerm list"
  UserData :: "string option"
  PreInstallScript :: "string option"
  MetaData :: labels
  ImageFamily_name :: string
  Tags :: labels
  DefinedTags :: "(string, definedTagValue) gomap"
  FreeFormTags :: labels
  Kubelet :: "kubeletConfiguration option"
  BootConfig :: "bootConfig option"
  LaunchOptions_ptr :: "launchOptions option"
  BlockDevices :: "volumeAttributes list"
  AgentList :: "string list"

record cidrUtilizationSummary =
  cus_Cidr :: string
  cus_Utilization :: string
  cus_AddressType :: string

record statusSubnet =
  ss_Id :: string
  ss_Name :: string
  ss_CidrUtilization :: "cidrUtilizationSummary list"

record statusImage =
  si_Id :: string
  si_Name :: string
  si_CompartmentId :: string
  si_Requirements :: "nodeSelectorRequirement list"

record statusSecurityGroup =
  ssg_Id :: string
  ssg_Name :: string

record ociNodeClassStatus =
  st_Subnets :: "statusSubnet list"
  st_Images :: "statusImage list"
  st_SecurityGroups :: "statusSecurityGroup list"
  st_Conditions :: "condition list"

record ociNodeClass =
  cl_Name :: string
  cl_UID :: string
  cl_Annotations :: labels
  cl_Finalizers :: "string list"
  cl_DeletionTimestamp :: "int option"
  cl_Spec :: ociNodeClassSpec
  cl_Status :: ociNodeClassStatus

record ociNodeClassList =
  ncl_Items :: "ociNodeClass list"

section \<open>Status conditions\<close>

text \<open>The condition set of operatorpkg over the condition list of an object whose ready condition depends on
  the given condition types.\<close>

record cond_ops =
  cs_Get :: "string list \<Rightarrow> condition list \<Rightarrow> string \<Rightarrow> condition option"
  cs_SetTrue :: "string list \<Rightarrow> condition list \<Rightarrow> string \<Rightarrow> condition list"
  cs_SetFalse :: "string list \<Rightarrow> condition list \<Rightarrow> string \<Rightarrow> string \<Rightarrow> string \<Rightarrow> condition list"

definition StatusConditions :: "string list" where
  "StatusConditions = [ConditionTypeImageReady, ConditionTypeSubnetsReady, ConditionTypeSecurityGroupsReady]"

definition GetConditions :: "ociNodeClass \<Rightarrow> condition list" where
  "GetConditions nc = st_Conditions (cl_Status nc)"

definition SetConditions :: "condition list \<Rightarrow> ociNodeClass \<Rightarrow> ociNodeClass" where
  "SetConditions cs nc = nc\<lparr>cl_Status := (cl_Status nc)\<lparr>st_Conditions := cs\<rparr>\<rparr>"

definition nc_SetTrue :: "cond_ops \<Rightarrow> string \<Rightarrow> ociNodeClass \<Rightarrow> ociNodeClass" where
  "nc_SetTrue C t nc = SetConditions (cs_SetTrue C StatusConditions (GetConditions nc) t) nc"

definition nc_SetFalse :: "cond_ops \<Rightarrow> string \<Rightarrow> string \<Rightarrow> string \<Rightarrow> ociNodeClass \<Rightarrow> ociNodeClass" where
  "nc_SetFalse C t r m nc = SetConditions (cs_SetFalse C StatusConditions (GetConditions nc) t r m) nc"

definition nc_GetCondition :: "cond_ops \<Rightarrow> ociNodeClass \<Rightarrow> string \<Rightarrow> condition option" where
  "nc_GetCondition C nc t = cs_Get C StatusConditions (GetConditions nc) t"

definition cond_is :: "condition_status \<Rightarrow> condition option \<Rightarrow> bool" where
  "cond_is s c \<longleftrightarrow> (case c of None \<Rightarrow> False | Some c \<Rightarrow> cond_Status c = s)"

text \<open>The documented behaviour of the condition set: setting a dependent condition sets it and leaves the other
  dependents alone, and afterwards the ready condition is true exactly when every dependent is true.\<close>

definition cond_laws :: "cond_ops \<Rightarrow> bool" where
  "cond_laws C \<longleftrightarrow> (\<forall>deps cs t r m. t \<in> set deps \<and> ConditionReady \<notin> set deps \<longrightarrow>
     cond_is CondTrue (cs_Get C deps (cs_SetTrue C deps cs t) t) \<and>
     cond_is CondFalse (cs_Get C deps (cs_SetFalse C deps cs t r m) t) \<and>
     (\<forall>u \<in> set deps. u \<noteq> t \<longrightarrow>
        cs_Get C deps (cs_SetTrue C deps cs t) u = cs_Get C deps cs u \<and>
        cs_Get C deps (cs_SetFalse C deps cs t r m) u = cs_Get C deps cs u) \<and>
     (cond_is CondTrue (cs_Get C deps (cs_SetTrue C deps cs t) ConditionReady) \<longleftrightarrow>
        (\<forall>u \<in> set deps. u \<noteq> t \<longrightarrow> cond_is CondTrue (cs_Get C deps cs u))) \<and>
     \<not> cond_is CondTrue (cs_Get C deps (cs_SetFalse C deps cs t r m) ConditionReady))"

text \<open>A simple condition set that behaves as documented.\<close>

definition simple_get :: "string list \<Rightarrow> condition list \<Rightarrow> string \<Rightarrow> condition option" where
  "simple_get deps cs t = List.find (\<lambda>c. cond_Type c = t) cs"

definition simple_put :: "condition list \<Rightarrow> condition \<Rightarrow> condition list" where
  "simple_put cs c = c # filter (\<lambda>d. cond_Type d \<noteq> cond_Type c) cs"

definition simple_ready :: "string list \<Rightarrow> condition list \<Rightarrow> condition list" where
  "simple_ready deps cs = simple_put cs \<lparr>cond_Type = ConditionReady,
     cond_Status = (if list_all (\<lambda>u. cond_is CondTrue (simple_get deps cs u)) deps then CondTrue else CondFalse),
     cond_Reason = '''', cond_Message = ''''\<rparr>"

definition simple_conds :: cond_ops where
  "simple_conds = \<lparr>cs_Get = simple_get,
     cs_SetTrue = (\<lambda>deps cs t. simple_ready deps (simple_put cs \<lparr>cond_Type = t, cond_Status = CondTrue,
       cond_Reason = t, cond_Message = ''''\<rparr>)),
     cs_SetFalse = (\<lambda>deps cs t r m. simple_ready deps (simple_put cs \<lparr>cond_Type = t, cond_Status = CondFalse,
       cond_Reason = r, cond_Message = m\<rparr>))\<rparr>"

lemma simple_get_put: "simple_get deps (simple_put cs c) t = (if t = cond_Type c then Some c else simple_get deps cs t)"
  unfolding simple_get_def simple_put_def by (induction cs) auto

lemma simple_conds_laws: "cond_laws simple_conds"
  unfolding cond_laws_def simple_conds_def simple_ready_def
  by (auto simp: simple_get_put cond_is_def list_all_iff split: if_splits)

section \<open>The hash of the specification\<close>

definition OciNodeClassHashVersion :: string where "OciNodeClassHashVersion = ''v1''"

text \<open>\<open>hashstructure.Hash\<close> is the parameter: \<open>None\<close> when it fails, which \<open>lo.Must\<close> turns into a panic.  The struct
  tag \<open>hash:"ignore"\<close> keeps the kubelet configuration out of the hashed value.\<close>

definition Hash_nc :: "(ociNodeClassSpec \<Rightarrow> nat option) \<Rightarrow> ociNodeClass \<Rightarrow> string outcome" where
  "Hash_nc hashstructure nc =
     (case hashstructure ((cl_Spec nc)\<lparr>Kubelet := None\<rparr>) of
        None \<Rightarrow> Panic ''lo.Must'' | Some h \<Rightarrow> Ret (show_nat h))"

lemma Hash_ignores_kubelet:
  "Hash_nc h (nc\<lparr>cl_Spec := (cl_Spec nc)\<lparr>Kubelet := k\<rparr>\<rparr>) = Hash_nc h nc"
  by (simp add: Hash_nc_def)

section \<open>Validation rules of the custom resource definition\<close>

text \<open>
  The kubebuilder markers of ocinodeclass.go, over the decoded object: \<open>has(x.f)\<close> of an optional string field
  is that it is not empty, \<open>size\<close> counts the code points of a UTF-8 string, \<open>self.all(k, ...)\<close> of a map ranges over
  its keys.
\<close>

definition cel_size :: "string \<Rightarrow> nat" where
  "cel_size s = length (filter (\<lambda>c. (of_char c :: nat) div 64 \<noteq> 2) s)"

definition valid_definedTagValue :: "definedTagValue \<Rightarrow> bool" where
  "valid_definedTagValue m \<longleftrightarrow> length m \<le> 64 \<and>
     list_all (\<lambda>(k, v). CHR ''.'' \<notin> set k \<and> CHR '' '' \<notin> set k \<and> cel_size k \<le> 100 \<and> cel_size v \<le> 256) m"

definition valid_imageSelector :: "imageSelectorTerm list \<Rightarrow> bool" where
  "valid_imageSelector ts \<longleftrightarrow>
     list_all (\<lambda>x. ist_Id x \<noteq> '''' \<or> ist_Name x \<noteq> '''') ts \<and>
     \<not> list_ex (\<lambda>x. ist_Id x \<noteq> '''' \<and> ist_Name x \<noteq> '''') ts \<and> 1 \<le> length ts \<and> length ts \<le> 30"

definition valid_subnetSelector :: "subnetSelectorTerm list \<Rightarrow> bool" where
  "valid_subnetSelector ts \<longleftrightarrow> length ts \<noteq> 0 \<and>
     list_all (\<lambda>x. sst_Name x \<noteq> '''' \<or> sst_Id x \<noteq> '''') ts \<and>
     \<not> list_all (\<lambda>x. sst_Id x \<noteq> '''' \<and> sst_Name x \<noteq> '''') ts \<and> length ts \<le> 30"

definition valid_securityGroupSelector :: "securityGroupSelectorTerm list \<Rightarrow> bool" where
  "valid_securityGroupSelector ts \<longleftrightarrow>
     list_all (\<lambda>x. sgt_Id x \<noteq> '''' \<or> sgt_Name x \<noteq> '''') ts \<and>
     \<not> list_all (\<lambda>x. sgt_Id x \<noteq> '''' \<and> sgt_Name x \<noteq> '''') ts \<and>
     \<not> list_all (\<lambda>x. sgt_Name x \<noteq> '''' \<and> sgt_Id x \<noteq> '''') ts \<and> length ts \<le> 30"

definition valid_tags :: "labels \<Rightarrow> bool" where
  "valid_tags m \<longleftrightarrow> list_all (\<lambda>(k, _). k \<noteq> '''' \<and> \<not> has_prefix k ''kubernetes.io/cluster'' \<and>
     k \<noteq> ''karpenter.sh/nodepool'' \<and> k \<noteq> ''karpenter.sh/nodeclaim'' \<and> k \<noteq> ''karpenter.sh/managed-by'' \<and>
     k \<noteq> ''karpenter.k8s.oracle/ocinodeclass'') m"

definition valid_definedTags :: "(string, definedTagValue) gomap \<Rightarrow> bool" where
  "valid_definedTags m \<longleftrightarrow> length m \<le> 64 \<and>
     list_all (\<lambda>(k, v). k \<noteq> '''' \<and> CHR ''.'' \<notin> set k \<and> CHR '' '' \<notin> set k \<and> cel_size k \<le> 100 \<and>
       valid_definedTagValue v) m"

definition valid_freeFormTags :: "labels \<Rightarrow> bool" where
  "valid_freeFormTags m \<longleftrightarrow> length m \<le> 10 \<and>
     list_all (\<lambda>(k, _). CHR '' '' \<notin> set k \<and> CHR ''.'' \<notin> set k \<and> cel_size k \<le> 100) m"

definition reserved_keys :: "string list" where
  "reserved_keys = [''cpu'', ''memory'', ''ephemeral-storage'', ''pid'']"

definition eviction_signals :: "string list" where
  "eviction_signals = [''memory.available'', ''nodefs.available'', ''nodefs.inodesFree'', ''imagefs.available'',
     ''imagefs.inodesFree'', ''pid.available'']"

definition valid_reserved :: "labels \<Rightarrow> bool" where
  "valid_reserved m \<longleftrightarrow> list_all (\<lambda>(k, v). k \<in> set reserved_keys \<and> \<not> has_prefix v ''-'') m"

definition valid_percent :: "int option \<Rightarrow> bool" where
  "valid_percent p \<longleftrightarrow> (case p of None \<Rightarrow> True | Some n \<Rightarrow> 0 \<le> n \<and> n \<le> 100)"

definition valid_kubelet :: "kubeletConfiguration \<Rightarrow> bool" where
  "valid_kubelet kc \<longleftrightarrow>
     (case (ImageGCHighThresholdPercent kc, ImageGCLowThresholdPercent kc) of
        (Some h, Some l) \<Rightarrow> l < h | _ \<Rightarrow> True) \<and>
     list_all (\<lambda>(e, _). e \<in> fst ` set (EvictionSoftGracePeriod kc)) (EvictionSoft kc) \<and>
     list_all (\<lambda>(e, _). e \<in> fst ` set (EvictionSoft kc)) (EvictionSoftGracePeriod kc) \<and>
     (case MaxPods kc of None \<Rightarrow> True | Some n \<Rightarrow> 0 \<le> n) \<and>
     (case PodsPerCore kc of None \<Rightarrow> True | Some n \<Rightarrow> 0 \<le> n) \<and>
     valid_reserved (from_ptr [] (SystemReserved kc)) \<and> valid_reserved (KubeReserved kc) \<and>
     list_all (\<lambda>(e, _). e \<in> set eviction_signals) (EvictionHard kc) \<and>
     list_all (\<lambda>(e, _). e \<in> set eviction_signals) (EvictionSoft kc) \<and>
     list_all (\<lambda>(e, _). e \<in> set eviction_signals) (EvictionSoftGracePeriod kc) \<and>
     valid_percent (ImageGCHighThresholdPercent kc) \<and> valid_percent (ImageGCLowThresholdPercent kc)"

definition valid_volume :: "volumeAttributes \<Rightarrow> bool" where
  "valid_volume v \<longleftrightarrow> 50 \<le> SizeInGBs v \<and> SizeInGBs v \<le> 32768 \<and> VpusPerGB v \<in> {0, 10, 20}"

definition valid_enum :: "string list \<Rightarrow> string option \<Rightarrow> bool" where
  "valid_enum vs p \<longleftrightarrow> (case p of None \<Rightarrow> True | Some v \<Rightarrow> v \<in> set vs)"

definition valid_launchOptions :: "launchOptions \<Rightarrow> bool" where
  "valid_launchOptions l \<longleftrightarrow>
     valid_enum [''ISCSI'', ''SCSI'', ''IDE'', ''VFIO'', ''PARAVIRTUALIZED''] (lopt_BootVolumeType l) \<and>
     valid_enum [''BIOS'', ''UEFI_64''] (lopt_Firmware l) \<and>
     valid_enum [''E1000'', ''VFIO'', ''PARAVIRTUALIZED''] (lopt_NetworkType l) \<and>
     valid_enum [''ISCSI'', ''SCSI'', ''IDE'', ''VFIO'', ''PARAVIRTUALIZED''] (lopt_RemoteDataVolumeType l)"

definition valid_spec :: "ociNodeClassSpec \<Rightarrow> bool" where
  "valid_spec s \<longleftrightarrow> valid_imageSelector (ImageSelector s) \<and> valid_subnetSelector (SubnetSelector s) \<and>
     (SecurityGroupSelector s = [] \<or> valid_securityGroupSelector (SecurityGroupSelector s)) \<and>
     valid_tags (Tags s) \<and> valid_definedTags (DefinedTags s) \<and> valid_freeFormTags (FreeFormTags s) \<and>
     (case Kubelet s of None \<Rightarrow> True | Some kc \<Rightarrow> valid_kubelet kc) \<and>
     (case LaunchOptions_ptr s of None \<Rightarrow> True | Some l \<Rightarrow> valid_launchOptions l) \<and>
     list_all valid_volume (BlockDevices s)"

section \<open>Launch options\<close>

text \<open>The enum look-ups of the OCI SDK are parameters; they give the empty string for an unknown name, and the source
  drops their second result.\<close>

record enum_maps =
  em_BootVolumeType :: "string \<Rightarrow> string"
  em_Firmware :: "string \<Rightarrow> string"
  em_NetworkType :: "string \<Rightarrow> string"
  em_RemoteDataVolumeType :: "string \<Rightarrow> string"

record oci_launchOptions =
  olo_BootVolumeType :: string
  olo_Firmware :: string
  olo_NetworkType :: string
  olo_RemoteDataVolumeType :: string
  olo_IsConsistentVolumeNamingEnabled :: "bool option"

definition ConvertLaunchOptions :: "enum_maps \<Rightarrow> launchOptions \<Rightarrow> oci_launchOptions" where
  "ConvertLaunchOptions E m = \<lparr>
     olo_BootVolumeType = (case lopt_BootVolumeType m of None \<Rightarrow> '''' | Some v \<Rightarrow> em_BootVolumeType E v),
     olo_Firmware = (case lopt_Firmware m of None \<Rightarrow> '''' | Some v \<Rightarrow> em_Firmware E v),
     olo_NetworkType = (case lopt_NetworkType m of None \<Rightarrow> '''' | Some v \<Rightarrow> em_NetworkType E v),
     olo_RemoteDataVolumeType = (case lopt_RemoteDataVolumeType m of None \<Rightarrow> '''' | Some v \<Rightarrow> em_RemoteDataVolumeType E v),
     olo_IsConsistentVolumeNamingEnabled = lopt_IsConsistentVolumeNamingEnabled m\<rparr>"

section \<open>An example\<close>

definition sample_spec :: ociNodeClassSpec where
  "sample_spec = \<lparr>VcnId = ''vcn'', ImageSelector = [\<lparr>ist_Id = '''', ist_Name = ''image'', ist_CompartmentId = ''c''\<rparr>],
     SubnetSelector = [\<lparr>sst_Id = '''', sst_Name = ''nodes''\<rparr>], SecurityGroupSelector = [\<lparr>sgt_Id = ''g1'', sgt_Name = ''''\<rparr>],
     UserData = None, PreInstallScript = None, MetaData = [], ImageFamily_name = OracleOKELinuxImageFamily, Tags = [], DefinedTags = [],
     FreeFormTags = [], Kubelet = None, BootConfig = Some \<lparr>BootVolumeSizeInGBs = 100, BootVolumeVpusPerGB = 10\<rparr>,
     LaunchOptions_ptr = None, BlockDevices = [], AgentList = []\<rparr>"

definition sample_class :: ociNodeClass where
  "sample_class = \<lparr>cl_Name = ''default'', cl_UID = ''u1'', cl_Annotations = [], cl_Finalizers = [], cl_DeletionTimestamp = None,
     cl_Spec = sample_spec, cl_Status = \<lparr>st_Subnets = [], st_Images = [], st_SecurityGroups = [], st_Conditions = []\<rparr>\<rparr>"

section \<open>Properties\<close>

text \<open>The rule that a subnet selector term must not have both an identifier and a name is written with \<open>all\<close>
  instead of \<open>exists\<close>: it rejects a selector exactly when every term has both, so a term with both passes
  as soon as another term has only one of them.\<close>

theorem subnetSelector_rule_gap:
  "valid_subnetSelector [\<lparr>sst_Id = c # i, sst_Name = d # n\<rparr>, \<lparr>sst_Id = '''', sst_Name = a # m\<rparr>] \<and>
   \<not> valid_subnetSelector [\<lparr>sst_Id = c # i, sst_Name = d # n\<rparr>]"
  by (simp add: valid_subnetSelector_def)

end
