(* ===== verification/Options.thy ===== *)
theory Options
  imports Utils
begin

text \<open>
  \<open>pkg/operator/options\<close>: the settings of the controller, their flags with defaults taken from the environment,
  the command line, and their validation.  The readers of environment variables that karpenter core provides and
  the parse of a URL are parameters; the flag package of Go's standard library is modelled.
\<close>

section \<open>The options\<close>

record options =
  ClusterName :: string
  ClusterEndpoint :: string
  ClusterDns :: string
  ClusterCABundle :: string
  BootStrapToken :: string
  CompartmentId :: string
  TagNamespace :: string
  VMMemoryOverheadPercent :: gofloat
  FlexCpuMemRatios :: string
  FlexCpuConstrainList :: string
  AvailableDomains :: "string list"
  OciAuthMethods :: string
  PriceEndpoint :: string
  PriceSyncPeriod :: int
  UseLocalPriceList :: bool
  PreemptibleShapes :: string
  PreemptibleExcludeShapes :: string

definition zero_options :: options where
  "zero_options = \<lparr>ClusterName = '''', ClusterEndpoint = '''', ClusterDns = '''', ClusterCABundle = '''',
     BootStrapToken = '''', CompartmentId = '''', TagNamespace = '''', VMMemoryOverheadPercent = Fin 0,
     FlexCpuMemRatios = '''', FlexCpuConstrainList = '''', AvailableDomains = [], OciAuthMethods = '''',
     PriceEndpoint = '''', PriceSyncPeriod = 0, UseLocalPriceList = False, PreemptibleShapes = '''',
     PreemptibleExcludeShapes = ''''\<rparr>"

definition defaultPreemptibleShapes :: string where
  "defaultPreemptibleShapes = ''VM.Standard1,VM.Standard.B1,VM.Standard2,VM.Standard3.Flex,VM.Standard.E2,VM.Standard.E3.Flex,VM.Standard.E4.Flex,VM.Standard.E5.Flex,VM.Standard.E6.Flex,VM.Standard.A1.Flex,VM.Standard.A4.Flex,VM.DenseIO1,VM.DenseIO2,VM.GPU2,VM.GPU3,VM.Optimized3.Flex''"

definition defaultPreemptibleExcludeShapes :: string where
  "defaultPreemptibleExcludeShapes = ''VM.Standard.E2.1.Micro''"

definition generateDefaultFlexCpuConstrainList :: string where
  "generateDefaultFlexCpuConstrainList = join_str '','' (map (\<lambda>i. show_int (int i)) [1..<129])"

section \<open>Go's flag package\<close>

text \<open>A registered flag: its name, whether it is boolean, and the setter that parses the text of a value (\<open>None\<close> is a
  parse error).  The state \<open>'s\<close> holds the variables of every flag of the flag set.\<close>

record 's flagdef =
  fl_Name :: string
  fl_IsBool :: bool
  fl_Set :: "string \<Rightarrow> 's \<Rightarrow> 's option"

definition hex_val :: "char \<Rightarrow> nat" where
  "hex_val c = (if is_digit c then digit_val c
     else if CHR ''a'' \<le> lower_char c \<and> lower_char c \<le> CHR ''f'' then of_char (lower_char c) - 87 else 99)"

fun read_base :: "nat \<Rightarrow> nat \<Rightarrow> string \<Rightarrow> nat option" where
  "read_base b a [] = Some a"
| "read_base b a (c # cs) =
     (if c = CHR ''_'' then read_base b a cs
      else if hex_val c < b then read_base b (b * a + hex_val c) cs else None)"

text \<open>Underscores may only separate digits or follow a base prefix.\<close>

fun underscore_ok :: "bool \<Rightarrow> string \<Rightarrow> bool" where
  "underscore_ok prev [] = True"
| "underscore_ok prev [c] = (c \<noteq> CHR ''_'')"
| "underscore_ok prev (c # d # cs) =
     (if c = CHR ''_'' then prev \<and> d \<noteq> CHR ''_'' \<and> underscore_ok False (d # cs) else underscore_ok True (d # cs))"

text \<open>\<open>strconv.ParseInt(s, 0, 64)\<close>, as the flag package reads an integer.\<close>

definition parse_int0 :: "string \<Rightarrow> int option" where
  "parse_int0 s =
     (let (neg, r) = read_sign s;
          (b, pre, ds) =
            (case r of c # d # cs \<Rightarrow>
               if c = CHR ''0'' then
                 (if lower_char d = CHR ''b'' then (2, True, cs) else if lower_char d = CHR ''o'' then (8, True, cs)
                  else if lower_char d = CHR ''x'' then (16, True, cs) else (8, True, d # cs))
               else (10, False, r)
             | _ \<Rightarrow> (10, False, r))
      in if ds = [] \<or> \<not> underscore_ok pre ds then None
         else case read_base b 0 ds of None \<Rightarrow> None
              | Some n \<Rightarrow> let v = (if neg then - int n else int n) in if in_int64 v then Some v else None)"

definition parse_bool :: "string \<Rightarrow> bool option" where
  "parse_bool s =
     (if s \<in> {''1'', ''t'', ''T'', ''true'', ''TRUE'', ''True''} then Some True
      else if s \<in> {''0'', ''f'', ''F'', ''false'', ''FALSE'', ''False''} then Some False else None)"

datatype 's parsed = Parsed 's "string list" | FlagErr string | FlagHelp

text \<open>The text of a flag argument: \<open>None\<close> ends the flags (a plain argument), \<open>Some None\<close> is the terminator \<open>--\<close>, else
  the text after the dashes.\<close>

definition strip_dashes :: "string \<Rightarrow> string option option" where
  "strip_dashes s =
     (if length s < 2 \<or> s ! 0 \<noteq> CHR ''-'' then None
      else if s ! 1 = CHR ''-'' then (if length s = 2 then Some None else Some (Some (drop 2 s)))
      else Some (Some (drop 1 s)))"

text \<open>The name and the value of \<open>name=value\<close>; the name has at least one byte.\<close>

definition cut_value :: "string \<Rightarrow> string \<times> string option" where
  "cut_value t =
     (case t of [] \<Rightarrow> ([], None)
      | c # cs \<Rightarrow> let n = takeWhile (\<lambda>d. d \<noteq> CHR ''='') cs; r = dropWhile (\<lambda>d. d \<noteq> CHR ''='') cs
          in (c # n, if r = [] then None else Some (tl r)))"

text \<open>One step (\<open>parseOne\<close>): the flags end here with these arguments left, or a flag was read and these are left, or it
  fails.\<close>

datatype 's one = EndOf "string list" | More 's "string list" | Fail string | HelpWanted

definition set_flag :: "'s flagdef \<Rightarrow> string \<Rightarrow> 's \<Rightarrow> string list \<Rightarrow> string \<Rightarrow> 's one" where
  "set_flag f v st as msg = (case fl_Set f v st of None \<Rightarrow> Fail msg | Some st' \<Rightarrow> More st' as)"

definition parse_one :: "'s flagdef list \<Rightarrow> 's \<Rightarrow> string \<Rightarrow> string list \<Rightarrow> 's one" where
  "parse_one fs st a as =
     (case strip_dashes a of
        None \<Rightarrow> EndOf (a # as)
      | Some None \<Rightarrow> EndOf as
      | Some (Some t) \<Rightarrow>
          if t = [] \<or> hd t = CHR ''-'' \<or> hd t = CHR ''='' then Fail ''bad flag syntax''
          else (case List.find (\<lambda>f. fl_Name f = fst (cut_value t)) fs of
             None \<Rightarrow> if fst (cut_value t) \<in> {''help'', ''h''} then HelpWanted
                      else Fail ''flag provided but not defined''
           | Some f \<Rightarrow>
               if fl_IsBool f then set_flag f (from_ptr ''true'' (snd (cut_value t))) st as ''invalid boolean value''
               else (case snd (cut_value t) of
                 Some v \<Rightarrow> set_flag f v st as ''invalid value''
               | None \<Rightarrow> (case as of [] \<Rightarrow> Fail ''flag needs an argument''
                         | v # as' \<Rightarrow> set_flag f v st as' ''invalid value''))))"

lemma parse_one_More:
  assumes "parse_one fs st a as = More st' as'"
  shows "length as' \<le> length as" and "\<exists>f v. f \<in> set fs \<and> fl_Set f v st = Some st'"
  using assms
  by (auto simp: parse_one_def set_flag_def split: option.splits if_splits list.splits dest!: find_Some_D)

function parse_flags :: "'s flagdef list \<Rightarrow> 's \<Rightarrow> string list \<Rightarrow> 's parsed" where
  "parse_flags fs st [] = Parsed st []"
| "parse_flags fs st (a # as) =
     (case parse_one fs st a as of
        EndOf rest \<Rightarrow> Parsed st rest | Fail m \<Rightarrow> FlagErr m | HelpWanted \<Rightarrow> FlagHelp
      | More st' as' \<Rightarrow> parse_flags fs st' as')"
  by pat_completeness auto

termination
  by (relation "measure (\<lambda>(_, _, as). length as)") (auto dest: parse_one_More(1))

section \<open>AddFlags, Parse and Validate\<close>

record env_ops =
  env_Lookup :: "string \<Rightarrow> string option"
  env_WithDefaultString :: "string \<Rightarrow> string \<Rightarrow> string"
  env_WithDefaultInt :: "string \<Rightarrow> int \<Rightarrow> int"
  env_WithDefaultBool :: "string \<Rightarrow> bool \<Rightarrow> bool"

text \<open>Registering a flag stores its default, so \<open>AddFlags\<close> leaves the defaults in the options; \<open>AvailableDomains\<close> has no
  flag.\<close>

definition AddFlags :: "env_ops \<Rightarrow> options \<Rightarrow> options" where
  "AddFlags e o' = o'\<lparr>
     ClusterName := env_WithDefaultString e ''CLUSTER_NAME'' '''',
     ClusterEndpoint := env_WithDefaultString e ''CLUSTER_ENDPOINT'' '''',
     ClusterDns := env_WithDefaultString e ''CLUSTER_DNS'' '''',
     ClusterCABundle := env_WithDefaultString e ''CLUSTER_CA_BUNDLE'' '''',
     BootStrapToken := env_WithDefaultString e ''CLUSTER_BOOTSTRAP_TOKEN'' '''',
     VMMemoryOverheadPercent := WithDefaultFloat64 (env_Lookup e) ''VM_MEMORY_OVERHEAD_PERCENT'' (Fin 0),
     FlexCpuMemRatios := env_WithDefaultString e ''FLEX_CPU_MEM_RATIOS'' ''4'',
     FlexCpuConstrainList := env_WithDefaultString e ''FLEX_CPU_CONSTRAIN_LIST'' generateDefaultFlexCpuConstrainList,
     CompartmentId := env_WithDefaultString e ''COMPARTMENT_ID'' '''',
     TagNamespace := env_WithDefaultString e ''TAG_NAMESPACE'' ''oke-karpenter-ns'',
     OciAuthMethods := env_WithDefaultString e ''OCI_AUTH_METHODS'' ''OKE'',
     PriceEndpoint := env_WithDefaultString e ''PRICE_ENDPOINT'' ''https://apexapps.oracle.com/pls/apex/cetools/api/v1/products/'',
     PriceSyncPeriod := env_WithDefaultInt e ''PRICE_SYNC_PERIOD'' 12,
     UseLocalPriceList := env_WithDefaultBool e ''USE_LOCAL_PRICE_LIST'' False,
     PreemptibleShapes := env_WithDefaultString e ''PREEMPTIBLE_SHAPES'' defaultPreemptibleShapes,
     PreemptibleExcludeShapes := env_WithDefaultString e ''PREEMPTIBLE_EXCLUDE_SHAPES'' defaultPreemptibleExcludeShapes\<rparr>"

definition StringVar :: "(string \<Rightarrow> options \<Rightarrow> options) \<Rightarrow> string \<Rightarrow> options flagdef" where
  "StringVar upd n = \<lparr>fl_Name = n, fl_IsBool = False, fl_Set = (\<lambda>v o'. Some (upd v o'))\<rparr>"

definition Float64Var :: "(gofloat \<Rightarrow> options \<Rightarrow> options) \<Rightarrow> string \<Rightarrow> options flagdef" where
  "Float64Var upd n = \<lparr>fl_Name = n, fl_IsBool = False, fl_Set = (\<lambda>v o'. map_option (\<lambda>x. upd x o') (parse_float v))\<rparr>"

definition IntVar :: "(int \<Rightarrow> options \<Rightarrow> options) \<Rightarrow> string \<Rightarrow> options flagdef" where
  "IntVar upd n = \<lparr>fl_Name = n, fl_IsBool = False, fl_Set = (\<lambda>v o'. map_option (\<lambda>x. upd x o') (parse_int0 v))\<rparr>"

definition BoolVar :: "(bool \<Rightarrow> options \<Rightarrow> options) \<Rightarrow> string \<Rightarrow> options flagdef" where
  "BoolVar upd n = \<lparr>fl_Name = n, fl_IsBool = True, fl_Set = (\<lambda>v o'. map_option (\<lambda>x. upd x o') (parse_bool v))\<rparr>"

definition option_flags :: "options flagdef list" where
  "option_flags = [
     StringVar (\<lambda>v o'. o'\<lparr>ClusterName := v\<rparr>) ''cluster-name'',
     StringVar (\<lambda>v o'. o'\<lparr>ClusterEndpoint := v\<rparr>) ''cluster-endpoint'',
     StringVar (\<lambda>v o'. o'\<lparr>ClusterDns := v\<rparr>) ''cluster-dns'',
     StringVar (\<lambda>v o'. o'\<lparr>ClusterCABundle := v\<rparr>) ''cluster-ca-bundle'',
     StringVar (\<lambda>v o'. o'\<lparr>BootStrapToken := v\<rparr>) ''cluster-bootstrap-token'',
     Float64Var (\<lambda>v o'. o'\<lparr>VMMemoryOverheadPercent := v\<rparr>) ''vm-memory-overhead-percent'',
     StringVar (\<lambda>v o'. o'\<lparr>FlexCpuMemRatios := v\<rparr>) ''flex-cpu-mem-ratios'',
     StringVar (\<lambda>v o'. o'\<lparr>FlexCpuConstrainList := v\<rparr>) ''flex-cpu-constrain-list'',
     StringVar (\<lambda>v o'. o'\<lparr>CompartmentId := v\<rparr>) ''compartment-id'',
     StringVar (\<lambda>v o'. o'\<lparr>TagNamespace := v\<rparr>) ''tag-namespace'',
     StringVar (\<lambda>v o'. o'\<lparr>OciAuthMethods := v\<rparr>) ''oci-auth-methods'',
     StringVar (\<lambda>v o'. o'\<lparr>PriceEndpoint := v\<rparr>) ''price-endpoint'',
     IntVar (\<lambda>v o'. o'\<lparr>PriceSyncPeriod := v\<rparr>) ''price-sync-period'',
     BoolVar (\<lambda>v o'. o'\<lparr>UseLocalPriceList := v\<rparr>) ''use-local-price-list'',
     StringVar (\<lambda>v o'. o'\<lparr>PreemptibleShapes := v\<rparr>) ''preemptible-shapes'',
     StringVar (\<lambda>v o'. o'\<lparr>PreemptibleExcludeShapes := v\<rparr>) ''preemptible-exclude-shapes'']"

text \<open>\<open>url.Parse\<close>: whether it succeeds with an absolute URL, and its host name.\<close>

record url =
  url_IsAbs :: bool
  url_Hostname :: string

definition validateEndpoint :: "(string \<Rightarrow> url option) \<Rightarrow> options \<Rightarrow> goerr option" where
  "validateEndpoint parse_url o' =
     (if ClusterEndpoint o' = '''' then None
      else case parse_url (ClusterEndpoint o') of
        None \<Rightarrow> Some (Errorf ''not a valid cluster-endpoint URL'')
      | Some u \<Rightarrow> if \<not> url_IsAbs u \<or> url_Hostname u = '''' then Some (Errorf ''not a valid cluster-endpoint URL'') else None)"

definition validateVMMemoryOverheadPercent :: "options \<Rightarrow> goerr option" where
  "validateVMMemoryOverheadPercent o' =
     (if flt (VMMemoryOverheadPercent o') (Fin 0) \<or> flt (Fin 1) (VMMemoryOverheadPercent o')
      then Some (Errorf ''vm-memory-overhead-percent cannot be negative or > 1'') else None)"

definition validateRequiredFields :: "options \<Rightarrow> goerr option" where
  "validateRequiredFields o' = (if ClusterName o' = '''' then Some (Errorf ''missing field, cluster-name'') else None)"

text \<open>\<open>multierr.Combine\<close> drops the nil errors.\<close>

definition combine_errs :: "goerr option list \<Rightarrow> goerr option" where
  "combine_errs es = (case List.map_filter id es of [] \<Rightarrow> None | [e] \<Rightarrow> Some e | es' \<Rightarrow> Some (MultiErr es'))"

definition Validate_options :: "(string \<Rightarrow> url option) \<Rightarrow> options \<Rightarrow> goerr option" where
  "Validate_options parse_url o' =
     combine_errs [validateEndpoint parse_url o', validateVMMemoryOverheadPercent o', validateRequiredFields o']"

text \<open>\<open>Parse\<close> leaves the process on a request for help; \<open>fs\<close> is the flag set, with the flags of karpenter core too, which
  this development gives as setters that leave the options alone.\<close>

datatype parse_end = Exit0 | Returned "options outcome"

definition Parse_options :: "(string \<Rightarrow> url option) \<Rightarrow> options flagdef list \<Rightarrow> options \<Rightarrow> string list \<Rightarrow> parse_end" where
  "Parse_options parse_url fs o' args =
     (case parse_flags fs o' args of
        FlagHelp \<Rightarrow> Exit0
      | FlagErr m \<Rightarrow> Returned (Err (Wrapf ''parsing flags'' (Errorf m)))
      | Parsed o2 _ \<Rightarrow> (case Validate_options parse_url o2 of
            Some e \<Rightarrow> Returned (Err (Wrapf ''validating options'' e))
          | None \<Rightarrow> Returned (Ret o2)))"

text \<open>The context carries at most one options value; a later \<open>ToContext\<close> hides an earlier one.\<close>

type_synonym context_values = "options option"

definition ToContext :: "context_values \<Rightarrow> options \<Rightarrow> context_values" where
  "ToContext ctx opts = Some opts"

definition FromContext :: "context_values \<Rightarrow> options option" where
  "FromContext ctx = ctx"

section \<open>Lemmas\<close>

lemma combine_errs_None: "combine_errs es = None \<longleftrightarrow> (\<forall>e \<in> set es. e = None)"
  by (induction es) (auto simp: combine_errs_def List.map_filter_def split: list.splits)

definition options_ok :: "(string \<Rightarrow> url option) \<Rightarrow> options \<Rightarrow> bool" where
  "options_ok parse_url o' \<longleftrightarrow> ClusterName o' \<noteq> '''' \<and>
     (ClusterEndpoint o' = '''' \<or>
        (case parse_url (ClusterEndpoint o') of None \<Rightarrow> False | Some u \<Rightarrow> url_IsAbs u \<and> url_Hostname u \<noteq> '''')) \<and>
     (case VMMemoryOverheadPercent o' of Fin x \<Rightarrow> 0 \<le> x \<and> x \<le> 1 | NaN \<Rightarrow> True | _ \<Rightarrow> False)"

lemma percent_ok:
  "\<not> flt f (Fin 0) \<and> \<not> flt (Fin 1) f \<longleftrightarrow> (case f of Fin x \<Rightarrow> 0 \<le> x \<and> x \<le> 1 | NaN \<Rightarrow> True | _ \<Rightarrow> False)"
  by (cases f) auto

lemma Validate_None_iff: "Validate_options parse_url o' = None \<longleftrightarrow> options_ok parse_url o'"
  unfolding Validate_options_def combine_errs_None options_ok_def percent_ok [symmetric]
  by (auto simp: validateEndpoint_def validateVMMemoryOverheadPercent_def validateRequiredFields_def
      split: option.splits if_splits)

text \<open>A property of the state that every setter keeps is kept by the parse.\<close>

lemma parse_flags_keeps:
  "parse_flags fs st as = Parsed st' rest \<Longrightarrow>
    (\<And>f v s s'. f \<in> set fs \<Longrightarrow> fl_Set f v s = Some s' \<Longrightarrow> P s \<Longrightarrow> P s') \<Longrightarrow> P st \<Longrightarrow> P st'"
proof (induction fs st as rule: parse_flags.induct)
  case (1 fs st)
  then show ?case by simp
next
  case (2 fs st a as)
  show ?case
  proof (cases "parse_one fs st a as")
    case (More st1 as1)
    with 2 parse_one_More(2) [OF More] show ?thesis by auto
  qed (use 2 in auto)
qed

lemma option_flags_keep_domains:
  "f \<in> set option_flags \<Longrightarrow> fl_Set f v o1 = Some o2 \<Longrightarrow> AvailableDomains o2 = AvailableDomains o1"
  by (auto simp: option_flags_def StringVar_def Float64Var_def IntVar_def BoolVar_def)

section \<open>Properties\<close>



text \<open>The default list of core counts for flexible shapes, split at the commas and read back, is 1 to 128.\<close>

theorem default_cpu_list:
  "map atoi (split_str generateDefaultFlexCpuConstrainList '','') = map (\<lambda>i. Some (int i)) [1..<129]"
proof -
  have "split_str generateDefaultFlexCpuConstrainList '','' = map (\<lambda>i. show_int (int i)) [1..<129]"
    unfolding generateDefaultFlexCpuConstrainList_def
    by (rule split_join) (auto dest: show_int_no is_digit_not)
  then show ?thesis by (auto simp: atoi_show_int in_int64_def)
qed

end
