(* ===== verification/Base64.thy ===== *)
theory Base64
  imports Prelude
begin

text \<open>
  \<open>base64.StdEncoding\<close> of Go's standard library, which the bootstrap scripts and the CA bundle are encoded with:
  the encoder the sources call, and the decoder that a node applies, with their round trip.
\<close>

definition b64_char :: "nat \<Rightarrow> char" where
  "b64_char n = char_of (if n < 26 then n + 65 else if n < 52 then n + 71 else if n < 62 then n - 4
     else if n = 62 then 43 else 47 :: nat)"

fun EncodeToString :: "string \<Rightarrow> string" where
  "EncodeToString [] = []"
| "EncodeToString [a] =
     (let x = of_char a :: nat
      in [b64_char (x div 4), b64_char (x mod 4 * 16), CHR ''='', CHR ''=''])"
| "EncodeToString [a, b] =
     (let x = of_char a :: nat; y = of_char b :: nat
      in [b64_char (x div 4), b64_char (x mod 4 * 16 + y div 16), b64_char (y mod 16 * 4), CHR ''=''])"
| "EncodeToString (a # b # c # r) =
     (let x = of_char a :: nat; y = of_char b :: nat; z = of_char c :: nat
      in b64_char (x div 4) # b64_char (x mod 4 * 16 + y div 16) # b64_char (y mod 16 * 4 + z div 64) #
         b64_char (z mod 64) # EncodeToString r)"

definition b64_val :: "char \<Rightarrow> nat option" where
  "b64_val c = (let n = of_char c :: nat in
     if 65 \<le> n \<and> n \<le> 90 then Some (n - 65) else if 97 \<le> n \<and> n \<le> 122 then Some (n - 71)
     else if 48 \<le> n \<and> n \<le> 57 then Some (n + 4) else if n = 43 then Some 62 else if n = 47 then Some 63 else None)"

fun DecodeString :: "string \<Rightarrow> string option" where
  "DecodeString [] = Some []"
| "DecodeString (p # q # r # s # t) =
     (case (b64_val p, b64_val q, b64_val r, b64_val s) of
        (Some a, Some b, Some c, Some d) \<Rightarrow>
          map_option (\<lambda>u. char_of (a * 4 + b div 16) # char_of (b mod 16 * 16 + c div 4) # char_of (c mod 4 * 64 + d) # u)
            (DecodeString t)
      | (Some a, Some b, Some c, None) \<Rightarrow>
          if s = CHR ''='' \<and> t = [] then Some [char_of (a * 4 + b div 16), char_of (b mod 16 * 16 + c div 4)] else None
      | (Some a, Some b, None, None) \<Rightarrow>
          if r = CHR ''='' \<and> s = CHR ''='' \<and> t = [] then Some [char_of (a * 4 + b div 16)] else None
      | _ \<Rightarrow> None)"
| "DecodeString _ = None"

lemma b64_val_char: "n < 64 \<Longrightarrow> b64_val (b64_char n) = Some n"
  by (auto simp: b64_val_def b64_char_def Let_def of_char_of)

lemma b64_val_pad [simp]: "b64_val CHR ''='' = None"
  by (simp add: b64_val_def)

lemma byte_bound: "(of_char c :: nat) < 256"
  using nat_of_char_less_256 by simp

lemma byte_cases: "\<exists>x<256. c = char_of (x :: nat)"
  by (rule exI [of _ "of_char c"]) (simp add: byte_bound)

lemma byte_parts:
  fixes x y z :: nat
  assumes "x < 256" "y < 256" "z < 256"
  shows "x div 4 < 64" "x mod 4 * 16 < 64" "x mod 4 * 16 + y div 16 < 64" "y mod 16 * 4 < 64"
    "y mod 16 * 4 + z div 64 < 64" "z mod 64 < 64"
    "x div 4 * 4 + x mod 4 * 16 div 16 = x"
    "x div 4 * 4 + (x mod 4 * 16 + y div 16) div 16 = x"
    "(x mod 4 * 16 + y div 16) mod 16 * 16 + (y mod 16 * 4) div 4 = y"
    "(x mod 4 * 16 + y div 16) mod 16 * 16 + (y mod 16 * 4 + z div 64) div 4 = y"
    "(y mod 16 * 4 + z div 64) mod 4 * 64 + z mod 64 = z"
proof -
  have y: "y div 16 < 16" and z: "z div 64 < 4" using assms by (auto simp: less_mult_imp_div_less)
  show "x div 4 < 64" "x mod 4 * 16 < 64" "x mod 4 * 16 + y div 16 < 64" "y mod 16 * 4 < 64"
    "y mod 16 * 4 + z div 64 < 64" "z mod 64 < 64"
    using assms y z by (auto simp: less_mult_imp_div_less) (presburger+)?
  show "x div 4 * 4 + x mod 4 * 16 div 16 = x" by simp
  show "x div 4 * 4 + (x mod 4 * 16 + y div 16) div 16 = x" using y by simp
  have b: "(x mod 4 * 16 + y div 16) mod 16 = y div 16" using y by simp
  show "(x mod 4 * 16 + y div 16) mod 16 * 16 + (y mod 16 * 4) div 4 = y" unfolding b by simp
  show "(x mod 4 * 16 + y div 16) mod 16 * 16 + (y mod 16 * 4 + z div 64) div 4 = y" unfolding b using z by simp
  show "(y mod 16 * 4 + z div 64) mod 4 * 64 + z mod 64 = z" using z by simp
qed

lemma Decode_Encode: "DecodeString (EncodeToString s) = Some s"
proof (induction s rule: EncodeToString.induct)
  case (2 a)
  obtain x :: nat where "x < 256" "a = char_of x" using byte_cases by blast
  then show ?case using byte_parts [of x x x] by (simp add: of_char_of b64_val_char)
next
  case (3 a b)
  obtain x y :: nat where "x < 256" "a = char_of x" "y < 256" "b = char_of y" using byte_cases by metis
  then show ?case using byte_parts [of x y y] by (simp add: of_char_of b64_val_char)
next
  case (4 a b c r)
  obtain x y z :: nat where "x < 256" "a = char_of x" "y < 256" "b = char_of y" "z < 256" "c = char_of z"
    using byte_cases by metis
  then show ?case using byte_parts [of x y z] 4 by (simp add: of_char_of b64_val_char)
qed simp

lemma EncodeToString_inject [simp]: "EncodeToString s = EncodeToString t \<longleftrightarrow> s = t"
  using Decode_Encode by (metis option.inject)

end
