(* ===== verification/OciConfig.thy ===== *)
theory OciConfig
  imports Options Base64 OfferingCache
begin

text \<open>
  \<open>pkg/operator\<close>: the cloud configuration file with its completion from the instance metadata service and its
  validation (\<open>oci/config\<close>, \<open>oci/instance\<close>), the retry policy of the OCI client (\<open>oci/sdk/retrypolicy\<close>), and the
  start-up of the operator.  The SDK's configuration providers, the HTTP transport, the YAML and JSON decoders and
  the TLS loader are parameters.
\<close>

section \<open>Instance metadata\<close>

record instanceMetadata =
  md_CompartmentID :: string
  md_Region :: string
  md_CanonicalRegionName :: string

text \<open>A response of the metadata endpoint: its status and the body as the JSON decoder reads it.\<close>

record http_response =
  http_StatusCode :: int
  http_Body :: "instanceMetadata outcome"

record metadataGetter =
  mg_baseURL :: string
  mg_Timeout :: int

definition baseURL :: string where "baseURL = ''http://169.254.169.254''"
definition metadataEndpoint :: string where "metadataEndpoint = ''/opc/v2/instance/''"
definition defaultHTTPTimeout :: int where "defaultHTTPTimeout = 5 * second_ns"

definition New_metadata :: metadataGetter where
  "New_metadata = \<lparr>mg_baseURL = baseURL, mg_Timeout = defaultHTTPTimeout\<rparr>"

text \<open>\<open>http_do\<close> sends a request for a URL with the given headers; the response is never nil when the error is.\<close>

definition executeRequest :: "(string \<Rightarrow> labels \<Rightarrow> http_response outcome) \<Rightarrow> string \<Rightarrow> instanceMetadata outcome" where
  "executeRequest http_do u =
     (case http_do u [(''Authorization'', ''Bearer Oracle'')] of
        Panic s \<Rightarrow> Panic s
      | Err e \<Rightarrow> Err (Wrapf ''Failed to get instance metadata with v2 endpoint'' e)
      | Ret resp \<Rightarrow>
          if http_StatusCode resp \<noteq> 200 then Err (Errorf ''metadata endpoint v2 returned status; expected 200 OK'')
          else omap_err (Wrapf ''decoding instance metadata response'') (http_Body resp))"

definition Get_metadata ::
  "(string \<Rightarrow> labels \<Rightarrow> http_response outcome) \<Rightarrow> metadataGetter \<Rightarrow> instanceMetadata outcome" where
  "Get_metadata http_do m = executeRequest http_do (mg_baseURL m @ metadataEndpoint)"

section \<open>The configuration file\<close>

record authConfig =
  Region :: string
  TenancyID :: string
  UserID :: string
  PrivateKey :: string
  Fingerprint :: string
  Passphrase :: string
  auth_RegionKey :: string
  auth_UseInstancePrincipals :: bool
  auth_CompartmentID :: string
  PrivateKeyPassphrase :: string

record rateLimiterConfig =
  RateLimitQPSRead :: gofloat
  RateLimitBucketRead :: int
  RateLimitQPSWrite :: gofloat
  RateLimitBucketWrite :: int
  DisableRateLimiter :: bool

record ociConfig =
  Auth :: authConfig
  RateLimiter :: "rateLimiterConfig option"
  RegionKey :: string
  UseInstancePrincipals :: bool
  CompartmentID :: string

text \<open>\<open>meta\<close> is the answer of the metadata service.  An early return of the source leaves what was set before it.\<close>

definition Complete_auth :: "instanceMetadata outcome \<Rightarrow> authConfig \<Rightarrow> authConfig" where
  "Complete_auth meta c =
     (let c1 = (if Passphrase c = '''' \<and> PrivateKeyPassphrase c \<noteq> '''' then c\<lparr>Passphrase := PrivateKeyPassphrase c\<rparr> else c)
      in if Region c1 = '''' \<or> auth_CompartmentID c1 = ''''
         then (case meta of
             Ret m \<Rightarrow>
               (let c2 = (if Region c1 = '''' then c1\<lparr>Region := md_CanonicalRegionName m\<rparr> else c1)
                in if auth_CompartmentID c2 = '''' then c2\<lparr>auth_CompartmentID := md_CompartmentID m\<rparr> else c2)
           | _ \<Rightarrow> c1)
         else c1)"

definition Complete_config :: "instanceMetadata outcome \<Rightarrow> ociConfig \<Rightarrow> ociConfig" where
  "Complete_config meta c =
     (let c1 = c\<lparr>Auth := Complete_auth meta (Auth c)\<rparr>;
          c2 = (if CompartmentID c1 = '''' \<and> auth_CompartmentID (Auth c1) \<noteq> ''''
                then c1\<lparr>CompartmentID := auth_CompartmentID (Auth c1)\<rparr> else c1);
          c3 = (if auth_UseInstancePrincipals (Auth c2) then c2\<lparr>UseInstancePrincipals := True\<rparr> else c2)
      in if RegionKey c3 = '''' then
           (if auth_RegionKey (Auth c3) \<noteq> '''' then c3\<lparr>RegionKey := auth_RegionKey (Auth c3)\<rparr>
            else case meta of Ret m \<Rightarrow> c3\<lparr>RegionKey := md_Region m\<rparr> | _ \<Rightarrow> c3)
         else c3)"

text \<open>The errors of the validation, in the order in which one iteration over the map of checked fields visits it; \<open>order\<close>
  gives that order.\<close>

datatype field_error = FieldRequired "string list" | FieldInternal "string list"

definition checkFields :: "authConfig \<Rightarrow> labels" where
  "checkFields c = [(''region'', Region c), (''tenancy'', TenancyID c), (''user'', UserID c), (''key'', PrivateKey c),
     (''fingerprint'', Fingerprint c)]"

definition validateAuthConfig :: "(labels \<Rightarrow> labels) \<Rightarrow> authConfig option \<Rightarrow> string list \<Rightarrow> field_error list" where
  "validateAuthConfig order c path =
     (case c of None \<Rightarrow> [FieldRequired path]
      | Some c \<Rightarrow>
          List.map_filter (\<lambda>(fieldName, fieldValue).
            if fieldValue = '''' then
              Some (if fieldName = ''region'' then FieldInternal (path @ [fieldName]) else FieldRequired (path @ [fieldName]))
            else None) (order (checkFields c)))"

definition ValidateConfig :: "(labels \<Rightarrow> labels) \<Rightarrow> ociConfig \<Rightarrow> field_error list" where
  "ValidateConfig order c =
     (if CompartmentID c = '''' then [FieldInternal [''compartment'']] else []) @
     (if \<not> UseInstancePrincipals c then validateAuthConfig order (Some (Auth c)) [''auth''] else [])"

definition Validate_config :: "(labels \<Rightarrow> labels) \<Rightarrow> ociConfig \<Rightarrow> goerr option" where
  "Validate_config order c = (if ValidateConfig order c = [] then None else Some (Errorf ''invalid cloud-provider config''))"

text \<open>The configuration providers the SDK can make.\<close>

datatype 'p cfg_provider =
    RawProvider string string string string string "string option"
  | SdkProvider 'p

record 'p sdk_auth =
  sdk_InstancePrincipal :: "'p outcome"
  sdk_OkeWorkload :: "'p outcome"
  sdk_SessionToken :: "string \<Rightarrow> string \<Rightarrow> 'p"
  sdk_Default :: 'p

definition NewConfigurationProvider ::
  "(labels \<Rightarrow> labels) \<Rightarrow> 'p sdk_auth \<Rightarrow> ociConfig option \<Rightarrow> 'p cfg_provider outcome" where
  "NewConfigurationProvider order A cfg =
     (case cfg of
        None \<Rightarrow> Ret (SdkProvider (sdk_Default A))
      | Some c \<Rightarrow>
          (case Validate_config order c of
             Some e \<Rightarrow> Err (Wrapf ''invalid client config'' e)
           | None \<Rightarrow>
               if UseInstancePrincipals c then
                 omap_err (Wrapf ''failed to instantiate InstancePrincipalConfigurationProvider'')
                   (obind (sdk_InstancePrincipal A) (\<lambda>p. Ret (SdkProvider p)))
               else Ret (RawProvider (TenancyID (Auth c)) (UserID (Auth c)) (Region (Auth c)) (Fingerprint (Auth c))
                 (PrivateKey (Auth c)) (Some (PrivateKeyPassphrase (Auth c))))))"

text \<open>\<open>ReadConfig\<close> of a reader (\<open>None\<close> is nil) whose content the YAML decoder turns into a configuration.\<close>

definition ReadConfig :: "instanceMetadata outcome \<Rightarrow> ociConfig outcome option \<Rightarrow> ociConfig outcome" where
  "ReadConfig meta r =
     (case r of None \<Rightarrow> Err (Errorf ''no cloud-provider config file given'')
      | Some decoded \<Rightarrow>
          obind (omap_err (Wrapf ''unmarshalling cloud-provider config'') decoded) (\<lambda>cfg. Ret (Complete_config meta cfg)))"

definition FromFile ::
  "(string \<Rightarrow> ociConfig outcome outcome) \<Rightarrow> instanceMetadata outcome \<Rightarrow> string \<Rightarrow> ociConfig outcome" where
  "FromFile open_file meta path = obind (open_file path) (\<lambda>decoded. ReadConfig meta (Some decoded))"

section \<open>The retry policy\<close>

text \<open>Whether an operation is retried: the service error the SDK finds in the error, if any, and whether the SDK sees a
  network error.\<close>

record sdk_errors =
  sdk_IsServiceError :: "goerr \<Rightarrow> (int \<times> string) option"
  sdk_IsNetworkError :: "goerr \<Rightarrow> bool"

definition shouldRetryOperation :: "sdk_errors \<Rightarrow> goerr option \<Rightarrow> bool" where
  "shouldRetryOperation S e =
     (case e of None \<Rightarrow> False
      | Some e \<Rightarrow> (case sdk_IsServiceError S e of
            Some (st, code) \<Rightarrow> if st = 429 then True else if st = 409 then code = ''IncorrectState'' else False
          | None \<Rightarrow> sdk_IsNetworkError S e))"

record retryPolicy =
  rp_MaximumNumberAttempts :: nat
  rp_MaxBackoff :: int
  rp_BackoffBase :: rat
  rp_ShouldRetry :: "goerr option \<Rightarrow> bool"

definition defaultPolicy :: "sdk_errors \<Rightarrow> retryPolicy" where
  "defaultPolicy S = \<lparr>rp_MaximumNumberAttempts = 8, rp_MaxBackoff = 30 * second_ns, rp_BackoffBase = 2,
     rp_ShouldRetry = shouldRetryOperation S\<rparr>"

definition Default_policy :: "sdk_errors \<Rightarrow> retryPolicy" where
  "Default_policy S = defaultPolicy S"

definition SetGlobal :: "sdk_errors \<Rightarrow> retryPolicy option \<Rightarrow> retryPolicy option" where
  "SetGlobal S g = Some (Default_policy S)"

section \<open>Starting the operator\<close>

definition authByApiKey :: string where "authByApiKey = ''API_KEY''"
definition authByOke :: string where "authByOke = ''OKE''"
definition authBySession :: string where "authBySession = ''SESSION''"
definition authByInstancePrincipal :: string where "authByInstancePrincipal = ''INSTANCE_PRINCIPAL''"
definition configFilePath :: string where "configFilePath = ''/etc/oci/config.yaml''"

text \<open>\<open>lo.Must\<close> panics on an error.\<close>

definition lo_Must :: "'a outcome \<Rightarrow> 'a outcome" where
  "lo_Must x = (case x of Ret v \<Rightarrow> Ret v | Err e \<Rightarrow> Panic ''lo.Must'' | Panic s \<Rightarrow> Panic s)"

definition NewOCIProvisioner ::
  "(labels \<Rightarrow> labels) \<Rightarrow> 'p sdk_auth \<Rightarrow> (string \<Rightarrow> string option) \<Rightarrow> (string \<Rightarrow> ociConfig outcome outcome) \<Rightarrow>
   instanceMetadata outcome \<Rightarrow> instanceMetadata outcome \<Rightarrow> 'p cfg_provider outcome" where
  "NewOCIProvisioner order A lookup_env open_file meta1 meta2 =
     (let configPath = from_ptr configFilePath (lookup_env ''CONFIG_YAML_FILENAME'')
      in obind (omap_err (Wrapf ''failed to load configuration file'') (FromFile open_file meta1 configPath)) (\<lambda>cfg.
         case Validate_config order cfg of
           Some e \<Rightarrow> Err (Wrapf ''invalid configuration'' e)
         | None \<Rightarrow>
             obind (if CompartmentID cfg = '''' then
                      (case meta2 of Ret m \<Rightarrow> Ret (cfg\<lparr>CompartmentID := md_CompartmentID m\<rparr>)
                       | Err e \<Rightarrow> Err (Wrapf ''unable to get compartment OCID'' e)
                       | Panic s \<Rightarrow> Panic s)
                    else (case meta2 of Panic s \<Rightarrow> Panic s | _ \<Rightarrow> Ret cfg))
               (\<lambda>cfg. omap_err (Wrapf ''unable to create volume provisioner client.'')
                  (NewConfigurationProvider order A (Some cfg)))))"

text \<open>\<open>GetCABundle\<close>: the REST configuration (\<open>None\<close> is nil) gives a transport configuration, whose CA data the TLS loader
  fills in.\<close>

record rest_config =
  rest_TransportConfig :: "unit outcome"
  rest_TLSConfigFor :: "string outcome"

definition GetCABundle :: "options \<Rightarrow> rest_config option \<Rightarrow> string option outcome" where
  "GetCABundle opts rc =
     (if ClusterCABundle opts \<noteq> '''' then Ret (Some (ClusterCABundle opts))
      else case rc of None \<Rightarrow> Ret None
        | Some c \<Rightarrow>
            obind (omap_err (Wrapf ''discovering caBundle, loading transport config'') (rest_TransportConfig c)) (\<lambda>_.
            obind (omap_err (Wrapf ''discovering caBundle, loading TLS config'') (rest_TLSConfigFor c)) (\<lambda>ca.
              Ret (Some (EncodeToString ca)))))"

text \<open>What the operator hands to its providers.\<close>

record 'p operator_setup =
  op_ConfigProvider :: "'p cfg_provider"
  op_Options :: options
  op_Region :: string
  op_CABundle :: "string option"
  op_SubnetCacheTTL :: int
  op_SecurityGroupCacheTTL :: int
  op_ImageCacheTTL :: int
  op_InstanceTypeCacheTTL :: int
  op_CleanupInterval :: int

record 'p sdk_clients =
  cli_ListAvailabilityDomains :: "'p cfg_provider \<Rightarrow> string \<Rightarrow> string option list outcome"
  cli_Region :: "'p cfg_provider \<Rightarrow> string outcome"
  cli_NewIdentity :: "'p cfg_provider \<Rightarrow> unit outcome"
  cli_NewCompute :: "'p cfg_provider \<Rightarrow> unit outcome"
  cli_NewVirtualNetwork :: "'p cfg_provider \<Rightarrow> unit outcome"
  cli_CurrentUserHome :: "string outcome"

definition select_provider ::
  "'p sdk_auth \<Rightarrow> 'p sdk_clients \<Rightarrow> 'p cfg_provider outcome \<Rightarrow> string \<Rightarrow> 'p cfg_provider outcome" where
  "select_provider A C provisioner authMethod =
     (if authMethod = authByApiKey then lo_Must provisioner
      else if authMethod = authBySession then
        obind (lo_Must (cli_CurrentUserHome C)) (\<lambda>home.
          Ret (SdkProvider (sdk_SessionToken A (home @ ''/.oci/config'') ''SESSION'')))
      else if authMethod = authByInstancePrincipal then
        obind (lo_Must (sdk_InstancePrincipal A)) (\<lambda>p. Ret (SdkProvider p))
      else obind (lo_Must (sdk_OkeWorkload A)) (\<lambda>p. Ret (SdkProvider p)))"

definition NewOperator ::
  "'p sdk_auth \<Rightarrow> 'p sdk_clients \<Rightarrow> 'p cfg_provider outcome \<Rightarrow> rest_config option \<Rightarrow> options \<Rightarrow>
   'p operator_setup outcome" where
  "NewOperator A C provisioner rc opts =
     obind (select_provider A C provisioner (OciAuthMethods opts)) (\<lambda>cp.
     obind (lo_Must (cli_NewIdentity C cp)) (\<lambda>_.
     obind (lo_Must (cli_ListAvailabilityDomains C cp (CompartmentId opts))) (\<lambda>items.
     let opts' = opts\<lparr>AvailableDomains := concat (map (\<lambda>item. [ToString item]) items)\<rparr> in
     obind (lo_Must (cli_Region C cp)) (\<lambda>region.
     obind (lo_Must (cli_NewCompute C cp)) (\<lambda>_.
     obind (lo_Must (cli_NewVirtualNetwork C cp)) (\<lambda>_.
     obind (lo_Must (GetCABundle opts' rc)) (\<lambda>ca.
       Ret \<lparr>op_ConfigProvider = cp, op_Options = opts', op_Region = region, op_CABundle = ca,
            op_SubnetCacheTTL = DefaultTTL, op_SecurityGroupCacheTTL = DefaultTTL, op_ImageCacheTTL = DefaultTTL,
            op_InstanceTypeCacheTTL = InstanceTypesAndZonesTTL, op_CleanupInterval = DefaultCleanupInterval\<rparr>)))))))"

section \<open>Lemmas\<close>

text \<open>The order in which the map of checked fields is visited is any permutation of it.\<close>

definition map_order :: "(labels \<Rightarrow> labels) \<Rightarrow> bool" where
  "map_order order \<longleftrightarrow> (\<forall>m. mset (order m) = mset m)"

definition auth_fields_set :: "authConfig \<Rightarrow> bool" where
  "auth_fields_set c \<longleftrightarrow> Region c \<noteq> '''' \<and> TenancyID c \<noteq> '''' \<and> UserID c \<noteq> '''' \<and> PrivateKey c \<noteq> '''' \<and> Fingerprint c \<noteq> ''''"

lemma map_filter_Nil_iff: "List.map_filter f xs = [] \<longleftrightarrow> (\<forall>x \<in> set xs. f x = None)"
  by (induction xs) (auto simp: List.map_filter_def)

lemma set_map_order: "map_order order \<Longrightarrow> set (order m) = set m"
  unfolding map_order_def by (metis set_mset_mset)

lemma validateAuthConfig_Nil_iff:
  "map_order order \<Longrightarrow> validateAuthConfig order (Some c) path = [] \<longleftrightarrow> auth_fields_set c"
  by (auto simp: validateAuthConfig_def map_filter_Nil_iff set_map_order checkFields_def auth_fields_set_def)

lemma Validate_config_iff:
  "map_order order \<Longrightarrow> Validate_config order c = None \<longleftrightarrow>
     CompartmentID c \<noteq> '''' \<and> (UseInstancePrincipals c \<or> auth_fields_set (Auth c))"
  by (simp add: Validate_config_def ValidateConfig_def validateAuthConfig_Nil_iff)

lemma Complete_auth_fields:
  "TenancyID (Complete_auth meta c) = TenancyID c" "UserID (Complete_auth meta c) = UserID c"
  "PrivateKey (Complete_auth meta c) = PrivateKey c" "Fingerprint (Complete_auth meta c) = Fingerprint c"
  "PrivateKeyPassphrase (Complete_auth meta c) = PrivateKeyPassphrase c"
  "auth_UseInstancePrincipals (Complete_auth meta c) = auth_UseInstancePrincipals c"
  "Region (Complete_auth meta c) =
     (if Region c \<noteq> '''' then Region c else case meta of Ret m \<Rightarrow> md_CanonicalRegionName m | _ \<Rightarrow> '''')"
  "auth_CompartmentID (Complete_auth meta c) =
     (if auth_CompartmentID c \<noteq> '''' then auth_CompartmentID c else case meta of Ret m \<Rightarrow> md_CompartmentID m | _ \<Rightarrow> '''')"
  by (cases meta; simp add: Complete_auth_def Let_def)+

lemma Complete_config_fields:
  "Auth (Complete_config meta c) = Complete_auth meta (Auth c)"
  "UseInstancePrincipals (Complete_config meta c) \<longleftrightarrow> UseInstancePrincipals c \<or> auth_UseInstancePrincipals (Auth c)"
  "CompartmentID (Complete_config meta c) =
     (if CompartmentID c \<noteq> '''' then CompartmentID c else auth_CompartmentID (Complete_auth meta (Auth c)))"
  by (cases meta; simp add: Complete_config_def Let_def Complete_auth_fields)+

section \<open>Properties\<close>


definition sample_auth :: "unit sdk_auth" where
  "sample_auth = \<lparr>sdk_InstancePrincipal = Ret (), sdk_OkeWorkload = Ret (), sdk_SessionToken = \<lambda>_ _. (), sdk_Default = ()\<rparr>"

definition sample_config :: ociConfig where
  "sample_config = \<lparr>Auth = \<lparr>Region = ''us-ashburn-1'', TenancyID = ''t'', UserID = ''u'', PrivateKey = ''k'',
     Fingerprint = ''f'', Passphrase = ''secret'', auth_RegionKey = '''', auth_UseInstancePrincipals = False,
     auth_CompartmentID = ''ocid1.compartment.oc1..x'', PrivateKeyPassphrase = ''''\<rparr>, RateLimiter = None,
     RegionKey = ''iad'', UseInstancePrincipals = False, CompartmentID = ''''\<rparr>"


text \<open>The passphrase of the private key that reaches the SDK is the deprecated \<open>key_passphrase\<close> of the file; the field
  \<open>passphrase\<close> that replaces it, and that completion fills from the deprecated one, is never used.\<close>

theorem passphrase_ignored:
  "NewConfigurationProvider order A (Some (Complete_config meta (c\<lparr>Auth := (Auth c)\<lparr>Passphrase := p\<rparr>\<rparr>))) =
     NewConfigurationProvider order A (Some (Complete_config meta c)) \<and>
   (NewConfigurationProvider order A (Some (Complete_config meta c)) = Ret (RawProvider t u r f k w) \<longrightarrow>
     w = Some (PrivateKeyPassphrase (Auth c)))"
proof -
  let ?d = "c\<lparr>Auth := (Auth c)\<lparr>Passphrase := p\<rparr>\<rparr>"
  have v: "Validate_config order (Complete_config meta ?d) = Validate_config order (Complete_config meta c)"
    by (simp add: Validate_config_def ValidateConfig_def validateAuthConfig_def checkFields_def Complete_config_fields
        Complete_auth_fields)
  show ?thesis
    by (auto simp: NewConfigurationProvider_def v Complete_config_fields Complete_auth_fields obind_eq_Ret_iff
        split: option.split)
qed

theorem passphrase_ignored_witness:
  "\<exists>w. NewConfigurationProvider id sample_auth (Some (Complete_config (Err (NetworkError ''x'')) sample_config)) =
         Ret (RawProvider ''t'' ''u'' ''us-ashburn-1'' ''f'' ''k'' w) \<and> w = Some ''''"
  using passphrase_ignored [of id sample_auth "Err  (NetworkError ''x'')" "''other''" sample_config "''t''" "''u''" "''us-ashburn-1''" "''f''" "''k''" "Some ''''"]
  by (simp add: NewConfigurationProvider_def Validate_config_def ValidateConfig_def validateAuthConfig_def checkFields_def
      List.map_filter_def sample_config_def Complete_config_fields Complete_auth_fields)

text \<open>C40. The CA bundle is the configured one if there is one; else none without a REST configuration; else a text that decodes
  to exactly the CA data that the TLS loader filled in; and both loading errors are passed on, wrapped.\<close>

theorem GetCABundle_spec:
  "(case GetCABundle opts rc of
      Ret b \<Rightarrow>
        (if ClusterCABundle opts \<noteq> '''' then b = Some (ClusterCABundle opts)
         else case rc of None \<Rightarrow> b = None
           | Some c \<Rightarrow> rest_TransportConfig c = Ret () \<and> (\<exists>ca t. rest_TLSConfigFor c = Ret ca \<and> b = Some t \<and> DecodeString t = Some ca))
    | Err e \<Rightarrow> ClusterCABundle opts = '''' \<and> (\<exists>c m e'. rc = Some c \<and> e = Wrapf m e' \<and>
        (rest_TransportConfig c = Err e' \<or> rest_TLSConfigFor c = Err e'))
    | Panic s \<Rightarrow> ClusterCABundle opts = '''' \<and> (\<exists>c. rc = Some c \<and> (rest_TransportConfig c = Panic s \<or> rest_TLSConfigFor c = Panic s)))"
proof (cases "GetCABundle opts rc")
  case (Ret b)
  then show ?thesis
    by (auto simp: GetCABundle_def obind_eq_Ret_iff Decode_Encode split: if_splits option.splits)
next
  case (Err e)
  then show ?thesis
    by (auto simp: GetCABundle_def obind_eq_Err_iff omap_err_eq_Err_iff split: if_splits option.splits)
next
  case (Panic s)
  then have "ClusterCABundle opts = ''''" "rc \<noteq> None" by (auto simp: GetCABundle_def split: if_splits option.splits)
  then obtain c where c: "ClusterCABundle opts = ''''" "rc = Some c" by auto
  have "rest_TransportConfig c = Panic s \<or> rest_TLSConfigFor c = Panic s"
    using Panic c by (cases "rest_TransportConfig c"; cases "rest_TLSConfigFor c") (simp_all add: GetCABundle_def)
  with Panic c show ?thesis by simp
qed

end
