(* ===== verification/Bootstrap.thy ===== *)
theory Bootstrap
  imports Apis Options Base64
begin

text \<open>
  \<open>pkg/providers/imagefamily/bootstrap\<close>: the kubelet arguments and the three bootstrap scripts (OKE, Ubuntu, custom)
  that are passed to a new instance as user data.  \<open>url.Parse\<close>, the printing of taints and the MIME reader are
  parameters; the MIME writer, the templates and the quoting are modelled.  The Ubuntu script is built in shared
  variables of the package, so concurrent calls are modelled as a step relation over them.
\<close>

section \<open>Printing\<close>

abbreviation nl :: string where "nl \<equiv> [CHR 0x0A]"
abbreviation crlf :: string where "crlf \<equiv> [CHR 0x0D, CHR 0x0A]"
abbreviation bslash :: char where "bslash \<equiv> CHR 0x5C"

definition text_lines :: "string list \<Rightarrow> string" where
  "text_lines ls = concat (map (\<lambda>l. l @ nl) ls)"

text \<open>The verb \<open>%q\<close>: control characters, quotes and backslashes are escaped; characters outside ASCII are taken to be
  valid and printable, and are copied.\<close>

definition hex_digit :: "nat \<Rightarrow> char" where
  "hex_digit n = char_of (if n < 10 then 48 + n else 87 + n)"

definition quote_char :: "char \<Rightarrow> string" where
  "quote_char c = (let n = of_char c :: nat in
     if n = 0x22 \<or> n = 0x5C then [bslash, c]
     else if n = 7 then [bslash, CHR ''a''] else if n = 8 then [bslash, CHR ''b'']
     else if n = 12 then [bslash, CHR ''f''] else if n = 10 then [bslash, CHR ''n'']
     else if n = 13 then [bslash, CHR ''r''] else if n = 9 then [bslash, CHR ''t'']
     else if n = 11 then [bslash, CHR ''v'']
     else if n < 32 \<or> n = 127 then [bslash, CHR ''x'', hex_digit (n div 16), hex_digit (n mod 16)]
     else [c])"

definition go_quote :: "string \<Rightarrow> string" where
  "go_quote s = [CHR 0x22] @ concat (map quote_char s) @ [CHR 0x22]"

text \<open>\<open>time.Duration.String\<close>, of nanoseconds: the fraction loses its trailing zeros.\<close>

definition pad_nat :: "nat \<Rightarrow> nat \<Rightarrow> string" where
  "pad_nat w n = replicate (w - length (show_nat n)) CHR ''0'' @ show_nat n"

definition frac_str :: "nat \<Rightarrow> nat \<Rightarrow> string" where
  "frac_str w n = (let d = rev (dropWhile (\<lambda>c. c = CHR ''0'') (rev (pad_nat w n)))
     in if d = [] then [] else CHR ''.'' # d)"

definition duration_String :: "int \<Rightarrow> string" where
  "duration_String d = (let u = nat \<bar>d\<bar>; sign = (if d < 0 then ''-'' else '''') in
     if u = 0 then ''0s''
     else if u < 1000 then sign @ show_nat u @ ''ns''
     else if u < 1000000 then sign @ show_nat (u div 1000) @ frac_str 3 (u mod 1000) @ [CHR 0xC2, CHR 0xB5] @ ''s''
     else if u < 1000000000 then sign @ show_nat (u div 1000000) @ frac_str 6 (u mod 1000000) @ ''ms''
     else let w = u div 1000000000; m = w div 60; h = m div 60
          in sign @ (if m > 0 then (if h > 0 then show_nat h @ ''h'' else '''') @ show_nat (m mod 60) @ ''m'' else '''') @
             show_nat (w mod 60) @ frac_str 9 (u mod 1000000000) @ ''s'')"

section \<open>Kubelet arguments\<close>

record bootOptions =
  bo_ClusterName :: string
  bo_ClusterEndpoint :: string
  bo_ClusterDns :: string
  bo_KubeletConfig :: "kubeletConfiguration option"
  bo_Taints :: "taint list"
  bo_Labels :: labels
  bo_CABundle :: "string option"
  bo_BootstrapToken :: string
  bo_CustomUserData :: "string option"
  bo_PreInstallScript :: "string option"

definition nodeTaintArg :: "(taint \<Rightarrow> string) \<Rightarrow> bootOptions \<Rightarrow> string" where
  "nodeTaintArg taint_ToString o' =
     (if bo_Taints o' = [] then ''''
      else ''--register-with-taints='' @ go_quote (join_str '','' (map taint_ToString (bo_Taints o'))))"

definition nodeLabelArg :: "bootOptions \<Rightarrow> string" where
  "nodeLabelArg o' =
     (if bo_Labels o' = [] then ''''
      else let keys = sort (map fst (bo_Labels o'))
           in ''--node-labels='' @ go_quote (join_str '','' (map (\<lambda>k. k @ ''='' @ mget (bo_Labels o') k) keys)))"

definition joinParameterArgs :: "string \<Rightarrow> labels \<Rightarrow> string \<Rightarrow> string" where
  "joinParameterArgs name m separator =
     (let args = map (\<lambda>(k, v). k @ separator @ v) m
      in if args \<noteq> [] then name @ ''='' @ go_quote (join_str '','' args) else '''')"

definition int_arg :: "string \<Rightarrow> int option \<Rightarrow> string list" where
  "int_arg name v = (case v of None \<Rightarrow> [] | Some n \<Rightarrow> [name @ ''='' @ show_int n])"

definition kubeletExtraArgs :: "(taint \<Rightarrow> string) \<Rightarrow> bootOptions \<Rightarrow> string list" where
  "kubeletExtraArgs taint_ToString o' =
     (let args = [nodeLabelArg o', nodeTaintArg taint_ToString o']
      in case bo_KubeletConfig o' of
           None \<Rightarrow> lo_compact args
         | Some kc \<Rightarrow> lo_compact (args @
             int_arg ''--max-pods'' (MaxPods kc) @
             int_arg ''--pods-per-core'' (PodsPerCore kc) @
             [joinParameterArgs ''--system-reserved'' (from_ptr [] (SystemReserved kc)) ''='',
              joinParameterArgs ''--kube-reserved'' (KubeReserved kc) ''='',
              joinParameterArgs ''--eviction-hard'' (EvictionHard kc) ''<'',
              joinParameterArgs ''--eviction-soft'' (EvictionSoft kc) ''<'',
              joinParameterArgs ''--eviction-soft-grace-period''
                (map (\<lambda>(k, d). (k, duration_String d)) (EvictionSoftGracePeriod kc)) ''=''] @
             int_arg ''--eviction-max-pod-grace-period'' (EvictionMaxPodGracePeriod kc) @
             int_arg ''--image-gc-high-threshold'' (ImageGCHighThresholdPercent kc) @
             int_arg ''--image-gc-low-threshold'' (ImageGCLowThresholdPercent kc) @
             (case CPUCFSQuota kc of None \<Rightarrow> [] | Some b \<Rightarrow> [''--cpu-cfs-quota='' @ show_bool b])))"

text \<open>The tail that the OKE and the Ubuntu script share: extra arguments, then the cluster DNS.\<close>

definition install_args :: "(taint \<Rightarrow> string) \<Rightarrow> bootOptions \<Rightarrow> string" where
  "install_args taint_ToString o' =
     (let args = kubeletExtraArgs taint_ToString o'
      in (if args \<noteq> [] then '' '' @ [bslash] @ nl @ ''--kubelet-extra-args '' @ [CHR 0x27] @ join_str '' '' args @ [CHR 0x27] else '''') @
         (case bo_KubeletConfig o' of
            Some kc \<Rightarrow>
              (if ClusterDNS kc \<noteq> [] then '' '' @ [bslash] @ nl @ ''--cluster-dns '' @ [CHR 0x27] @ hd (ClusterDNS kc) @ [CHR 0x27]
               else if bo_ClusterDns o' \<noteq> '''' then '' '' @ [bslash] @ nl @ ''--cluster-dns '' @ [CHR 0x27] @ bo_ClusterDns o' @ [CHR 0x27] else '''')
          | None \<Rightarrow>
              (if bo_ClusterDns o' \<noteq> '''' then '' '' @ [bslash] @ nl @ ''--cluster-dns '' @ [CHR 0x27] @ bo_ClusterDns o' @ [CHR 0x27] else '''')))"

definition ca_arg :: "bootOptions \<Rightarrow> string" where
  "ca_arg o' = (case bo_CABundle o' of None \<Rightarrow> '''' | Some ca \<Rightarrow> ''--kubelet-ca-cert '' @ [CHR 0x27] @ ca @ [CHR 0x27])"

section \<open>The custom script\<close>

definition Script_Custom :: "bootOptions \<Rightarrow> string outcome" where
  "Script_Custom c = Ret (EncodeToString (from_ptr '''' (bo_CustomUserData c)))"

section \<open>The OKE script\<close>

definition Boundary :: string where "Boundary = ''//''"
definition MIMEVersionHeader :: string where "MIMEVersionHeader = ''MIME-Version: 1.0''"
definition MIMEContentTypeHeaderTemplate :: "string \<Rightarrow> string" where
  "MIMEContentTypeHeaderTemplate b = ''Content-Type: multipart/mixed; boundary='' @ [CHR 0x22] @ b @ [CHR 0x22]"

type_synonym mime_header = "(string, string list) gomap"

text \<open>\<open>multipart.Writer\<close>: its boundary, whether a part is open, and the buffer it writes to.\<close>

record mwriter =
  mw_boundary :: string
  mw_open :: bool
  mw_out :: string

definition boundary_char :: "char \<Rightarrow> bool" where
  "boundary_char c \<longleftrightarrow> is_alnum c \<or> c \<in> {CHR 0x27, CHR ''('', CHR '')'', CHR ''+'', CHR ''_'', CHR '','', CHR ''-'',
     CHR ''.'', CHR ''/'', CHR '':'', CHR ''='', CHR ''?''}"

definition SetBoundary :: "string \<Rightarrow> mwriter \<Rightarrow> mwriter outcome" where
  "SetBoundary b w =
     (if mw_open w then Err (Errorf ''mime: SetBoundary called after write'')
      else if length b < 1 \<or> 70 < length b then Err (Errorf ''mime: invalid boundary length'')
      else if list_all (\<lambda>c. boundary_char c \<or> c = CHR '' '') (butlast b) \<and> boundary_char (last b)
      then Ret (w\<lparr>mw_boundary := b\<rparr>) else Err (Errorf ''mime: invalid boundary character''))"

definition header_lines :: "mime_header \<Rightarrow> string" where
  "header_lines h = concat (map (\<lambda>k. concat (map (\<lambda>v. k @ '': '' @ v @ crlf) (from_ptr [] (map_of h k)))) (sort (map fst h)))"

definition CreatePart :: "mime_header \<Rightarrow> mwriter \<Rightarrow> mwriter" where
  "CreatePart h w = w\<lparr>mw_open := True,
     mw_out := mw_out w @ (if mw_open w then crlf else []) @ ''--'' @ mw_boundary w @ crlf @ header_lines h @ crlf\<rparr>"

definition write_mw :: "string \<Rightarrow> mwriter \<Rightarrow> mwriter" where
  "write_mw s w = w\<lparr>mw_out := mw_out w @ s\<rparr>"

definition Close_mw :: "mwriter \<Rightarrow> mwriter" where
  "Close_mw w = w\<lparr>mw_open := False, mw_out := mw_out w @ crlf @ ''--'' @ mw_boundary w @ ''--'' @ crlf\<rparr>"

text \<open>The reading side of Go's mail and MIME packages: a message gives its \<open>Content-Type\<close> header and its body; a media type
  its type and parameters; a multipart body with a boundary its parts in order (header and what reading the part
  gives) and the error that ends them, if it is not the end of the file.\<close>

record mime_ops =
  mail_ReadMessage :: "string \<Rightarrow> (string \<times> string) outcome"
  mime_ParseMediaType :: "string \<Rightarrow> (string \<times> labels) outcome"
  multipart_Parts :: "string \<Rightarrow> string \<Rightarrow> (mime_header \<times> string outcome) list \<times> goerr option"

definition shell_header :: mime_header where
  "shell_header = [(''Content-Type'', [''text/x-shellscript; charset='' @ [CHR 0x22] @ ''us-ascii'' @ [CHR 0x22]])]"

text \<open>\<open>rb\<close> is the random boundary of a new writer; writing to a buffer does not fail.\<close>

definition mimeify :: "string \<Rightarrow> string \<Rightarrow> string outcome" where
  "mimeify rb customUserData =
     (if has_prefix (trim_space customUserData) ''MIME-Version:'' \<or> has_prefix (trim_space customUserData) ''Content-Type:''
      then Ret customUserData
      else Ret (mw_out (Close_mw (write_mw customUserData (CreatePart shell_header
        \<lparr>mw_boundary = rb, mw_open = False, mw_out = MIMEVersionHeader @ nl @ MIMEContentTypeHeaderTemplate rb @ nl @ nl\<rparr>)))))"

definition getMultiPartReader :: "mime_ops \<Rightarrow> string \<Rightarrow> ((mime_header \<times> string outcome) list \<times> goerr option) outcome" where
  "getMultiPartReader M userData =
     obind (omap_err (Wrapf ''unreadable user data'') (mail_ReadMessage M userData)) (\<lambda>(ct, body).
     obind (omap_err (Wrapf ''user data does not define a content-type header'') (mime_ParseMediaType M ct)) (\<lambda>(mt, params).
       if \<not> has_prefix mt ''multipart/'' then Err (Errorf ''user data is not in multipart MIME format'')
       else Ret (multipart_Parts M body (mget params ''boundary''))))"

fun copy_parts :: "(mime_header \<times> string outcome) list \<Rightarrow> goerr option \<Rightarrow> mwriter \<Rightarrow> mwriter outcome" where
  "copy_parts [] e w = (case e of None \<Rightarrow> Ret w | Some e \<Rightarrow> Err (Wrapf ''parsing custom user data input'' e))"
| "copy_parts ((h, body) # ps) e w =
     obind (omap_err (Wrapf ''parsing custom user data input'') body) (\<lambda>slurp.
       copy_parts ps e (write_mw slurp (CreatePart h w)))"

definition copyCustomUserDataParts :: "mime_ops \<Rightarrow> mwriter \<Rightarrow> string \<Rightarrow> mwriter outcome" where
  "copyCustomUserDataParts M w customUserData =
     (if customUserData = '''' then Ret w
      else obind (omap_err (Wrapf ''parsing custom user data input'') (getMultiPartReader M customUserData)) (\<lambda>(ps, e).
        copy_parts ps e w))"

text \<open>The random boundaries of the parts are given as a list, one for each.\<close>

fun merge_parts :: "mime_ops \<Rightarrow> (string \<times> string) list \<Rightarrow> mwriter \<Rightarrow> mwriter outcome" where
  "merge_parts M [] w = Ret w"
| "merge_parts M ((rb, u) # us) w =
     obind (mimeify rb u) (\<lambda>m. obind (copyCustomUserDataParts M w m) (merge_parts M us))"

definition mergeCustomUserData :: "mime_ops \<Rightarrow> (string \<times> string) list \<Rightarrow> string outcome" where
  "mergeCustomUserData M userDatas =
     obind (omap_err (Wrapf ''defining boundary for merged user data'')
        (SetBoundary Boundary \<lparr>mw_boundary = '''', mw_open = False, mw_out = []\<rparr>)) (\<lambda>w.
     obind (merge_parts M userDatas (write_mw (MIMEVersionHeader @ nl @ MIMEContentTypeHeaderTemplate Boundary @ nl @ nl) w)) (\<lambda>w.
       Ret (mw_out (Close_mw w))))"

definition okeBootstrapScript :: "(string \<Rightarrow> url option) \<Rightarrow> (taint \<Rightarrow> string) \<Rightarrow> bootOptions \<Rightarrow> string outcome" where
  "okeBootstrapScript parse_url taint_ToString e =
     obind (deref (parse_url (bo_ClusterEndpoint e))) (\<lambda>u.
       Ret (''#!/bin/bash -xe'' @ nl @
         ''bash /etc/oke/oke-install.sh --apiserver-endpoint '' @ [CHR 0x27] @ url_Hostname u @ [CHR 0x27] @ '' '' @ ca_arg e @
         install_args taint_ToString e))"

definition Script_OKE ::
  "mime_ops \<Rightarrow> (string \<Rightarrow> url option) \<Rightarrow> (taint \<Rightarrow> string) \<Rightarrow> string \<times> string \<Rightarrow> bootOptions \<Rightarrow> string outcome" where
  "Script_OKE M parse_url taint_ToString rbs e =
     obind (okeBootstrapScript parse_url taint_ToString e) (\<lambda>script.
     obind (mergeCustomUserData M (zip [fst rbs, snd rbs] (lo_compact [from_ptr '''' (bo_CustomUserData e), script]))) (\<lambda>userData.
       Ret (EncodeToString (replace_byte CHR 0x0D '''' userData))))"

section \<open>The Ubuntu script\<close>

record nodeBootstrapVariables =
  nbv_NeedsCgroupV2 :: bool
  nbv_ClusterEndpoint :: string
  nbv_CABundle :: string
  nbv_BootstrapToken :: string
  nbv_UserData :: "string option"
  nbv_PreInstallScript :: "string option"
  nbv_KubeletConfigFile :: string
  nbv_BootstrapKubeconfigFile :: string
  nbv_ContainerRuntimeEndpoint :: string
  nbv_KubeConfigFile :: string
  nbv_LogLevel :: string

definition staticNodeBootstrapVars :: nodeBootstrapVariables where
  "staticNodeBootstrapVars = \<lparr>nbv_NeedsCgroupV2 = True, nbv_ClusterEndpoint = '''', nbv_CABundle = '''',
     nbv_BootstrapToken = '''', nbv_UserData = None, nbv_PreInstallScript = None,
     nbv_KubeletConfigFile = ''/etc/kubernetes/kubelet-config.json'',
     nbv_BootstrapKubeconfigFile = ''/etc/kubernetes/bootstrap-kubelet.conf'',
     nbv_ContainerRuntimeEndpoint = ''unix:///run/containerd/containerd.sock'',
     nbv_KubeConfigFile = ''/etc/kubernetes/kubelet.conf'', nbv_LogLevel = ''2''\<rparr>"

text \<open>The four embedded templates, executed on the variables.\<close>

definition bootstrapKubeletTemplate :: "nodeBootstrapVariables \<Rightarrow> string" where
  \<open>bootstrapKubeletTemplate nbv = text_lines [
     ''apiVersion: v1'',
     ''clusters:'',
     ''- cluster:'',
     ''    certificate-authority-data: '' @ nbv_CABundle nbv,
     ''    server: '' @ nbv_ClusterEndpoint nbv,
     ''  name: bootstrap'',
     ''contexts:'',
     ''- context:'',
     ''    cluster: bootstrap'',
     ''    user: bootstrap'',
     ''  name: bootstrap'',
     ''current-context: bootstrap'',
     ''kind: Config'',
     ''preferences: {}'',
     ''users:'',
     ''- name: bootstrap'',
     ''  user:'',
     ''    token: '' @ nbv_BootstrapToken nbv]\<close>

definition containerdConfigTemplate :: "nodeBootstrapVariables \<Rightarrow> string" where
  \<open>containerdConfigTemplate nbv = join_str [CHR 0x0A] [
     ''version = 2'',
     ''root = "/var/lib/containerd"'',
     ''state = "/run/containerd"'',
     ''oom_score = 0'',
     '''',
     ''[grpc]'',
     ''  max_recv_message_size = 16777216'',
     ''  max_send_message_size = 16777216'',
     '''',
     ''[debug]'',
     ''  level = "info"'',
     '''',
     ''[metrics]'',
     ''  address = "127.0.0.1:1338"'',
     ''  grpc_histogram = true'',
     '''',
     '''',
     ''[plugins."io.containerd.grpc.v1.cri"]'',
     ''  sandbox_image = "registry.k8s.io/pause:3.9"'',
     ''  max_container_log_line_size = -1'',
     ''  enable_unprivileged_ports = false'',
     ''  enable_unprivileged_icmp = false'',
     ''  [plugins."io.containerd.grpc.v1.cri".containerd]'',
     ''    default_runtime_name = "runc"'',
     ''    snapshotter = "overlayfs"'',
     ''    [plugins."io.containerd.grpc.v1.cri".containerd.runtimes.runc]'',
     ''      runtime_type = "io.containerd.runc.v2"'',
     ''    [plugins."io.containerd.grpc.v1.cri".containerd.runtimes.runc.options]'',
     ''      BinaryName = "/usr/bin/runc"''] @
     (if nbv_NeedsCgroupV2 nbv then [CHR 0x0A] @ ''      SystemdCgroup = true'' else []) @ [CHR 0x0A] @ text_lines [
     ''  [plugins."io.containerd.grpc.v1.cri".registry]'',
     ''    [plugins."io.containerd.grpc.v1.cri".registry.mirrors]'',
     ''      [plugins."io.containerd.grpc.v1.cri".registry.mirrors."docker.io"]'',
     ''        endpoint = ["https://registry-1.docker.io"]'']\<close>

definition kubeletConfigTextTemplate :: "nodeBootstrapVariables \<Rightarrow> string" where
  \<open>kubeletConfigTextTemplate nbv = text_lines [
     ''{'',
     ''  "apiVersion": "kubelet.config.k8s.io/v1beta1",'',
     ''  "authentication": {'',
     ''    "anonymous": {'',
     ''      "enabled": false'',
     ''    },'',
     ''    "x509": {'',
     ''      "clientCAFile": "/etc/kubernetes/ca.crt"'',
     ''    }'',
     ''  },'',
     ''  "systemReservedCgroup": "/system.slice",'',
     ''  "kubeReservedCgroup": "/system.slice/kubelet.service",'',
     ''  "cgroupDriver": "systemd",'',
     ''  "clusterDomain": "cluster.local",'',
     ''  "containerLogMaxFiles": 10,'',
     ''  "containerLogMaxSize": "20Mi",'',
     ''  "enableControllerAttachDetach": true,'',
     ''  "eventRecordQPS": 50,'',
     ''  "evictionPressureTransitionPeriod": "5m",'',
     ''  "kind": "KubeletConfiguration",'',
     ''  "protectKernelDefaults": false,'',
     ''  "readOnlyPort": 0,'',
     ''  "rotateCertificates": true,'',
     ''  "runtimeRequestTimeout": "2m",'',
     ''  "serializeImagePulls": false'',
     ''}'']\<close>

definition kubeletServiceTextTemplate :: "nodeBootstrapVariables \<Rightarrow> string" where
  \<open>kubeletServiceTextTemplate nbv = text_lines [
     ''[Unit]'',
     ''Description=Kubernetes Kubelet'',
     ''After=containerd.service'',
     ''Requires=containerd.service'',
     '''',
     ''[Service]'',
     ''ExecStart=/usr/bin/kubelet '' @ [CHR 0x5C],
     ''--config '' @ nbv_KubeletConfigFile nbv @ '' '' @ [CHR 0x5C],
     ''--bootstrap-kubeconfig '' @ nbv_BootstrapKubeconfigFile nbv @ '' '' @ [CHR 0x5C],
     ''--container-runtime-endpoint '' @ nbv_ContainerRuntimeEndpoint nbv @ '' '' @ [CHR 0x5C],
     ''--kubeconfig '' @ nbv_KubeConfigFile nbv @ '' '' @ [CHR 0x5C],
     ''--v '' @ nbv_LogLevel nbv @ '' '' @ [CHR 0x5C],
     ''$KUBELET_DEFAULT_ARGS $KUBELET_EXTRA_ARGS'',
     '''',
     '''',
     ''Restart=always'',
     ''# Configures the time to sleep before restarting a service. Restarts are rate-limited'',
     ''# by default to 5 tries in 10s (see DefaultStartLimitInterval=10s and DefaultStartLimitBurst=5'',
     ''# in /etc/systemd/system.conf.'',
     ''RestartSec=10'',
     '''',
     ''[Install]'',
     ''WantedBy=multi-user.target'']\<close>

text \<open>A here-document of the script.\<close>

definition heredoc :: "string \<Rightarrow> string \<Rightarrow> string" where
  "heredoc path content = ''cat << '' @ [CHR 0x27] @ ''EOF'' @ [CHR 0x27] @ '' > '' @ path @ nl @ content @ nl @ ''EOF'' @ nl"

definition applyOptions :: "bootOptions \<Rightarrow> nodeBootstrapVariables \<Rightarrow> nodeBootstrapVariables outcome" where
  "applyOptions c nbv =
     obind (deref (bo_CABundle c)) (\<lambda>ca.
       Ret (nbv\<lparr>nbv_ClusterEndpoint := bo_ClusterEndpoint c, nbv_CABundle := ca,
         nbv_BootstrapToken := bo_BootstrapToken c, nbv_UserData := bo_CustomUserData c,
         nbv_PreInstallScript := bo_PreInstallScript c\<rparr>))"

definition createKubeletInstall :: "nodeBootstrapVariables \<Rightarrow> string outcome" where
  "createKubeletInstall nbv =
     obind (deref (nbv_PreInstallScript nbv)) (\<lambda>s.
       Ret (heredoc ''/etc/self-k8s/kubelet-install.sh'' s @
         ''bash /etc/self-k8s/kubelet-install.sh > /etc/self-k8s/kubelet-install.log'' @ nl))"

definition createBootstrapScript :: "nodeBootstrapVariables \<Rightarrow> string outcome" where
  "createBootstrapScript nbv =
     obind (deref (nbv_UserData nbv)) (\<lambda>s. Ret (heredoc ''/etc/self-k8s/k8s-install.sh'' s))"

definition createKubeletConfig :: "nodeBootstrapVariables \<Rightarrow> string outcome" where
  "createKubeletConfig nbv = Ret (heredoc ''/etc/kubernetes/kubelet-config.json'' (kubeletConfigTextTemplate nbv))"

definition createKubeletService :: "nodeBootstrapVariables \<Rightarrow> string outcome" where
  "createKubeletService nbv = Ret (heredoc ''/etc/systemd/system/kubelet.service'' (kubeletServiceTextTemplate nbv))"

definition createKubeletBootstrapConfig :: "nodeBootstrapVariables \<Rightarrow> string outcome" where
  "createKubeletBootstrapConfig nbv = Ret (heredoc ''/etc/kubernetes/bootstrap-kubelet.conf'' (bootstrapKubeletTemplate nbv))"

definition createContainerdConfig :: "nodeBootstrapVariables \<Rightarrow> string outcome" where
  "createContainerdConfig nbv = Ret (heredoc ''/etc/containerd/config.toml'' (containerdConfigTemplate nbv))"

text \<open>The pieces of the script in order, each with what it reads from the shared variables at the moment it is written.\<close>

definition ubuntu_pieces ::
  "(string \<Rightarrow> url option) \<Rightarrow> (taint \<Rightarrow> string) \<Rightarrow> bootOptions \<Rightarrow> (nodeBootstrapVariables \<Rightarrow> string outcome) list" where
  "ubuntu_pieces parse_url taint_ToString c =
     [\<lambda>nbv. Ret (''#!/bin/bash'' @ nl @ ''mkdir -p '' @ go_quote ''/etc/self-k8s'' @ nl @ ''mkdir -p '' @ go_quote ''/etc/kubernetes'' @ nl)] @
     (if bo_PreInstallScript c \<noteq> None then [createKubeletInstall] else []) @
     [createBootstrapScript, createKubeletConfig, createKubeletBootstrapConfig, createKubeletService,
      createContainerdConfig,
      \<lambda>nbv. obind (deref (parse_url (bo_ClusterEndpoint c))) (\<lambda>u.
        Ret (''bash /etc/self-k8s/k8s-install.sh --apiserver-endpoint '' @ [CHR 0x27] @ url_Hostname u @ [CHR 0x27] @ '' '' @ ca_arg c @
          install_args taint_ToString c @ '' '' @ [bslash] @ nl @ ''> /etc/self-k8s/k8s-install.log'' @ nl))]"

fun write_pieces :: "(nodeBootstrapVariables \<Rightarrow> string outcome) list \<Rightarrow> nodeBootstrapVariables \<Rightarrow> string outcome" where
  "write_pieces [] nbv = Ret ''''"
| "write_pieces (p # ps) nbv = obind (p nbv) (\<lambda>s. obind (write_pieces ps nbv) (\<lambda>r. Ret (s @ r)))"

text \<open>One call that no other call disturbs: the script and the shared variables it leaves.\<close>

definition customBootstrapScript ::
  "(string \<Rightarrow> url option) \<Rightarrow> (taint \<Rightarrow> string) \<Rightarrow> bootOptions \<Rightarrow> nodeBootstrapVariables \<Rightarrow> string outcome" where
  "customBootstrapScript parse_url taint_ToString c shared =
     obind (applyOptions c shared) (write_pieces (ubuntu_pieces parse_url taint_ToString c))"

definition Script_Ubuntu ::
  "(string \<Rightarrow> url option) \<Rightarrow> (taint \<Rightarrow> string) \<Rightarrow> bootOptions \<Rightarrow> nodeBootstrapVariables \<Rightarrow> string outcome" where
  "Script_Ubuntu parse_url taint_ToString c shared =
     obind (customBootstrapScript parse_url taint_ToString c shared) (\<lambda>cbs. Ret (EncodeToString cbs))"

subsection \<open>Concurrent calls\<close>

text \<open>A call is about to start, is writing its script (the pieces left and the text so far), or has ended.  Every step
  works on the one set of variables of the package.\<close>

datatype ubuntu_call =
    Starting bootOptions
  | Writing bootOptions "(nodeBootstrapVariables \<Rightarrow> string outcome) list" string
  | Ended bootOptions "string outcome"

fun call_step ::
  "(string \<Rightarrow> url option) \<Rightarrow> (taint \<Rightarrow> string) \<Rightarrow> ubuntu_call \<Rightarrow> nodeBootstrapVariables \<Rightarrow> ubuntu_call \<times> nodeBootstrapVariables" where
  "call_step pu tts (Starting c) nbv =
     (case applyOptions c nbv of
        Ret nbv' \<Rightarrow> (Writing c (ubuntu_pieces pu tts c) '''', nbv') | Err e \<Rightarrow> (Ended c (Err e), nbv)
      | Panic s \<Rightarrow> (Ended c (Panic s), nbv\<lparr>nbv_ClusterEndpoint := bo_ClusterEndpoint c\<rparr>))"
| "call_step pu tts (Writing c [] out) nbv = (Ended c (Ret out), nbv)"
| "call_step pu tts (Writing c (p # ps) out) nbv =
     (case p nbv of Ret s \<Rightarrow> (Writing c ps (out @ s), nbv) | Err e \<Rightarrow> (Ended c (Err e), nbv) | Panic s \<Rightarrow> (Ended c (Panic s), nbv))"
| "call_step pu tts (Ended c r) nbv = (Ended c r, nbv)"

inductive calls_step ::
  "(string \<Rightarrow> url option) \<Rightarrow> (taint \<Rightarrow> string) \<Rightarrow> ubuntu_call list \<times> nodeBootstrapVariables \<Rightarrow>
   ubuntu_call list \<times> nodeBootstrapVariables \<Rightarrow> bool"
  for pu tts where
  step: "i < length cs \<Longrightarrow> call_step pu tts (cs ! i) nbv = (c', nbv') \<Longrightarrow> calls_step pu tts (cs, nbv) (cs[i := c'], nbv')"

inductive_cases calls_stepE: "calls_step pu tts s t"

definition calls_reach ::
  "(string \<Rightarrow> url option) \<Rightarrow> (taint \<Rightarrow> string) \<Rightarrow> bootOptions list \<Rightarrow> ubuntu_call list \<times> nodeBootstrapVariables \<Rightarrow> bool" where
  "calls_reach pu tts opts s = (calls_step pu tts)\<^sup>*\<^sup>* (map Starting opts, staticNodeBootstrapVars) s"

text \<open>A schedule names the call that makes each step.\<close>

fun run_schedule ::
  "(string \<Rightarrow> url option) \<Rightarrow> (taint \<Rightarrow> string) \<Rightarrow> nat list \<Rightarrow> ubuntu_call list \<times> nodeBootstrapVariables \<Rightarrow>
   ubuntu_call list \<times> nodeBootstrapVariables" where
  "run_schedule pu tts [] s = s"
| "run_schedule pu tts (i # is) (cs, nbv) =
     (if i < length cs then (case call_step pu tts (cs ! i) nbv of (c', nbv') \<Rightarrow> run_schedule pu tts is (cs[i := c'], nbv'))
      else run_schedule pu tts is (cs, nbv))"

section \<open>Lemmas\<close>

lemma lo_compact_nonempty: "s \<in> set (lo_compact xs) \<Longrightarrow> s \<noteq> ''''"
  by (simp add: lo_compact_def)

lemma write_pieces_Ret_iff:
  "(\<exists>s. write_pieces ps nbv = Ret s) \<longleftrightarrow> (\<forall>p \<in> set ps. \<exists>s. p nbv = Ret s)"
proof (induction ps)
  case (Cons p ps)
  show ?case
  proof (cases "p nbv")
    case (Ret s)
    then show ?thesis using Cons by (cases "write_pieces ps nbv") auto
  qed auto
qed simp

lemma write_pieces_no_Err: "(\<And>p e. p \<in> set ps \<Longrightarrow> p nbv \<noteq> Err e) \<Longrightarrow> write_pieces ps nbv \<noteq> Err e"
proof (induction ps)
  case (Cons p ps)
  then show ?case by (cases "p nbv") (auto simp: obind_eq_Err_iff)
qed simp

lemma write_pieces_contains:
  "write_pieces ps nbv = Ret w \<Longrightarrow> p \<in> set ps \<Longrightarrow> p nbv = Ret s \<Longrightarrow> str_contains w s"
  by (induction ps arbitrary: w) (auto simp: obind_eq_Ret_iff str_contains_append1 str_contains_append2)

lemma ubuntu_script_installs:
  assumes "write_pieces (ubuntu_pieces pu tts c) nbv = Ret w" and "nbv_UserData nbv = Some u"
  shows "str_contains w (heredoc ''/etc/self-k8s/k8s-install.sh'' u)"
  by (rule write_pieces_contains [OF assms(1), of createBootstrapScript])
     (simp_all add: ubuntu_pieces_def createBootstrapScript_def assms(2))

lemmas piece_defs = createKubeletInstall_def createBootstrapScript_def createKubeletConfig_def
  createKubeletService_def createKubeletBootstrapConfig_def createContainerdConfig_def

lemma deref_Ret_iff: "deref p = Ret x \<longleftrightarrow> p = Some x"
  by (cases p) auto

lemma deref_no_Err: "deref p \<noteq> Err e"
  by (cases p) auto

lemma ubuntu_pieces_Ret_iff:
  "(\<exists>s. write_pieces (ubuntu_pieces pu tts c) nbv = Ret s) \<longleftrightarrow>
     (bo_PreInstallScript c = None \<or> nbv_PreInstallScript nbv \<noteq> None) \<and> nbv_UserData nbv \<noteq> None \<and> pu (bo_ClusterEndpoint c) \<noteq> None"
  unfolding write_pieces_Ret_iff
  by (auto simp: ubuntu_pieces_def piece_defs obind_eq_Ret_iff deref_Ret_iff)

text \<open>Once a call has written its options, what the variables held before does not matter.\<close>

definition static_eq :: "nodeBootstrapVariables \<Rightarrow> nodeBootstrapVariables \<Rightarrow> bool" where
  "static_eq a b \<longleftrightarrow> nbv_NeedsCgroupV2 a = nbv_NeedsCgroupV2 b \<and> nbv_KubeletConfigFile a = nbv_KubeletConfigFile b \<and>
     nbv_BootstrapKubeconfigFile a = nbv_BootstrapKubeconfigFile b \<and>
     nbv_ContainerRuntimeEndpoint a = nbv_ContainerRuntimeEndpoint b \<and> nbv_KubeConfigFile a = nbv_KubeConfigFile b \<and>
     nbv_LogLevel a = nbv_LogLevel b"

lemma applyOptions_static_eq: "static_eq a b \<Longrightarrow> applyOptions c a = applyOptions c b"
  by (cases "bo_CABundle c") (auto simp: applyOptions_def static_eq_def)

lemma applyOptions_keeps: "applyOptions c a = Ret b \<Longrightarrow> static_eq b a"
  by (auto simp: applyOptions_def static_eq_def obind_eq_Ret_iff)

text \<open>The options that go through the shared variables.\<close>

definition same_inputs :: "bootOptions \<Rightarrow> bootOptions \<Rightarrow> bool" where
  "same_inputs c d \<longleftrightarrow> bo_ClusterEndpoint c = bo_ClusterEndpoint d \<and> bo_CABundle c = bo_CABundle d \<and>
     bo_BootstrapToken c = bo_BootstrapToken d \<and> bo_CustomUserData c = bo_CustomUserData d \<and>
     bo_PreInstallScript c = bo_PreInstallScript d"

lemma applyOptions_same: "same_inputs c d \<Longrightarrow> applyOptions c nbv = applyOptions d nbv"
  by (simp add: applyOptions_def same_inputs_def)

text \<open>The invariant of concurrent calls that agree on those options: a call that is writing has so far the text an
  undisturbed call would have, and the variables hold the common options.\<close>

fun call_ok :: "(string \<Rightarrow> url option) \<Rightarrow> (taint \<Rightarrow> string) \<Rightarrow> bootOptions \<Rightarrow> nodeBootstrapVariables \<Rightarrow> ubuntu_call \<Rightarrow> bool" where
  "call_ok pu tts d nbv (Starting c) \<longleftrightarrow> same_inputs c d"
| "call_ok pu tts d nbv (Writing c ps out) \<longleftrightarrow> same_inputs c d \<and> applyOptions d staticNodeBootstrapVars = Ret nbv \<and>
     customBootstrapScript pu tts c staticNodeBootstrapVars = obind (write_pieces ps nbv) (\<lambda>r. Ret (out @ r))"
| "call_ok pu tts d nbv (Ended c r) \<longleftrightarrow> same_inputs c d \<and> r = customBootstrapScript pu tts c staticNodeBootstrapVars"

lemma call_ok_other:
  "call_ok pu tts d nbv c \<Longrightarrow> applyOptions d staticNodeBootstrapVars = Ret nbv' \<Longrightarrow> call_ok pu tts d nbv' c"
  by (cases c) auto

lemma call_step_ok:
  assumes "call_ok pu tts d nbv c" and "static_eq nbv staticNodeBootstrapVars" and "call_step pu tts c nbv = (c', nbv')"
  shows "call_ok pu tts d nbv' c' \<and> static_eq nbv' staticNodeBootstrapVars \<and>
    (nbv' = nbv \<or> applyOptions d staticNodeBootstrapVars = Ret nbv' \<or> bo_CABundle d = None)"
proof (cases c)
  case (Starting o')
  with assms have s: "same_inputs o' d" by simp
  have a: "applyOptions o' nbv = applyOptions d staticNodeBootstrapVars"
    and b: "applyOptions o' staticNodeBootstrapVars = applyOptions d staticNodeBootstrapVars"
    using applyOptions_same [OF s] applyOptions_static_eq [OF assms(2)] by simp_all
  show ?thesis
  proof (cases "bo_CABundle d")
    case None
    with s have p: "applyOptions o' n = Panic ''nil pointer dereference''" for n
      by (simp add: applyOptions_def same_inputs_def)
    have "call_step pu tts c nbv =
        (Ended o' (Panic ''nil pointer dereference''), nbv\<lparr>nbv_ClusterEndpoint := bo_ClusterEndpoint o'\<rparr>)"
      by (simp add: Starting p)
    with assms s None p show ?thesis by (auto simp: customBootstrapScript_def static_eq_def)
  next
    case (Some ca)
    then obtain n where n: "applyOptions d staticNodeBootstrapVars = Ret n" by (simp add: applyOptions_def)
    with assms Starting s a b show ?thesis
      by (auto simp: customBootstrapScript_def dest: applyOptions_keeps)
  qed
next
  case (Writing o' ps out)
  then show ?thesis
  proof (cases ps)
    case (Cons p ps')
    with Writing assms show ?thesis
      by (cases "p nbv") (auto simp: obind_assoc)
  qed (use assms in auto)
qed (use assms in auto)

definition calls_inv :: "(string \<Rightarrow> url option) \<Rightarrow> (taint \<Rightarrow> string) \<Rightarrow> bootOptions \<Rightarrow> ubuntu_call list \<times> nodeBootstrapVariables \<Rightarrow> bool" where
  "calls_inv pu tts d s \<longleftrightarrow> static_eq (snd s) staticNodeBootstrapVars \<and> list_all (call_ok pu tts d (snd s)) (fst s)"

lemma call_ok_nil_ca: "bo_CABundle d = None \<Longrightarrow> call_ok pu tts d nbv c \<Longrightarrow> call_ok pu tts d nbv' c"
  by (cases c) (auto simp: applyOptions_def)

lemma calls_inv_step: "calls_step pu tts s t \<Longrightarrow> calls_inv pu tts d s \<Longrightarrow> calls_inv pu tts d t"
proof (induction rule: calls_step.induct)
  case (step i cs nbv c' nbv')
  then have st: "static_eq nbv staticNodeBootstrapVars" and ok: "\<And>c. c \<in> set cs \<Longrightarrow> call_ok pu tts d nbv c"
    by (auto simp: calls_inv_def list_all_iff)
  have new: "call_ok pu tts d nbv' c'" "static_eq nbv' staticNodeBootstrapVars"
    and or: "nbv' = nbv \<or> applyOptions d staticNodeBootstrapVars = Ret nbv' \<or> bo_CABundle d = None"
    using call_step_ok [OF ok [OF nth_mem] st] step by auto
  have "call_ok pu tts d nbv' c" if "c \<in> set cs" for c
    using or ok [OF that] call_ok_other call_ok_nil_ca by blast
  with new show ?case
    using set_update_subset_insert [of cs i c'] by (auto simp: calls_inv_def list_all_iff)
qed

lemma calls_inv_reach: "calls_reach pu tts opts s \<Longrightarrow> (\<forall>c \<in> set opts. same_inputs c d) \<Longrightarrow> calls_inv pu tts d s"
  unfolding calls_reach_def
proof (induction rule: rtranclp_induct)
  case base
  then show ?case by (auto simp: calls_inv_def list_all_iff static_eq_def)
next
  case (step s t)
  then show ?case using calls_inv_step by blast
qed

lemma run_schedule_reach: "(calls_step pu tts)\<^sup>*\<^sup>* s (run_schedule pu tts is s)"
proof (induction "is" arbitrary: s)
  case (Cons i "is")
  obtain cs nbv where s: "s = (cs, nbv)" by (cases s)
  obtain c' nbv' where c: "call_step pu tts (cs ! i) nbv = (c', nbv')" by (cases "call_step pu tts (cs ! i) nbv")
  show ?case
  proof (cases "i < length cs")
    case True
    then have "calls_step pu tts s (cs[i := c'], nbv')" using c s by (auto intro: calls_step.step)
    with Cons [of "(cs[i := c'], nbv')"] True s c show ?thesis
      by (auto intro: converse_rtranclp_into_rtranclp)
  next
    case False
    with Cons s show ?thesis by simp
  qed
qed simp

lemma write_alone:
  "write_pieces ps nbv = Ret r \<Longrightarrow>
   (calls_step pu tts)\<^sup>*\<^sup>* (Writing c ps out # cs, nbv) (Ended c (Ret (out @ r)) # cs, nbv)"
proof (induction ps arbitrary: out r)
  case Nil
  have "calls_step pu tts (Writing c [] out # cs, nbv) ((Writing c [] out # cs)[0 := Ended c (Ret out)], nbv)"
    by (rule calls_step.step) auto
  with Nil show ?case by auto
next
  case (Cons p ps)
  then obtain s r' where p: "p nbv = Ret s" "write_pieces ps nbv = Ret r'" "r = s @ r'"
    by (auto simp: obind_eq_Ret_iff)
  have "calls_step pu tts (Writing c (p # ps) out # cs, nbv) ((Writing c (p # ps) out # cs)[0 := Writing c ps (out @ s)], nbv)"
    by (rule calls_step.step) (auto simp: p)
  with Cons.IH [OF p(2), of "out @ s"] p(3) show ?case
    by (auto intro: converse_rtranclp_into_rtranclp)
qed

lemma single_call_ends:
  assumes "bo_CABundle c \<noteq> None" and "bo_CustomUserData c \<noteq> None" and "pu (bo_ClusterEndpoint c) \<noteq> None"
  shows "\<exists>nbv r. calls_reach pu tts [c] ([Ended c (Ret r)], nbv)"
proof -
  obtain n where n: "applyOptions c staticNodeBootstrapVars = Ret n" and u: "nbv_UserData n = bo_CustomUserData c"
    "nbv_PreInstallScript n = bo_PreInstallScript c"
    using assms(1) by (auto simp: applyOptions_def)
  then obtain r where r: "write_pieces (ubuntu_pieces pu tts c) n = Ret r"
    using ubuntu_pieces_Ret_iff [of pu tts c n] assms by auto
  have "run_schedule pu tts [0] (map Starting [c], staticNodeBootstrapVars) = ([Writing c (ubuntu_pieces pu tts c) ''''], n)"
    by (simp add: n)
  then have "(calls_step pu tts)\<^sup>*\<^sup>* (map Starting [c], staticNodeBootstrapVars) ([Writing c (ubuntu_pieces pu tts c) ''''], n)"
    using run_schedule_reach by metis
  with write_alone [OF r, of pu tts c "''''" "[]"] have "calls_reach pu tts [c] ([Ended c (Ret r)], n)"
    unfolding calls_reach_def by simp
  then show ?thesis by blast
qed

subsection \<open>The merged MIME document\<close>

text \<open>The document whose parts have these headers and bodies.\<close>

fun mime_parts :: "string \<Rightarrow> bool \<Rightarrow> (mime_header \<times> string) list \<Rightarrow> string" where
  "mime_parts b opn [] = ''''"
| "mime_parts b opn ((h, body) # ps) =
     (if opn then crlf else []) @ ''--'' @ b @ crlf @ header_lines h @ crlf @ body @ mime_parts b True ps"

definition mime_document :: "string \<Rightarrow> (mime_header \<times> string) list \<Rightarrow> string" where
  "mime_document b ps = MIMEVersionHeader @ nl @ MIMEContentTypeHeaderTemplate b @ nl @ nl @ mime_parts b False ps @
     crlf @ ''--'' @ b @ ''--'' @ crlf"

text \<open>The MIME reader reads the parts of a document, without an error.\<close>

definition mime_reads :: "mime_ops \<Rightarrow> string \<Rightarrow> (mime_header \<times> string) list \<Rightarrow> bool" where
  "mime_reads M doc ps \<longleftrightarrow> (\<exists>ct body mt params.
     mail_ReadMessage M doc = Ret (ct, body) \<and> mime_ParseMediaType M ct = Ret (mt, params) \<and>
     has_prefix mt ''multipart/'' \<and>
     multipart_Parts M body (mget params ''boundary'') = (map (\<lambda>(h, b). (h, Ret b)) ps, None))"

lemma getMultiPartReader_reads:
  "mime_reads M doc ps \<Longrightarrow> getMultiPartReader M doc = Ret (map (\<lambda>(h, b). (h, Ret b)) ps, None)"
  by (auto simp: mime_reads_def getMultiPartReader_def)

lemma copy_parts_Ret:
  "copy_parts (map (\<lambda>(h, b). (h, Ret b)) ps) None w =
     Ret (w\<lparr>mw_open := mw_open w \<or> ps \<noteq> [], mw_out := mw_out w @ mime_parts (mw_boundary w) (mw_open w) ps\<rparr>)"
  by (induction ps arbitrary: w) (auto simp: CreatePart_def write_mw_def)

definition is_mime :: "string \<Rightarrow> bool" where
  "is_mime u \<longleftrightarrow> has_prefix (trim_space u) ''MIME-Version:'' \<or> has_prefix (trim_space u) ''Content-Type:''"

lemma mimeify_plain: "\<not> is_mime u \<Longrightarrow> mimeify rb u = Ret (mime_document rb [(shell_header, u)])"
  by (simp add: mimeify_def is_mime_def mime_document_def CreatePart_def write_mw_def Close_mw_def)

lemma mimeify_mime: "is_mime u \<Longrightarrow> mimeify rb u = Ret u"
  by (simp add: mimeify_def is_mime_def)

lemma mime_parts_append:
  "mime_parts b opn (ps @ qs) = mime_parts b opn ps @ mime_parts b (opn \<or> ps \<noteq> []) qs"
  by (induction ps arbitrary: opn) auto

text \<open>What one user-data document contributes: its own parts when it is a MIME document, else one shell-script part.\<close>

definition user_part :: "mime_ops \<Rightarrow> string \<Rightarrow> string \<Rightarrow> (mime_header \<times> string) list \<Rightarrow> bool" where
  "user_part M rb u ps \<longleftrightarrow>
     (if is_mime u then mime_reads M u ps else ps = [(shell_header, u)] \<and> mime_reads M (mime_document rb ps) ps)"

lemma user_part_step:
  assumes "user_part M rb u ps"
  shows "merge_parts M ((rb, u) # us) w =
    merge_parts M us (w\<lparr>mw_open := mw_open w \<or> ps \<noteq> [], mw_out := mw_out w @ mime_parts (mw_boundary w) (mw_open w) ps\<rparr>)"
proof (cases "is_mime u")
  case True
  then have "u \<noteq> ''''" by (auto simp: is_mime_def trim_space_def)
  with True assms show ?thesis
    by (simp add: user_part_def mimeify_mime copyCustomUserDataParts_def getMultiPartReader_reads copy_parts_Ret)
next
  case False
  have "mime_document rb qs \<noteq> ''''" for qs by (simp add: mime_document_def MIMEVersionHeader_def)
  moreover have ps: "ps = [(shell_header, u)]" and r: "mime_reads M (mime_document rb [(shell_header, u)]) ps"
    using False assms by (auto simp: user_part_def)
  ultimately show ?thesis
    using False copy_parts_Ret [of ps w]
    by (simp add: mimeify_plain copyCustomUserDataParts_def getMultiPartReader_reads [OF r])
qed

lemma merge_parts_list:
  "list_all2 (\<lambda>(rb, u) ps. user_part M rb u ps) us pss \<Longrightarrow>
   merge_parts M us w = Ret (w\<lparr>mw_open := mw_open w \<or> concat pss \<noteq> [],
     mw_out := mw_out w @ mime_parts (mw_boundary w) (mw_open w) (concat pss)\<rparr>)"
proof (induction us pss arbitrary: w rule: list_all2_induct)
  case (Cons ru us ps pss)
  obtain rb u where "ru = (rb, u)" by (cases ru)
  with Cons.hyps Cons.IH show ?case
    by (auto simp: user_part_step mime_parts_append simp del: merge_parts.simps)
qed simp

lemma merge_documents:
  assumes "list_all2 (\<lambda>(rb, u) ps. user_part M rb u ps) us pss"
  shows "mergeCustomUserData M us = Ret (mime_document Boundary (concat pss))"
  by (simp add: mergeCustomUserData_def SetBoundary_def Boundary_def boundary_char_def merge_parts_list [OF assms]
      write_mw_def Close_mw_def mime_document_def)

section \<open>Properties\<close>

text \<open>The kubelet arguments hold no empty argument, and the argument with the node labels lists the labels by
  ascending key and is the same for every iteration order of the label map.\<close>

theorem kubelet_args_spec:
  assumes "gomap_wf (bo_Labels c)" and "mset (bo_Labels c) = mset m"
  shows "'''' \<notin> set (kubeletExtraArgs tts c) \<and> nodeLabelArg c = nodeLabelArg (c\<lparr>bo_Labels := m\<rparr>) \<and>
    (\<exists>kvs. mset kvs = mset (bo_Labels c) \<and> sorted (map fst kvs) \<and>
       (bo_Labels c \<noteq> [] \<longrightarrow>
          nodeLabelArg c = ''--node-labels='' @ go_quote (join_str '','' (map (\<lambda>(k, v). k @ ''='' @ v) kvs))))"
proof (intro conjI)
  show "'''' \<notin> set (kubeletExtraArgs tts c)"
    by (auto simp: kubeletExtraArgs_def Let_def dest: lo_compact_nonempty split: option.splits)
  have keys: "sort (map fst (bo_Labels c)) = sort (map fst m)"
    by (rule properties_for_sort) (use assms(2) in \<open>auto simp: mset_map [symmetric] simp del: mset_map\<close>, metis mset_map mset_sort)
  have get: "mget (bo_Labels c) = mget m"
    using map_of_perm [OF assms] by (simp add: mget_def fun_eq_iff)
  show "nodeLabelArg c = nodeLabelArg (c\<lparr>bo_Labels := m\<rparr>)"
    using assms(2) by (auto simp: nodeLabelArg_def Let_def keys get)
  let ?kvs = "map (\<lambda>k. (k, mget (bo_Labels c) k)) (sort (map fst (bo_Labels c)))"
  have look: "mget (bo_Labels c) (fst p) = snd p" if "p \<in> set (bo_Labels c)" for p
    using assms(1) that by (cases p) (simp add: mget_def gomap_wf_def)
  have "mset ?kvs = image_mset (\<lambda>k. (k, mget (bo_Labels c) k)) (image_mset fst (mset (bo_Labels c)))"
    by simp
  also have "\<dots> = image_mset id (mset (bo_Labels c))"
    unfolding image_mset.compositionality by (rule image_mset_cong) (use look in auto)
  finally have "mset ?kvs = mset (bo_Labels c)" by simp
  moreover have "sorted (map fst ?kvs)" by (simp add: comp_def)
  ultimately show "\<exists>kvs. mset kvs = mset (bo_Labels c) \<and> sorted (map fst kvs) \<and> (bo_Labels c \<noteq> [] \<longrightarrow>
      nodeLabelArg c = ''--node-labels='' @ go_quote (join_str '','' (map (\<lambda>(k, v). k @ ''='' @ v) kvs)))"
    by (intro exI [of _ ?kvs]) (simp add: nodeLabelArg_def Let_def comp_def)
qed

definition sample_boot :: bootOptions where
  "sample_boot = \<lparr>bo_ClusterName = ''prod'', bo_ClusterEndpoint = ''https://10.0.0.1:6443'', bo_ClusterDns = '''',
     bo_KubeletConfig = None, bo_Taints = [], bo_Labels = [(''b'', ''2''), (''a'', ''1'')], bo_CABundle = Some ''Q0E='',
     bo_BootstrapToken = ''tok'', bo_CustomUserData = Some ''echo one'', bo_PreInstallScript = None\<rparr>"

theorem kubelet_args_spec_witness:
  "nodeLabelArg sample_boot = nodeLabelArg (sample_boot\<lparr>bo_Labels := [(''a'', ''1''), (''b'', ''2'')]\<rparr>)"
  using kubelet_args_spec [of sample_boot "[(''a'', ''1''), (''b'', ''2'')]" "\<lambda>_. ''''"]
  by (simp add: sample_boot_def gomap_wf_def add_mset_commute)

text \<open>C28. An undisturbed Ubuntu script call fails with no error; it returns exactly when the CA bundle and the user data
  are set and the endpoint parses (else it panics on a nil pointer), whatever the shared variables held before,
  and the decoded script carries the user data as the install script.\<close>

theorem Script_Ubuntu_spec:
  assumes "static_eq shared staticNodeBootstrapVars"
  shows "Script_Ubuntu pu tts c shared = Script_Ubuntu pu tts c staticNodeBootstrapVars \<and>
    (\<forall>e. Script_Ubuntu pu tts c shared \<noteq> Err e) \<and>
    ((\<exists>s. Script_Ubuntu pu tts c shared = Ret s) \<longleftrightarrow>
       bo_CABundle c \<noteq> None \<and> bo_CustomUserData c \<noteq> None \<and> pu (bo_ClusterEndpoint c) \<noteq> None) \<and>
    (\<forall>s u. Script_Ubuntu pu tts c shared = Ret s \<and> bo_CustomUserData c = Some u \<longrightarrow>
       (\<exists>t. DecodeString s = Some t \<and> str_contains t (heredoc ''/etc/self-k8s/k8s-install.sh'' u)))"
proof -
  have a: "applyOptions c shared = applyOptions c staticNodeBootstrapVars"
    by (rule applyOptions_static_eq [OF assms])
  show ?thesis
  proof (cases "bo_CABundle c")
    case None
    then have "applyOptions c n = Panic ''nil pointer dereference''" for n by (simp add: applyOptions_def)
    with None show ?thesis by (simp add: Script_Ubuntu_def customBootstrapScript_def)
  next
    case (Some ca)
    then obtain n where n: "applyOptions c staticNodeBootstrapVars = Ret n"
      and u: "nbv_UserData n = bo_CustomUserData c" "nbv_PreInstallScript n = bo_PreInstallScript c"
      by (simp add: applyOptions_def)
    let ?w = "write_pieces (ubuntu_pieces pu tts c) n"
    have no: "?w \<noteq> Err e" for e
      by (rule write_pieces_no_Err)
         (auto simp: ubuntu_pieces_def piece_defs obind_eq_Err_iff deref_no_Err split: if_splits)
    have S: "Script_Ubuntu pu tts c sh = obind ?w (\<lambda>cbs. Ret (EncodeToString cbs))" if "applyOptions c sh = Ret n" for sh
      using that by (simp add: Script_Ubuntu_def customBootstrapScript_def)
    have "str_contains w (heredoc ''/etc/self-k8s/k8s-install.sh'' u)" if "?w = Ret w" "bo_CustomUserData c = Some u" for w u
      using that ubuntu_script_installs [of pu tts c n w u] u(1) by simp
    then show ?thesis
      using no ubuntu_pieces_Ret_iff [of pu tts c n] u Some S [OF n] S [of shared] a n
      by (auto simp: obind_eq_Ret_iff obind_eq_Err_iff Decode_Encode)
  qed
qed

theorem Script_Ubuntu_spec_witness:
  "\<exists>s. Script_Ubuntu (\<lambda>_. Some \<lparr>url_IsAbs = True, url_Hostname = ''10.0.0.1''\<rparr>) (\<lambda>_. '''') sample_boot staticNodeBootstrapVars = Ret s"
  using Script_Ubuntu_spec [of staticNodeBootstrapVars "\<lambda>_. Some \<lparr>url_IsAbs = True, url_Hostname = ''10.0.0.1''\<rparr>"
      "\<lambda>_. ''''" sample_boot]
  by (simp add: static_eq_def sample_boot_def)

text \<open>C29. Concurrent Ubuntu launches that agree on endpoint, CA bundle, token, user data and pre-install script are safe:
  in every state any interleaving reaches, a call that has ended has the result of an undisturbed call.\<close>

theorem ubuntu_calls_agree:
  assumes "calls_reach pu tts opts (cs, nbv)" and "\<forall>c \<in> set opts. same_inputs c d" and "Ended c r \<in> set cs"
  shows "r = customBootstrapScript pu tts c staticNodeBootstrapVars"
  using calls_inv_reach [OF assms(1,2)] assms(3) by (auto simp: calls_inv_def list_all_iff)

theorem ubuntu_calls_agree_witness:
  "\<exists>nbv r. calls_reach (\<lambda>_. Some \<lparr>url_IsAbs = True, url_Hostname = ''10.0.0.1''\<rparr>) (\<lambda>_. '''') [sample_boot] ([Ended sample_boot (Ret r)], nbv) \<and>
     Ret r = customBootstrapScript (\<lambda>_. Some \<lparr>url_IsAbs = True, url_Hostname = ''10.0.0.1''\<rparr>) (\<lambda>_. '''') sample_boot staticNodeBootstrapVars"
proof -
  let ?pu = "\<lambda>_. Some \<lparr>url_IsAbs = True, url_Hostname = ''10.0.0.1''\<rparr>" and ?t = "\<lambda>_. ''''"
  have "bo_CABundle sample_boot \<noteq> None" "bo_CustomUserData sample_boot \<noteq> None" by (simp_all add: sample_boot_def)
  then obtain nbv r where "calls_reach ?pu ?t [sample_boot] ([Ended sample_boot (Ret r)], nbv)"
    using single_call_ends [of sample_boot ?pu ?t] by auto
  moreover from this have "Ret r = customBootstrapScript ?pu ?t sample_boot staticNodeBootstrapVars"
    using ubuntu_calls_agree [of ?pu ?t "[sample_boot]" "[Ended sample_boot (Ret r)]" nbv sample_boot sample_boot "Ret r"]
    by (simp add: same_inputs_def)
  ultimately show ?thesis by blast
qed

text \<open>C30. Launches that do not agree are not safe: of two concurrent calls, for any two node classes, the first can end with
  a script that installs the user data of the second.\<close>

theorem ubuntu_calls_race:
  assumes "bo_CABundle c1 \<noteq> None" and "bo_CABundle c2 \<noteq> None" and "bo_CustomUserData c2 = Some u2"
    and "bo_PreInstallScript c1 = None \<or> bo_PreInstallScript c2 \<noteq> None" and "pu (bo_ClusterEndpoint c1) \<noteq> None"
  shows "\<exists>cs nbv s. calls_reach pu tts [c1, c2] (cs, nbv) \<and> cs ! 0 = Ended c1 (Ret s) \<and>
    str_contains s (heredoc ''/etc/self-k8s/k8s-install.sh'' u2)"
proof -
  obtain n1 where n1: "applyOptions c1 staticNodeBootstrapVars = Ret n1" using assms(1) by (auto simp: applyOptions_def)
  obtain n2 where n2: "applyOptions c2 n1 = Ret n2" and u: "nbv_UserData n2 = Some u2"
    and pre: "nbv_PreInstallScript n2 = bo_PreInstallScript c2"
    using assms(2,3) by (auto simp: applyOptions_def)
  obtain s where s: "write_pieces (ubuntu_pieces pu tts c1) n2 = Ret s"
    using ubuntu_pieces_Ret_iff [of pu tts c1 n2] u pre assms(4,5) by auto
  let ?w1 = "Writing c1 (ubuntu_pieces pu tts c1) ''''" and ?w2 = "Writing c2 (ubuntu_pieces pu tts c2) ''''"
  have "run_schedule pu tts [0, 1] (map Starting [c1, c2], staticNodeBootstrapVars) = ([?w1, ?w2], n2)"
    by (simp add: n1 n2)
  then have "calls_reach pu tts [c1, c2] ([?w1, ?w2], n2)"
    unfolding calls_reach_def using run_schedule_reach by metis
  moreover have "(calls_step pu tts)\<^sup>*\<^sup>* ([?w1, ?w2], n2) ([Ended c1 (Ret ('''' @ s)), ?w2], n2)"
    by (rule write_alone [OF s])
  ultimately have r: "calls_reach pu tts [c1, c2] ([Ended c1 (Ret s), ?w2], n2)"
    unfolding calls_reach_def by simp
  have "str_contains s (heredoc ''/etc/self-k8s/k8s-install.sh'' u2)"
    by (rule ubuntu_script_installs [OF s u])
  with r show ?thesis by fastforce
qed

theorem ubuntu_calls_race_witness:
  "\<exists>cs nbv s. calls_reach (\<lambda>_. Some \<lparr>url_IsAbs = True, url_Hostname = ''10.0.0.1''\<rparr>) (\<lambda>_. '''')
       [sample_boot, sample_boot\<lparr>bo_CustomUserData := Some ''echo two''\<rparr>] (cs, nbv) \<and>
     cs ! 0 = Ended sample_boot (Ret s) \<and> str_contains s (heredoc ''/etc/self-k8s/k8s-install.sh'' ''echo two'')"
  using ubuntu_calls_race [of sample_boot "sample_boot\<lparr>bo_CustomUserData := Some ''echo two''\<rparr>" "''echo two''"
      "\<lambda>_. Some \<lparr>url_IsAbs = True, url_Hostname = ''10.0.0.1''\<rparr>" "\<lambda>_. ''''"]
  by (simp add: sample_boot_def)

text \<open>C27. The OKE user data, decoded, is one MIME document without carriage returns whose parts are those of the custom
  user data (a script part for plain text, its own parts for a MIME document) followed by one script part that
  runs the OKE installer; it needs only that the MIME reader reads these documents.\<close>

theorem Script_OKE_spec:
  assumes "okeBootstrapScript pu tts c = Ret script" and "user_part M (fst rbs) u ps" and "u \<noteq> ''''"
    and "bo_CustomUserData c = Some u" and "user_part M (snd rbs) script [(shell_header, script)]"
  shows "\<exists>s. Script_OKE M pu tts rbs c = Ret s \<and>
    DecodeString s = Some (replace_byte CHR 0x0D '''' (mime_document Boundary (ps @ [(shell_header, script)])))"
proof -
  have "script \<noteq> ''''" using assms(1) by (auto simp: okeBootstrapScript_def obind_eq_Ret_iff)
  then have "lo_compact [from_ptr '''' (bo_CustomUserData c), script] = [u, script]"
    using assms(3,4) by (simp add: lo_compact_def)
  moreover have "mergeCustomUserData M [(fst rbs, u), (snd rbs, script)] =
      Ret (mime_document Boundary (concat [ps, [(shell_header, script)]]))"
    by (rule merge_documents) (use assms(2,5) in simp)
  ultimately show ?thesis
    using assms(1) by (simp add: Script_OKE_def Decode_Encode)
qed

definition sample_mime :: mime_ops where
  "sample_mime = \<lparr>mail_ReadMessage = (\<lambda>d. Ret (''multipart/mixed'', d)), mime_ParseMediaType = (\<lambda>ct. Ret (ct, [])),
     multipart_Parts = (\<lambda>d b. ([(shell_header, Ret (if d = mime_document ''r1'' [(shell_header, ''echo one'')] then ''echo one''
        else ''#!/bin/bash -xe'' @ nl @ ''bash /etc/oke/oke-install.sh --apiserver-endpoint '' @ [CHR 0x27] @ ''10.0.0.1'' @ [CHR 0x27] @ '' '' @
          ca_arg (sample_boot\<lparr>bo_Labels := []\<rparr>)))], None))\<rparr>"

theorem Script_OKE_spec_witness:
  "\<exists>s t. Script_OKE sample_mime (\<lambda>_. Some \<lparr>url_IsAbs = True, url_Hostname = ''10.0.0.1''\<rparr>) (\<lambda>_. '''') (''r1'', ''r2'')
      (sample_boot\<lparr>bo_Labels := []\<rparr>) = Ret s \<and> DecodeString s = Some t"
proof -
  let ?pu = "\<lambda>_. Some \<lparr>url_IsAbs = True, url_Hostname = ''10.0.0.1''\<rparr>" and ?c = "sample_boot\<lparr>bo_Labels := []\<rparr>"
  let ?sc = "''#!/bin/bash -xe'' @ nl @ ''bash /etc/oke/oke-install.sh --apiserver-endpoint '' @ [CHR 0x27] @ ''10.0.0.1'' @ [CHR 0x27] @ '' '' @ ca_arg ?c"
  have "okeBootstrapScript ?pu (\<lambda>_. '''') ?c = Ret ?sc"
    by (simp add: okeBootstrapScript_def install_args_def kubeletExtraArgs_def nodeLabelArg_def nodeTaintArg_def
        lo_compact_def sample_boot_def)
  moreover have "user_part sample_mime ''r1'' ''echo one'' [(shell_header, ''echo one'')]"
    by (simp add: user_part_def is_mime_def trim_space_def is_space_def mime_reads_def sample_mime_def)
  moreover have "user_part sample_mime ''r2'' ?sc [(shell_header, ?sc)]"
    by (simp add: user_part_def is_mime_def trim_space_def is_space_def mime_reads_def sample_mime_def mime_document_def
        MIMEVersionHeader_def MIMEContentTypeHeaderTemplate_def ca_arg_def sample_boot_def)
  ultimately show ?thesis
    using Script_OKE_spec [of ?pu "\<lambda>_. ''''" ?c ?sc sample_mime "(''r1'', ''r2'')" "''echo one''" "[(shell_header, ''echo one'')]"]
    by (auto simp: sample_boot_def)
qed

end
