(* ===== verification/Pricing.thy ===== *)
theory Pricing
  imports Utils External Options OfferingCache
begin

text \<open>
  \<open>pkg/providers/pricing\<close>: the price catalogue, the parse of shape names, the search of the catalogue, the price of a
  shape, and the provider that replaces the catalogue from the price endpoint; and the controller that drives it
  (\<open>pkg/controllers/providers/pricing\<close>).  Prices are 32-bit floats.  The HTTP transport with the JSON decoder and the
  change monitor are parameters, and so is the regular-expression engine for patterns with metacharacters (no
  shape name has one).
\<close>

section \<open>Wrapped shapes\<close>

text \<open>\<open>internalmodel.WrapShape\<close> embeds the shape of the OCI SDK.\<close>

record wrapShape = shape +
  CalcCpu :: int
  CalMemInGBs :: int
  ws_AvailableDomains :: "string list"
  CalMaxVnic :: int
  CalMaxBandwidthInGbps :: int

section \<open>Items\<close>

text \<open>The type \<open>CurrencyCode\<close> has these constants.\<close>

definition CurrencyCodes :: "string list" where
  "CurrencyCodes = [
     ''AFN'', ''ALL'', ''DZD'', ''USD'', ''EUR'', ''AOA'', ''XCD'', ''ARS'', ''AMD'', ''AWG'', ''AUD'', ''AZN'', ''BSD'', ''BHD'',
     ''BDT'', ''BBD'', ''BYN'', ''BZD'', ''XOF'', ''BMD'', ''BTN'', ''INR'', ''BOB'', ''BOV'', ''BAM'', ''BWP'', ''NOK'', ''BRL'',
     ''KYD'', ''CRC'', ''COP'', ''KMF'', ''CDF'', ''XAF'', ''NZD'', ''DKK'', ''DJF'', ''DOP'', ''EGP'', ''SVC'', ''ERN'', ''ETB'',
     ''FKP'', ''FJD'', ''HNL'', ''HKD'', ''HUF'', ''ISK'', ''IDR'', ''IRR'', ''IQD'', ''ILS'', ''JMD'', ''JPY'', ''JOD'', ''KZT'',
     ''KES'', ''KPW'', ''KRW'', ''KWD'', ''KGS'', ''LAK'', ''LBP'', ''LSL'', ''ZAR'', ''LRD'', ''LYD'', ''CHF'', ''MGA'', ''MWK'',
     ''MYR'', ''MVR'', ''MZN'', ''MXN'', ''PEN'', ''PHP'', ''PLN'', ''PAB'', ''QAR'', ''RON'', ''RUB'', ''RWF'', ''SCR'', ''SGD'',
     ''SLE'', ''SEK'', ''TJS'', ''TND'', ''TRY'', ''UYU'', ''UZS'', ''VUV'', ''VND'', ''XAU'', ''XAG'', ''ZMW'', ''ZWL'']"

definition USD :: string where "USD = ''USD''"

definition OcpuPerHour :: string where "OcpuPerHour = ''OCPU Per Hour''"
definition GpuPerHour :: string where "GpuPerHour = ''GPU Per Hour''"
definition GigabytePerHour :: string where "GigabytePerHour = ''Gigabyte Per Hour''"
definition NodePerHour :: string where "NodePerHour = ''Node Per Hour''"
definition NVMeTerabytePerHour :: string where "NVMeTerabytePerHour = ''NVMe Terabyte Per Hour''"

definition specialTypeMap :: labels where
  "specialTypeMap = [(''GPU2'', ''GPU Standard - X7''), (''GPU3'', ''GPU Standard - X7''), (''Standard1'', ''Standard - X5''),
     (''Optimized3'', ''Standard - HPC - X7''), (''HPC'', ''Standard - HPC - X7'')]"

record price =
  price_Model :: string
  price_Value :: gofloat

record currencyCodeLocalization =
  ccl_CurrencyCode :: string
  ccl_Prices :: "price list"

record item =
  PartNumber :: string
  DisplayName :: string
  MetricName :: string
  ServiceCategory :: string
  CurrencyCodeLocalizations :: "currencyCodeLocalization list"

record priceCatalog =
  Items :: "item list"

definition IsFree :: "item \<Rightarrow> bool" where "IsFree i = str_contains (DisplayName i) ''Free''"
definition IsGpu :: "item \<Rightarrow> bool" where "IsGpu i = str_contains (DisplayName i) ''GPU''"
definition IsNvme :: "item \<Rightarrow> bool" where "IsNvme i = str_contains (DisplayName i) ''NVMe''"
definition IsOcpuType :: "item \<Rightarrow> bool" where "IsOcpuType i = str_contains (DisplayName i) ''OCPU''"
definition IsMemoryType :: "item \<Rightarrow> bool" where "IsMemoryType i = str_contains (DisplayName i) ''Memory''"
definition IsNVMeType :: "item \<Rightarrow> bool" where "IsNVMeType i = str_contains (DisplayName i) ''NVMe''"
definition IsHourlyCommit :: "item \<Rightarrow> bool" where "IsHourlyCommit i = str_contains (DisplayName i) ''Hourly Commit''"
definition IsMonthCommit :: "item \<Rightarrow> bool" where "IsMonthCommit i = str_contains (DisplayName i) ''1 Month Commit''"
definition IsYearCommit :: "item \<Rightarrow> bool" where "IsYearCommit i = str_contains (DisplayName i) ''1 Year Commit''"
definition Is3YearCommit :: "item \<Rightarrow> bool" where "Is3YearCommit i = str_contains (DisplayName i) ''3 Year Commit''"

text \<open>The first localization of the currency gives its first price; an empty price list is an index out of range.\<close>

definition GetPrice :: "item \<Rightarrow> string \<Rightarrow> gofloat outcome" where
  "GetPrice i code =
     (case List.find (\<lambda>l. ccl_CurrencyCode l = code) (CurrencyCodeLocalizations i) of
        None \<Rightarrow> Ret (Fin 0)
      | Some l \<Rightarrow> (case ccl_Prices l of [] \<Rightarrow> Panic ''index out of range'' | p # _ \<Rightarrow> Ret (price_Value p)))"

text \<open>Splitting never gives an empty list, so the last part exists.\<close>

definition parseCoreNumFromDisplayNum :: "string \<Rightarrow> int" where
  "parseCoreNumFromDisplayNum displayName =
     (let parts = split_str displayName '' - ''
      in if length parts < 2 then 1
         else from_ptr 1 (atoi (last (split_str (parts ! (length parts - 2)) ''.''))))"

definition PricePerUnit :: "item \<Rightarrow> gofloat outcome" where
  "PricePerUnit i =
     (if MetricName i = NodePerHour
      then obind (GetPrice i USD) (\<lambda>p. Ret (fdiv r32 p (r32 (of_int (parseCoreNumFromDisplayNum (DisplayName i))))))
      else GetPrice i USD)"

definition GetCpuNum :: "item \<Rightarrow> int outcome" where
  "GetCpuNum i =
     (if \<not> IsHourlyCommit i \<and> \<not> IsMonthCommit i \<and> \<not> IsYearCommit i then Ret 1
      else let parts = split_str (DisplayName i) ''-''
           in if length parts < 2 then Panic ''index out of range''
              else let sParts = split_str (parts ! (length parts - 2)) ''.''
                   in if length sParts \<le> 1 then Ret 1 else Ret (from_ptr 1 (atoi (trim_space (last sParts)))))"

section \<open>Shape names\<close>

record parsedShape =
  ps_ServiceCategory :: string
  ps_CandidateServiceCategory :: "string list"
  ps_ServiceType :: string
  ps_CpuGpuType :: string
  ps_CpuGpuScale :: string

definition isNumeric :: "string \<Rightarrow> bool" where
  "isNumeric s \<longleftrightarrow> atoi s \<noteq> None"

text \<open>The regular expression \<open>word(\d+)\<close> matches a string that has the word followed by a digit.\<close>

fun word_digit :: "string \<Rightarrow> string \<Rightarrow> bool" where
  "word_digit w [] \<longleftrightarrow> False"
| "word_digit w (c # cs) \<longleftrightarrow>
     (has_prefix (c # cs) w \<and> (case drop (length w) (c # cs) of [] \<Rightarrow> False | d # _ \<Rightarrow> is_digit d)) \<or> word_digit w cs"

definition ParseShape :: "string \<Rightarrow> parsedShape outcome" where
  "ParseShape shape =
     (let its = split_str shape ''.''
      in if length its < 2 then Err (Errorf ''invalid shape name'')
         else
           let t = its ! 1;
               (cat, cands) =
                 (if str_contains t ''GPU'' then (''Compute - GPU'', [])
                  else if its ! 0 = ''BM'' then (''Compute - Bare Metal'', [''Compute - Virtual Machine'', ''Compute - VMware''])
                  else (''Compute - Virtual Machine'', [''Compute - VMware'']));
               ty =
                 (if cat = ''Compute - GPU'' then (if word_digit ''GPU'' t then t else ''GPU'')
                  else if str_contains t ''DenseIO'' then (if \<not> word_digit ''DenseIO'' t then ''Dense I/O'' else t)
                  else if has_prefix t ''Standard'' then ''Standard'' @ takeWhile is_digit (drop 8 t)
                  else if has_prefix t ''HPC'' then ''HPC''
                  else t);
               (cpu, scale) =
                 (if 3 < length its then
                    (its ! 2, if isNumeric (its ! 3) then its ! 3 else if its ! 3 = ''Flex'' then ''Flexible'' else '''')
                  else ('''', ''''))
           in Ret \<lparr>ps_ServiceCategory = cat, ps_CandidateServiceCategory = cands, ps_ServiceType = ty,
                   ps_CpuGpuType = cpu, ps_CpuGpuScale = scale\<rparr>)"

section \<open>Searching the catalogue\<close>

text \<open>The pattern made of a key between two word boundaries: for a key without metacharacters, an occurrence of the key
  that starts and ends at a boundary between a word character and another one or an end of the text.  For any
  other key the engine \<open>rx\<close> decides.\<close>

definition is_word_char :: "char \<Rightarrow> bool" where
  "is_word_char c \<longleftrightarrow> is_alnum c \<or> c = CHR ''_''"

definition word_boundary :: "char option \<Rightarrow> string \<Rightarrow> bool" where
  "word_boundary prev rest \<longleftrightarrow>
     (case prev of None \<Rightarrow> False | Some c \<Rightarrow> is_word_char c) \<noteq> (case rest of [] \<Rightarrow> False | c # _ \<Rightarrow> is_word_char c)"

fun word_occurs :: "string \<Rightarrow> char option \<Rightarrow> string \<Rightarrow> bool" where
  "word_occurs key prev s \<longleftrightarrow>
     (has_prefix s key \<and> word_boundary prev s \<and>
        word_boundary (if key = [] then prev else Some (last key)) (drop (length key) s)) \<or>
     (case s of [] \<Rightarrow> False | c # cs \<Rightarrow> word_occurs key (Some c) cs)"

declare word_occurs.simps [simp del]

definition rx_literal :: "string \<Rightarrow> bool" where
  "rx_literal s \<longleftrightarrow> list_all (\<lambda>c. c \<notin> {CHR 0x5C, CHR ''.'', CHR ''+'', CHR ''*'', CHR ''?'', CHR ''('', CHR '')'', CHR ''|'',
     CHR ''['', CHR '']'', CHR ''{'', CHR ''}'', CHR ''^'', CHR ''$''}) s"

definition match_word :: "(string \<Rightarrow> string \<Rightarrow> bool) \<Rightarrow> string \<Rightarrow> string \<Rightarrow> bool" where
  "match_word rx key s =
     (if rx_literal key then word_occurs key None s else rx ([CHR 0x5C, CHR ''b''] @ key @ [CHR 0x5C, CHR ''b'']) s)"

text \<open>An item appears once for every category it equals.\<close>

definition findCandidate :: "item list \<Rightarrow> string list \<Rightarrow> item list" where
  "findCandidate its cats = concat (map (\<lambda>i. map (\<lambda>_. i) (filter (\<lambda>c. ServiceCategory i = c) cats)) its)"

definition searchKey :: "parsedShape \<Rightarrow> string" where
  "searchKey p =
     (let ty = from_ptr (ps_ServiceType p) (map_of specialTypeMap (ps_ServiceType p))
      in if 0 < length (ps_CpuGpuType p) then ty @ '' - '' @ ps_CpuGpuType p else ty)"

definition FindPriceItems :: "(string \<Rightarrow> string \<Rightarrow> bool) \<Rightarrow> priceCatalog \<Rightarrow> string \<Rightarrow> item list" where
  "FindPriceItems rx catalog shape =
     (case ParseShape shape of
        Ret p \<Rightarrow>
          (let matching = filter (\<lambda>c. str_contains (DisplayName c) (searchKey p) \<and> match_word rx (searchKey p) (DisplayName c))
                 (findCandidate (Items catalog) [ps_ServiceCategory p])
           in if matching = []
              then filter (\<lambda>c. str_contains (DisplayName c) (searchKey p))
                     (findCandidate (Items catalog) (ps_CandidateServiceCategory p))
              else matching)
      | _ \<Rightarrow> [])"

section \<open>The price of a shape\<close>

abbreviation f32 :: "int \<Rightarrow> gofloat" where "f32 n \<equiv> r32 (of_int n)"

definition MaxFloat32 :: gofloat where
  "MaxFloat32 = Fin (of_int ((2 ^ 24 - 1) * 2 ^ 104))"

text \<open>The sum over several items; an hourly commitment ends it.\<close>

fun sum_items :: "wrapShape \<Rightarrow> int \<Rightarrow> gofloat \<Rightarrow> item list \<Rightarrow> gofloat outcome" where
  "sum_items shape ratio price [] = Ret price"
| "sum_items shape ratio price (i # is) =
     (if IsOcpuType i then
        obind (PricePerUnit i) (\<lambda>p. sum_items shape ratio (fadd r32 price (fmul r32 (f32 (gdiv (CalcCpu shape) ratio)) p)) is)
      else if IsMemoryType i then
        obind (PricePerUnit i) (\<lambda>p. sum_items shape ratio (fadd r32 price (fmul r32 (f32 (CalMemInGBs shape)) p)) is)
      else if IsNVMeType i then
        obind (deref (sh_LocalDisksTotalSizeInGBs shape)) (\<lambda>d.
        obind (PricePerUnit i) (\<lambda>p. sum_items shape ratio (fadd r32 price (fmul r32 (fdiv r32 d (Fin 1024)) p)) is))
      else if IsMonthCommit i then sum_items shape ratio price is
      else if IsYearCommit i then sum_items shape ratio price is
      else if Is3YearCommit i then sum_items shape ratio price is
      else if IsHourlyCommit i then
        obind (PricePerUnit i) (\<lambda>p. Ret (fadd r32 price (fmul r32 (f32 (gdiv (CalcCpu shape) ratio)) p)))
      else
        obind (PricePerUnit i) (\<lambda>p. sum_items shape ratio (fadd r32 price (fmul r32 (f32 (gdiv (CalcCpu shape) ratio)) p)) is))"

definition one_item :: "wrapShape \<Rightarrow> int \<Rightarrow> item \<Rightarrow> gofloat outcome" where
  "one_item shape ratio it =
     (if IsFree it then Ret (Fin 0)
      else if MetricName it = GpuPerHour then
        obind (deref (sh_Gpus shape)) (\<lambda>g. obind (PricePerUnit it) (\<lambda>p. Ret (fmul r32 (f32 g) p)))
      else if MetricName it = OcpuPerHour then
        obind (PricePerUnit it) (\<lambda>p. Ret (fmul r32 (f32 (gdiv (CalcCpu shape) ratio)) p))
      else if MetricName it = GigabytePerHour then
        obind (PricePerUnit it) (\<lambda>p. Ret (fmul r32 (f32 (CalMemInGBs shape)) p))
      else if MetricName it = NodePerHour then
        (if IsGpu it then obind (deref (sh_Gpus shape)) (\<lambda>g. obind (PricePerUnit it) (\<lambda>p. Ret (fmul r32 (f32 g) p)))
         else obind (PricePerUnit it) (\<lambda>p. Ret (fmul r32 (f32 (gdiv (CalcCpu shape) ratio)) p)))
      else if MetricName it = NVMeTerabytePerHour then
        obind (deref (sh_LocalDisksTotalSizeInGBs shape)) (\<lambda>d. obind (PricePerUnit it) (\<lambda>p. Ret (fmul r32 d p)))
      else Ret (Fin 0))"

definition ratioFactor :: "string \<Rightarrow> int" where
  "ratioFactor shapeName = (if IsA1FlexShape shapeName then 1 else 2)"

definition Calculate :: "(string \<Rightarrow> string \<Rightarrow> bool) \<Rightarrow> wrapShape \<Rightarrow> priceCatalog option \<Rightarrow> gofloat outcome" where
  "Calculate rx shape catalog =
     obind (deref (sh_Shape shape)) (\<lambda>shapeName.
       let ratio = ratioFactor shapeName in
       case catalog of
         None \<Rightarrow> Ret (f32 (wrap64 (wrap64 (8 * gdiv (CalcCpu shape) ratio) + CalMemInGBs shape)))
       | Some cat \<Rightarrow>
           (case FindPriceItems rx cat shapeName of
              [] \<Rightarrow> Ret MaxFloat32
            | [it] \<Rightarrow> one_item shape ratio it
            | its \<Rightarrow> sum_items shape ratio (Fin 0) its))"

definition ContainOcpu :: "string \<Rightarrow> bool" where "ContainOcpu s = str_contains s ''OCPU''"
definition ContainMemory :: "string \<Rightarrow> bool" where "ContainMemory s = str_contains s ''Memory''"
definition ContainNVMe :: "string \<Rightarrow> bool" where "ContainNVMe s = str_contains s ''NVMe''"

section \<open>The provider\<close>

record pricingProvider =
  pp_priceCatalog :: "priceCatalog option"
  pp_endpoint :: string

definition Reset_prices :: "priceCatalog outcome \<Rightarrow> pricingProvider \<Rightarrow> pricingProvider" where
  "Reset_prices static p = (case static of Ret c \<Rightarrow> p\<lparr>pp_priceCatalog := Some c\<rparr> | _ \<Rightarrow> p)"

text \<open>\<open>static\<close> is what decoding the embedded price list gives.\<close>

definition NewDefaultProvider_pricing :: "priceCatalog outcome \<Rightarrow> string \<Rightarrow> pricingProvider" where
  "NewDefaultProvider_pricing static endpoint = Reset_prices static \<lparr>pp_priceCatalog = None, pp_endpoint = endpoint\<rparr>"

definition Price :: "(string \<Rightarrow> string \<Rightarrow> bool) \<Rightarrow> pricingProvider \<Rightarrow> wrapShape \<Rightarrow> gofloat outcome" where
  "Price rx p shape = Calculate rx shape (pp_priceCatalog p)"

text \<open>A response of the price endpoint: its status, what reading its body gives, and the decoder of the body.\<close>

record price_response =
  pr_StatusCode :: int
  pr_Body :: "string outcome"

definition Get_prices ::
  "(string \<Rightarrow> price_response outcome) \<Rightarrow> (string \<Rightarrow> priceCatalog outcome) \<Rightarrow> pricingProvider \<Rightarrow> priceCatalog option outcome" where
  "Get_prices http_get decode p =
     (case http_get (pp_endpoint p) of
        Panic s \<Rightarrow> Panic s
      | Err e \<Rightarrow> Err e
      | Ret resp \<Rightarrow>
          if 299 < pr_StatusCode resp then Ret None
          else (case pr_Body resp of
              Panic s \<Rightarrow> Panic s
            | Err e \<Rightarrow> Err (Errorf ''failed to read price list api'')
            | Ret body \<Rightarrow>
                (case decode body of Ret c \<Rightarrow> Ret (Some c) | Err e \<Rightarrow> Err (Errorf ''failed to decode oci price list'')
                 | Panic s \<Rightarrow> Panic s)))"

text \<open>The whole call under its lock: the provider afterwards and the result.  \<open>changed\<close> is the answer of the change
  monitor; the log line then reads the items of the catalogue.\<close>

definition UpdateOnDemandPricing ::
  "options \<Rightarrow> (priceCatalog option \<Rightarrow> bool) \<Rightarrow> (string \<Rightarrow> price_response outcome) \<Rightarrow> (string \<Rightarrow> priceCatalog outcome) \<Rightarrow>
   pricingProvider \<Rightarrow> pricingProvider \<times> unit outcome" where
  "UpdateOnDemandPricing opts changed http_get decode p =
     (if UseLocalPriceList opts then (p, Ret ())
      else case Get_prices http_get decode p of
        Err e \<Rightarrow> (p, Err (Wrapf ''retreiving on-demand pricing data'' e))
      | Panic s \<Rightarrow> (p, Panic s)
      | Ret catalog \<Rightarrow>
          (p\<lparr>pp_priceCatalog := catalog\<rparr>,
           if changed catalog then (case catalog of None \<Rightarrow> Panic ''nil pointer dereference'' | Some _ \<Rightarrow> Ret ()) else Ret ()))"

text \<open>The pricing controller.  A panic of the update happens in a goroutine of its own and ends the process.\<close>

definition hour_ns :: int where "hour_ns = 3600 * second_ns"

definition Reconcile_pricing ::
  "options \<Rightarrow> (priceCatalog option \<Rightarrow> bool) \<Rightarrow> (string \<Rightarrow> price_response outcome) \<Rightarrow> (string \<Rightarrow> priceCatalog outcome) \<Rightarrow>
   pricingProvider \<Rightarrow> pricingProvider \<times> reconcile_result outcome" where
  "Reconcile_pricing opts changed http_get decode p =
     (case UpdateOnDemandPricing opts changed http_get decode p of
        (p', Ret ()) \<Rightarrow> (p', Ret \<lparr>res_Requeue = False, res_RequeueAfter = wrap64 (PriceSyncPeriod opts * hour_ns)\<rparr>)
      | (p', Err e) \<Rightarrow> (p', Err (Wrapf ''updating pricing'' e))
      | (p', Panic s) \<Rightarrow> (p', Panic s))"

section \<open>Lemmas\<close>

lemma FindPriceItems_sound:
  assumes "i \<in> set (FindPriceItems rx cat s)"
  obtains p where "ParseShape s = Ret p" and "i \<in> set (Items cat)" and "str_contains (DisplayName i) (searchKey p)"
    and "ServiceCategory i = ps_ServiceCategory p \<or> ServiceCategory i \<in> set (ps_CandidateServiceCategory p)"
  using assms
  by (cases "ParseShape s") (auto simp: FindPriceItems_def findCandidate_def Let_def split: if_splits)

lemma r32_fin_le:
  assumes "r32 d = Fin d" and "0 \<le> x" and "x \<le> d"
  obtains y where "r32 x = Fin y" and "0 \<le> y"
proof (cases "r32 x")
  case (Fin y)
  with r32_nonneg [OF assms(2)] that show ?thesis by simp
next
  case PInf
  with r32_mono [OF assms(3)] assms(1) show ?thesis by simp
qed (use r32_nonneg [OF assms(2)] in auto)

lemma fadd_nonneg: "fnonneg a \<Longrightarrow> fnonneg b \<Longrightarrow> fnonneg (fadd r32 a b)"
  by (cases a; cases b) (auto intro: r32_nonneg)

lemma fmul_fin_nonneg: "0 \<le> x \<Longrightarrow> 0 \<le> y \<Longrightarrow> fnonneg (fmul r32 (Fin x) (Fin y))"
  by (auto intro: r32_nonneg)

text \<open>An item whose unit price is defined, finite and not negative.\<close>

definition item_priced :: "item \<Rightarrow> bool" where
  "item_priced i \<longleftrightarrow> (\<exists>x \<ge> 0. PricePerUnit i = Ret (Fin x))"

text \<open>A shape as the OCI SDK and the splitting of flexible shapes give it.\<close>

definition shape_sized :: "wrapShape \<Rightarrow> bool" where
  "shape_sized w \<longleftrightarrow> sh_Shape w \<noteq> None \<and> 0 \<le> CalcCpu w \<and> CalcCpu w < 2 ^ 24 \<and> 0 \<le> CalMemInGBs w \<and> CalMemInGBs w < 2 ^ 24 \<and>
     (\<exists>g. sh_Gpus w = Some g \<and> 0 \<le> g \<and> g < 2 ^ 24) \<and>
     (\<exists>d. sh_LocalDisksTotalSizeInGBs w = Some (Fin d) \<and> r32 d = Fin d \<and> 0 \<le> d)"

lemma f32_small: "0 \<le> n \<Longrightarrow> n < 2 ^ 24 \<Longrightarrow> f32 n = Fin (of_int n)"
  by (rule r32_int) simp

lemma cpu_small:
  assumes "shape_sized w" and "ratio \<in> {1, 2}"
  shows "f32 (gdiv (CalcCpu w) ratio) = Fin (of_int (CalcCpu w div ratio)) \<and> 0 \<le> CalcCpu w div ratio"
proof -
  have r: "0 < ratio" and c: "0 \<le> CalcCpu w" "CalcCpu w < 2 ^ 24" using assms by (auto simp: shape_sized_def)
  then have "0 \<le> CalcCpu w div ratio" by (simp add: pos_imp_zdiv_nonneg_iff)
  moreover have "CalcCpu w div ratio \<le> CalcCpu w" using c assms(2) by auto
  ultimately show ?thesis using c r f32_small by (simp add: gdiv_nonneg)
qed

lemma sum_items_nonneg:
  assumes "shape_sized w" and "ratio \<in> {1, 2}"
  shows "fnonneg p \<Longrightarrow> \<forall>i \<in> set is. item_priced i \<Longrightarrow> \<exists>q. sum_items w ratio p is = Ret q \<and> fnonneg q"
proof (induction "is" arbitrary: p)
  case (Cons i "is")
  then obtain x where x: "0 \<le> x" "PricePerUnit i = Ret (Fin x)" by (auto simp: item_priced_def)
  note cpu = cpu_small [OF assms]
  have mem: "f32 (CalMemInGBs w) = Fin (of_int (CalMemInGBs w))" "0 \<le> CalMemInGBs w"
    using assms(1) by (auto simp: shape_sized_def intro: f32_small)
  obtain d where d: "sh_LocalDisksTotalSizeInGBs w = Some (Fin d)" "r32 d = Fin d" "0 \<le> d"
    using assms(1) by (auto simp: shape_sized_def)
  obtain y where y: "r32 (d / 1024) = Fin y" "0 \<le> y" using r32_fin_le [OF d(2), of "d / 1024"] d(3) by auto
  have step: "fnonneg (fadd r32 p (fmul r32 (Fin z) (Fin x)))" if "0 \<le> z" for z
    using fadd_nonneg [OF Cons.prems(1)] fmul_fin_nonneg [OF that x(1)] by blast
  note st = step [of "of_int (CalcCpu w div ratio)"] step [of "of_int (CalMemInGBs w)"] step [OF y(2)]
  show ?case
    using Cons.IH Cons.prems st cpu mem by (simp add: x(2) d(1) y(1) del: fmul.simps)
qed simp

lemma one_item_nonneg:
  assumes "shape_sized w" and "ratio \<in> {1, 2}" and "item_priced i"
  shows "\<exists>q. one_item w ratio i = Ret q \<and> fnonneg q"
proof -
  obtain x where x: "0 \<le> x" "PricePerUnit i = Ret (Fin x)" using assms(3) by (auto simp: item_priced_def)
  obtain g where g: "sh_Gpus w = Some g" "f32 g = Fin (of_int g)" "0 \<le> g"
    using assms(1) f32_small by (auto simp: shape_sized_def)
  obtain d where d: "sh_LocalDisksTotalSizeInGBs w = Some (Fin d)" "0 \<le> d"
    using assms(1) by (auto simp: shape_sized_def)
  have mem: "f32 (CalMemInGBs w) = Fin (of_int (CalMemInGBs w))" "0 \<le> CalMemInGBs w"
    using assms(1) by (auto simp: shape_sized_def intro: f32_small)
  note cpu = cpu_small [OF assms(1,2)]
  show ?thesis
    using cpu mem g d x by (simp add: one_item_def fmul_fin_nonneg del: fmul.simps)
qed

section \<open>Properties\<close>


definition sample_wrap :: "string \<Rightarrow> int \<Rightarrow> int \<Rightarrow> wrapShape" where
  "sample_wrap name cpu mem = \<lparr>sh_Shape = Some name, sh_IsFlexible = Some True, sh_Ocpus = Some (Fin 1),
     sh_MemoryInGBs = Some (Fin 16), sh_NetworkingBandwidthInGbps = Some (Fin 1), sh_MaxVnicAttachments = Some 2,
     sh_Gpus = Some 0, sh_GpuDescription = None, sh_LocalDisksTotalSizeInGBs = Some (Fin 0), sh_OcpuOptions = None,
     sh_MemoryOptions = None, sh_MaxVnicAttachmentOptions = None, sh_NetworkingBandwidthOptions = None,
     CalcCpu = cpu, CalMemInGBs = mem, ws_AvailableDomains = [], CalMaxVnic = 2, CalMaxBandwidthInGbps = 1\<rparr>"

definition sample_item :: item where
  "sample_item = \<lparr>PartNumber = ''B93113'', DisplayName = ''Compute - Standard - E4 - OCPU'', MetricName = OcpuPerHour,
     ServiceCategory = ''Compute - Virtual Machine'',
     CurrencyCodeLocalizations = [\<lparr>ccl_CurrencyCode = USD, ccl_Prices = [\<lparr>price_Model = ''PAY_AS_YOU_GO'', price_Value = Fin (1 / 4)\<rparr>]\<rparr>]\<rparr>"


text \<open>An update of the prices replaces the catalogue only by what the endpoint delivered; it keeps the old one when the
  local list is used, when the request fails, and when the body cannot be read or decoded.  But a response with an
  error status counts as a success without a catalogue: the old one is lost, and the call panics if the change
  monitor reports the change.\<close>

theorem UpdateOnDemandPricing_spec:
  "(case UpdateOnDemandPricing opts changed http_get decode p of (p', r) \<Rightarrow>
     if UseLocalPriceList opts then p' = p \<and> r = Ret ()
     else case http_get (pp_endpoint p) of
       Ret resp \<Rightarrow>
         if 299 < pr_StatusCode resp then
           pp_priceCatalog p' = None \<and> r = (if changed None then Panic ''nil pointer dereference'' else Ret ())
         else (case obind (pr_Body resp) decode of
             Ret c \<Rightarrow> pp_priceCatalog p' = Some c \<and> r = Ret ()
           | Err e \<Rightarrow> p' = p \<and> (\<exists>e'. r = Err e')
           | Panic s \<Rightarrow> p' = p \<and> r = Panic s)
     | Err e \<Rightarrow> p' = p \<and> (\<exists>e'. r = Err e')
     | Panic s \<Rightarrow> p' = p \<and> r = Panic s)"
  by (auto simp: UpdateOnDemandPricing_def Get_prices_def split: outcome.split)

end
