(* ===== verification/DefaultPrice.thy ===== *)
theory DefaultPrice
  imports Pricing
begin

text \<open>
  The price list embedded in \<open>pkg/providers/pricing/default_price.go\<close>, item by item in its order: the part number,
  display name, metric, service category and the prices of the only currency it has.  \<open>Reset\<close> decodes it, rounding
  each price to a 32-bit float.  The ranges of tiered prices are fields that the Go type does not have.
\<close>

datatype json_item = JItem (ji_partNumber: string) (ji_displayName: string) (ji_metricName: string)
  (ji_serviceCategory: string) (ji_values: "rat list")

definition defaultPrice_1 :: "json_item list" where
  "defaultPrice_1 = [
     JItem ''B107951'' ''Oracle Exadata Exascale VM Filesystem Storage''
       ''Gigabyte (GB) Storage Capacity Per Month'' ''Exadata Exascale Infrastructure'' [(425 / 10000)],
     JItem ''B107952'' ''Oracle Exadata Exascale Smart Database Storage''
       ''Gigabyte (GB) Storage Capacity Per Month'' ''Exadata Exascale Infrastructure'' [(1156 / 10000)],
     JItem ''B107975'' ''OCI - FastConnect 400 Gbps''
       ''Port Hour'' ''Networking - FastConnect'' [20],
     JItem ''B108004'' ''OCI Managed Service for Mac - M2 Pro''
       ''Mac Server Per Hour'' ''Managed Services for Mac'' [(74 / 100)],
     JItem ''B108030'' ''MySQL Database - ECPU''
       ''ECPU Per Hour'' ''MySQL'' [(366 / 10000)],
     JItem ''B108077'' ''OCI Generative AI - Large Cohere''
       ''10,000 Transactions'' ''OCI Generative AI'' [(156 / 10000)],
     JItem ''B108078'' ''OCI Generative AI - Small Cohere''
       ''10,000 Transactions'' ''OCI Generative AI'' [(9 / 10000)],
     JItem ''B108079'' ''OCI Generative AI - Embed Cohere''
       ''10,000 Transactions'' ''OCI Generative AI'' [(1 / 1000)]]"

definition defaultPrice_2 :: "json_item list" where
  "defaultPrice_2 = [
     JItem ''B108080'' ''OCI Generative AI - Large Meta''
       ''10,000 Transactions'' ''OCI Generative AI'' [(18 / 10000)],
     JItem ''B108082'' ''OCI Generative AI - Large Cohere - Dedicated''
       ''AI Unit Per Hour'' ''OCI Generative AI'' [24],
     JItem ''B108083'' ''OCI Generative AI - Small Cohere - Dedicated''
       ''AI Unit Per Hour'' ''OCI Generative AI'' [(65 / 10)],
     JItem ''B108084'' ''OCI Generative AI - Embed Cohere - Dedicated''
       ''AI Unit Per Hour'' ''OCI Generative AI'' [(109 / 10)],
     JItem ''B108085'' ''OCI Generative AI - Large Meta - Dedicated''
       ''AI Unit Per Hour'' ''OCI Generative AI'' [12],
     JItem ''B108130'' ''Oracle Backend for Spring Boot and Microservices - Standard Edition - Marketplace''
       ''Each'' ''Oracle Backend for Microservices and AI'' [0],
     JItem ''B108188'' ''Oracle Cloud Guard Instance Security Enterprise''
       ''Node Per Hour'' ''Cloud Guard - Security'' [(69 / 10000)],
     JItem ''B108189'' ''Oracle Cloud Guard Instance Security Standard''
       ''Node Per Hour'' ''Cloud Guard - Security'' [0]]"

definition defaultPrice_3 :: "json_item list" where
  "defaultPrice_3 = [
     JItem ''B108190'' ''Oracle Cloud Guard Instance Security Adhoc Queries Enterprise''
       ''Request'' ''Cloud Guard - Security'' [0, (1 / 1000)],
     JItem ''B108711'' ''OCI - Language - Dedicated Inferencing - Healthcare''
       ''Inferencing Unit Hour'' ''OCI Language'' [20],
     JItem ''B108764'' ''OCI - Vulnerability Detection and Patching - External Databases''
       ''Host CPU Core Per Hour'' ''Vulnerability Detection and Patching'' [(5 / 100)],
     JItem ''B108765'' ''OCI - Vulnerability Detection and Patching - External Databases BYOL''
       ''Host CPU Core Per Hour'' ''Vulnerability Detection and Patching'' [(25 / 1000)],
     JItem ''B108773'' ''OCI - SQL Performance Watch External DB''
       ''Host CPU Core Per Month'' ''Oracle Database'' [40],
     JItem ''B108776'' ''WebCenter Imaging For OCI''
       ''OCPU Per Hour'' ''WebCenter For OCI'' [(6394 / 10000)],
     JItem ''B108777'' ''WebCenter Enterprise Capture For OCI''
       ''OCPU Per Hour'' ''WebCenter For OCI'' [(417 / 1000)],
     JItem ''B108778'' ''WebCenter Enterprise Capture Standard Edition For OCI''
       ''OCPU Per Hour'' ''WebCenter For OCI'' [(2085 / 10000)]]"

definition defaultPrice_4 :: "json_item list" where
  "defaultPrice_4 = [
     JItem ''B108779'' ''WebCenter Sites For OCI''
       ''OCPU Per Hour'' ''WebCenter For OCI'' [(695 / 1000)],
     JItem ''B108780'' ''WebCenter Sites Satellite Server For OCI''
       ''OCPU Per Hour'' ''WebCenter For OCI'' [(1738 / 10000)],
     JItem ''B108781'' ''WebCenter Portal For OCI''
       ''OCPU Per Hour'' ''WebCenter For OCI'' [(8688 / 10000)],
     JItem ''B108782'' ''WebCenter Forms Recognition For OCI''
       ''OCPU Per Hour'' ''WebCenter For OCI'' [(695 / 1000)],
     JItem ''B108783'' ''WebCenter Content For OCI''
       ''OCPU Per Hour'' ''WebCenter For OCI'' [(11989 / 10000)],
     JItem ''B108784'' ''WebCenter Universal Content Management For OCI''
       ''OCPU Per Hour'' ''WebCenter For OCI'' [(7993 / 10000)],
     JItem ''B108806'' ''Oracle Cloud VMware Solution - BM.GPU.A10.64 - Monthly Commit''
       ''Node Per Hour'' ''Compute - VMware'' [16],
     JItem ''B108807'' ''Oracle Cloud VMware Solution - BM.GPU.A10.64 - 1 Year Commit''
       ''Node Per Hour'' ''Compute - VMware'' [13]]"

definition defaultPrice_5 :: "json_item list" where
  "defaultPrice_5 = [
     JItem ''B108808'' ''Oracle Cloud VMware Solution - BM.GPU.A10.64 - 3 Year Commit''
       ''Node Per Hour'' ''Compute - VMware'' [11],
     JItem ''B108809'' ''Oracle Cloud VMware Solution - BM.Standard.E5.48 - Hourly Commit''
       ''Node Per Hour'' ''Compute - VMware'' [(166617 / 10000)],
     JItem ''B108810'' ''Oracle Cloud VMware Solution - BM.Standard.E5.48 - 1 Year Commit''
       ''Node Per Hour'' ''Compute - VMware'' [(131604 / 10000)],
     JItem ''B108811'' ''Oracle Cloud VMware Solution - BM.Standard.E5.48 - 3 Year Commit''
       ''Node Per Hour'' ''Compute - VMware'' [(106119 / 10000)],
     JItem ''B109166'' ''MySQL HeatWave - AWS - Storage''
       ''Gigabyte Storage Capacity Per Month'' ''HeatWave Cluster'' [(3 / 100)],
     JItem ''B109169'' ''MySQL Database - Outbound Data Transfer - Inter OCI Region''
       ''Gigabyte Outbound Data Transfer Per Month'' ''MySQL'' [(4 / 100)],
     JItem ''B109187'' ''MySQL Database - AWS - Ingress private endpoint''
       ''Endpoint Per Hour'' ''Database - MySQL HeatWave on AWS'' [(214 / 10000)],
     JItem ''B109188'' ''MySQL Database - AWS - Egress private endpoint''
       ''Endpoint Per Hour'' ''Database - MySQL HeatWave on AWS'' [(106 / 10000)]]"

definition defaultPrice_6 :: "json_item list" where
  "defaultPrice_6 = [
     JItem ''B109355'' ''Oracle Exadata Exascale RDMA Compute Infrastructure''
       ''ECPU Per Hour'' ''Exadata Exascale Infrastructure'' [(25 / 1000)],
     JItem ''B109356'' ''Oracle Exadata Exascale Database ECPU''
       ''ECPU Per Hour'' ''Exadata Database Service ECPUs'' [(336 / 1000)],
     JItem ''B109357'' ''Oracle Exadata Exascale Database ECPU - BYOL''
       ''ECPU Per Hour'' ''Exadata Database Service ECPUs'' [(807 / 10000)],
     JItem ''B109358'' ''OCI - MySQL Database - Oracle Ops Insights for MySQL HeatWave''
       ''OCPU Per Hour'' ''Observability - Ops Insights'' [(15 / 1000)],
     JItem ''B109359'' ''OCI - MySQL Database - Oracle Ops Insights for MySQL HeatWave''
       ''ECPU Per Hour'' ''Observability - Ops Insights'' [(75 / 10000)],
     JItem ''B109375'' ''Oracle Exadata Exascale Additional Flash Cache''
       ''Gigabyte Per Hour'' ''Exadata Exascale Infrastructure'' [(5 / 10000)],
     JItem ''B109380'' ''MySQL Database - ECPU - Free''
       ''ECPU Per Hour'' ''HeatWave Free Tier'' [0],
     JItem ''B109381'' ''OCI HeatWave - Free''
       ''HeatWave Capacity Per Hour'' ''HeatWave Free Tier'' [0]]"

definition defaultPrice_7 :: "json_item list" where
  "defaultPrice_7 = [
     JItem ''B109382'' ''OCI - HeatWave - Storage - Free''
       ''Gigabyte Storage Capacity Per Month'' ''HeatWave Free Tier'' [0],
     JItem ''B109383'' ''MySQL Database - Storage - Free''
       ''Gigabyte Storage Capacity Per Month'' ''HeatWave Free Tier'' [0],
     JItem ''B109384'' ''MySQL Database - Backup Storage - Free''
       ''Gigabyte Storage Capacity Per Month'' ''HeatWave Free Tier'' [0],
     JItem ''B109458'' ''MySQL Database - AWS - Private inbound and outbound network traffic''
       ''Gigabyte (GB) of Data Transferred'' ''Database - MySQL HeatWave on AWS'' [(86 / 10000)],
     JItem ''B109479'' ''Compute - GPU - L40S''
       ''GPU Per Hour'' ''Compute - GPU'' [(35 / 10)],
     JItem ''B109485'' ''OCI - Compute - GPU - MI300X''
       ''GPU Per Hour'' ''Compute - GPU'' [6],
     JItem ''B109492'' ''Roving Edge Device - RED.2 Compute''
       ''Resource Possession Per Day'' ''Roving Edge Infrastructure'' [80],
     JItem ''B109493'' ''Roving Edge Device - RED.2 GPU''
       ''Resource Possession Per Day'' ''Roving Edge Infrastructure'' [100]]"

definition defaultPrice_8 :: "json_item list" where
  "defaultPrice_8 = [
     JItem ''B109494'' ''Roving Edge Device - RED.2.STG Storage''
       ''Resource Possession Per Day'' ''Roving Edge Infrastructure'' [95],
     JItem ''B109495'' ''Roving Edge Device - RED.2 Non-Return Fee''
       ''Each'' ''Roving Edge Infrastructure'' [25000],
     JItem ''B109496'' ''Roving Edge Device - RED.2 Ruggedized Case''
       ''Resource Possession Per Day'' ''Roving Edge Infrastructure'' [10],
     JItem ''B109529'' ''Compute - Standard - A2 OCPU''
       ''OCPU Per Hour'' ''Compute - Virtual Machine'' [(14 / 1000)],
     JItem ''B109530'' ''Compute - Standard - A2 Memory''
       ''Gigabyte Per Hour'' ''Compute - Virtual Machine'' [(2 / 1000)],
     JItem ''B112145'' ''OCI - Compute - Standard - A4 - OCPU''
       ''OCPU Per Hour'' ''Compute - Virtual Machine'' [(138 / 10000)],
     JItem ''B112146'' ''OCI - Compute - Standard - A4 - Memory''
       ''Gigabyte Per Hour'' ''Compute - Virtual Machine'' [(27 / 10000)],
     JItem ''B109545'' ''Oracle Blockchain Platform Enterprise Edition for  OCI''
       ''OCPU Per Hour'' ''Application Development - Blockchain'' [(4301 / 10000)]]"

definition defaultPrice_9 :: "json_item list" where
  "defaultPrice_9 = [
     JItem ''B109546'' ''File Storage Service - High Performance Mount Target''
       ''Performance Units Per Gigabyte Per Month'' ''Storage - File Storage'' [(3 / 10)],
     JItem ''B109559'' ''Oracle Integration Cloud Service - Healthcare''
       ''5K Messages Per Hour'' ''Application Integration - OIC'' [(19355 / 10000)],
     JItem ''B109565'' ''OCI - Blockchain Platform Cloud Service - Digital Assets''
       ''OCPU Per Hour'' ''Application Development - Blockchain'' [(10161 / 10000)],
     JItem ''B109635'' ''Oracle Base Database Service on Ampere A1 - Developer''
       ''OCPU Per Hour'' ''Database - Base Database Service - Virtual Machine'' [(22 / 1000)],
     JItem ''B110274'' ''OCI Full Stack Disaster Recovery Service''
       ''ECPU Per Hour'' ''Full Stack Disaster Recovery'' [(32 / 10000)],
     JItem ''B110316'' ''Oracle Autonomous Database - Developer''
       ''Instance Per Hour'' ''Database - Autonomous Database'' [(391 / 10000)],
     JItem ''B110461'' ''OCI Generative AI Agents''
       ''10,000 Transactions'' ''OCI Generative AI Agents'' [(3 / 1000)],
     JItem ''B110462'' ''OCI Generative AI Agents - Knowledge Base Storage''
       ''Gigabyte Storage Per Hour'' ''OCI Generative AI Agents'' [(84 / 10000)]]"

definition defaultPrice_10 :: "json_item list" where
  "defaultPrice_10 = [
     JItem ''B110463'' ''OCI Generative AI Agents - Data Ingestion''
       ''10,000 Transactions'' ''OCI Generative AI Agents'' [(3 / 10000)],
     JItem ''B110464'' ''Oracle Cloud Success Protection Service - Universal Credits Consumption (% applied to consumption, with minimum)''
       ''Universal Credits Consumption'' ''Cloud Success Protection Service'' [(1 / 10)],
     JItem ''B110470'' ''Exadata Cloud@Customer - Database OCPU - Developer''
       ''OCPU Per Hour'' ''Database - Exadata Database - Cloud@Customer'' [0],
     JItem ''B110475'' ''OCI Fleet Application Management Service''
       ''1 Managed Resource Per Month'' ''Fleet Application Management'' [0, (2604 / 1000)],
     JItem ''B110500'' ''OCI Streaming With Apache Kafka''
       ''OCPU Per Hour'' ''OCI Streaming With Apache Kafka'' [(1 / 10)],
     JItem ''B110517'' ''OCI Generative AI - Meta Llama 3.1 405B''
       ''10,000 Transactions'' ''OCI Generative AI'' [(267 / 10000)],
     JItem ''B110519'' ''OCI - Compute - GPU - H200''
       ''GPU Per Hour'' ''Compute - GPU'' [10]]"

definition defaultPrice_11 :: "json_item list" where
  "defaultPrice_11 = [
     JItem ''B110617'' ''OCI - Vision - Stored Video Analysis''
       ''Processed Video Minute'' ''OCI Vision'' [0, (1 / 10)],
     JItem ''B110625'' ''OCI - MySQL Database - Database Management for MySQL HeatWave''
       ''ECPU Per Hour'' ''MySQL'' [(75 / 10000)],
     JItem ''B110627'' ''Exadata Cloud Infrastructure - Database Server - X11M''
       ''Hosted Environment Per Hour'' ''Exadata Cloud Infrastructure X11M'' [(29032 / 10000)],
     JItem ''B110629'' ''Exadata Cloud Infrastructure - Storage Server - X11M''
       ''Hosted Environment Per Hour'' ''Exadata Cloud Infrastructure X11M'' [(29032 / 10000)],
     JItem ''B110631'' ''Exadata Database ECPU - Dedicated Infrastructure''
       ''ECPU Per Hour'' ''Exadata Database Service ECPUs'' [(336 / 1000)],
     JItem ''B110632'' ''Exadata Database ECPU - Dedicated Infrastructure - BYOL''
       ''ECPU Per Hour'' ''Exadata Database Service ECPUs'' [(807 / 10000)],
     JItem ''B110662'' ''Oracle Exadata Cloud@Customer Database ECPU - ECPU Per Hour''
       ''ECPU Per Hour'' ''Database - Exadata Database - Cloud@Customer'' [(336 / 1000)],
     JItem ''B110663'' ''Oracle Exadata Cloud@Customer Database ECPU - BYOL''
       ''ECPU Per Hour'' ''Database - Exadata Database - Cloud@Customer'' [(807 / 10000)]]"

definition defaultPrice_12 :: "json_item list" where
  "defaultPrice_12 = [
     JItem ''B110679'' ''OCI Generative AI - Meta Llama 3.2 90B Vision''
       ''10,000 Transactions'' ''OCI Generative AI'' [(5 / 1000)],
     JItem ''B110680'' ''Oracle Cloud VMware Solution - BM.DenseIO.E5.32 - Hourly Commit''
       ''Node Per Hour'' ''Compute - VMware'' [(102379 / 10000)],
     JItem ''B110681'' ''Oracle Cloud VMware Solution - BM.DenseIO.E5.32 - Monthly Commit''
       ''Node Per Hour'' ''Compute - VMware'' [(8531 / 1000)],
     JItem ''B110682'' ''Oracle Cloud VMware Solution - BM.DenseIO.E5.32 - 1 Year Commit''
       ''Node Per Hour'' ''Compute - VMware'' [(68242 / 10000)],
     JItem ''B110683'' ''Oracle Cloud VMware Solution - BM.DenseIO.E5.32 - 3 Year Commit''
       ''Node Per Hour'' ''Compute - VMware'' [(6072 / 1000)],
     JItem ''B110684'' ''Oracle Cloud VMware Solution - Expansion - Monthly Commit''
       ''OCPU Per Hour'' ''Compute - VMware'' [(1338 / 10000)],
     JItem ''B110965'' ''Oracle Compute Cloud@Customer - Compute - GPU.L40S''
       ''GPU Per Hour'' ''Compute Cloud@Customer'' [(35 / 10)],
     JItem ''B110978'' ''OCI - Compute - GPU - B200''
       ''GPU Per Hour'' ''Compute - GPU'' [14]]"

definition defaultPrice_13 :: "json_item list" where
  "defaultPrice_13 = [
     JItem ''B110979'' ''OCI - Compute - GPU - GB200''
       ''GPU Per Hour'' ''Compute - GPU'' [16],
     JItem ''B110986'' ''OCI Application Performance Monitoring Service - Stack Monitoring - Enterprise Edition for GPU Infrastructure''
       ''GPU Monitoring Unit Per Hour'' ''Stack Monitoring - GPU'' [(7 / 100)],
     JItem ''B110989'' ''Oracle Globally Distributed Exadata Exascale Database ECPU''
       ''ECPU Per Hour'' ''Exadata Database Service ECPUs'' [(3864 / 10000)],
     JItem ''B110990'' ''Oracle Globally Distributed Exadata Exascale Database ECPU - BYOL''
       ''ECPU Per Hour'' ''Exadata Database Service ECPUs'' [(928 / 10000)],
     JItem ''B110993'' ''Oracle Cloud Success Assurance Service - Universal Credits Consumption (% applied to consumption, with minimum)''
       ''Universal Credits Consumption'' ''Cloud Success Assurance Service'' [(5 / 100)],
     JItem ''B111015'' ''OCI Generative AI - Cohere Rerank - Dedicated''
       ''Cluster Hour'' ''OCI Generative AI'' [10],
     JItem ''B111035'' ''OCI Generative AI - Meta Llama 4 Scout''
       ''10,000 Transactions'' ''OCI Generative AI'' [(18 / 10000)],
     JItem ''B111036'' ''OCI Generative AI - Meta Llama 4 Maverick''
       ''10,000 Transactions'' ''OCI Generative AI'' [(18 / 10000)]]"

definition defaultPrice_14 :: "json_item list" where
  "defaultPrice_14 = [
     JItem ''B111087'' ''OCI Ops Insights for Warehouse - Instance''
       ''ECPU Per Hour'' ''Observability - Ops Insights'' [(2688 / 10000)],
     JItem ''B111091'' ''OCI File Storage with Lustre Service - Storage''
       ''Gigabyte Storage Capacity Per Month'' ''File Storage with Lustre Service'' [(86 / 1000)],
     JItem ''B111092'' ''OCI File Storage with Lustre Service - Performance''
       ''Performance Units Per Gigabyte Per Month'' ''File Storage with Lustre Service'' [(5 / 10000)],
     JItem ''B111129'' ''OCI - Compute - Standard - E6 - OCPU''
       ''OCPU Per Hour'' ''Compute - Virtual Machine'' [(3 / 100)],
     JItem ''B111130'' ''OCI - Compute - Standard - E6 - Memory''
       ''Gigabyte Per Hour'' ''Compute - Virtual Machine'' [(2 / 1000)],
     JItem ''B88290'' ''Oracle Database Cloud Service - Enterprise Edition - General Purpose''
       ''OCPU Per Hour'' ''Oracle Public Cloud Services - CLOUDCM'' [(4301 / 10000)],
     JItem ''B88291'' ''Oracle Database Cloud Service - Enterprise Edition Extreme Performance - General Purpose''
       ''OCPU Per Hour'' ''Oracle Public Cloud Services - CLOUDCM'' [(13441 / 10000)],
     JItem ''B88292'' ''Oracle Database Cloud Service - Enterprise Edition High Performance - General Purpose''
       ''OCPU Per Hour'' ''Oracle Public Cloud Services - CLOUDCM'' [(8871 / 10000)]]"

definition defaultPrice_15 :: "json_item list" where
  "defaultPrice_15 = [
     JItem ''B88293'' ''Oracle Database Cloud Service - Standard Edition - General Purpose''
       ''OCPU Per Hour'' ''Oracle Public Cloud Services - CLOUDCM'' [(215 / 1000)],
     JItem ''B88299'' ''Oracle Data Integrator Cloud Service''
       ''OCPU Per Hour'' ''Data Integrator'' [(7742 / 10000)],
     JItem ''B88315'' ''Compute - Bare Metal Standard - X5''
       ''OCPU Per Hour'' ''Compute - Bare Metal'' [(638 / 10000)],
     JItem ''B88317'' ''Compute - Virtual Machine Standard - X5''
       ''OCPU Per Hour'' ''Compute - Virtual Machine'' [(638 / 10000)],
     JItem ''B88318'' ''Compute - Windows OS''
       ''OCPU Per Hour'' ''Compute - OS Images'' [(92 / 1000)],
     JItem ''B88325'' ''OCI - FastConnect 1 Gbps''
       ''Port Hour'' ''Networking - FastConnect'' [(2125 / 10000)],
     JItem ''B88326'' ''OCI - FastConnect 10 Gbps''
       ''Port Hour'' ''Networking - FastConnect'' [(1275 / 1000)],
     JItem ''B88327'' ''Outbound Data Transfer - Originating in North America, Europe, and UK''
       ''Gigabyte Outbound Data Transfer Per Month'' ''Networking - Virtual Cloud Networks'' [0, (85 / 10000)]]"

definition defaultPrice_16 :: "json_item list" where
  "defaultPrice_16 = [
     JItem ''B88402'' ''Oracle Database Cloud Service - Enterprise Edition Extreme Performance RAC - BYOL''
       ''OCPU Per Hour'' ''Oracle Public Cloud Services - CLOUDCM'' [(1935 / 10000)],
     JItem ''B88404'' ''Oracle Database Cloud Service - All Editions - BYOL''
       ''OCPU Per Hour'' ''Oracle Public Cloud Services - CLOUDCM'' [(1935 / 10000)],
     JItem ''B88406'' ''Oracle Data Integrator Cloud Service - BYOL''
       ''OCPU Per Hour'' ''Data Integrator'' [(1935 / 10000)],
     JItem ''B88513'' ''Compute - Bare Metal Standard - X7''
       ''OCPU Per Hour'' ''Compute - Bare Metal'' [(638 / 10000)],
     JItem ''B88514'' ''Compute - Virtual Machine Standard - X7''
       ''OCPU Per Hour'' ''Compute - Virtual Machine'' [(638 / 10000)],
     JItem ''B88515'' ''Compute - Bare Metal Dense I/O - X7''
       ''OCPU Per Hour'' ''Compute - Bare Metal'' [(1275 / 10000)],
     JItem ''B88516'' ''Compute - Virtual Machine Dense I/O - X7''
       ''OCPU Per Hour'' ''Compute - Virtual Machine'' [(1275 / 10000)],
     JItem ''B88517'' ''Compute - Bare Metal GPU Standard - X7''
       ''GPU Per Hour'' ''Compute - GPU'' [(1275 / 1000)]]"

definition defaultPrice_17 :: "json_item list" where
  "defaultPrice_17 = [
     JItem ''B88518'' ''Compute - Virtual Machine GPU Standard - X7''
       ''GPU Per Hour'' ''Compute - GPU'' [(1275 / 1000)],
     JItem ''B88523'' ''OCI - Email Delivery''
       ''1,000 Emails Sent'' ''Email Delivery'' [0, (85 / 1000)],
     JItem ''B88525'' ''Networking - DNS''
       ''1,000,000 Queries'' ''Networking - DNS'' [(85 / 100)],
     JItem ''B88592'' ''Exadata Database OCPU - Dedicated Infrastructure''
       ''OCPU Per Hour'' ''Exadata Database Service OCPUs'' [(13441 / 10000)],
     JItem ''B88847'' ''Exadata Database OCPU - Dedicated Infrastructure - BYOL''
       ''OCPU Per Hour'' ''Exadata Database Service OCPUs'' [(3226 / 10000)],
     JItem ''B89057'' ''File Storage - Storage''
       ''Gigabyte Storage Capacity Per Month'' ''Storage - File Storage'' [(3 / 10)],
     JItem ''B89630'' ''Oracle Analytics Cloud - Professional - OCPU''
       ''OCPU Per Hour'' ''Analytics - Analytics Cloud'' [(10753 / 10000)],
     JItem ''B89631'' ''Oracle Analytics Cloud - Enterprise - OCPU''
       ''OCPU Per Hour'' ''Analytics - Analytics Cloud'' [(21506 / 10000)]]"

definition defaultPrice_18 :: "json_item list" where
  "defaultPrice_18 = [
     JItem ''B89636'' ''Oracle Analytics Cloud - Professional - BYOL - OCPU''
       ''OCPU Per Hour'' ''Analytics - Analytics Cloud'' [(3226 / 10000)],
     JItem ''B89637'' ''Oracle Analytics Cloud - Enterprise - BYOL - OCPU''
       ''OCPU Per Hour'' ''Analytics - Analytics Cloud'' [(3226 / 10000)],
     JItem ''B89639'' ''Oracle Integration Cloud Service - Standard''
       ''5K Messages Per Hour'' ''Application Integration - OIC'' [(6452 / 10000)],
     JItem ''B89640'' ''Oracle Integration Cloud Service - Enterprise''
       ''5K Messages Per Hour'' ''Application Integration - OIC'' [(12903 / 10000)],
     JItem ''B89643'' ''Oracle Integration Cloud Service - Standard - BYOL''
       ''20K Messages Per Hour'' ''Application Integration - OIC'' [(3226 / 10000)],
     JItem ''B89644'' ''Oracle Integration Cloud Service - Enterprise - BYOL''
       ''20K Messages Per Hour'' ''Application Integration - OIC'' [(3226 / 10000)],
     JItem ''B89646'' ''Oracle Visual Builder''
       ''OCPU Per Hour'' ''Application Development - Developer Cloud Service'' [(12365 / 10000)],
     JItem ''B89734'' ''Compute - GPU Standard - V2''
       ''GPU Per Hour'' ''Compute - GPU'' [(295 / 100)]]"

definition defaultPrice_19 :: "json_item list" where
  "defaultPrice_19 = [
     JItem ''B89737'' ''Oracle NoSQL Database Cloud - Write''
       ''Write Unit Per Month'' ''Database - NoSQL'' [(1254 / 10000)],
     JItem ''B89738'' ''Oracle NoSQL Database Cloud - Read''
       ''Read Unit Per Month'' ''Database - NoSQL'' [(64 / 10000)],
     JItem ''B89739'' ''Oracle NoSQL Database Cloud - Storage''
       ''Gigabyte Storage Capacity Per Month'' ''Database - NoSQL'' [(66 / 1000)],
     JItem ''B89980'' ''Oracle Database Exadata Cloud at Customer - Database OCPU''
       ''OCPU Per Hour'' ''Database - Exadata Database - Cloud@Customer'' [(13441 / 10000)],
     JItem ''B89981'' ''Oracle Database Exadata Cloud at Customer - Database OCPU - BYOL''
       ''OCPU Per Hour'' ''Database - Exadata Database - Cloud@Customer'' [(3226 / 10000)],
     JItem ''B89999'' ''Quarter Rack - X7''
       ''Hosted Environment Per Hour'' ''Exadata Cloud Infrastructure X7'' [(215054 / 10000)],
     JItem ''B90000'' ''Half Rack - X7''
       ''Hosted Environment Per Hour'' ''Exadata Cloud Infrastructure X7'' [(430107 / 10000)],
     JItem ''B90001'' ''Full Rack - X7''
       ''Hosted Environment Per Hour'' ''Exadata Cloud Infrastructure X7'' [(860215 / 10000)]]"

definition defaultPrice_20 :: "json_item list" where
  "defaultPrice_20 = [
     JItem ''B90203'' ''Visual Builder Studio - Additional Storage''
       ''Gigabyte Storage Capacity Per Month'' ''Application Development - Developer Cloud Service'' [(16 / 10)],
     JItem ''B90230'' ''Oracle Database Backup Cloud - Object Storage''
       ''Gigabyte Storage Capacity Per Month'' ''Database - Backup'' [(51 / 10000)],
     JItem ''B90231'' ''Oracle Database Backup Cloud - Archive Storage''
       ''Gigabyte Storage Capacity Per Month'' ''Database - Backup'' [(5 / 10000)],
     JItem ''B90260'' ''Oracle Digital Assistant Cloud Service''
       ''Requests per Hour'' ''Oracle Digital Assistant'' [(232 / 10000)],
     JItem ''B90304'' ''Oracle Mobile Hub Cloud Service''
       ''Requests per Hour'' ''Mobile'' [(28 / 10000)],
     JItem ''B90323'' ''OCI - Health Checks - Basic''
       ''Endpoints Per Month'' ''Edge Services'' [(3 / 10)],
     JItem ''B90325'' ''OCI - Health Checks - Premium''
       ''Endpoints Per Month'' ''Edge Services'' [(13 / 10)],
     JItem ''B90327'' ''Networking - DNS Traffic Management''
       ''1,000,000 DNS Traffic Managment Queries'' ''Networking - DNS'' [4]]"

definition defaultPrice_21 :: "json_item list" where
  "defaultPrice_21 = [
     JItem ''B90328'' ''OCI - Key Management - Private Vault''
       ''Virtual Private Vault Per Hour'' ''Security - Key Management'' [(3724 / 1000)],
     JItem ''B90398'' ''Compute - Bare Metal Standard - HPC - X7''
       ''OCPU Per Hour'' ''Compute - Bare Metal'' [(75 / 1000)],
     JItem ''B90425'' ''Compute - Standard - E2''
       ''OCPU Per Hour'' ''Compute - Virtual Machine'' [(3 / 100)],
     JItem ''B90555'' ''Oracle Identity Cloud Service - Enterprise User''
       ''User Per Month'' ''OCI IAM'' [(32 / 10)],
     JItem ''B90556'' ''Oracle Identity Cloud Service - Consumer User''
       ''User Per Month'' ''OCI IAM'' [(16 / 1000)],
     JItem ''B90557'' ''Oracle Identity Cloud Service - Enterprise User - BYOL''
       ''User Per Month'' ''OCI IAM'' [(8 / 10)],
     JItem ''B90558'' ''Oracle Identity Cloud Service - Consumer User - BYOL''
       ''User Per Month'' ''OCI IAM'' [(4 / 1000)],
     JItem ''B90569'' ''Oracle Base Database Service - Standard''
       ''OCPU Per Hour'' ''Database - Base Database Service - Virtual Machine'' [(215 / 1000)]]"

definition defaultPrice_22 :: "json_item list" where
  "defaultPrice_22 = [
     JItem ''B90570'' ''Oracle Base Database Service - Enterprise''
       ''OCPU Per Hour'' ''Database - Base Database Service - Virtual Machine'' [(4301 / 10000)],
     JItem ''B90571'' ''Oracle Base Database Service - High Performance''
       ''OCPU Per Hour'' ''Database - Base Database Service - Virtual Machine'' [(8871 / 10000)],
     JItem ''B90572'' ''Oracle Base Database Service - Extreme Performance''
       ''OCPU Per Hour'' ''Database - Base Database Service - Virtual Machine'' [(13441 / 10000)],
     JItem ''B90573'' ''Oracle Base Database Service - BYOL''
       ''OCPU Per Hour'' ''Database - Base Database Service - Virtual Machine'' [(1935 / 10000)],
     JItem ''B90617'' ''Oracle Functions - Execution Time''
       ''10,000 GB Memory-Seconds'' ''Application Development - Serverless'' [0, (1417 / 10000)],
     JItem ''B90618'' ''Oracle Functions - Invocations''
       ''1MIL Function Invocations'' ''Application Development - Serverless'' [0, (2 / 10)],
     JItem ''B90777'' ''Exadata Database Cloud Service - Base System''
       ''Hosted Environment Per Hour'' ''Exadata Cloud Infrastructure Base System'' [(107527 / 10000)]]"

definition defaultPrice_23 :: "json_item list" where
  "defaultPrice_23 = [
     JItem ''B90925'' ''Monitoring - Ingestion''
       ''Million Datapoints'' ''Observability - Monitoring'' [0, (25 / 10000)],
     JItem ''B90926'' ''Monitoring - Retrieval''
       ''Million Datapoints'' ''Observability - Monitoring'' [0, (15 / 10000)],
     JItem ''B90936'' ''Oracle Identity Foundation Cloud Service''
       ''Each'' ''OCI IAM'' [0],
     JItem ''B90938'' ''Streaming - PUT or GET''
       ''Gigabytes of Data Transferred'' ''OCI Streaming'' [(25 / 1000)],
     JItem ''B90939'' ''Streaming - Storage''
       ''Gigabyte Per Hour'' ''OCI Streaming'' [(2 / 10000)],
     JItem ''B90940'' ''Notifications - HTTPS Delivery''
       ''Million Delivery Operations'' ''Observability - Notifications'' [0, (6 / 10)]]"

definition defaultPrice_24 :: "json_item list" where
  "defaultPrice_24 = [
     JItem ''B90941'' ''Notifications - Email Delivery''
       ''1,000 Emails Sent'' ''Observability - Notifications'' [0, (2 / 100)],
     JItem ''B91119'' ''Compute - Bare Metal Standard - B1''
       ''OCPU Per Hour'' ''Compute - Bare Metal'' [(638 / 10000)],
     JItem ''B91120'' ''Compute - Virtual Machine Standard - B1''
       ''OCPU Per Hour'' ''Compute - Virtual Machine'' [(638 / 10000)],
     JItem ''B91121'' ''Oracle Cloud SQL - Compute Capacity''
       ''OCPU Per Hour'' ''Data Management - Big Data Cloud Service'' [(1075 / 10000)],
     JItem ''B91128'' ''Oracle Big Data Service - Compute - Standard''
       ''OCPU Per Hour'' ''Data Management - Big Data Cloud Service'' [(1344 / 10000)],
     JItem ''B91129'' ''Oracle Big Data Service - Compute - Dense I/O''
       ''OCPU Per Hour'' ''Data Management - Big Data Cloud Service'' [(214 / 1000)],
     JItem ''B91130'' ''Oracle Big Data Service - Compute - HPC''
       ''OCPU Per Hour'' ''Data Management - Big Data Cloud Service'' [(1536 / 10000)],
     JItem ''B91346'' ''WebLogic Server Enterprise Edition for OCI''
       ''OCPU Per Hour'' ''Application Development - Java'' [(2581 / 10000)]]"

definition defaultPrice_25 :: "json_item list" where
  "defaultPrice_25 = [
     JItem ''B91347'' ''WebLogic Server Suite for OCI''
       ''OCPU Per Hour'' ''Application Development - Java'' [(4646 / 10000)],
     JItem ''B91363'' ''Gen 2 Exadata Cloud at Customer - Database OCPU''
       ''OCPU Per Hour'' ''Database - Exadata Database - Cloud@Customer'' [(13441 / 10000)],
     JItem ''B91364'' ''Gen 2 Exadata Cloud at Customer - Database OCPU - BYOL''
       ''OCPU Per Hour'' ''Database - Exadata Database - Cloud@Customer'' [(3226 / 10000)],
     JItem ''B91372'' ''Database - Marketplace Compute Image - Microsoft SQL Enterprise''
       ''OCPU Per Hour'' ''Database - SQL Server'' [(147 / 100)],
     JItem ''B91373'' ''Database - Marketplace Compute Image - Microsoft SQL Standard''
       ''OCPU Per Hour'' ''Database - SQL Server'' [(37 / 100)],
     JItem ''B91391'' ''Oracle Autonomous Data Warehouse - Free''
       ''OCPU Per Hour'' ''Oracle Public Cloud Services - CLOUDCM'' [0],
     JItem ''B91392'' ''Oracle Autonomous Data Warehouse - Exadata Storage - Free''
       ''Terabyte Storage Capacity Per Month'' ''Oracle Public Cloud Services - CLOUDCM'' [0],
     JItem ''B91393'' ''Oracle Autonomous Transaction Processing - Free''
       ''OCPU Per Hour'' ''Oracle Public Cloud Services - CLOUDCM'' [0]]"

definition defaultPrice_26 :: "json_item list" where
  "defaultPrice_26 = [
     JItem ''B91394'' ''Oracle Autonomous Transaction Processing - Exadata Storage - Free''
       ''Terabyte Storage Capacity Per Month'' ''Oracle Public Cloud Services - CLOUDCM'' [0],
     JItem ''B91444'' ''Compute - Virtual Machine Standard - E2 Micro - Free''
       ''OCPU Per Hour'' ''Compute - Virtual Machine'' [0],
     JItem ''B91445'' ''Storage - Block Volume - Free 200GB''
       ''Gigabyte Storage Capacity Per Month'' ''Storage - Block Volumes'' [0],
     JItem ''B91535'' ''Quarter Rack - X8''
       ''Hosted Environment Per Hour'' ''Exadata Cloud Infrastructure X8'' [(145162 / 10000)],
     JItem ''B91536'' ''Half Rack - X8''
       ''Hosted Environment Per Hour'' ''Exadata Cloud Infrastructure X8'' [(290323 / 10000)],
     JItem ''B91537'' ''Full Rack - X8''
       ''Hosted Environment Per Hour'' ''Exadata Cloud Infrastructure X8'' [(580645 / 10000)],
     JItem ''B91627'' ''Object Storage - Requests''
       ''10,000 Requests per Month (first 50,000 free)'' ''Storage - Object Storage'' [0, (34 / 10000)]]"

definition defaultPrice_27 :: "json_item list" where
  "defaultPrice_27 = [
     JItem ''B91628'' ''Object Storage - Storage''
       ''Gigabyte Storage Capacity Per Month'' ''Storage - Object Storage'' [0, (255 / 10000)],
     JItem ''B91631'' ''Data Safe for Database Cloud Service - Audit Record Collection Over 1 Million Records''
       ''10,000 Audit Records Per Target Per Month'' ''Security - Data Safe'' [(1 / 10)],
     JItem ''B91632'' ''Data Safe for Database Cloud Service - Databases''
       ''Each'' ''Security - Data Safe'' [0],
     JItem ''B91633'' ''Archive Storage - Storage''
       ''Gigabyte Storage Capacity Per Month'' ''Storage - Object Storage'' [0, (26 / 10000)],
     JItem ''B91961'' ''Storage - Block Volume - Storage''
       ''Gigabyte Storage Capacity Per Month'' ''Storage - Block Volumes'' [(255 / 10000)],
     JItem ''B91962'' ''Storage - Block Volume - Performance Units''
       ''Performance Units Per Gigabyte Per Month'' ''Storage - Block Volumes'' [(17 / 10000)],
     JItem ''B92072'' ''API Gateway  - 1,000,000 API Calls''
       ''1,000,000 API Calls Per Month'' ''Application Development - API Management'' [3]]"

definition defaultPrice_28 :: "json_item list" where
  "defaultPrice_28 = [
     JItem ''B92092'' ''Key Management Service - Key Versions''
       ''Key Version Per Month'' ''Security - Key Management'' [0, (5334 / 10000)],
     JItem ''B92302'' ''Blockchain Platform - Standard''
       ''OCPU Per Hour'' ''Application Development - Blockchain'' [(215 / 1000)],
     JItem ''B92303'' ''Blockchain Platform - Enterprise''
       ''OCPU Per Hour'' ''Application Development - Blockchain'' [(4301 / 10000)],
     JItem ''B92304'' ''Blockchain Platform - Storage''
       ''Terabyte Storage Capacity Per Month'' ''Application Development - Blockchain'' [(704 / 10)],
     JItem ''B92305'' ''Blockchain Platform - Enterprise - BYOL''
       ''OCPU Per Hour'' ''Application Development - Blockchain'' [(3226 / 10000)],
     JItem ''B92306'' ''Compute - Standard - E3 - OCPU''
       ''OCPU Per Hour'' ''Compute - Virtual Machine'' [(25 / 1000)],
     JItem ''B92307'' ''Compute - Standard - E3 - Memory''
       ''Gigabyte Per Hour'' ''Compute - Virtual Machine'' [(15 / 10000)],
     JItem ''B92335'' ''Essbase for OCI''
       ''OCPU Per Hour'' ''OCI Marketplace - Database - Essbase on OCI'' [(13129 / 10000)]]"

definition defaultPrice_29 :: "json_item list" where
  "defaultPrice_29 = [
     JItem ''B92380'' ''Exadata Database Cloud Service - Quarter Rack  - X8M''
       ''Hosted Environment Per Hour'' ''Exadata Cloud Infrastructure X8M'' [(145162 / 10000)],
     JItem ''B92381'' ''Exadata Database Cloud Service - Database Server - X8M''
       ''Hosted Environment Per Hour'' ''Exadata Cloud Infrastructure X8M'' [(29032 / 10000)],
     JItem ''B92382'' ''Exadata Database Cloud Service - Storage Server - X8M''
       ''Hosted Environment Per Hour'' ''Exadata Cloud Infrastructure X8M'' [(29032 / 10000)],
     JItem ''B92386'' ''Oracle Cloud Vmware Solution  - BM.DenseIO2.52 - 1 Month Commit''
       ''OCPU Per Hour'' ''Compute - VMware'' [(2031 / 10000)],
     JItem ''B92426'' ''MySQL Database - Storage''
       ''Gigabyte Storage Capacity Per Month'' ''MySQL'' [(4 / 100)],
     JItem ''B92450'' ''Oracle SOA Suite for OCI''
       ''OCPU Per Hour'' ''Application Integration - SOA'' [(7231 / 10000)],
     JItem ''B92451'' ''Oracle SOA Suite for OCI - with B2B Adapter for EDI''
       ''OCPU Per Hour'' ''Application Integration - SOA'' [(12071 / 10000)],
     JItem ''B92483'' ''MySQL Database - Backup Storage''
       ''Gigabyte Storage Capacity Per Month'' ''MySQL'' [(4 / 100)]]"

definition defaultPrice_30 :: "json_item list" where
  "defaultPrice_30 = [
     JItem ''B92593'' ''OCI - Logging - Storage''
       ''Gigabyte Log Storage Per Month'' ''Observability - Logging'' [0, (5 / 100)],
     JItem ''B92598'' ''OCI Data Integration - Workspace Usage''
       ''Workspace Usage Per Hour'' ''Data Integration - Workspace Usage'' [(16 / 100)],
     JItem ''B92599'' ''OCI Data Integration - Data Processed''
       ''Gigabyte of Data Processed Per Hour'' ''Data Integration - Data Processed'' [(4 / 100)],
     JItem ''B92615'' ''Roving Edge Device - Compute Optimized - Ruggedized''
       ''Resource Possession Per Day'' ''Roving Edge Infrastructure'' [160],
     JItem ''B92627'' ''Oracle NoSQL Database Cloud - Write - Free''
       ''Write Unit Per Month'' ''Database - NoSQL'' [0],
     JItem ''B92628'' ''Oracle NoSQL Database Cloud - Read - Free''
       ''Read Unit Per Month'' ''Database - NoSQL'' [0],
     JItem ''B92629'' ''Oracle NoSQL Database Cloud - Storage - Free''
       ''Gigabyte Storage Capacity Per Month'' ''Database - NoSQL'' [0],
     JItem ''B92682'' ''Oracle Analytics Cloud - Professional - Users''
       ''User Per Month'' ''Analytics - Analytics Cloud'' [16]]"

definition defaultPrice_31 :: "json_item list" where
  "defaultPrice_31 = [
     JItem ''B92683'' ''Oracle Analytics Cloud - Enterprise - Users''
       ''User Per Month'' ''Analytics - Analytics Cloud'' [80],
     JItem ''B92695'' ''Oracle Stream Analytics for OCI''
       ''OCPU Per Hour'' ''GoldenGate'' [(9498 / 10000)],
     JItem ''B92733'' ''Data Safe for On-Premises Databases          on Compute''
       ''Target Database Per Month'' ''Security - Data Safe'' [200, 150, 100, 50],
     JItem ''B92734'' ''Data Safe for On-Premises Databases prompt on Compute''
       ''10,000 Audit Records Per Target Per Month'' ''Security - Data Safe'' [(1 / 10)],
     JItem ''B92740'' ''Compute - GPU - E3''
       ''GPU Per Hour'' ''Compute - GPU'' [(305 / 100)],
     JItem ''B92809'' ''Logging Analytics - Archival Storage''
       ''Logging Analytics Storage Unit Per Hour'' ''Observability - Logging Analytics'' [(2 / 100)],
     JItem ''B92888'' ''OCI Ops Insights for Oracle Autonomous Databases - Basic''
       ''OCPU Per Hour'' ''Observability - Ops Insights'' [0]]"

definition defaultPrice_32 :: "json_item list" where
  "defaultPrice_32 = [
     JItem ''B92889'' ''OCI Ops Insights for Oracle Cloud Databases''
       ''OCPU Per Hour'' ''Observability - Ops Insights'' [(15 / 1000)],
     JItem ''B92890'' ''OCI Ops Insights for External Oracle Databases and Host''
       ''Host CPU Core Per Hour'' ''Observability - Ops Insights'' [(15 / 1000)],
     JItem ''B92913'' ''WebLogic Server Enterprise Edition for OCI Container Engine for Kubernetes''
       ''OCPU Per Hour'' ''Application Development - Java'' [(2581 / 10000)],
     JItem ''B92914'' ''WebLogic Server Suite for OCI Container Engine for Kubernetes''
       ''OCPU Per Hour'' ''Application Development - Java'' [(4646 / 10000)],
     JItem ''B92940'' ''Application Performance Monitoring Service - Tracing Data - Free''
       ''1,000 Events Per Hour'' ''Observability - APM'' [0],
     JItem ''B92941'' ''Application Performance Monitoring Service - Tracing Data''
       ''100,000 Events Per Hour'' ''Observability - APM'' [(65 / 100)],
     JItem ''B92942'' ''Application Performance Monitoring Service -  Synthetic Usage''
       ''10 Monitor Runs Per Hour'' ''Observability - APM'' [(2 / 100)],
     JItem ''B92992'' ''OCI GoldenGate''
       ''OCPU Per Hour'' ''GoldenGate'' [(13441 / 10000)]]"

definition defaultPrice_33 :: "json_item list" where
  "defaultPrice_33 = [
     JItem ''B92993'' ''OCI GoldenGate - BYOL''
       ''OCPU Per Hour'' ''GoldenGate'' [(3226 / 10000)],
     JItem ''B93000'' ''Infrequent Access Storage - Storage''
       ''Gigabyte Storage Capacity Per Month'' ''Storage - Object Storage'' [0, (1 / 100)],
     JItem ''B93001'' ''Infrequent Access Storage - Data Retrieval''
       ''GB Storage Retrieved Per Month'' ''Storage - Object Storage'' [0, (1 / 100)],
     JItem ''B93004'' ''Notifications - SMS Outbound to Country Zone 1''
       ''Per SMS Message Sent'' ''Observability - Notifications'' [0, (15 / 1000)],
     JItem ''B93005'' ''Notifications - SMS Outbound to Country Zone 2''
       ''Per SMS Message Sent'' ''Observability - Notifications'' [0, (45 / 1000)],
     JItem ''B93006'' ''Notifications - SMS Outbound to Country Zone 3''
       ''Per SMS Message Sent'' ''Observability - Notifications'' [0, (86 / 1000)]]"

definition defaultPrice_34 :: "json_item list" where
  "defaultPrice_34 = [
     JItem ''B93007'' ''Notifications - SMS Outbound to Country Zone 4''
       ''Per SMS Message Sent'' ''Observability - Notifications'' [0, (12 / 100)],
     JItem ''B93008'' ''Notifications - SMS Outbound to Country Zone 5''
       ''Per SMS Message Sent'' ''Observability - Notifications'' [0, (24 / 100)],
     JItem ''B93030'' ''Load Balancer Base''
       ''Load Balancer'' ''Flexible Load Balancer'' [0, (113 / 10000)],
     JItem ''B93031'' ''Load Balancer Bandwidth''
       ''Mbps Per Hour'' ''Flexible Load Balancer'' [0, (1 / 10000)],
     JItem ''B93039'' ''Roving Edge Device - Compute Optimized - Standard''
       ''Resource Possession Per Day'' ''Roving Edge Infrastructure'' [160],
     JItem ''B93040'' ''Roving Edge Device - Compute Optimized - Unreturnable or Loss Fee''
       ''Each'' ''Roving Edge Infrastructure'' [45000]]"

definition defaultPrice_35 :: "json_item list" where
  "defaultPrice_35 = [
     JItem ''B93082'' ''Database Management - External DB BYOL''
       ''Host CPU Core Per Hour'' ''Oracle Database'' [(25 / 1000)],
     JItem ''B93083'' ''Database Management - External DB''
       ''Host CPU Core Per Hour'' ''Oracle Database'' [(5 / 100)],
     JItem ''B93113'' ''Compute - Standard - E4 - OCPU''
       ''OCPU Per Hour'' ''Compute - Virtual Machine'' [(25 / 1000)],
     JItem ''B93114'' ''Compute - Standard - E4  - Memory''
       ''Gigabyte Per Hour'' ''Compute - Virtual Machine'' [(15 / 10000)],
     JItem ''B93121'' ''Compute - Dense I/O - E4 - OCPU''
       ''OCPU Per Hour'' ''Compute - Virtual Machine'' [(25 / 1000)],
     JItem ''B93122'' ''Compute - Dense I/O - E4 - Memory''
       ''Gigabyte Per Hour'' ''Compute - Virtual Machine'' [(15 / 10000)],
     JItem ''B93123'' ''Compute - Dense I/O - E4 - NVMe''
       ''NVMe Terabyte Per Hour'' ''Compute - Virtual Machine'' [(612 / 10000)],
     JItem ''B93126'' ''OCI - FastConnect 100 Gbps''
       ''Port Hour'' ''Networking - FastConnect'' [(1075 / 100)]]"

definition defaultPrice_36 :: "json_item list" where
  "defaultPrice_36 = [
     JItem ''B93199'' ''OCI Database Migration''
       ''Migration Hour'' ''Database - Database Migration'' [(2 / 10)],
     JItem ''B93288'' ''Oracle Cloud VMware Solution - BM.DenseIO2.52 - Hourly Commit''
       ''OCPU Per Hour'' ''Compute - VMware'' [(2437 / 10000)],
     JItem ''B93289'' ''Oracle Cloud VMware Solution - BM.DenseIO2.52 - 1 Year Commit''
       ''OCPU Per Hour'' ''Compute - VMware'' [(1625 / 10000)],
     JItem ''B93290'' ''Oracle Cloud VMware Solution - BM.DenseIO2.52 - 3 Year Commit''
       ''OCPU Per Hour'' ''Compute - VMware'' [(132 / 1000)],
     JItem ''B93297'' ''Compute - Standard - A1 - OCPU''
       ''OCPU Per Hour'' ''Compute - Virtual Machine'' [0, (1 / 100)],
     JItem ''B93298'' ''Compute - Standard - A1 - Memory''
       ''Gigabyte Per Hour'' ''Compute - Virtual Machine'' [0, (15 / 10000)],
     JItem ''B93306'' ''OCI Data Integration - Pipeline Operator Execution''
       ''Execution Hour'' ''Data Integration - Pipeline Operator Execution'' [0, (3 / 10)]]"

definition defaultPrice_37 :: "json_item list" where
  "defaultPrice_37 = [
     JItem ''B93307'' ''Autonomous JSON Database - Free''
       ''OCPU Per Hour'' ''Database - Autonomous JSON Database'' [0],
     JItem ''B93311'' ''Compute - Optimized - X9 - OCPU''
       ''OCPU Per Hour'' ''Compute - Virtual Machine'' [(54 / 1000)],
     JItem ''B93312'' ''Compute - Optimized - X9 - Memory''
       ''Gigabyte Per Hour'' ''Compute - Virtual Machine'' [(15 / 10000)],
     JItem ''B93320'' ''Oracle APEX Application Development - Free''
       ''OCPU Per Hour'' ''APEX Application Development'' [0],
     JItem ''B93380'' ''Exadata Cloud Infrastructure - Quarter Rack - X9M''
       ''Hosted Environment Per Hour'' ''Exadata Cloud Infrastructure X9M'' [(145162 / 10000)],
     JItem ''B93381'' ''Exadata Cloud Infrastructure - Database Server - X9M''
       ''Hosted Environment Per Hour'' ''Exadata Cloud Infrastructure X9M'' [(29032 / 10000)],
     JItem ''B93382'' ''Exadata Cloud Infrastructure - Storage Server - X9M''
       ''Hosted Environment Per Hour'' ''Exadata Cloud Infrastructure X9M'' [(29032 / 10000)],
     JItem ''B93421'' ''Oracle Cloud VMware Solution - HCX Enterprise - Monthly''
       ''OCPU Per Hour'' ''Compute - VMware'' [(126 / 10000)]]"

definition defaultPrice_38 :: "json_item list" where
  "defaultPrice_38 = [
     JItem ''B93423'' ''OCI - AI Services - Language - Pre-trained Inferencing''
       ''1,000 Transactions'' ''OCI Language'' [0, (25 / 100)],
     JItem ''B93426'' ''Database Management - Cloud Databases''
       ''OCPU Per Hour'' ''Oracle Database'' [(5 / 100)],
     JItem ''B93455'' ''Outbound Data Transfer - Originating in APAC, Japan, and South America''
       ''Gigabyte Outbound Data Transfer Per Month'' ''Networking - Virtual Cloud Networks'' [0, (25 / 1000)],
     JItem ''B93456'' ''Outbound Data Transfer - Originating in Middle East and Africa''
       ''Gigabyte Outbound Data Transfer Per Month'' ''Networking - Virtual Cloud Networks'' [0, (5 / 100)],
     JItem ''B93493'' ''Identity and Access Management - External User''
       ''User Per Month'' ''OCI IAM'' [(16 / 1000)],
     JItem ''B93494'' ''Identity and Access Management - Oracle Apps Premium''
       ''User Per Month'' ''OCI IAM'' [(25 / 100)],
     JItem ''B93495'' ''Identity and Access Management - Premium''
       ''User Per Month'' ''OCI IAM'' [(32 / 10)]]"

definition defaultPrice_39 :: "json_item list" where
  "defaultPrice_39 = [
     JItem ''B93496'' ''Identity and Access Management - SMS''
       ''1 SMS Message Sent'' ''OCI IAM'' [0, (3 / 100)],
     JItem ''B93497'' ''Identity and Access Management - Token''
       ''Token'' ''OCI IAM'' [(4 / 1000), 0],
     JItem ''B93498'' ''Identity and Access Management - Replication''
       ''User Per Month'' ''OCI IAM'' [(4 / 1000)],
     JItem ''B93555'' ''Oracle Big Data Service''
       ''OCPU Per Hour'' ''Big Data Service'' [(15 / 1000)],
     JItem ''B93705'' ''OCI Ops Insights for Warehouse - Extract''
       ''Gigabyte Per Month'' ''Observability - Ops Insights'' [2],
     JItem ''B93706'' ''OCI Ops Insights for Warehouse - Instance''
       ''OCPU Per Hour'' ''Observability - Ops Insights'' [(5377 / 10000)],
     JItem ''B93709'' ''OCI Search with OpenSearch HA''
       ''Node Per Hour'' ''Search Service with OpenSearch'' [(25 / 100)]]"

definition defaultPrice_40 :: "json_item list" where
  "defaultPrice_40 = [
     JItem ''B93710'' ''Oracle NoSQL Database Cloud - Write - Auto''
       ''Write Unit Per Month'' ''Database - NoSQL'' [(3135 / 1000)],
     JItem ''B93711'' ''Oracle NoSQL Database Cloud - Read - Auto''
       ''Read Unit Per Month'' ''Database - NoSQL'' [(16 / 100)],
     JItem ''B93712'' ''Oracle NoSQL Database Cloud - Hosted Environment''
       ''Hosted Environment Per Month'' ''Database - NoSQL'' [28796],
     JItem ''B94173'' ''Oracle Threat Intelligence Service''
       ''API Calls'' ''Security - Threat Intelligence'' [0],
     JItem ''B94176'' ''Compute - Standard - X9 - OCPU''
       ''OCPU Per Hour'' ''Compute - Virtual Machine'' [(4 / 100)],
     JItem ''B94177'' ''Compute - Standard - X9 - Memory''
       ''Gigabyte Per Hour'' ''Compute - Virtual Machine'' [(15 / 10000)],
     JItem ''B94277'' ''Web Application Firewall - Requests''
       ''1,000,000 Incoming Requests Per Month'' ''WAF'' [0, (6 / 10)]]"

definition defaultPrice_41 :: "json_item list" where
  "defaultPrice_41 = [
     JItem ''B94282'' ''Data Labeling''
       ''Annotated Data Record'' ''OCI Data Labeling'' [0, (2 / 10000)],
     JItem ''B94568'' ''Oracle Analytics Server for OCI''
       ''OCPU Per Hour'' ''Analytics'' [(175 / 100)],
     JItem ''B94579'' ''Web Application Firewall - Instance''
       ''Instance Per Month'' ''WAF'' [0, 5],
     JItem ''B94896'' ''Speech''
       ''Transcription Hour'' ''OCI Speech'' [0, (35 / 100)],
     JItem ''B94973'' ''Vision - Image Analysis''
       ''1,000 Transactions'' ''OCI Vision'' [0, (25 / 100)],
     JItem ''B94974'' ''Vision - OCR''
       ''1,000 Transactions'' ''OCI Vision'' [0, 1]]"

definition defaultPrice_42 :: "json_item list" where
  "defaultPrice_42 = [
     JItem ''B94977'' ''Vision - Custom Training''
       ''Training Hour'' ''OCI Vision'' [(15 / 10), 0],
     JItem ''B95178'' ''Oracle Cloud VMware Solution - BM.DenseIO.E4.64 - Hourly Commit''
       ''OCPU Per Hour'' ''Compute - VMware'' [(2437 / 10000)],
     JItem ''B95179'' ''Oracle Cloud VMware Solution - BM.DenseIO.E4.64 - Monthly Commit''
       ''OCPU Per Hour'' ''Compute - VMware'' [(2031 / 10000)],
     JItem ''B95180'' ''Oracle Cloud VMware Solution - BM.DenseIO.E4.64 - 1 year Commit''
       ''OCPU Per Hour'' ''Compute - VMware'' [(1625 / 10000)],
     JItem ''B95181'' ''Oracle Cloud VMware Solution - BM.DenseIO.E4.64 - 3 year Commit''
       ''OCPU Per Hour'' ''Compute - VMware'' [(132 / 1000)],
     JItem ''B95228'' ''Roving Edge Ultra''
       ''Resource Possession Per Day'' ''Roving Edge Infrastructure'' [45],
     JItem ''B95229'' ''Roving Edge Ultra Non-Return or Loss Fee''
       ''Each'' ''Roving Edge Infrastructure'' [35000],
     JItem ''B95240'' ''Oracle Database Autonomous Recovery Service''
       ''Virtualized GB Per Month'' ''Oracle Database Autonomous Recovery Service'' [(306 / 10000)]]"

definition defaultPrice_43 :: "json_item list" where
  "defaultPrice_43 = [
     JItem ''B95241'' ''Oracle Database Zero Data Loss Autonomous Recovery Service''
       ''Virtualized GB Per Month'' ''Oracle Database Autonomous Recovery Service'' [(4 / 100)],
     JItem ''B95264'' ''OCI - Application Performance Monitoring Service - Stack Monitoring - Standard Edition''
       ''10 Monitored Resources Per Hour'' ''Observability - APM'' [(75 / 1000)],
     JItem ''B95279'' ''Media Services - Media Flow - Standard - H264 - SD - Below 30fps''
       ''Minute of Output Media Content'' ''Media Services - Media Flow'' [(1 / 1000)],
     JItem ''B95280'' ''Media Services - Media Flow - Standard - H264 - SD - Above 30fps and Below 60fps''
       ''Minute of Output Media Content'' ''Media Services - Media Flow'' [(2 / 1000)],
     JItem ''B95281'' ''Media Services - Media Flow - Standard - H264 - SD - Above 60fps and Below 120fps''
       ''Minute of Output Media Content'' ''Media Services - Media Flow'' [(3 / 1000)],
     JItem ''B95282'' ''Media Services - Media Flow - Standard - H264 - HD - Below 30fps''
       ''Minute of Output Media Content'' ''Media Services - Media Flow'' [(3 / 1000)],
     JItem ''B95283'' ''Media Services - Media Flow - Standard - H264 - HD - Above 30fps and Below 60fps''
       ''Minute of Output Media Content'' ''Media Services - Media Flow'' [(4 / 1000)],
     JItem ''B95284'' ''Media Services - Media Flow - Standard - H264 - HD - Above 60fps and Below 120fps''
       ''Minute of Output Media Content'' ''Media Services - Media Flow'' [(1 / 100)]]"

definition defaultPrice_44 :: "json_item list" where
  "defaultPrice_44 = [
     JItem ''B95285'' ''Media Services - Media Flow - Standard - H264 - 4k - Below 30fps''
       ''Minute of Output Media Content'' ''Media Services - Media Flow'' [(15 / 1000)],
     JItem ''B95286'' ''Media Services - Media Flow - Standard - H264 - 4k - Above 30fps and Below 60fps''
       ''Minute of Output Media Content'' ''Media Services - Media Flow'' [(18 / 1000)],
     JItem ''B95287'' ''Media Services - Media Flow - Standard - H264 - 4k - Above 60fps and Below 120fps''
       ''Minute of Output Media Content'' ''Media Services - Media Flow'' [(36 / 1000)],
     JItem ''B95288'' ''Media Services - Media Flow - Standard - VP8 - SD - Below 30fps''
       ''Minute of Output Media Content'' ''Media Services - Media Flow'' [(3 / 1000)],
     JItem ''B95289'' ''Media Services - Media Flow - Standard - VP8 - SD - Above 30fps and Below 60fps''
       ''Minute of Output Media Content'' ''Media Services - Media Flow'' [(4 / 1000)],
     JItem ''B95290'' ''Media Services - Media Flow - Standard - VP8 - SD - Above 60fps and Below 120fps''
       ''Minute of Output Media Content'' ''Media Services - Media Flow'' [(7 / 1000)],
     JItem ''B95291'' ''Media Services - Media Flow - Standard - VP8 - HD - Below 30fps''
       ''Minute of Output Media Content'' ''Media Services - Media Flow'' [(8 / 1000)],
     JItem ''B95292'' ''Media Services - Media Flow - Standard - VP8 - HD - Above 30fps and Below 60fps''
       ''Minute of Output Media Content'' ''Media Services - Media Flow'' [(1 / 100)]]"

definition defaultPrice_45 :: "json_item list" where
  "defaultPrice_45 = [
     JItem ''B95293'' ''Media Services - Media Flow - Standard - VP8 - HD - Above 60fps and Below 120fps''
       ''Minute of Output Media Content'' ''Media Services - Media Flow'' [(15 / 1000)],
     JItem ''B95294'' ''Media Services - Media Flow - Standard - VP8 - 4k - Below 30fps''
       ''Minute of Output Media Content'' ''Media Services - Media Flow'' [(36 / 1000)],
     JItem ''B95295'' ''Media Services - Media Flow - Standard - VP8 - 4k - Above 30fps and Below 60fps''
       ''Minute of Output Media Content'' ''Media Services - Media Flow'' [(4 / 100)],
     JItem ''B95296'' ''Media Services - Media Flow - Standard - VP8 - 4k - Above 60fps and Below 120fps''
       ''Minute of Output Media Content'' ''Media Services - Media Flow'' [(5 / 100)],
     JItem ''B95297'' ''Media Services - Media Flow - Standard - H265VP9 - SD - Below 30fps''
       ''Minute of Output Media Content'' ''Media Services - Media Flow'' [(5 / 1000)],
     JItem ''B95298'' ''Media Services - Media Flow - Standard - H265VP9 - SD - Above 30fps and Below 60fps''
       ''Minute of Output Media Content'' ''Media Services - Media Flow'' [(7 / 1000)],
     JItem ''B95299'' ''Media Services - Media Flow - Standard - H265VP9 - SD - Above 60fps and Below 120fps''
       ''Minute of Output Media Content'' ''Media Services - Media Flow'' [(12 / 1000)],
     JItem ''B95300'' ''Media Services - Media Flow - Standard - H265VP9 - HD - Below 30fps''
       ''Minute of Output Media Content'' ''Media Services - Media Flow'' [(1 / 100)]]"

definition defaultPrice_46 :: "json_item list" where
  "defaultPrice_46 = [
     JItem ''B95301'' ''Media Services - Media Flow - Standard - H265VP9 - HD - Above 30fps and Below 60fps''
       ''Minute of Output Media Content'' ''Media Services - Media Flow'' [(2 / 100)],
     JItem ''B95302'' ''Media Services - Media Flow - Standard - H265VP9 - HD - Above 60fps and Below 120fps''
       ''Minute of Output Media Content'' ''Media Services - Media Flow'' [(3 / 100)],
     JItem ''B95303'' ''Media Services - Media Flow - Standard - H265VP9 - 4k - Below 30fps''
       ''Minute of Output Media Content'' ''Media Services - Media Flow'' [(26 / 1000)],
     JItem ''B95304'' ''Media Services - Media Flow - Standard - H265VP9 - 4k - Above 30fps and Below 60fps''
       ''Minute of Output Media Content'' ''Media Services - Media Flow'' [(5 / 100)],
     JItem ''B95305'' ''Media Services - Media Flow - Standard - H265VP9 - 4k - Above 60fps and Below 120fps''
       ''Minute of Output Media Content'' ''Media Services - Media Flow'' [(63 / 1000)],
     JItem ''B95306'' ''Media Services - Media Flow - Speed - H264 - SD - Below 30fps''
       ''Minute of Output Media Content'' ''Media Services - Media Flow'' [(2 / 1000)],
     JItem ''B95307'' ''Media Services - Media Flow - Speed - H264 - SD - Above 30fps and Below 60fps''
       ''Minute of Output Media Content'' ''Media Services - Media Flow'' [(3 / 1000)],
     JItem ''B95308'' ''Media Services - Media Flow - Speed - H264 - SD - Above 60fps and Below 120fps''
       ''Minute of Output Media Content'' ''Media Services - Media Flow'' [(4 / 1000)]]"

definition defaultPrice_47 :: "json_item list" where
  "defaultPrice_47 = [
     JItem ''B95309'' ''Media Services - Media Flow - Speed - H264 - HD - Below 30fps''
       ''Minute of Output Media Content'' ''Media Services - Media Flow'' [(4 / 1000)],
     JItem ''B95310'' ''Media Services - Media Flow - Speed - H264 - HD - Above 30fps and Below 60fps''
       ''Minute of Output Media Content'' ''Media Services - Media Flow'' [(5 / 1000)],
     JItem ''B95311'' ''Media Services - Media Flow - Speed - H264 - HD - Above 60fps and Below 120fps''
       ''Minute of Output Media Content'' ''Media Services - Media Flow'' [(12 / 1000)],
     JItem ''B95312'' ''Media Services - Media Flow - Speed - H264 - 4k - Below 30fps''
       ''Minute of Output Media Content'' ''Media Services - Media Flow'' [(18 / 1000)],
     JItem ''B95313'' ''Media Services - Media Flow - Speed - H264 - 4k - Above 30fps and Below 60fps''
       ''Minute of Output Media Content'' ''Media Services - Media Flow'' [(2 / 100)],
     JItem ''B95314'' ''Media Services - Media Flow - Speed - H264 - 4k - Above 60fps and Below 120fps''
       ''Minute of Output Media Content'' ''Media Services - Media Flow'' [(4 / 100)],
     JItem ''B95315'' ''Media Services - Media Flow - Speed - VP8 - SD - Below 30fps''
       ''Minute of Output Media Content'' ''Media Services - Media Flow'' [(5 / 1000)],
     JItem ''B95316'' ''Media Services - Media Flow - Speed - VP8 - SD - Above 30fps and Below 60fps''
       ''Minute of Output Media Content'' ''Media Services - Media Flow'' [(6 / 1000)]]"

definition defaultPrice_48 :: "json_item list" where
  "defaultPrice_48 = [
     JItem ''B95317'' ''Media Services - Media Flow - Speed - VP8 - SD - Above 60fps and Below 120fps''
       ''Minute of Output Media Content'' ''Media Services - Media Flow'' [(8 / 1000)],
     JItem ''B95318'' ''Media Services - Media Flow - Speed - VP8 - HD - Below 30fps''
       ''Minute of Output Media Content'' ''Media Services - Media Flow'' [(12 / 1000)],
     JItem ''B95319'' ''Media Services - Media Flow - Speed - VP8 - HD - Above 30fps and Below 60fps''
       ''Minute of Output Media Content'' ''Media Services - Media Flow'' [(15 / 1000)],
     JItem ''B95320'' ''Media Services - Media Flow - Speed - VP8 - HD - Above 60fps and Below 120fps''
       ''Minute of Output Media Content'' ''Media Services - Media Flow'' [(18 / 1000)],
     JItem ''B95321'' ''Media Services - Media Flow - Speed - VP8 - 4k - Below 30fps''
       ''Minute of Output Media Content'' ''Media Services - Media Flow'' [(48 / 1000)],
     JItem ''B95322'' ''Media Services - Media Flow - Speed - VP8 - 4k - Above 30fps and Below 60fps''
       ''Minute of Output Media Content'' ''Media Services - Media Flow'' [(5 / 100)],
     JItem ''B95323'' ''Media Services - Media Flow - Speed - VP8 - 4k - Above 60fps and Below 120fps''
       ''Minute of Output Media Content'' ''Media Services - Media Flow'' [(6 / 100)],
     JItem ''B95324'' ''Media Services - Media Flow - Speed - H265VP9 - SD - Below 30fps''
       ''Minute of Output Media Content'' ''Media Services - Media Flow'' [(6 / 1000)]]"

definition defaultPrice_49 :: "json_item list" where
  "defaultPrice_49 = [
     JItem ''B95325'' ''Media Services - Media Flow - Speed - H265VP9 - SD - Above 30fps and Below 60fps''
       ''Minute of Output Media Content'' ''Media Services - Media Flow'' [(8 / 1000)],
     JItem ''B95326'' ''Media Services - Media Flow - Speed - H265VP9 - SD - Above 60fps and Below 120fps''
       ''Minute of Output Media Content'' ''Media Services - Media Flow'' [(15 / 1000)],
     JItem ''B95327'' ''Media Services - Media Flow - Speed - H265VP9 - HD - Below 30fps''
       ''Minute of Output Media Content'' ''Media Services - Media Flow'' [(12 / 1000)],
     JItem ''B95328'' ''Media Services - Media Flow - Speed - H265VP9 - HD - Above 30fps and Below 60fps''
       ''Minute of Output Media Content'' ''Media Services - Media Flow'' [(25 / 1000)],
     JItem ''B95329'' ''Media Services - Media Flow - Speed - H265VP9 - HD - Above 60fps and Below 120fps''
       ''Minute of Output Media Content'' ''Media Services - Media Flow'' [(36 / 1000)],
     JItem ''B95330'' ''Media Services - Media Flow - Speed - H265VP9 - 4k - Below 30fps''
       ''Minute of Output Media Content'' ''Media Services - Media Flow'' [(5 / 100)],
     JItem ''B95331'' ''Media Services - Media Flow - Speed - H265VP9 - 4k - Above 30fps and Below 60fps''
       ''Minute of Output Media Content'' ''Media Services - Media Flow'' [(6 / 100)],
     JItem ''B95332'' ''Media Services - Media Flow - Speed - H265VP9 - 4k - Above 60fps and Below 120fps''
       ''Minute of Output Media Content'' ''Media Services - Media Flow'' [(75 / 1000)]]"

definition defaultPrice_50 :: "json_item list" where
  "defaultPrice_50 = [
     JItem ''B95333'' ''Media Services - Media Flow - Quality - H264 - SD - Below 30fps''
       ''Minute of Output Media Content'' ''Media Services - Media Flow'' [(3 / 1000)],
     JItem ''B95334'' ''Media Services - Media Flow - Quality - H264 - SD - Above 30fps and Below 60fps''
       ''Minute of Output Media Content'' ''Media Services - Media Flow'' [(4 / 1000)],
     JItem ''B95335'' ''Media Services - Media Flow - Quality - H264 - SD - Above 60fps and Below 120fps''
       ''Minute of Output Media Content'' ''Media Services - Media Flow'' [(5 / 1000)],
     JItem ''B95336'' ''Media Services - Media Flow - Quality - H264 - HD - Below 30fps''
       ''Minute of Output Media Content'' ''Media Services - Media Flow'' [(5 / 1000)],
     JItem ''B95337'' ''Media Services - Media Flow - Quality - H264 - HD - Above 30fps and Below 60fps''
       ''Minute of Output Media Content'' ''Media Services - Media Flow'' [(6 / 1000)],
     JItem ''B95338'' ''Media Services - Media Flow - Quality - H264 - HD - Above 60fps and Below 120fps''
       ''Minute of Output Media Content'' ''Media Services - Media Flow'' [(15 / 1000)],
     JItem ''B95339'' ''Media Services - Media Flow - Quality - H264 - 4k - Below 30fps''
       ''Minute of Output Media Content'' ''Media Services - Media Flow'' [(24 / 1000)],
     JItem ''B95340'' ''Media Services - Media Flow - Quality - H264 - 4k - Above 30fps and Below 60fps''
       ''Minute of Output Media Content'' ''Media Services - Media Flow'' [(3 / 100)]]"

definition defaultPrice_51 :: "json_item list" where
  "defaultPrice_51 = [
     JItem ''B95341'' ''Media Services - Media Flow - Quality - H264 - 4k - Above 60fps and Below 120fps''
       ''Minute of Output Media Content'' ''Media Services - Media Flow'' [(5 / 100)],
     JItem ''B95342'' ''Media Services - Media Flow - Quality - VP8 - SD - Below 30fps''
       ''Minute of Output Media Content'' ''Media Services - Media Flow'' [(6 / 1000)],
     JItem ''B95343'' ''Media Services - Media Flow - Quality - VP8 - SD - Above 30fps and Below 60fps''
       ''Minute of Output Media Content'' ''Media Services - Media Flow'' [(8 / 1000)],
     JItem ''B95344'' ''Media Services - Media Flow - Quality - VP8 - SD - Above 60fps and Below 120fps''
       ''Minute of Output Media Content'' ''Media Services - Media Flow'' [(1 / 100)],
     JItem ''B95345'' ''Media Services - Media Flow - Quality - VP8 - HD - Below 30fps''
       ''Minute of Output Media Content'' ''Media Services - Media Flow'' [(15 / 1000)],
     JItem ''B95346'' ''Media Services - Media Flow - Quality - VP8 - HD - Above 30fps and Below 60fps''
       ''Minute of Output Media Content'' ''Media Services - Media Flow'' [(18 / 1000)],
     JItem ''B95347'' ''Media Services - Media Flow - Quality - VP8 - HD - Above 60fps and Below 120fps''
       ''Minute of Output Media Content'' ''Media Services - Media Flow'' [(2 / 100)],
     JItem ''B95348'' ''Media Services - Media Flow - Quality - VP8 - 4k - Below 30fps''
       ''Minute of Output Media Content'' ''Media Services - Media Flow'' [(54 / 1000)]]"

definition defaultPrice_52 :: "json_item list" where
  "defaultPrice_52 = [
     JItem ''B95349'' ''Media Services - Media Flow - Quality - VP8 - 4k - Above 30fps and Below 60fps''
       ''Minute of Output Media Content'' ''Media Services - Media Flow'' [(6 / 100)],
     JItem ''B95350'' ''Media Services - Media Flow - Quality - VP8 - 4k - Above 60fps and Below 120fps''
       ''Minute of Output Media Content'' ''Media Services - Media Flow'' [(7 / 100)],
     JItem ''B95351'' ''Media Services - Media Flow - Quality - H265VP9 - SD - Below 30fps''
       ''Minute of Output Media Content'' ''Media Services - Media Flow'' [(3 / 100)],
     JItem ''B95352'' ''Media Services - Media Flow - Quality - H265VP9 - SD - Above 30fps and Below 60fps''
       ''Minute of Output Media Content'' ''Media Services - Media Flow'' [(45 / 1000)],
     JItem ''B95353'' ''Media Services - Media Flow - Quality - H265VP9 - SD - Above 60fps and Below 120fps''
       ''Minute of Output Media Content'' ''Media Services - Media Flow'' [(6 / 100)],
     JItem ''B95354'' ''Media Services - Media Flow - Quality - H265VP9 - HD - Below 30fps''
       ''Minute of Output Media Content'' ''Media Services - Media Flow'' [(6 / 100)],
     JItem ''B95355'' ''Media Services - Media Flow - Quality - H265VP9 - HD - Above 30fps and Below 60fps''
       ''Minute of Output Media Content'' ''Media Services - Media Flow'' [(9 / 100)],
     JItem ''B95356'' ''Media Services - Media Flow - Quality - H265VP9 - HD - Above 60fps and Below 120fps''
       ''Minute of Output Media Content'' ''Media Services - Media Flow'' [(12 / 100)]]"

definition defaultPrice_53 :: "json_item list" where
  "defaultPrice_53 = [
     JItem ''B95357'' ''Media Services - Media Flow - Quality - H265VP9 - 4k - Below 30fps''
       ''Minute of Output Media Content'' ''Media Services - Media Flow'' [(12 / 100)],
     JItem ''B95358'' ''Media Services - Media Flow - Quality - H265VP9 - 4k - Above 30fps and Below 60fps''
       ''Minute of Output Media Content'' ''Media Services - Media Flow'' [(18 / 100)],
     JItem ''B95359'' ''Media Services - Media Flow - Quality - H265VP9 - 4k - Above 60fps and Below 120fps''
       ''Minute of Output Media Content'' ''Media Services - Media Flow'' [(24 / 100)],
     JItem ''B95375'' ''Media Services - Media Streams''
       ''GB of packaged content'' ''Media Services - Media Streams'' [(5 / 100)],
     JItem ''B95403'' ''Network Firewall Instance''
       ''Instance Per Hour'' ''Network Firewall'' [(275 / 100)],
     JItem ''B95404'' ''Network Firewall Data Processing''
       ''Gigabyte (GB) of Data Processed'' ''Network Firewall'' [0, (1 / 100)],
     JItem ''B95410'' ''Oracle ZFS Storage - High Availability''
       ''Instance Per Hour'' ''ZFS Storage'' [(185 / 100)],
     JItem ''B95411'' ''Oracle Cloud VMware Solution - BM.DenseIO.E4.32 - Hourly Commit''
       ''OCPU Per Hour'' ''Compute - VMware'' [(3047 / 10000)]]"

definition defaultPrice_54 :: "json_item list" where
  "defaultPrice_54 = [
     JItem ''B95412'' ''Oracle Cloud VMware Solution - BM.DenseIO.E4.32 - Monthly Commit''
       ''OCPU Per Hour'' ''Compute - VMware'' [(2539 / 10000)],
     JItem ''B95413'' ''Oracle Cloud VMware Solution - BM.DenseIO.E4.32 - 1 year Commit''
       ''OCPU Per Hour'' ''Compute - VMware'' [(2031 / 10000)],
     JItem ''B95414'' ''Oracle Cloud VMware Solution - BM.DenseIO.E4.32 - 3 year Commit''
       ''OCPU Per Hour'' ''Compute - VMware'' [(165 / 1000)],
     JItem ''B95415'' ''Oracle Cloud VMware Solution - BM.DenseIO.E4.128 - Hourly Commit''
       ''OCPU Per Hour'' ''Compute - VMware'' [(195 / 1000)],
     JItem ''B95416'' ''Oracle Cloud VMware Solution - BM.DenseIO.E4.128 - Monthly Commit''
       ''OCPU Per Hour'' ''Compute - VMware'' [(1625 / 10000)],
     JItem ''B95417'' ''Oracle Cloud VMware Solution - BM.DenseIO.E4.128 - 1 year Commit''
       ''OCPU Per Hour'' ''Compute - VMware'' [(13 / 100)],
     JItem ''B95418'' ''Oracle Cloud VMware Solution - BM.DenseIO.E4.128 - 3 year Commit''
       ''OCPU Per Hour'' ''Compute - VMware'' [(1056 / 10000)],
     JItem ''B95427'' ''MySQL Database - AWS - Storage''
       ''Gigabyte Storage Capacity Per Month'' ''Database - MySQL HeatWave on AWS'' [(132 / 1000)]]"

definition defaultPrice_55 :: "json_item list" where
  "defaultPrice_55 = [
     JItem ''B95428'' ''MySQL Database - AWS - Backup Storage''
       ''Gigabyte Storage Capacity Per Month'' ''Database - MySQL HeatWave on AWS'' [(476 / 10000)],
     JItem ''B95485'' ''OCI Full Stack Disaster Recovery Service''
       ''OCPU Per Hour'' ''Full Stack Disaster Recovery'' [(128 / 10000)],
     JItem ''B95518'' ''Secure Desktop''
       ''Desktop Per Month'' ''Secure Desktops'' [20],
     JItem ''B95634'' ''Logging Analytics - Active Storage''
       ''Logging Analytics Storage Unit Per Month'' ''Observability - Logging Analytics'' [372, (2604 / 10), (2232 / 10)],
     JItem ''B95697'' ''OCI Queue''
       ''1,000,000 Requests'' ''OCI Queue'' [0, (22 / 100)],
     JItem ''B95701'' ''Oracle Autonomous Data Warehouse - ECPU''
       ''ECPU Per Hour'' ''Database - Autonomous Database'' [(336 / 1000)],
     JItem ''B95702'' ''Oracle Autonomous Transaction Processing - ECPU''
       ''ECPU Per Hour'' ''Database - Autonomous Database'' [(336 / 1000)]]"

definition defaultPrice_56 :: "json_item list" where
  "defaultPrice_56 = [
     JItem ''B95703'' ''Oracle Autonomous Data Warehouse - ECPU - BYOL''
       ''ECPU Per Hour'' ''Database - Autonomous Database'' [(807 / 10000)],
     JItem ''B95704'' ''Oracle Autonomous Transaction Processing - ECPU - BYOL''
       ''ECPU Per Hour'' ''Database - Autonomous Database'' [(807 / 10000)],
     JItem ''B95706'' ''Oracle Autonomous Database Storage for Transaction Processing''
       ''Gigabyte Storage Capacity Per Month'' ''Database - Autonomous Database'' [(1156 / 10000)],
     JItem ''B95708'' ''Oracle Autonomous Data Warehouse - Exadata Cloud@Customer - ECPU''
       ''ECPU Per Hour'' ''Database - Exadata Database - Cloud@Customer'' [(336 / 1000)],
     JItem ''B95709'' ''Oracle Autonomous Transaction Processing - Exadata Cloud@Customer - ECPU - ECPU Per Hour''
       ''ECPU Per Hour'' ''Database - Exadata Database - Cloud@Customer'' [(336 / 1000)],
     JItem ''B95710'' ''Oracle Autonomous Data Warehouse - Exadata Cloud@Customer - ECPU - BYOL - ECPU Per Hour''
       ''ECPU Per Hour'' ''Database - Exadata Database - Cloud@Customer'' [(807 / 10000)],
     JItem ''B95711'' ''Oracle Autonomous Transaction Processing - Exadata Cloud@Customer - ECPU - BYOL - ECPU Per Hour''
       ''ECPU Per Hour'' ''Database - Exadata Database - Cloud@Customer'' [(807 / 10000)],
     JItem ''B95712'' ''Oracle Autonomous Data Warehouse - Dedicated - ECPU''
       ''ECPU Per Hour'' ''Database - Autonomous Database'' [(336 / 1000)]]"

definition defaultPrice_57 :: "json_item list" where
  "defaultPrice_57 = [
     JItem ''B95713'' ''Oracle Autonomous Transaction Processing - Dedicated - ECPU''
       ''ECPU Per Hour'' ''Database - Autonomous Database'' [(336 / 1000)],
     JItem ''B95714'' ''Oracle Autonomous Data Warehouse - Dedicated - ECPU - BYOL''
       ''ECPU Per Hour'' ''Database - Autonomous Database'' [(807 / 10000)],
     JItem ''B95715'' ''Oracle Autonomous Transaction Processing - Dedicated - ECPU - BYOL''
       ''ECPU Per Hour'' ''Database - Autonomous Database'' [(807 / 10000)],
     JItem ''B95754'' ''Oracle Autonomous Database Storage''
       ''Gigabyte Storage Capacity Per Month'' ''Database - Autonomous Database'' [(244 / 10000)],
     JItem ''B95907'' ''Compute - GPU - A100 - v2''
       ''GPU Per Hour'' ''Compute - GPU'' [4],
     JItem ''B95909'' ''Compute  - GPU - A10''
       ''GPU Per Hour'' ''Compute - GPU'' [2],
     JItem ''B95917'' ''OCI - Language - Custom Inferencing''
       ''1,000 Transactions'' ''OCI Language'' [(35 / 10)],
     JItem ''B95918'' ''OCI - Language - Custom Inferencing - Dedicated''
       ''Inferencing Unit Hour'' ''OCI Language'' [0, (15 / 10)]]"

definition defaultPrice_58 :: "json_item list" where
  "defaultPrice_58 = [
     JItem ''B95919'' ''OCI - Language - Custom Training''
       ''Training Hour'' ''OCI Language'' [0, (15 / 10)],
     JItem ''B95920'' ''OCI - Language - Text Translation''
       ''1,000 Transactions'' ''OCI Language'' [0, 10],
     JItem ''B96109'' ''OCI Kubernetes Engine - Virtual Node''
       ''Virtual Node Per Hour'' ''Cloud Infrastructure Kubernetes Engine (OKE)'' [(15 / 1000)],
     JItem ''B96110'' ''OCI - Document Understanding - OCR''
       ''1,000 Transactions'' ''OCI Document Understanding'' [0, 1],
     JItem ''B96111'' ''OCI - Document Understanding - Document Properties''
       ''1,000 Transactions'' ''OCI Document Understanding'' [0, (25 / 100)],
     JItem ''B96112'' ''OCI - Document Understanding - Document Extraction''
       ''1,000 Transactions'' ''OCI Document Understanding'' [0, 10]]"

definition defaultPrice_59 :: "json_item list" where
  "defaultPrice_59 = [
     JItem ''B96113'' ''OCI - Document Understanding - Custom Training''
       ''Training Hour'' ''OCI Document Understanding'' [0, (15 / 10)],
     JItem ''B96157'' ''MySQL HeatWave - AWS''
       ''HeatWave Capacity Per Hour'' ''HeatWave Cluster'' [(49 / 1000)],
     JItem ''B96158'' ''MySQL Database - AWS - ECPU''
       ''ECPU Per Hour'' ''Database - MySQL HeatWave on AWS'' [(49 / 1000)],
     JItem ''B96159'' ''MySQL Database - AWS - Outbound Data Transfer - Inter AWS Region''
       ''Gigabyte of Data Transferred'' ''Database - MySQL HeatWave on AWS'' [(504 / 10000)],
     JItem ''B96160'' ''MySQL Database - AWS - Outbound Data Transfer - To Internet''
       ''Gigabyte of Data Transferred'' ''Database - MySQL HeatWave on AWS'' [(911 / 10000)],
     JItem ''B96199'' ''OCI Ops Insights for Oracle Autonomous Databases - Basic''
       ''ECPU Per Hour'' ''Observability - Ops Insights'' [0],
     JItem ''B96200'' ''OCI Database Management for Oracle Cloud Databases''
       ''ECPU Per Hour'' ''Oracle Database'' [(25 / 1000)],
     JItem ''B96479'' ''Oracle Compute Cloud@Customer - Compute - Standard - E5''
       ''OCPU Per Hour'' ''Compute Cloud@Customer'' [(3 / 100)]]"

definition defaultPrice_60 :: "json_item list" where
  "defaultPrice_60 = [
     JItem ''B96480'' ''Oracle Compute Cloud@Customer - Compute - Standard - E5 - Memory''
       ''Gibibyte Memory Per Hour'' ''Compute Cloud@Customer'' [(2 / 1000)],
     JItem ''B96481'' ''Oracle Compute Cloud@Customer - Block Volume Storage - Balanced''
       ''Gigabyte Storage Capacity Per Month'' ''Compute Cloud@Customer'' [(425 / 10000)],
     JItem ''B96482'' ''Oracle Compute Cloud@Customer - Block Volume Storage - Performance''
       ''Gigabyte Storage Capacity Per Month'' ''Compute Cloud@Customer'' [(595 / 10000)],
     JItem ''B96483'' ''Oracle Compute Cloud@Customer - File Storage''
       ''Gigabyte Storage Capacity Per Month'' ''Compute Cloud@Customer'' [(3 / 10)],
     JItem ''B96484'' ''Oracle Compute Cloud@Customer - Object Storage - Storage''
       ''Gigabyte Storage Capacity Per Month'' ''Compute Cloud@Customer'' [(255 / 10000)],
     JItem ''B96485'' ''Oracle Compute Cloud@Customer - Load Balancer''
       ''Load Balancer Hour'' ''Compute Cloud@Customer'' [(113 / 10000)],
     JItem ''B96531'' ''OCI - Compute - HPC - E5''
       ''OCPU Per Hour'' ''Compute - Bare Metal'' [(44 / 1000)],
     JItem ''B96545'' ''OCI Kubernetes Engine - Enhanced Cluster''
       ''Cluster Per Hour'' ''Cloud Infrastructure Kubernetes Engine (OKE)'' [(1 / 10)]]"

definition defaultPrice_61 :: "json_item list" where
  "defaultPrice_61 = [
     JItem ''B96582'' ''Oracle Tuxedo for OCI''
       ''OCPU Per Hour'' ''Application Development - Tuxedo'' [(5433 / 10000)],
     JItem ''B96583'' ''Oracle Tuxedo Enterprise Edition for OCI''
       ''OCPU Per Hour'' ''Application Development - Tuxedo'' [(8149 / 10000)],
     JItem ''B96584'' ''Oracle Tuxedo Mainframe Modernization Runtimes for OCI''
       ''OCPU Per Hour'' ''Application Development - Tuxedo'' [(10866 / 10000)],
     JItem ''B96625'' ''OCI - HeatWave - Storage''
       ''Gigabyte Storage Capacity Per Month'' ''HeatWave Cluster'' [(2 / 100)],
     JItem ''B96626'' ''OCI - HeatWave''
       ''HeatWave Capacity Per Hour'' ''HeatWave Cluster'' [(11 / 1000)],
     JItem ''B96629'' ''OCI - Application Performance Monitoring Service - Synthetic Usage - Free''
       ''10 Monitor Runs Per Hour'' ''Observability - APM'' [0],
     JItem ''B97102'' ''Oracle Cloud VMware Solution - Base - BM.Standard2.12 - Hourly Commit''
       ''Node Per Hour'' ''Compute - VMware'' [(4714 / 1000)],
     JItem ''B97103'' ''Oracle Cloud VMware Solution - Base - BM.Standard2.12 - 1 Year Commit''
       ''Node Per Hour'' ''Compute - VMware'' [(37144 / 10000)]]"

definition defaultPrice_62 :: "json_item list" where
  "defaultPrice_62 = [
     JItem ''B97104'' ''Oracle Cloud VMware Solution - Base - BM.Standard2.12 - 3 Year Commit''
       ''Node Per Hour'' ''Compute - VMware'' [(2953 / 1000)],
     JItem ''B97105'' ''Oracle Cloud VMware Solution - Base - BM.Standard3.16 - Hourly Commit''
       ''Node Per Hour'' ''Compute - VMware'' [(5554 / 1000)],
     JItem ''B97106'' ''Oracle Cloud VMware Solution - Base - BM.Standard3.16 - 1 Year Commit''
       ''Node Per Hour'' ''Compute - VMware'' [(42943 / 10000)],
     JItem ''B97107'' ''Oracle Cloud VMware Solution - Base - BM.Standard3.16 - 3 Year Commit''
       ''Node Per Hour'' ''Compute - VMware'' [(33522 / 10000)],
     JItem ''B97108'' ''Oracle Cloud VMware Solution - Base - BM.Standard.E4.32 - Hourly Commit''
       ''Node Per Hour'' ''Compute - VMware'' [(92565 / 10000)],
     JItem ''B97109'' ''Oracle Cloud VMware Solution - Base - BM.Standard.E4.32 - 1 Year Commit''
       ''Node Per Hour'' ''Compute - VMware'' [(69223 / 10000)],
     JItem ''B97110'' ''Oracle Cloud VMware Solution - Base - BM.Standard.E4.32 - 3 Year Commit''
       ''Node Per Hour'' ''Compute - VMware'' [(52233 / 10000)],
     JItem ''B97111'' ''Oracle Cloud VMware Solution - Expansion - Hourly Commit''
       ''OCPU Per Hour'' ''Compute - VMware'' [(1605 / 10000)]]"

definition defaultPrice_63 :: "json_item list" where
  "defaultPrice_63 = [
     JItem ''B97112'' ''Oracle Cloud VMware Solution - Expansion - 1 Year Commit''
       ''OCPU Per Hour'' ''Compute - VMware'' [(1092 / 10000)],
     JItem ''B97113'' ''Oracle Cloud VMware Solution - Expansion - 3 Year Commit''
       ''OCPU Per Hour'' ''Compute - VMware'' [(739 / 10000)],
     JItem ''B97140'' ''OCI Ops Insights for Oracle Cloud Databases''
       ''ECPU Per Hour'' ''Observability - Ops Insights'' [(75 / 10000)],
     JItem ''B97172'' ''Oracle Access Governance for OCI - Workforce User''
       ''Workforce User Per Month'' ''Access Governance'' [(1 / 10), (5 / 1000)],
     JItem ''B97173'' ''Oracle Access Governance for Oracle Workloads - Workforce User''
       ''Workforce User Per Month'' ''Access Governance'' [2, (75 / 100), (1 / 10)],
     JItem ''B97179'' ''Oracle Access Governance Premium - Consumer User''
       ''Consumer User Per Month'' ''Access Governance'' [(16 / 1000)],
     JItem ''B97180'' ''Oracle Access Governance for Oracle Workloads - Consumer User''
       ''Consumer User Per Month'' ''Access Governance'' [(16 / 1000)]]"

definition defaultPrice_64 :: "json_item list" where
  "defaultPrice_64 = [
     JItem ''B97181'' ''Oracle Access Governance Premium - Workforce User''
       ''Workforce User Per Month'' ''Access Governance'' [3, (113 / 100), (15 / 100)],
     JItem ''B97191'' ''Oracle NoSQL Database Cloud - Regional Replicated Write''
       ''Write Unit Per Month'' ''Database - NoSQL'' [(36 / 100)],
     JItem ''B97193'' ''OCI - Document Understanding - Custom Document Properties''
       ''1,000 Transactions'' ''OCI Document Understanding'' [0, (15 / 10)],
     JItem ''B97194'' ''OCI - Document Understanding - Custom Document Extraction''
       ''1,000 Transactions'' ''OCI Document Understanding'' [0, 30],
     JItem ''B97197'' ''Oracle Base Database Service on Arm - Enterprise''
       ''OCPU Per Hour'' ''Database - Base Database Service - Virtual Machine'' [(2151 / 10000)],
     JItem ''B97198'' ''Oracle Base Database Service on Arm - High Performance''
       ''OCPU Per Hour'' ''Database - Base Database Service - Virtual Machine'' [(4436 / 10000)],
     JItem ''B97199'' ''Oracle Base Database Service on Arm - Extreme Performance''
       ''OCPU Per Hour'' ''Database - Base Database Service - Virtual Machine'' [(6721 / 10000)]]"

definition defaultPrice_65 :: "json_item list" where
  "defaultPrice_65 = [
     JItem ''B97200'' ''Oracle Base Database Service on Arm - BYOL''
       ''OCPU Per Hour'' ''Database - Base Database Service - Virtual Machine'' [(968 / 10000)],
     JItem ''B97384'' ''Compute - Standard - E5 - OCPU''
       ''OCPU Per Hour'' ''Compute - Virtual Machine'' [(3 / 100)],
     JItem ''B97385'' ''Compute - Standard - E5 - Memory''
       ''Gigabyte Per Hour'' ''Compute - Virtual Machine'' [(2 / 1000)],
     JItem ''B98100'' ''OCI - External Key Management''
       ''Key Version Per Month'' ''Security - Key Management'' [3],
     JItem ''B98202'' ''Oracle Cloud Infrastructure - Compute - Dense I/O - E5 OCPU''
       ''OCPU Per Hour'' ''Compute - Virtual Machine'' [(3 / 100)],
     JItem ''B98203'' ''Oracle Cloud Infrastructure - Compute - Dense I/O - E5 Memory''
       ''Gigabyte Per Hour'' ''Compute - Virtual Machine'' [(2 / 1000)],
     JItem ''B98204'' ''Oracle Cloud Infrastructure - Compute - Dense I/O - E5 NVMe''
       ''NVMe Terabyte Per Hour'' ''Compute - Virtual Machine'' [(612 / 10000)],
     JItem ''B98217'' ''Oracle Cloud Infrastructure Cache with Redis - Low Memory (up to 10 GB per node)''
       ''Redis Memory Gigabyte per Hour'' ''Cache with Redis'' [(194 / 10000)]]"

definition defaultPrice_66 :: "json_item list" where
  "defaultPrice_66 = [
     JItem ''B98277'' ''Oracle Autonomous Transaction Processing - Exadata Cloud@Customer - Developer''
       ''Instance Per Hour'' ''Database - Exadata Database - Cloud@Customer'' [0],
     JItem ''B98278'' ''Oracle Autonomous Data Warehouse - Exadata Cloud@Customer - Developer''
       ''Instance Per Hour'' ''Database - Exadata Database - Cloud@Customer'' [0],
     JItem ''B98279'' ''Oracle Autonomous Transaction Processing - Dedicated - Developer''
       ''Instance Per Hour'' ''Database - Autonomous Database'' [0],
     JItem ''B98280'' ''Oracle Autonomous Data Warehouse - Dedicated - Developer''
       ''Instance Per Hour'' ''Database - Autonomous Database'' [0],
     JItem ''B98415'' ''Oracle Cloud Infrastructure - Compute - GPU - H100''
       ''GPU Per Hour'' ''Compute - GPU'' [10],
     JItem ''B99060'' ''Database with PostgreSQL - X86''
       ''OCPU Per Hour'' ''Database with PostgreSQL'' [(98 / 1000)],
     JItem ''B99062'' ''Database Optimized Storage''
       ''Gigabyte Storage Capacity Per Month'' ''Database with PostgreSQL'' [(72 / 1000)],
     JItem ''B99259'' ''OCI - Application Performance Monitoring Service - Stack Monitoring - Enterprise Edition''
       ''10 Monitored Resources Per Hour'' ''Observability - APM'' [(38 / 100)]]"

definition defaultPrice_67 :: "json_item list" where
  "defaultPrice_67 = [
     JItem ''B99591'' ''Oracle Cloud Infrastructure Cache with Redis - High Memory (over 10 GB per node)''
       ''Redis Memory Gigabyte per Hour'' ''Cache with Redis'' [(136 / 10000)],
     JItem ''B99593'' ''Oracle Globally Distributed Autonomous Transaction Processing - Dedicated''
       ''ECPU Per Hour'' ''Database - Autonomous Database'' [(3864 / 10000)],
     JItem ''B99594'' ''Oracle Globally Distributed Autonomous Transaction Processing - Dedicated - BYOL''
       ''ECPU Per Hour'' ''Database - Autonomous Database'' [(928 / 10000)],
     JItem ''B99595'' ''Oracle Globally Distributed Autonomous Data Warehouse - Dedicated''
       ''ECPU Per Hour'' ''Database - Autonomous Database'' [(3864 / 10000)],
     JItem ''B99596'' ''Oracle Globally Distributed Autonomous Data Warehouse - Dedicated - BYOL''
       ''ECPU Per Hour'' ''Database - Autonomous Database'' [(928 / 10000)],
     JItem ''B99597'' ''OCI - Dedicated Key Management (Minimum 3 HSM Partitions)''
       ''HSM Partition Per Hour'' ''Security - Key Management'' [(175 / 100)],
     JItem ''B99708'' ''Oracle Autonomous JSON Database - ECPU''
       ''ECPU Per Hour'' ''Database - Autonomous JSON Database'' [(807 / 10000)],
     JItem ''B99709'' ''Oracle APEX Application Development - ECPU''
       ''ECPU Per Hour'' ''APEX Application Development'' [(807 / 10000)]]"

definition defaultPrice :: "json_item list" where
  "defaultPrice = concat [
     defaultPrice_1, defaultPrice_2, defaultPrice_3, defaultPrice_4, defaultPrice_5, defaultPrice_6, defaultPrice_7, defaultPrice_8, defaultPrice_9, defaultPrice_10, defaultPrice_11, defaultPrice_12, defaultPrice_13, defaultPrice_14, defaultPrice_15, defaultPrice_16, defaultPrice_17, defaultPrice_18, defaultPrice_19, defaultPrice_20, defaultPrice_21, defaultPrice_22, defaultPrice_23, defaultPrice_24, defaultPrice_25, defaultPrice_26, defaultPrice_27, defaultPrice_28, defaultPrice_29, defaultPrice_30, defaultPrice_31, defaultPrice_32, defaultPrice_33, defaultPrice_34, defaultPrice_35, defaultPrice_36, defaultPrice_37, defaultPrice_38, defaultPrice_39, defaultPrice_40, defaultPrice_41, defaultPrice_42, defaultPrice_43, defaultPrice_44, defaultPrice_45, defaultPrice_46, defaultPrice_47, defaultPrice_48, defaultPrice_49, defaultPrice_50, defaultPrice_51, defaultPrice_52, defaultPrice_53, defaultPrice_54, defaultPrice_55, defaultPrice_56, defaultPrice_57, defaultPrice_58, defaultPrice_59, defaultPrice_60, defaultPrice_61, defaultPrice_62, defaultPrice_63, defaultPrice_64, defaultPrice_65, defaultPrice_66, defaultPrice_67]"

definition decode_item :: "json_item \<Rightarrow> item" where
  "decode_item j = \<lparr>PartNumber = ji_partNumber j, DisplayName = ji_displayName j, MetricName = ji_metricName j,
     ServiceCategory = ji_serviceCategory j,
     CurrencyCodeLocalizations = [\<lparr>ccl_CurrencyCode = ''USD'',
       ccl_Prices = map (\<lambda>v. \<lparr>price_Model = ''PAY_AS_YOU_GO'', price_Value = r32 v\<rparr>) (ji_values j)\<rparr>]\<rparr>"

definition default_catalog :: priceCatalog where
  "default_catalog = \<lparr>Items = map decode_item defaultPrice\<rparr>"

section \<open>The compute items\<close>

text \<open>The search of the catalogue only ever looks at four service categories; these are the items of the embedded list in
  them.\<close>

definition compute_categories :: "string list" where
  "compute_categories = [''Compute - GPU'', ''Compute - Bare Metal'', ''Compute - Virtual Machine'', ''Compute - VMware'']"

definition is_compute :: "json_item \<Rightarrow> bool" where
  "is_compute j \<longleftrightarrow> ji_serviceCategory j \<in> set compute_categories"

lemma compute_1: "filter is_compute defaultPrice_1 = []"
  by (simp add: is_compute_def compute_categories_def defaultPrice_1_def)

lemma compute_2: "filter is_compute defaultPrice_2 = []"
  by (simp add: is_compute_def compute_categories_def defaultPrice_2_def)

lemma compute_3: "filter is_compute defaultPrice_3 = []"
  by (simp add: is_compute_def compute_categories_def defaultPrice_3_def)

lemma compute_4: "filter is_compute defaultPrice_4 = [JItem ''B108806'' ''Oracle Cloud VMware Solution - BM.GPU.A10.64 - Monthly Commit''
       ''Node Per Hour'' ''Compute - VMware'' [16],
     JItem ''B108807'' ''Oracle Cloud VMware Solution - BM.GPU.A10.64 - 1 Year Commit''
       ''Node Per Hour'' ''Compute - VMware'' [13]]"
  by (simp add: is_compute_def compute_categories_def defaultPrice_4_def)

lemma compute_5: "filter is_compute defaultPrice_5 = [JItem ''B108808'' ''Oracle Cloud VMware Solution - BM.GPU.A10.64 - 3 Year Commit''
       ''Node Per Hour'' ''Compute - VMware'' [11],
     JItem ''B108809'' ''Oracle Cloud VMware Solution - BM.Standard.E5.48 - Hourly Commit''
       ''Node Per Hour'' ''Compute - VMware'' [(166617 / 10000)],
     JItem ''B108810'' ''Oracle Cloud VMware Solution - BM.Standard.E5.48 - 1 Year Commit''
       ''Node Per Hour'' ''Compute - VMware'' [(131604 / 10000)],
     JItem ''B108811'' ''Oracle Cloud VMware Solution - BM.Standard.E5.48 - 3 Year Commit''
       ''Node Per Hour'' ''Compute - VMware'' [(106119 / 10000)]]"
  by (simp add: is_compute_def compute_categories_def defaultPrice_5_def)

lemma compute_6: "filter is_compute defaultPrice_6 = []"
  by (simp add: is_compute_def compute_categories_def defaultPrice_6_def)

lemma compute_7: "filter is_compute defaultPrice_7 = [JItem ''B109479'' ''Compute - GPU - L40S''
       ''GPU Per Hour'' ''Compute - GPU'' [(35 / 10)],
     JItem ''B109485'' ''OCI - Compute - GPU - MI300X''
       ''GPU Per Hour'' ''Compute - GPU'' [6]]"
  by (simp add: is_compute_def compute_categories_def defaultPrice_7_def)

lemma compute_8: "filter is_compute defaultPrice_8 = [JItem ''B109529'' ''Compute - Standard - A2 OCPU''
       ''OCPU Per Hour'' ''Compute - Virtual Machine'' [(14 / 1000)],
     JItem ''B109530'' ''Compute - Standard - A2 Memory''
       ''Gigabyte Per Hour'' ''Compute - Virtual Machine'' [(2 / 1000)],
     JItem ''B112145'' ''OCI - Compute - Standard - A4 - OCPU''
       ''OCPU Per Hour'' ''Compute - Virtual Machine'' [(138 / 10000)],
     JItem ''B112146'' ''OCI - Compute - Standard - A4 - Memory''
       ''Gigabyte Per Hour'' ''Compute - Virtual Machine'' [(27 / 10000)]]"
  by (simp add: is_compute_def compute_categories_def defaultPrice_8_def)

lemma compute_9: "filter is_compute defaultPrice_9 = []"
  by (simp add: is_compute_def compute_categories_def defaultPrice_9_def)

lemma compute_10: "filter is_compute defaultPrice_10 = [JItem ''B110519'' ''OCI - Compute - GPU - H200''
       ''GPU Per Hour'' ''Compute - GPU'' [10]]"
  by (simp add: is_compute_def compute_categories_def defaultPrice_10_def)

lemma compute_11: "filter is_compute defaultPrice_11 = []"
  by (simp add: is_compute_def compute_categories_def defaultPrice_11_def)

lemma compute_12: "filter is_compute defaultPrice_12 = [JItem ''B110680'' ''Oracle Cloud VMware Solution - BM.DenseIO.E5.32 - Hourly Commit''
       ''Node Per Hour'' ''Compute - VMware'' [(102379 / 10000)],
     JItem ''B110681'' ''Oracle Cloud VMware Solution - BM.DenseIO.E5.32 - Monthly Commit''
       ''Node Per Hour'' ''Compute - VMware'' [(8531 / 1000)],
     JItem ''B110682'' ''Oracle Cloud VMware Solution - BM.DenseIO.E5.32 - 1 Year Commit''
       ''Node Per Hour'' ''Compute - VMware'' [(68242 / 10000)],
     JItem ''B110683'' ''Oracle Cloud VMware Solution - BM.DenseIO.E5.32 - 3 Year Commit''
       ''Node Per Hour'' ''Compute - VMware'' [(6072 / 1000)],
     JItem ''B110684'' ''Oracle Cloud VMware Solution - Expansion - Monthly Commit''
       ''OCPU Per Hour'' ''Compute - VMware'' [(1338 / 10000)],
     JItem ''B110978'' ''OCI - Compute - GPU - B200''
       ''GPU Per Hour'' ''Compute - GPU'' [14]]"
  by (simp add: is_compute_def compute_categories_def defaultPrice_12_def)

lemma compute_13: "filter is_compute defaultPrice_13 = [JItem ''B110979'' ''OCI - Compute - GPU - GB200''
       ''GPU Per Hour'' ''Compute - GPU'' [16]]"
  by (simp add: is_compute_def compute_categories_def defaultPrice_13_def)

lemma compute_14: "filter is_compute defaultPrice_14 = [JItem ''B111129'' ''OCI - Compute - Standard - E6 - OCPU''
       ''OCPU Per Hour'' ''Compute - Virtual Machine'' [(3 / 100)],
     JItem ''B111130'' ''OCI - Compute - Standard - E6 - Memory''
       ''Gigabyte Per Hour'' ''Compute - Virtual Machine'' [(2 / 1000)]]"
  by (simp add: is_compute_def compute_categories_def defaultPrice_14_def)

lemma compute_15: "filter is_compute defaultPrice_15 = [JItem ''B88315'' ''Compute - Bare Metal Standard - X5''
       ''OCPU Per Hour'' ''Compute - Bare Metal'' [(638 / 10000)],
     JItem ''B88317'' ''Compute - Virtual Machine Standard - X5''
       ''OCPU Per Hour'' ''Compute - Virtual Machine'' [(638 / 10000)]]"
  by (simp add: is_compute_def compute_categories_def defaultPrice_15_def)

lemma compute_16: "filter is_compute defaultPrice_16 = [JItem ''B88513'' ''Compute - Bare Metal Standard - X7''
       ''OCPU Per Hour'' ''Compute - Bare Metal'' [(638 / 10000)],
     JItem ''B88514'' ''Compute - Virtual Machine Standard - X7''
       ''OCPU Per Hour'' ''Compute - Virtual Machine'' [(638 / 10000)],
     JItem ''B88515'' ''Compute - Bare Metal Dense I/O - X7''
       ''OCPU Per Hour'' ''Compute - Bare Metal'' [(1275 / 10000)],
     JItem ''B88516'' ''Compute - Virtual Machine Dense I/O - X7''
       ''OCPU Per Hour'' ''Compute - Virtual Machine'' [(1275 / 10000)],
     JItem ''B88517'' ''Compute - Bare Metal GPU Standard - X7''
       ''GPU Per Hour'' ''Compute - GPU'' [(1275 / 1000)]]"
  by (simp add: is_compute_def compute_categories_def defaultPrice_16_def)

lemma compute_17: "filter is_compute defaultPrice_17 = [JItem ''B88518'' ''Compute - Virtual Machine GPU Standard - X7''
       ''GPU Per Hour'' ''Compute - GPU'' [(1275 / 1000)]]"
  by (simp add: is_compute_def compute_categories_def defaultPrice_17_def)

lemma compute_18: "filter is_compute defaultPrice_18 = [JItem ''B89734'' ''Compute - GPU Standard - V2''
       ''GPU Per Hour'' ''Compute - GPU'' [(295 / 100)]]"
  by (simp add: is_compute_def compute_categories_def defaultPrice_18_def)

lemma compute_19: "filter is_compute defaultPrice_19 = []"
  by (simp add: is_compute_def compute_categories_def defaultPrice_19_def)

lemma compute_20: "filter is_compute defaultPrice_20 = []"
  by (simp add: is_compute_def compute_categories_def defaultPrice_20_def)

lemma compute_21: "filter is_compute defaultPrice_21 = [JItem ''B90398'' ''Compute - Bare Metal Standard - HPC - X7''
       ''OCPU Per Hour'' ''Compute - Bare Metal'' [(75 / 1000)],
     JItem ''B90425'' ''Compute - Standard - E2''
       ''OCPU Per Hour'' ''Compute - Virtual Machine'' [(3 / 100)]]"
  by (simp add: is_compute_def compute_categories_def defaultPrice_21_def)

lemma compute_22: "filter is_compute defaultPrice_22 = []"
  by (simp add: is_compute_def compute_categories_def defaultPrice_22_def)

lemma compute_23: "filter is_compute defaultPrice_23 = []"
  by (simp add: is_compute_def compute_categories_def defaultPrice_23_def)

lemma compute_24: "filter is_compute defaultPrice_24 = [JItem ''B91119'' ''Compute - Bare Metal Standard - B1''
       ''OCPU Per Hour'' ''Compute - Bare Metal'' [(638 / 10000)],
     JItem ''B91120'' ''Compute - Virtual Machine Standard - B1''
       ''OCPU Per Hour'' ''Compute - Virtual Machine'' [(638 / 10000)]]"
  by (simp add: is_compute_def compute_categories_def defaultPrice_24_def)

lemma compute_25: "filter is_compute defaultPrice_25 = []"
  by (simp add: is_compute_def compute_categories_def defaultPrice_25_def)

lemma compute_26: "filter is_compute defaultPrice_26 = [JItem ''B91444'' ''Compute - Virtual Machine Standard - E2 Micro - Free''
       ''OCPU Per Hour'' ''Compute - Virtual Machine'' [0]]"
  by (simp add: is_compute_def compute_categories_def defaultPrice_26_def)

lemma compute_27: "filter is_compute defaultPrice_27 = []"
  by (simp add: is_compute_def compute_categories_def defaultPrice_27_def)

lemma compute_28: "filter is_compute defaultPrice_28 = [JItem ''B92306'' ''Compute - Standard - E3 - OCPU''
       ''OCPU Per Hour'' ''Compute - Virtual Machine'' [(25 / 1000)],
     JItem ''B92307'' ''Compute - Standard - E3 - Memory''
       ''Gigabyte Per Hour'' ''Compute - Virtual Machine'' [(15 / 10000)]]"
  by (simp add: is_compute_def compute_categories_def defaultPrice_28_def)

lemma compute_29: "filter is_compute defaultPrice_29 = [JItem ''B92386'' ''Oracle Cloud Vmware Solution  - BM.DenseIO2.52 - 1 Month Commit''
       ''OCPU Per Hour'' ''Compute - VMware'' [(2031 / 10000)]]"
  by (simp add: is_compute_def compute_categories_def defaultPrice_29_def)

lemma compute_30: "filter is_compute defaultPrice_30 = []"
  by (simp add: is_compute_def compute_categories_def defaultPrice_30_def)

lemma compute_31: "filter is_compute defaultPrice_31 = [JItem ''B92740'' ''Compute - GPU - E3''
       ''GPU Per Hour'' ''Compute - GPU'' [(305 / 100)]]"
  by (simp add: is_compute_def compute_categories_def defaultPrice_31_def)

lemma compute_32: "filter is_compute defaultPrice_32 = []"
  by (simp add: is_compute_def compute_categories_def defaultPrice_32_def)

lemma compute_33: "filter is_compute defaultPrice_33 = []"
  by (simp add: is_compute_def compute_categories_def defaultPrice_33_def)

lemma compute_34: "filter is_compute defaultPrice_34 = []"
  by (simp add: is_compute_def compute_categories_def defaultPrice_34_def)

lemma compute_35: "filter is_compute defaultPrice_35 = [JItem ''B93113'' ''Compute - Standard - E4 - OCPU''
       ''OCPU Per Hour'' ''Compute - Virtual Machine'' [(25 / 1000)],
     JItem ''B93114'' ''Compute - Standard - E4  - Memory''
       ''Gigabyte Per Hour'' ''Compute - Virtual Machine'' [(15 / 10000)],
     JItem ''B93121'' ''Compute - Dense I/O - E4 - OCPU''
       ''OCPU Per Hour'' ''Compute - Virtual Machine'' [(25 / 1000)],
     JItem ''B93122'' ''Compute - Dense I/O - E4 - Memory''
       ''Gigabyte Per Hour'' ''Compute - Virtual Machine'' [(15 / 10000)],
     JItem ''B93123'' ''Compute - Dense I/O - E4 - NVMe''
       ''NVMe Terabyte Per Hour'' ''Compute - Virtual Machine'' [(612 / 10000)]]"
  by (simp add: is_compute_def compute_categories_def defaultPrice_35_def)

lemma compute_36: "filter is_compute defaultPrice_36 = [JItem ''B93288'' ''Oracle Cloud VMware Solution - BM.DenseIO2.52 - Hourly Commit''
       ''OCPU Per Hour'' ''Compute - VMware'' [(2437 / 10000)],
     JItem ''B93289'' ''Oracle Cloud VMware Solution - BM.DenseIO2.52 - 1 Year Commit''
       ''OCPU Per Hour'' ''Compute - VMware'' [(1625 / 10000)],
     JItem ''B93290'' ''Oracle Cloud VMware Solution - BM.DenseIO2.52 - 3 Year Commit''
       ''OCPU Per Hour'' ''Compute - VMware'' [(132 / 1000)],
     JItem ''B93297'' ''Compute - Standard - A1 - OCPU''
       ''OCPU Per Hour'' ''Compute - Virtual Machine'' [0, (1 / 100)],
     JItem ''B93298'' ''Compute - Standard - A1 - Memory''
       ''Gigabyte Per Hour'' ''Compute - Virtual Machine'' [0, (15 / 10000)]]"
  by (simp add: is_compute_def compute_categories_def defaultPrice_36_def)

lemma compute_37: "filter is_compute defaultPrice_37 = [JItem ''B93311'' ''Compute - Optimized - X9 - OCPU''
       ''OCPU Per Hour'' ''Compute - Virtual Machine'' [(54 / 1000)],
     JItem ''B93312'' ''Compute - Optimized - X9 - Memory''
       ''Gigabyte Per Hour'' ''Compute - Virtual Machine'' [(15 / 10000)],
     JItem ''B93421'' ''Oracle Cloud VMware Solution - HCX Enterprise - Monthly''
       ''OCPU Per Hour'' ''Compute - VMware'' [(126 / 10000)]]"
  by (simp add: is_compute_def compute_categories_def defaultPrice_37_def)

lemma compute_38: "filter is_compute defaultPrice_38 = []"
  by (simp add: is_compute_def compute_categories_def defaultPrice_38_def)

lemma compute_39: "filter is_compute defaultPrice_39 = []"
  by (simp add: is_compute_def compute_categories_def defaultPrice_39_def)

lemma compute_40: "filter is_compute defaultPrice_40 = [JItem ''B94176'' ''Compute - Standard - X9 - OCPU''
       ''OCPU Per Hour'' ''Compute - Virtual Machine'' [(4 / 100)],
     JItem ''B94177'' ''Compute - Standard - X9 - Memory''
       ''Gigabyte Per Hour'' ''Compute - Virtual Machine'' [(15 / 10000)]]"
  by (simp add: is_compute_def compute_categories_def defaultPrice_40_def)

lemma compute_41: "filter is_compute defaultPrice_41 = []"
  by (simp add: is_compute_def compute_categories_def defaultPrice_41_def)

lemma compute_42: "filter is_compute defaultPrice_42 = [JItem ''B95178'' ''Oracle Cloud VMware Solution - BM.DenseIO.E4.64 - Hourly Commit''
       ''OCPU Per Hour'' ''Compute - VMware'' [(2437 / 10000)],
     JItem ''B95179'' ''Oracle Cloud VMware Solution - BM.DenseIO.E4.64 - Monthly Commit''
       ''OCPU Per Hour'' ''Compute - VMware'' [(2031 / 10000)],
     JItem ''B95180'' ''Oracle Cloud VMware Solution - BM.DenseIO.E4.64 - 1 year Commit''
       ''OCPU Per Hour'' ''Compute - VMware'' [(1625 / 10000)],
     JItem ''B95181'' ''Oracle Cloud VMware Solution - BM.DenseIO.E4.64 - 3 year Commit''
       ''OCPU Per Hour'' ''Compute - VMware'' [(132 / 1000)]]"
  by (simp add: is_compute_def compute_categories_def defaultPrice_42_def)

lemma compute_43: "filter is_compute defaultPrice_43 = []"
  by (simp add: is_compute_def compute_categories_def defaultPrice_43_def)

lemma compute_44: "filter is_compute defaultPrice_44 = []"
  by (simp add: is_compute_def compute_categories_def defaultPrice_44_def)

lemma compute_45: "filter is_compute defaultPrice_45 = []"
  by (simp add: is_compute_def compute_categories_def defaultPrice_45_def)

lemma compute_46: "filter is_compute defaultPrice_46 = []"
  by (simp add: is_compute_def compute_categories_def defaultPrice_46_def)

lemma compute_47: "filter is_compute defaultPrice_47 = []"
  by (simp add: is_compute_def compute_categories_def defaultPrice_47_def)

lemma compute_48: "filter is_compute defaultPrice_48 = []"
  by (simp add: is_compute_def compute_categories_def defaultPrice_48_def)

lemma compute_49: "filter is_compute defaultPrice_49 = []"
  by (simp add: is_compute_def compute_categories_def defaultPrice_49_def)

lemma compute_50: "filter is_compute defaultPrice_50 = []"
  by (simp add: is_compute_def compute_categories_def defaultPrice_50_def)

lemma compute_51: "filter is_compute defaultPrice_51 = []"
  by (simp add: is_compute_def compute_categories_def defaultPrice_51_def)

lemma compute_52: "filter is_compute defaultPrice_52 = []"
  by (simp add: is_compute_def compute_categories_def defaultPrice_52_def)

lemma compute_53: "filter is_compute defaultPrice_53 = [JItem ''B95411'' ''Oracle Cloud VMware Solution - BM.DenseIO.E4.32 - Hourly Commit''
       ''OCPU Per Hour'' ''Compute - VMware'' [(3047 / 10000)]]"
  by (simp add: is_compute_def compute_categories_def defaultPrice_53_def)

lemma compute_54: "filter is_compute defaultPrice_54 = [JItem ''B95412'' ''Oracle Cloud VMware Solution - BM.DenseIO.E4.32 - Monthly Commit''
       ''OCPU Per Hour'' ''Compute - VMware'' [(2539 / 10000)],
     JItem ''B95413'' ''Oracle Cloud VMware Solution - BM.DenseIO.E4.32 - 1 year Commit''
       ''OCPU Per Hour'' ''Compute - VMware'' [(2031 / 10000)],
     JItem ''B95414'' ''Oracle Cloud VMware Solution - BM.DenseIO.E4.32 - 3 year Commit''
       ''OCPU Per Hour'' ''Compute - VMware'' [(165 / 1000)],
     JItem ''B95415'' ''Oracle Cloud VMware Solution - BM.DenseIO.E4.128 - Hourly Commit''
       ''OCPU Per Hour'' ''Compute - VMware'' [(195 / 1000)],
     JItem ''B95416'' ''Oracle Cloud VMware Solution - BM.DenseIO.E4.128 - Monthly Commit''
       ''OCPU Per Hour'' ''Compute - VMware'' [(1625 / 10000)],
     JItem ''B95417'' ''Oracle Cloud VMware Solution - BM.DenseIO.E4.128 - 1 year Commit''
       ''OCPU Per Hour'' ''Compute - VMware'' [(13 / 100)],
     JItem ''B95418'' ''Oracle Cloud VMware Solution - BM.DenseIO.E4.128 - 3 year Commit''
       ''OCPU Per Hour'' ''Compute - VMware'' [(1056 / 10000)]]"
  by (simp add: is_compute_def compute_categories_def defaultPrice_54_def)

lemma compute_55: "filter is_compute defaultPrice_55 = []"
  by (simp add: is_compute_def compute_categories_def defaultPrice_55_def)

lemma compute_56: "filter is_compute defaultPrice_56 = []"
  by (simp add: is_compute_def compute_categories_def defaultPrice_56_def)

lemma compute_57: "filter is_compute defaultPrice_57 = [JItem ''B95907'' ''Compute - GPU - A100 - v2''
       ''GPU Per Hour'' ''Compute - GPU'' [4],
     JItem ''B95909'' ''Compute  - GPU - A10''
       ''GPU Per Hour'' ''Compute - GPU'' [2]]"
  by (simp add: is_compute_def compute_categories_def defaultPrice_57_def)

lemma compute_58: "filter is_compute defaultPrice_58 = []"
  by (simp add: is_compute_def compute_categories_def defaultPrice_58_def)

lemma compute_59: "filter is_compute defaultPrice_59 = []"
  by (simp add: is_compute_def compute_categories_def defaultPrice_59_def)

lemma compute_60: "filter is_compute defaultPrice_60 = [JItem ''B96531'' ''OCI - Compute - HPC - E5''
       ''OCPU Per Hour'' ''Compute - Bare Metal'' [(44 / 1000)]]"
  by (simp add: is_compute_def compute_categories_def defaultPrice_60_def)

lemma compute_61: "filter is_compute defaultPrice_61 = [JItem ''B97102'' ''Oracle Cloud VMware Solution - Base - BM.Standard2.12 - Hourly Commit''
       ''Node Per Hour'' ''Compute - VMware'' [(4714 / 1000)],
     JItem ''B97103'' ''Oracle Cloud VMware Solution - Base - BM.Standard2.12 - 1 Year Commit''
       ''Node Per Hour'' ''Compute - VMware'' [(37144 / 10000)]]"
  by (simp add: is_compute_def compute_categories_def defaultPrice_61_def)

lemma compute_62: "filter is_compute defaultPrice_62 = [JItem ''B97104'' ''Oracle Cloud VMware Solution - Base - BM.Standard2.12 - 3 Year Commit''
       ''Node Per Hour'' ''Compute - VMware'' [(2953 / 1000)],
     JItem ''B97105'' ''Oracle Cloud VMware Solution - Base - BM.Standard3.16 - Hourly Commit''
       ''Node Per Hour'' ''Compute - VMware'' [(5554 / 1000)],
     JItem ''B97106'' ''Oracle Cloud VMware Solution - Base - BM.Standard3.16 - 1 Year Commit''
       ''Node Per Hour'' ''Compute - VMware'' [(42943 / 10000)],
     JItem ''B97107'' ''Oracle Cloud VMware Solution - Base - BM.Standard3.16 - 3 Year Commit''
       ''Node Per Hour'' ''Compute - VMware'' [(33522 / 10000)],
     JItem ''B97108'' ''Oracle Cloud VMware Solution - Base - BM.Standard.E4.32 - Hourly Commit''
       ''Node Per Hour'' ''Compute - VMware'' [(92565 / 10000)],
     JItem ''B97109'' ''Oracle Cloud VMware Solution - Base - BM.Standard.E4.32 - 1 Year Commit''
       ''Node Per Hour'' ''Compute - VMware'' [(69223 / 10000)],
     JItem ''B97110'' ''Oracle Cloud VMware Solution - Base - BM.Standard.E4.32 - 3 Year Commit''
       ''Node Per Hour'' ''Compute - VMware'' [(52233 / 10000)],
     JItem ''B97111'' ''Oracle Cloud VMware Solution - Expansion - Hourly Commit''
       ''OCPU Per Hour'' ''Compute - VMware'' [(1605 / 10000)]]"
  by (simp add: is_compute_def compute_categories_def defaultPrice_62_def)

lemma compute_63: "filter is_compute defaultPrice_63 = [JItem ''B97112'' ''Oracle Cloud VMware Solution - Expansion - 1 Year Commit''
       ''OCPU Per Hour'' ''Compute - VMware'' [(1092 / 10000)],
     JItem ''B97113'' ''Oracle Cloud VMware Solution - Expansion - 3 Year Commit''
       ''OCPU Per Hour'' ''Compute - VMware'' [(739 / 10000)]]"
  by (simp add: is_compute_def compute_categories_def defaultPrice_63_def)

lemma compute_64: "filter is_compute defaultPrice_64 = []"
  by (simp add: is_compute_def compute_categories_def defaultPrice_64_def)

lemma compute_65: "filter is_compute defaultPrice_65 = [JItem ''B97384'' ''Compute - Standard - E5 - OCPU''
       ''OCPU Per Hour'' ''Compute - Virtual Machine'' [(3 / 100)],
     JItem ''B97385'' ''Compute - Standard - E5 - Memory''
       ''Gigabyte Per Hour'' ''Compute - Virtual Machine'' [(2 / 1000)],
     JItem ''B98202'' ''Oracle Cloud Infrastructure - Compute - Dense I/O - E5 OCPU''
       ''OCPU Per Hour'' ''Compute - Virtual Machine'' [(3 / 100)],
     JItem ''B98203'' ''Oracle Cloud Infrastructure - Compute - Dense I/O - E5 Memory''
       ''Gigabyte Per Hour'' ''Compute - Virtual Machine'' [(2 / 1000)],
     JItem ''B98204'' ''Oracle Cloud Infrastructure - Compute - Dense I/O - E5 NVMe''
       ''NVMe Terabyte Per Hour'' ''Compute - Virtual Machine'' [(612 / 10000)]]"
  by (simp add: is_compute_def compute_categories_def defaultPrice_65_def)

lemma compute_66: "filter is_compute defaultPrice_66 = [JItem ''B98415'' ''Oracle Cloud Infrastructure - Compute - GPU - H100''
       ''GPU Per Hour'' ''Compute - GPU'' [10]]"
  by (simp add: is_compute_def compute_categories_def defaultPrice_66_def)

lemma compute_67: "filter is_compute defaultPrice_67 = []"
  by (simp add: is_compute_def compute_categories_def defaultPrice_67_def)

definition compute_items :: "json_item list" where
  "compute_items = [
     JItem ''B108806'' ''Oracle Cloud VMware Solution - BM.GPU.A10.64 - Monthly Commit''
       ''Node Per Hour'' ''Compute - VMware'' [16],
     JItem ''B108807'' ''Oracle Cloud VMware Solution - BM.GPU.A10.64 - 1 Year Commit''
       ''Node Per Hour'' ''Compute - VMware'' [13],
     JItem ''B108808'' ''Oracle Cloud VMware Solution - BM.GPU.A10.64 - 3 Year Commit''
       ''Node Per Hour'' ''Compute - VMware'' [11],
     JItem ''B108809'' ''Oracle Cloud VMware Solution - BM.Standard.E5.48 - Hourly Commit''
       ''Node Per Hour'' ''Compute - VMware'' [(166617 / 10000)],
     JItem ''B108810'' ''Oracle Cloud VMware Solution - BM.Standard.E5.48 - 1 Year Commit''
       ''Node Per Hour'' ''Compute - VMware'' [(131604 / 10000)],
     JItem ''B108811'' ''Oracle Cloud VMware Solution - BM.Standard.E5.48 - 3 Year Commit''
       ''Node Per Hour'' ''Compute - VMware'' [(106119 / 10000)],
     JItem ''B109479'' ''Compute - GPU - L40S''
       ''GPU Per Hour'' ''Compute - GPU'' [(35 / 10)],
     JItem ''B109485'' ''OCI - Compute - GPU - MI300X''
       ''GPU Per Hour'' ''Compute - GPU'' [6],
     JItem ''B109529'' ''Compute - Standard - A2 OCPU''
       ''OCPU Per Hour'' ''Compute - Virtual Machine'' [(14 / 1000)],
     JItem ''B109530'' ''Compute - Standard - A2 Memory''
       ''Gigabyte Per Hour'' ''Compute - Virtual Machine'' [(2 / 1000)],
     JItem ''B112145'' ''OCI - Compute - Standard - A4 - OCPU''
       ''OCPU Per Hour'' ''Compute - Virtual Machine'' [(138 / 10000)],
     JItem ''B112146'' ''OCI - Compute - Standard - A4 - Memory''
       ''Gigabyte Per Hour'' ''Compute - Virtual Machine'' [(27 / 10000)],
     JItem ''B110519'' ''OCI - Compute - GPU - H200''
       ''GPU Per Hour'' ''Compute - GPU'' [10],
     JItem ''B110680'' ''Oracle Cloud VMware Solution - BM.DenseIO.E5.32 - Hourly Commit''
       ''Node Per Hour'' ''Compute - VMware'' [(102379 / 10000)],
     JItem ''B110681'' ''Oracle Cloud VMware Solution - BM.DenseIO.E5.32 - Monthly Commit''
       ''Node Per Hour'' ''Compute - VMware'' [(8531 / 1000)],
     JItem ''B110682'' ''Oracle Cloud VMware Solution - BM.DenseIO.E5.32 - 1 Year Commit''
       ''Node Per Hour'' ''Compute - VMware'' [(68242 / 10000)],
     JItem ''B110683'' ''Oracle Cloud VMware Solution - BM.DenseIO.E5.32 - 3 Year Commit''
       ''Node Per Hour'' ''Compute - VMware'' [(6072 / 1000)],
     JItem ''B110684'' ''Oracle Cloud VMware Solution - Expansion - Monthly Commit''
       ''OCPU Per Hour'' ''Compute - VMware'' [(1338 / 10000)],
     JItem ''B110978'' ''OCI - Compute - GPU - B200''
       ''GPU Per Hour'' ''Compute - GPU'' [14],
     JItem ''B110979'' ''OCI - Compute - GPU - GB200''
       ''GPU Per Hour'' ''Compute - GPU'' [16],
     JItem ''B111129'' ''OCI - Compute - Standard - E6 - OCPU''
       ''OCPU Per Hour'' ''Compute - Virtual Machine'' [(3 / 100)],
     JItem ''B111130'' ''OCI - Compute - Standard - E6 - Memory''
       ''Gigabyte Per Hour'' ''Compute - Virtual Machine'' [(2 / 1000)],
     JItem ''B88315'' ''Compute - Bare Metal Standard - X5''
       ''OCPU Per Hour'' ''Compute - Bare Metal'' [(638 / 10000)],
     JItem ''B88317'' ''Compute - Virtual Machine Standard - X5''
       ''OCPU Per Hour'' ''Compute - Virtual Machine'' [(638 / 10000)],
     JItem ''B88513'' ''Compute - Bare Metal Standard - X7''
       ''OCPU Per Hour'' ''Compute - Bare Metal'' [(638 / 10000)],
     JItem ''B88514'' ''Compute - Virtual Machine Standard - X7''
       ''OCPU Per Hour'' ''Compute - Virtual Machine'' [(638 / 10000)],
     JItem ''B88515'' ''Compute - Bare Metal Dense I/O - X7''
       ''OCPU Per Hour'' ''Compute - Bare Metal'' [(1275 / 10000)],
     JItem ''B88516'' ''Compute - Virtual Machine Dense I/O - X7''
       ''OCPU Per Hour'' ''Compute - Virtual Machine'' [(1275 / 10000)],
     JItem ''B88517'' ''Compute - Bare Metal GPU Standard - X7''
       ''GPU Per Hour'' ''Compute - GPU'' [(1275 / 1000)],
     JItem ''B88518'' ''Compute - Virtual Machine GPU Standard - X7''
       ''GPU Per Hour'' ''Compute - GPU'' [(1275 / 1000)],
     JItem ''B89734'' ''Compute - GPU Standard - V2''
       ''GPU Per Hour'' ''Compute - GPU'' [(295 / 100)],
     JItem ''B90398'' ''Compute - Bare Metal Standard - HPC - X7''
       ''OCPU Per Hour'' ''Compute - Bare Metal'' [(75 / 1000)],
     JItem ''B90425'' ''Compute - Standard - E2''
       ''OCPU Per Hour'' ''Compute - Virtual Machine'' [(3 / 100)],
     JItem ''B91119'' ''Compute - Bare Metal Standard - B1''
       ''OCPU Per Hour'' ''Compute - Bare Metal'' [(638 / 10000)],
     JItem ''B91120'' ''Compute - Virtual Machine Standard - B1''
       ''OCPU Per Hour'' ''Compute - Virtual Machine'' [(638 / 10000)],
     JItem ''B91444'' ''Compute - Virtual Machine Standard - E2 Micro - Free''
       ''OCPU Per Hour'' ''Compute - Virtual Machine'' [0],
     JItem ''B92306'' ''Compute - Standard - E3 - OCPU''
       ''OCPU Per Hour'' ''Compute - Virtual Machine'' [(25 / 1000)],
     JItem ''B92307'' ''Compute - Standard - E3 - Memory''
       ''Gigabyte Per Hour'' ''Compute - Virtual Machine'' [(15 / 10000)],
     JItem ''B92386'' ''Oracle Cloud Vmware Solution  - BM.DenseIO2.52 - 1 Month Commit''
       ''OCPU Per Hour'' ''Compute - VMware'' [(2031 / 10000)],
     JItem ''B92740'' ''Compute - GPU - E3''
       ''GPU Per Hour'' ''Compute - GPU'' [(305 / 100)],
     JItem ''B93113'' ''Compute - Standard - E4 - OCPU''
       ''OCPU Per Hour'' ''Compute - Virtual Machine'' [(25 / 1000)],
     JItem ''B93114'' ''Compute - Standard - E4  - Memory''
       ''Gigabyte Per Hour'' ''Compute - Virtual Machine'' [(15 / 10000)],
     JItem ''B93121'' ''Compute - Dense I/O - E4 - OCPU''
       ''OCPU Per Hour'' ''Compute - Virtual Machine'' [(25 / 1000)],
     JItem ''B93122'' ''Compute - Dense I/O - E4 - Memory''
       ''Gigabyte Per Hour'' ''Compute - Virtual Machine'' [(15 / 10000)],
     JItem ''B93123'' ''Compute - Dense I/O - E4 - NVMe''
       ''NVMe Terabyte Per Hour'' ''Compute - Virtual Machine'' [(612 / 10000)],
     JItem ''B93288'' ''Oracle Cloud VMware Solution - BM.DenseIO2.52 - Hourly Commit''
       ''OCPU Per Hour'' ''Compute - VMware'' [(2437 / 10000)],
     JItem ''B93289'' ''Oracle Cloud VMware Solution - BM.DenseIO2.52 - 1 Year Commit''
       ''OCPU Per Hour'' ''Compute - VMware'' [(1625 / 10000)],
     JItem ''B93290'' ''Oracle Cloud VMware Solution - BM.DenseIO2.52 - 3 Year Commit''
       ''OCPU Per Hour'' ''Compute - VMware'' [(132 / 1000)],
     JItem ''B93297'' ''Compute - Standard - A1 - OCPU''
       ''OCPU Per Hour'' ''Compute - Virtual Machine'' [0, (1 / 100)],
     JItem ''B93298'' ''Compute - Standard - A1 - Memory''
       ''Gigabyte Per Hour'' ''Compute - Virtual Machine'' [0, (15 / 10000)],
     JItem ''B93311'' ''Compute - Optimized - X9 - OCPU''
       ''OCPU Per Hour'' ''Compute - Virtual Machine'' [(54 / 1000)],
     JItem ''B93312'' ''Compute - Optimized - X9 - Memory''
       ''Gigabyte Per Hour'' ''Compute - Virtual Machine'' [(15 / 10000)],
     JItem ''B93421'' ''Oracle Cloud VMware Solution - HCX Enterprise - Monthly''
       ''OCPU Per Hour'' ''Compute - VMware'' [(126 / 10000)],
     JItem ''B94176'' ''Compute - Standard - X9 - OCPU''
       ''OCPU Per Hour'' ''Compute - Virtual Machine'' [(4 / 100)],
     JItem ''B94177'' ''Compute - Standard - X9 - Memory''
       ''Gigabyte Per Hour'' ''Compute - Virtual Machine'' [(15 / 10000)],
     JItem ''B95178'' ''Oracle Cloud VMware Solution - BM.DenseIO.E4.64 - Hourly Commit''
       ''OCPU Per Hour'' ''Compute - VMware'' [(2437 / 10000)],
     JItem ''B95179'' ''Oracle Cloud VMware Solution - BM.DenseIO.E4.64 - Monthly Commit''
       ''OCPU Per Hour'' ''Compute - VMware'' [(2031 / 10000)],
     JItem ''B95180'' ''Oracle Cloud VMware Solution - BM.DenseIO.E4.64 - 1 year Commit''
       ''OCPU Per Hour'' ''Compute - VMware'' [(1625 / 10000)],
     JItem ''B95181'' ''Oracle Cloud VMware Solution - BM.DenseIO.E4.64 - 3 year Commit''
       ''OCPU Per Hour'' ''Compute - VMware'' [(132 / 1000)],
     JItem ''B95411'' ''Oracle Cloud VMware Solution - BM.DenseIO.E4.32 - Hourly Commit''
       ''OCPU Per Hour'' ''Compute - VMware'' [(3047 / 10000)],
     JItem ''B95412'' ''Oracle Cloud VMware Solution - BM.DenseIO.E4.32 - Monthly Commit''
       ''OCPU Per Hour'' ''Compute - VMware'' [(2539 / 10000)],
     JItem ''B95413'' ''Oracle Cloud VMware Solution - BM.DenseIO.E4.32 - 1 year Commit''
       ''OCPU Per Hour'' ''Compute - VMware'' [(2031 / 10000)],
     JItem ''B95414'' ''Oracle Cloud VMware Solution - BM.DenseIO.E4.32 - 3 year Commit''
       ''OCPU Per Hour'' ''Compute - VMware'' [(165 / 1000)],
     JItem ''B95415'' ''Oracle Cloud VMware Solution - BM.DenseIO.E4.128 - Hourly Commit''
       ''OCPU Per Hour'' ''Compute - VMware'' [(195 / 1000)],
     JItem ''B95416'' ''Oracle Cloud VMware Solution - BM.DenseIO.E4.128 - Monthly Commit''
       ''OCPU Per Hour'' ''Compute - VMware'' [(1625 / 10000)],
     JItem ''B95417'' ''Oracle Cloud VMware Solution - BM.DenseIO.E4.128 - 1 year Commit''
       ''OCPU Per Hour'' ''Compute - VMware'' [(13 / 100)],
     JItem ''B95418'' ''Oracle Cloud VMware Solution - BM.DenseIO.E4.128 - 3 year Commit''
       ''OCPU Per Hour'' ''Compute - VMware'' [(1056 / 10000)],
     JItem ''B95907'' ''Compute - GPU - A100 - v2''
       ''GPU Per Hour'' ''Compute - GPU'' [4],
     JItem ''B95909'' ''Compute  - GPU - A10''
       ''GPU Per Hour'' ''Compute - GPU'' [2],
     JItem ''B96531'' ''OCI - Compute - HPC - E5''
       ''OCPU Per Hour'' ''Compute - Bare Metal'' [(44 / 1000)],
     JItem ''B97102'' ''Oracle Cloud VMware Solution - Base - BM.Standard2.12 - Hourly Commit''
       ''Node Per Hour'' ''Compute - VMware'' [(4714 / 1000)],
     JItem ''B97103'' ''Oracle Cloud VMware Solution - Base - BM.Standard2.12 - 1 Year Commit''
       ''Node Per Hour'' ''Compute - VMware'' [(37144 / 10000)],
     JItem ''B97104'' ''Oracle Cloud VMware Solution - Base - BM.Standard2.12 - 3 Year Commit''
       ''Node Per Hour'' ''Compute - VMware'' [(2953 / 1000)],
     JItem ''B97105'' ''Oracle Cloud VMware Solution - Base - BM.Standard3.16 - Hourly Commit''
       ''Node Per Hour'' ''Compute - VMware'' [(5554 / 1000)],
     JItem ''B97106'' ''Oracle Cloud VMware Solution - Base - BM.Standard3.16 - 1 Year Commit''
       ''Node Per Hour'' ''Compute - VMware'' [(42943 / 10000)],
     JItem ''B97107'' ''Oracle Cloud VMware Solution - Base - BM.Standard3.16 - 3 Year Commit''
       ''Node Per Hour'' ''Compute - VMware'' [(33522 / 10000)],
     JItem ''B97108'' ''Oracle Cloud VMware Solution - Base - BM.Standard.E4.32 - Hourly Commit''
       ''Node Per Hour'' ''Compute - VMware'' [(92565 / 10000)],
     JItem ''B97109'' ''Oracle Cloud VMware Solution - Base - BM.Standard.E4.32 - 1 Year Commit''
       ''Node Per Hour'' ''Compute - VMware'' [(69223 / 10000)],
     JItem ''B97110'' ''Oracle Cloud VMware Solution - Base - BM.Standard.E4.32 - 3 Year Commit''
       ''Node Per Hour'' ''Compute - VMware'' [(52233 / 10000)],
     JItem ''B97111'' ''Oracle Cloud VMware Solution - Expansion - Hourly Commit''
       ''OCPU Per Hour'' ''Compute - VMware'' [(1605 / 10000)],
     JItem ''B97112'' ''Oracle Cloud VMware Solution - Expansion - 1 Year Commit''
       ''OCPU Per Hour'' ''Compute - VMware'' [(1092 / 10000)],
     JItem ''B97113'' ''Oracle Cloud VMware Solution - Expansion - 3 Year Commit''
       ''OCPU Per Hour'' ''Compute - VMware'' [(739 / 10000)],
     JItem ''B97384'' ''Compute - Standard - E5 - OCPU''
       ''OCPU Per Hour'' ''Compute - Virtual Machine'' [(3 / 100)],
     JItem ''B97385'' ''Compute - Standard - E5 - Memory''
       ''Gigabyte Per Hour'' ''Compute - Virtual Machine'' [(2 / 1000)],
     JItem ''B98202'' ''Oracle Cloud Infrastructure - Compute - Dense I/O - E5 OCPU''
       ''OCPU Per Hour'' ''Compute - Virtual Machine'' [(3 / 100)],
     JItem ''B98203'' ''Oracle Cloud Infrastructure - Compute - Dense I/O - E5 Memory''
       ''Gigabyte Per Hour'' ''Compute - Virtual Machine'' [(2 / 1000)],
     JItem ''B98204'' ''Oracle Cloud Infrastructure - Compute - Dense I/O - E5 NVMe''
       ''NVMe Terabyte Per Hour'' ''Compute - Virtual Machine'' [(612 / 10000)],
     JItem ''B98415'' ''Oracle Cloud Infrastructure - Compute - GPU - H100''
       ''GPU Per Hour'' ''Compute - GPU'' [10]]"

lemma filter_compute: "filter is_compute defaultPrice = compute_items"
  unfolding defaultPrice_def filter_concat list.map
    compute_1 compute_2 compute_3 compute_4 compute_5 compute_6 compute_7 compute_8 compute_9 compute_10 compute_11 compute_12 compute_13 compute_14 compute_15 compute_16 compute_17 compute_18 compute_19 compute_20 compute_21 compute_22 compute_23 compute_24 compute_25 compute_26 compute_27 compute_28 compute_29 compute_30 compute_31 compute_32 compute_33 compute_34 compute_35 compute_36 compute_37 compute_38 compute_39 compute_40 compute_41 compute_42 compute_43 compute_44 compute_45 compute_46 compute_47 compute_48 compute_49 compute_50 compute_51 compute_52 compute_53 compute_54 compute_55 compute_56 compute_57 compute_58 compute_59 compute_60 compute_61 compute_62 compute_63 compute_64 compute_65 compute_66 compute_67
  by (simp add: compute_items_def)

section \<open>Looking up shapes in the embedded list\<close>

definition find_json :: "(string \<Rightarrow> string \<Rightarrow> bool) \<Rightarrow> parsedShape \<Rightarrow> json_item list \<Rightarrow> json_item list" where
  "find_json rx p js =
     (let matching = filter (\<lambda>j. ji_serviceCategory j = ps_ServiceCategory p \<and> str_contains (ji_displayName j) (searchKey p) \<and>
            match_word rx (searchKey p) (ji_displayName j)) js
      in if matching = []
         then filter (\<lambda>j. ji_serviceCategory j \<in> set (ps_CandidateServiceCategory p) \<and> str_contains (ji_displayName j) (searchKey p)) js
         else matching)"

lemma findCandidate_filter: "distinct cats \<Longrightarrow> findCandidate its cats = filter (\<lambda>i. ServiceCategory i \<in> set cats) its"
proof (induction its)
  case (Cons i its)
  have "map (\<lambda>_. i) (filter (\<lambda>c. ServiceCategory i = c) cats) = (if ServiceCategory i \<in> set cats then [i] else [])"
    using Cons.prems by (induction cats) auto
  with Cons show ?case by (simp add: findCandidate_def)
qed (simp add: findCandidate_def)

lemma ParseShape_categories:
  "ParseShape s = Ret p \<Longrightarrow> ps_ServiceCategory p \<in> set compute_categories \<and>
     set (ps_CandidateServiceCategory p) \<subseteq> set compute_categories \<and> distinct (ps_CandidateServiceCategory p)"
  by (auto simp: ParseShape_def compute_categories_def Let_def split: if_splits)

lemma decode_item_sel [simp]:
  "DisplayName (decode_item j) = ji_displayName j" "ServiceCategory (decode_item j) = ji_serviceCategory j"
  "MetricName (decode_item j) = ji_metricName j"
  by (simp_all add: decode_item_def)

lemma find_json_compute:
  assumes "ParseShape s = Ret p"
  shows "find_json rx p defaultPrice = find_json rx p compute_items"
proof -
  have c: "ps_ServiceCategory p \<in> set compute_categories" "set (ps_CandidateServiceCategory p) \<subseteq> set compute_categories"
    using ParseShape_categories [OF assms] by auto
  have f: "filter P defaultPrice = filter P compute_items" if "\<And>j. P j \<Longrightarrow> is_compute j" for P
  proof -
    have "P = (\<lambda>j. P j \<and> is_compute j)" using that by auto
    then have "filter P defaultPrice = filter P (filter is_compute defaultPrice)" by (simp add: conj_commute cong: filter_cong) metis
    then show ?thesis by (simp add: filter_compute)
  qed
  show ?thesis
    unfolding find_json_def Let_def using c by (subst (1 2 3) f) (auto simp: is_compute_def)
qed

lemma FindPriceItems_default:
  "FindPriceItems rx default_catalog s =
     (case ParseShape s of Ret p \<Rightarrow> map decode_item (find_json rx p compute_items) | _ \<Rightarrow> [])"
proof (cases "ParseShape s")
  case (Ret p)
  then have "FindPriceItems rx default_catalog s = map decode_item (find_json rx p defaultPrice)"
    using ParseShape_categories [OF Ret]
    by (simp add: FindPriceItems_def default_catalog_def findCandidate_filter find_json_def filter_map comp_def Let_def)
  with find_json_compute [OF Ret, of rx] Ret show ?thesis by simp
qed (simp_all add: FindPriceItems_def)

lemma find_E4:
  "ParseShape ''VM.Standard.E4.Flex'' = Ret \<lparr>ps_ServiceCategory = ''Compute - Virtual Machine'',
     ps_CandidateServiceCategory = [''Compute - VMware''], ps_ServiceType = ''Standard'', ps_CpuGpuType = ''E4'', ps_CpuGpuScale = ''Flexible''\<rparr>"
  "find_json rx \<lparr>ps_ServiceCategory = ''Compute - Virtual Machine'', ps_CandidateServiceCategory = [''Compute - VMware''],
     ps_ServiceType = ''Standard'', ps_CpuGpuType = ''E4'', ps_CpuGpuScale = ''Flexible''\<rparr> compute_items =
   [JItem ''B93113'' ''Compute - Standard - E4 - OCPU'' ''OCPU Per Hour'' ''Compute - Virtual Machine'' [25 / 1000],
    JItem ''B93114'' ''Compute - Standard - E4  - Memory'' ''Gigabyte Per Hour'' ''Compute - Virtual Machine'' [15 / 10000]]"
  by code_simp+

lemma find_A1:
  "ParseShape ''VM.Standard.A1.Flex'' = Ret \<lparr>ps_ServiceCategory = ''Compute - Virtual Machine'',
     ps_CandidateServiceCategory = [''Compute - VMware''], ps_ServiceType = ''Standard'', ps_CpuGpuType = ''A1'', ps_CpuGpuScale = ''Flexible''\<rparr>"
  "find_json rx \<lparr>ps_ServiceCategory = ''Compute - Virtual Machine'', ps_CandidateServiceCategory = [''Compute - VMware''],
     ps_ServiceType = ''Standard'', ps_CpuGpuType = ''A1'', ps_CpuGpuScale = ''Flexible''\<rparr> compute_items =
   [JItem ''B93297'' ''Compute - Standard - A1 - OCPU'' ''OCPU Per Hour'' ''Compute - Virtual Machine'' [0, 1 / 100],
    JItem ''B93298'' ''Compute - Standard - A1 - Memory'' ''Gigabyte Per Hour'' ''Compute - Virtual Machine'' [0, 15 / 10000]]"
  by code_simp+

lemma find_GPU3:
  "ParseShape ''VM.GPU3.1'' = Ret \<lparr>ps_ServiceCategory = ''Compute - GPU'',
     ps_CandidateServiceCategory = [], ps_ServiceType = ''GPU3'', ps_CpuGpuType = '''', ps_CpuGpuScale = ''''\<rparr>"
  "find_json rx \<lparr>ps_ServiceCategory = ''Compute - GPU'', ps_CandidateServiceCategory = [],
     ps_ServiceType = ''GPU3'', ps_CpuGpuType = '''', ps_CpuGpuScale = ''''\<rparr> compute_items =
   [JItem ''B88517'' ''Compute - Bare Metal GPU Standard - X7'' ''GPU Per Hour'' ''Compute - GPU'' [1275 / 1000],
    JItem ''B88518'' ''Compute - Virtual Machine GPU Standard - X7'' ''GPU Per Hour'' ''Compute - GPU'' [1275 / 1000]]"
  by code_simp+

text \<open>What one decoded item with a plain price contributes.\<close>

lemma PricePerUnit_decode:
  "mn \<noteq> ''Node Per Hour'' \<Longrightarrow> PricePerUnit (decode_item (JItem pn dn mn sc (v # vs))) = Ret (r32 v)"
  by (simp add: PricePerUnit_def GetPrice_def decode_item_def USD_def NodePerHour_def)

lemma item_kinds_decode:
  "IsOcpuType (decode_item j) = str_contains (ji_displayName j) ''OCPU''"
  "IsMemoryType (decode_item j) = str_contains (ji_displayName j) ''Memory''"
  "IsNVMeType (decode_item j) = str_contains (ji_displayName j) ''NVMe''"
  "IsMonthCommit (decode_item j) = str_contains (ji_displayName j) ''1 Month Commit''"
  "IsYearCommit (decode_item j) = str_contains (ji_displayName j) ''1 Year Commit''"
  "Is3YearCommit (decode_item j) = str_contains (ji_displayName j) ''3 Year Commit''"
  "IsHourlyCommit (decode_item j) = str_contains (ji_displayName j) ''Hourly Commit''"
  by (simp_all add: IsOcpuType_def IsMemoryType_def IsNVMeType_def IsMonthCommit_def IsYearCommit_def Is3YearCommit_def
      IsHourlyCommit_def)

lemma E4_not_A1: "ratioFactor ''VM.Standard.E4.Flex'' = 2" "ratioFactor ''VM.Standard.A1.Flex'' = 1" "ratioFactor ''VM.GPU3.1'' = 2"
  by code_simp+

section \<open>Properties\<close>

text \<open>With the embedded price list, a \<open>VM.Standard.E4.Flex\<close> instance costs its OCPUs (half its virtual CPUs) times
  0.025 plus its memory in GB times 0.0015, in 32-bit arithmetic.\<close>

theorem default_price_E4_Flex:
  assumes "sh_Shape w = Some ''VM.Standard.E4.Flex''"
  shows "Calculate rx w (Some default_catalog) =
    Ret (fadd r32 (fadd r32 (Fin 0) (fmul r32 (f32 (gdiv (CalcCpu w) 2)) (r32 (25 / 1000))))
           (fmul r32 (f32 (CalMemInGBs w)) (r32 (15 / 10000))))"
  by (simp add: Calculate_def assms FindPriceItems_default find_E4 item_kinds_decode PricePerUnit_decode E4_not_A1 Let_def)

theorem default_price_E4_Flex_witness:
  "Calculate (\<lambda>_ _. False) (sample_wrap ''VM.Standard.E4.Flex'' 4 16) (Some default_catalog) =
    Ret (fadd r32 (fadd r32 (Fin 0) (fmul r32 (f32 (gdiv 4 2)) (r32 (25 / 1000)))) (fmul r32 (f32 16) (r32 (15 / 10000))))"
  using default_price_E4_Flex [of "sample_wrap ''VM.Standard.E4.Flex'' 4 16" "\<lambda>_ _. False"]
  by (simp add: sample_wrap_def)

text \<open>With the embedded price list, a \<open>VM.Standard.A1.Flex\<close> instance of any size is priced 0: the price of an item is its
  first tier, which for this shape is the free allowance.\<close>

theorem default_price_A1_Flex:
  assumes "sh_Shape w = Some ''VM.Standard.A1.Flex''" and "\<bar>CalcCpu w\<bar> < 2 ^ 24" and "\<bar>CalMemInGBs w\<bar> < 2 ^ 24"
  shows "Calculate rx w (Some default_catalog) = Ret (Fin 0)"
proof -
  have "gdiv (CalcCpu w) 1 = CalcCpu w" by (simp add: gdiv_def sgn_if)
  moreover have "r32 0 = Fin 0" using r32_int [of 0] by simp
  ultimately show ?thesis
    using r32_int [OF assms(2)] r32_int [OF assms(3)]
    by (simp add: Calculate_def assms(1) FindPriceItems_default find_A1 item_kinds_decode PricePerUnit_decode E4_not_A1 Let_def)
qed

theorem default_price_A1_Flex_witness:
  "Calculate (\<lambda>_ _. False) (sample_wrap ''VM.Standard.A1.Flex'' 80 512) (Some default_catalog) = Ret (Fin 0)"
  using default_price_A1_Flex [of "sample_wrap ''VM.Standard.A1.Flex'' 80 512" "\<lambda>_ _. False"]
  by (simp add: sample_wrap_def)

text \<open>With the embedded price list, \<open>VM.GPU3.1\<close> matches both the bare-metal and the virtual-machine entry, and is priced
  by its OCPUs at the sum of the two prices per GPU hour; its number of GPUs plays no role.\<close>

theorem default_price_GPU3:
  assumes "sh_Shape w = Some ''VM.GPU3.1''"
  shows "Calculate rx w (Some default_catalog) =
    Ret (fadd r32 (fadd r32 (Fin 0) (fmul r32 (f32 (gdiv (CalcCpu w) 2)) (r32 (1275 / 1000))))
           (fmul r32 (f32 (gdiv (CalcCpu w) 2)) (r32 (1275 / 1000))))"
  by (simp add: Calculate_def assms FindPriceItems_default find_GPU3 item_kinds_decode PricePerUnit_decode E4_not_A1 Let_def)

theorem default_price_GPU3_witness:
  "Calculate (\<lambda>_ _. False) (sample_wrap ''VM.GPU3.1'' 12 90) (Some default_catalog) =
    Ret (fadd r32 (fadd r32 (Fin 0) (fmul r32 (f32 (gdiv 12 2)) (r32 (1275 / 1000)))) (fmul r32 (f32 (gdiv 12 2)) (r32 (1275 / 1000))))"
  using default_price_GPU3 [of "sample_wrap ''VM.GPU3.1'' 12 90" "\<lambda>_ _. False"]
  by (simp add: sample_wrap_def)

end
