(* ===== verification/Paging.thy ===== *)
theory Paging
  imports Prelude
begin

text \<open>
  The page loop that the sources write out wherever they list OCI objects: the token starts as \<open>"0"\<close>, which stands for
  the first page and is sent as the empty token; the loop ends when the response has no next token.  The loop can run
  forever, so it has fuel, one unit for each request.
\<close>

type_synonym 'a page = "'a list \<times> string option"

fun page_loop :: "nat \<Rightarrow> (string \<Rightarrow> 'a page outcome) \<Rightarrow> string \<Rightarrow> 'a list \<Rightarrow> 'a list outcome option" where
  "page_loop 0 call nextPage acc = (if nextPage = '''' then Some (Ret acc) else None)"
| "page_loop (Suc n) call nextPage acc =
     (if nextPage = '''' then Some (Ret acc)
      else case call (if nextPage = ''0'' then '''' else nextPage) of
        Ret (xs, t) \<Rightarrow> page_loop n call (from_ptr '''' t) (acc @ xs)
      | Err e \<Rightarrow> Some (Err e)
      | Panic s \<Rightarrow> Some (Panic s))"

definition list_pages :: "nat \<Rightarrow> (string \<Rightarrow> 'a page outcome) \<Rightarrow> 'a list outcome option" where
  "list_pages n call = page_loop n call ''0'' []"

text \<open>A server that has these pages: the call with a page's token gives its items and the token of the next page.  No token
  is empty or \<open>"0"\<close> except the first one, which is empty.\<close>

fun serves :: "(string \<Rightarrow> 'a page outcome) \<Rightarrow> string \<Rightarrow> ('a list \<times> string) list \<Rightarrow> 'a list \<Rightarrow> bool" where
  "serves call t [] final \<longleftrightarrow> (\<exists>z. call t = Ret (final, z) \<and> from_ptr '''' z = '''')"
| "serves call t ((xs, t') # ps) final \<longleftrightarrow> call t = Ret (xs, Some t') \<and> t' \<noteq> '''' \<and> t' \<noteq> ''0'' \<and> serves call t' ps final"

lemma page_loop_serves:
  "serves call (if t = ''0'' then '''' else t) ps final \<Longrightarrow> t \<noteq> '''' \<Longrightarrow> length ps < n \<Longrightarrow>
   page_loop n call t acc = Some (Ret (acc @ concat (map fst ps) @ final))"
proof (induction ps arbitrary: t acc n)
  case Nil
  then obtain m where "n = Suc m" by (cases n) auto
  with Nil show ?case by (cases m) auto
next
  case (Cons p ps)
  obtain xs t' where p: "p = (xs, t')" by (cases p)
  obtain m where n: "n = Suc m" "length ps < m" using Cons.prems(3) by (cases n) auto
  have "page_loop m call t' (acc @ xs) = Some (Ret ((acc @ xs) @ concat (map fst ps) @ final))"
    using Cons.prems(1) p by (intro Cons.IH) (auto simp: n)
  with Cons.prems p n show ?case by simp
qed

text \<open>Every page of a server that has finitely many is listed once, in order.\<close>

lemma list_pages_serves:
  "serves call '''' ps final \<Longrightarrow> length ps < n \<Longrightarrow> list_pages n call = Some (Ret (concat (map fst ps) @ final))"
  unfolding list_pages_def using page_loop_serves [of call "''0''" ps final n "[]"] by simp

text \<open>A token \<open>"0"\<close> sent by the server is taken for the first page: the loop never ends.\<close>

lemma page_loop_zero_token:
  "call '''' = Ret (xs, Some ''0'') \<Longrightarrow> page_loop n call ''0'' acc = None"
  by (induction n arbitrary: acc) auto

end
