(* ===== verification/RefOps.thy ===== *)
theory RefOps
  imports External
begin

text \<open>
  A small implementation of the operations of karpenter core and of resource quantities that the components take as a
  parameter, with the documented behaviour of External.  It shows that the hypotheses the theorems make about these
  packages can hold together, and is what concrete examples are evaluated with.  A requirement is its key with the
  values it allows (or, when the flag is set, all values but those); a quantity is an integer number of thousandths.
\<close>

type_synonym ref_req = "string \<times> bool \<times> string list"

definition ref_new :: "string \<Rightarrow> selector_op \<Rightarrow> string list \<Rightarrow> ref_req" where
  "ref_new k op vs = (k, op \<in> {OpNotIn, OpExists, OpGt, OpLt}, if op \<in> {OpIn, OpNotIn} then vs else [])"

definition ref_has :: "ref_req \<Rightarrow> string \<Rightarrow> bool" where
  "ref_has r v \<longleftrightarrow> (case r of (_, compl, vs) \<Rightarrow> (v \<in> set vs) \<noteq> compl)"

definition ref_inter :: "ref_req \<Rightarrow> ref_req \<Rightarrow> ref_req" where
  "ref_inter a b = (case (a, b) of ((k, ca, va), (_, cb, vb)) \<Rightarrow>
     if ca \<and> cb then (k, True, va @ vb)
     else if ca then (k, False, filter (\<lambda>v. v \<notin> set va) vb)
     else if cb then (k, False, filter (\<lambda>v. v \<notin> set vb) va)
     else (k, False, filter (\<lambda>v. v \<in> set vb) va))"

definition ref_add1 :: "ref_req \<Rightarrow> (string, ref_req) gomap \<Rightarrow> (string, ref_req) gomap" where
  "ref_add1 r m = (case map_of m (fst r) of None \<Rightarrow> m @ [(fst r, r)] | Some o' \<Rightarrow> AList.update (fst r) (ref_inter o' r) m)"

definition ref_add :: "(string, ref_req) gomap \<Rightarrow> ref_req list \<Rightarrow> (string, ref_req) gomap" where
  "ref_add m rs = fold ref_add1 rs m"

definition ref_get :: "(string, ref_req) gomap \<Rightarrow> string \<Rightarrow> ref_req" where
  "ref_get m k = from_ptr (k, True, []) (map_of m k)"

definition ref_overlap :: "ref_req \<Rightarrow> ref_req \<Rightarrow> bool" where
  "ref_overlap a b \<longleftrightarrow> (case ref_inter a b of (_, c, vs) \<Rightarrow> c \<or> vs \<noteq> [])"

definition ref_compatible :: "(string, ref_req) gomap \<Rightarrow> (string, ref_req) gomap \<Rightarrow> bool" where
  "ref_compatible a b \<longleftrightarrow> list_all (\<lambda>(k, r). case map_of a k of None \<Rightarrow> True | Some q \<Rightarrow> ref_overlap q r) b"

definition ref_parse :: "string \<Rightarrow> int option" where
  "ref_parse s =
     (let body = take (length s - 2) s
      in if has_suffix s ''Gi'' then map_option (\<lambda>n. n * 2 ^ 30 * 1000) (atoi body)
         else if has_suffix s ''Mi'' then map_option (\<lambda>n. n * 2 ^ 20 * 1000) (atoi body)
         else map_option (\<lambda>n. n * 1000) (atoi s))"

definition ref_value :: "int \<Rightarrow> int" where
  "ref_value q = - ((- q) div 1000)"

definition ref_fits :: "(string, int) gomap \<Rightarrow> (string, int) gomap \<Rightarrow> bool" where
  "ref_fits want have \<longleftrightarrow> list_all (\<lambda>(k, q). q \<le> from_ptr 0 (map_of have k)) want"

definition ref_max :: "(string, int) gomap \<Rightarrow> (string, int) gomap \<Rightarrow> (string, int) gomap" where
  "ref_max a b = fold (\<lambda>(k, q) m. AList.update k (max q (from_ptr q (map_of m k))) m) b a"

definition ref_allocatable :: "(ref_req, int) instanceType \<Rightarrow> (string, int) gomap" where
  "ref_allocatable it = map (\<lambda>(k, q). (k, q - from_ptr 0 (map_of (it_KubeReserved it) k) -
     from_ptr 0 (map_of (it_SystemReserved it) k) - from_ptr 0 (map_of (it_EvictionThreshold it) k))) (it_Capacity it)"

definition ref_ops :: "(ref_req, int) karp_ops" where
  "ref_ops = \<lparr>newRequirement = ref_new, reqs_Add = ref_add, reqs_Get = ref_get, reqs_Compatible = ref_compatible,
     reqs_OfSelectors = (\<lambda>ss. ref_add [] (map (\<lambda>s. ref_new (nsr_Key s) (nsr_Operator s) (nsr_Values s)) ss)),
     reqs_Selectors = (\<lambda>m. map (\<lambda>(k, (_, c, vs)). \<lparr>nsr_Key = k, nsr_Operator = (if c then OpNotIn else OpIn), nsr_Values = vs\<rparr>) m),
     req_Has = ref_has, req_Any = (\<lambda>(_, _, vs). case vs of [] \<Rightarrow> '''' | v # _ \<Rightarrow> v), req_Values = (\<lambda>(_, _, vs). vs),
     req_Len = (\<lambda>(_, c, vs). if c then 9223372036854775807 - int (length vs) else int (length vs)),
     req_Insert = (\<lambda>(k, c, vs) ws. (k, c, vs @ ws)),
     offs_Available = (\<lambda>os. filter off_Available os),
     offs_Compatible = (\<lambda>os m. filter (\<lambda>o'. ref_compatible (off_Requirements o') m) os),
     orderByPrice = (\<lambda>its m. its), it_Allocatable = ref_allocatable, res_Fits = ref_fits, res_MaxResources = ref_max,
     q_Parse = ref_parse, q_Value = ref_value, q_Sub = (\<lambda>a b. a - b), q_Milli = (\<lambda>n. n), q_BinarySI = (\<lambda>n. n * 1000),
     q_AsFloat = (\<lambda>q. r64 (of_int q / 1000)), q_IsZero = (\<lambda>q. q = 0), rl_Pods = (\<lambda>m. from_ptr 0 (map_of m ''pods''))\<rparr>"

lemma ref_value_1000 [simp]: "ref_value (n * 1000) = n" "ref_value (1000 * n) = n"
  by (simp_all add: ref_value_def)

lemma ref_requirement_laws: "requirement_laws ref_ops"
  by (auto simp: requirement_laws_def ref_ops_def ref_new_def ref_has_def ref_get_def split: prod.splits)

lemma ref_add_new:
  assumes "distinct (map fst specs)" and "fst ` set specs \<inter> fst ` set m = {}"
  shows "ref_add m (map (\<lambda>(k, op, vs). ref_new k op vs) specs) = m @ map (\<lambda>(k, op, vs). (k, ref_new k op vs)) specs"
  using assms
proof (induction specs arbitrary: m)
  case (Cons s specs)
  obtain k op vs where s: "s = (k, op, vs)" by (cases s)
  have "map_of m k = None" using Cons.prems s by (auto simp: map_of_eq_None_iff)
  then have "ref_add1 (ref_new k op vs) m = m @ [(k, ref_new k op vs)]" by (simp add: ref_add1_def ref_new_def)
  with Cons.prems Cons.IH [of "m @ [(k, ref_new k op vs)]"] s show ?case by (auto simp: ref_add_def)
qed (simp add: ref_add_def)

lemma ref_add_law: "add_law ref_ops keys"
proof -
  have "map_of (m @ xs) = map_of m ++ map_of xs" if "fst ` set xs \<inter> fst ` set m = {}" for m xs :: "(string, ref_req) gomap"
    using that by (metis Int_commute dom_map_of_conv_image_fst map_add_comm map_of_append)
  moreover have "fst ` set (map (\<lambda>(k, op, vs). (k, ref_new k op vs)) specs) = fst ` set specs" for specs
    by force
  ultimately show ?thesis
    unfolding add_law_def by (simp add: ref_ops_def ref_add_new)
qed

lemma ref_offerings_law: "offerings_law ref_ops" and ref_order_law: "order_law ref_ops"
  by (simp_all add: offerings_law_def order_law_def ref_ops_def)

lemma show_int_last: "\<exists>u d. show_int n = u @ [d] \<and> is_digit d"
proof -
  have "show_int n \<noteq> []" by (simp add: show_int_def)
  moreover have "is_digit (last (show_int n))"
    using show_nat_digits [of "last (show_nat (nat n))" "nat n"] show_nat_digits [of "last (show_nat (nat (- n)))" "nat (- n)"]
    by (auto simp: show_int_def)
  ultimately show ?thesis by (metis append_butlast_last_id)
qed

lemma show_int_suffix: "\<not> is_digit c \<Longrightarrow> \<not> has_suffix (show_int n) [b, c]"
  using show_int_last [of n] by (auto simp: has_suffix_iff)

lemma in_int64_div: "in_int64 (n * 2 ^ k) \<Longrightarrow> in_int64 n"
proof -
  assume a: "in_int64 (n * 2 ^ k)"
  have "\<bar>n\<bar> \<le> \<bar>n * 2 ^ k\<bar>" by (simp add: abs_mult mult_le_cancel_left1)
  then show ?thesis using a by (cases "0 \<le> n") (auto simp: in_int64_def mult_less_0_iff)
qed

lemma ref_parse_int: "in_int64 n \<Longrightarrow> ref_parse (show_int n) = Some (n * 1000)"
  by (simp add: ref_parse_def Let_def show_int_suffix is_digit_def less_eq_char_def atoi_show_int)

lemma ref_parse_Gi: "in_int64 n \<Longrightarrow> ref_parse (show_int n @ ''Gi'') = Some (n * 2 ^ 30 * 1000)"
  by (simp add: ref_parse_def Let_def has_suffix_def atoi_show_int)

lemma ref_parse_Mi: "in_int64 n \<Longrightarrow> ref_parse (show_int n @ ''Mi'') = Some (n * 2 ^ 20 * 1000)"
  by (simp add: ref_parse_def Let_def has_suffix_def atoi_show_int)

lemma ref_parse_whole:
  "in_int64 (n * 1073741824) \<Longrightarrow> ref_parse (show_int n @ ''Gi'') = Some (1073741824 * n * 1000)"
  "in_int64 (n * 1048576) \<Longrightarrow> ref_parse (show_int n @ ''Mi'') = Some (1048576 * n * 1000)"
  using ref_parse_Gi [of n] in_int64_div [of n 30] ref_parse_Mi [of n] in_int64_div [of n 20] by simp_all

lemma ref_quantity_laws: "quantity_laws ref_ops"
proof -
  have "ref_value (1073741824 * m * 1000 - 1048576 * n * 1000) = m * 1073741824 - n * 1048576" for m n
    using ref_value_1000(1) [of "1073741824 * m - 1048576 * n"] by (simp add: algebra_simps)
  moreover have "ref_value (1073741824 * n * 1000) = n * 1073741824" "ref_value (1048576 * n * 1000) = n * 1048576" for n
    using ref_value_1000(1) [of "1073741824 * n"] ref_value_1000(1) [of "1048576 * n"] by (simp_all add: algebra_simps)
  ultimately show ?thesis
    unfolding quantity_laws_def
    by (auto simp: ref_ops_def ref_parse_int ref_parse_whole)
qed

end
