(* ===== verification/InstanceType.thy ===== *)
theory InstanceType
  imports Pricing Apis Paging RefOps
begin

text \<open>
  \<open>pkg/providers/instancetype\<close>: the shapes of the availability domains, the split of flexible shapes into sizes, the
  merge over domains and its cache (instancetype.go), and the instance type made from each size with its offerings,
  requirements, capacity and overhead (types.go).  The compute client, the cache, karpenter's requirements and the
  resource quantities are parameters; the visiting order of Go's maps and sets is a parameter too.
\<close>

section \<open>Resource overhead\<close>

definition Gi :: int where "Gi = 1024 * 1024 * 1024"
definition MemoryAvailable :: string where "MemoryAvailable = ''memory.available''"
definition NodeFSAvailable :: string where "NodeFSAvailable = ''nodefs.available''"
definition ResourceCPU :: string where "ResourceCPU = ''cpu''"
definition ResourceMemory :: string where "ResourceMemory = ''memory''"
definition ResourceEphemeralStorage :: string where "ResourceEphemeralStorage = ''ephemeral-storage''"
definition ResourcePods :: string where "ResourcePods = ''pods''"
definition LabelTopologyRegion :: string where "LabelTopologyRegion = ''topology.kubernetes.io/region''"

definition ArmShapes :: "string list" where
  "ArmShapes = [''BM.Standard.A1.160'', ''VM.Standard.A1.Flex'', ''VM.Standard.A2.Flex'', ''BM.Standard.A4.48'', ''VM.Standard.A4.Flex'']"

record taxBracket =
  tb_LowerBound :: gofloat
  tb_Recommended :: gofloat
  tb_Rate :: gofloat

definition bracket :: "rat \<Rightarrow> rat \<Rightarrow> rat \<Rightarrow> taxBracket" where
  "bracket lb rc rt = \<lparr>tb_LowerBound = r64 lb, tb_Recommended = r64 rc, tb_Rate = r64 rt\<rparr>"

definition reservedMemoryTaxGi :: "taxBracket list" where
  "reservedMemoryTaxGi = [bracket 2 1 0, bracket 4 1 0, bracket 8 1 0, bracket 16 2 0, bracket 128 9 (2 / 100)]"

definition reservedCPUTaxVCPU :: "taxBracket list" where
  "reservedCPUTaxVCPU = [bracket 1 (6 / 100) 0, bracket 2 (7 / 100) 0, bracket 3 (8 / 100) 0, bracket 4 (85 / 1000) 0,
     bracket 5 (9 / 100) (25 / 10000)]"

text \<open>The loop over the brackets, with the tax so far.\<close>

fun tax_loop :: "taxBracket list \<Rightarrow> gofloat \<Rightarrow> gofloat \<Rightarrow> gofloat" where
  "tax_loop [] amount tax = tax"
| "tax_loop (b # bs) amount tax =
     (if flt amount (tb_LowerBound b) then tax
      else tax_loop bs amount (fadd r64 (tb_Recommended b) (fmul r64 (tb_Rate b) (fsub r64 amount (tb_LowerBound b)))))"

definition Calculate_tax :: "taxBracket list \<Rightarrow> gofloat \<Rightarrow> gofloat" where
  "Calculate_tax t amount = tax_loop t amount (Fin 0)"

definition map_entries :: "('r, 'q) karp_ops \<Rightarrow> labels \<Rightarrow> (string, 'q) gomap outcome" where
  "map_entries K m = omapM (\<lambda>(k, v). obind (mustParse K v) (\<lambda>q. Ret (k, q))) m"

definition SystemReservedResources :: "('r, 'q) karp_ops \<Rightarrow> kubeletConfiguration option \<Rightarrow> (string, 'q) gomap outcome" where
  "SystemReservedResources K kc =
     (case kc of
        Some c \<Rightarrow> (case SystemReserved c of
            Some m \<Rightarrow> map_entries K m
          | None \<Rightarrow> Ret [(ResourceCPU, q_Milli K 100), (ResourceMemory, q_BinarySI K (100 * 1024 * 1024))])
      | None \<Rightarrow> Ret [(ResourceCPU, q_Milli K 100), (ResourceMemory, q_BinarySI K (100 * 1024 * 1024))])"

definition reservedMemoryMi :: "int \<Rightarrow> int" where
  "reservedMemoryMi memValue = f_to_int64 (fmul r64 (Fin 1024) (Calculate_tax reservedMemoryTaxGi (r64 (of_int (gdiv memValue Gi)))))"

definition reservedCPUMilli :: "int \<Rightarrow> int" where
  "reservedCPUMilli cpuValue = f_to_int64 (fmul r64 (Fin 1000) (Calculate_tax reservedCPUTaxVCPU (r64 (of_int cpuValue))))"

definition KubeReservedResources ::
  "('r, 'q) karp_ops \<Rightarrow> kubeletConfiguration option \<Rightarrow> 'q \<Rightarrow> 'q \<Rightarrow> (string, 'q) gomap outcome" where
  "KubeReservedResources K kc cpu memory =
     (case kc of
        Some c \<Rightarrow> if KubeReserved c \<noteq> [] then map_entries K (KubeReserved c)
          else obind (mustParse K ''1Gi'') (\<lambda>es. Ret [(ResourceCPU, q_Milli K (reservedCPUMilli (q_Value K cpu))),
            (ResourceMemory, q_BinarySI K (wrap64 (reservedMemoryMi (q_Value K memory) * 1024 * 1024))), (ResourceEphemeralStorage, es)])
      | None \<Rightarrow> obind (mustParse K ''1Gi'') (\<lambda>es. Ret [(ResourceCPU, q_Milli K (reservedCPUMilli (q_Value K cpu))),
            (ResourceMemory, q_BinarySI K (wrap64 (reservedMemoryMi (q_Value K memory) * 1024 * 1024))), (ResourceEphemeralStorage, es)]))"

text \<open>\<open>fmt.Sprint\<close> of a 64-bit float: an integer below \<open>2^53\<close> prints as such; other values print with the shortest digits that
  read back, which the parameter \<open>sp\<close> gives.\<close>

definition sprint_float :: "(gofloat \<Rightarrow> string) \<Rightarrow> gofloat \<Rightarrow> string" where
  "sprint_float sp f =
     (case f of Fin x \<Rightarrow> if x = of_int \<lfloor>x\<rfloor> \<and> \<bar>x\<bar> < 2 ^ 53 then show_int \<lfloor>x\<rfloor> else sp f | _ \<Rightarrow> sp f)"

definition trim_percent :: "string \<Rightarrow> string" where
  "trim_percent v = rev (dropWhile (\<lambda>c. c = CHR ''%'') (rev (dropWhile (\<lambda>c. c = CHR ''%'') v)))"

definition mustParsePercentage :: "string \<Rightarrow> gofloat outcome" where
  "mustParsePercentage v =
     (case parse_float (trim_percent v) of
        None \<Rightarrow> Panic ''expected percentage value to be a float''
      | Some p \<Rightarrow> Ret (if p = Fin 100 then Fin 0 else p))"

definition computeEvictionSignal ::
  "('r, 'q) karp_ops \<Rightarrow> (gofloat \<Rightarrow> string) \<Rightarrow> 'q \<Rightarrow> string \<Rightarrow> 'q outcome" where
  "computeEvictionSignal K sp capacity signalValue =
     (if has_suffix signalValue ''%'' then
        obind (mustParsePercentage signalValue) (\<lambda>p.
          mustParse K (sprint_float sp (fceil (fmul r64 (fdiv r64 (q_AsFloat K capacity) (Fin 100)) p))))
      else mustParse K signalValue)"

definition EvictionThreshold ::
  "('r, 'q) karp_ops \<Rightarrow> (gofloat \<Rightarrow> string) \<Rightarrow> 'q \<Rightarrow> 'q \<Rightarrow> kubeletConfiguration option \<Rightarrow> (string, 'q) gomap outcome" where
  "EvictionThreshold K sp memory storage kc =
     obind (mustParse K ''100Mi'') (\<lambda>om.
     obind (mustParse K (sprint_float sp (fceil (fmul r64 (fdiv r64 (r64 (of_int (q_Value K storage))) (Fin 100)) (Fin 10))))) (\<lambda>os.
     let overhead = [(ResourceMemory, om), (ResourceEphemeralStorage, os)];
         signals = (case kc of None \<Rightarrow> [] | Some c \<Rightarrow> if EvictionHard c \<noteq> [] then [EvictionHard c] else [])
     in case signals of
          [] \<Rightarrow> Ret (lo_assign overhead [])
        | m # _ \<Rightarrow>
            obind (case map_of m MemoryAvailable of None \<Rightarrow> Ret []
                   | Some v \<Rightarrow> obind (computeEvictionSignal K sp memory v) (\<lambda>q. Ret [(ResourceMemory, q)])) (\<lambda>t1.
            obind (case map_of m NodeFSAvailable of None \<Rightarrow> Ret t1
                   | Some v \<Rightarrow> obind (computeEvictionSignal K sp storage v) (\<lambda>q. Ret (t1 @ [(ResourceEphemeralStorage, q)]))) (\<lambda>temp.
              Ret (lo_assign overhead (res_MaxResources K [] temp))))))"

section \<open>Capacity and requirements\<close>

definition cpu_quantity :: "('r, 'q) karp_ops \<Rightarrow> int \<Rightarrow> 'q outcome" where
  "cpu_quantity K n = mustParse K (show_int n)"

definition gi_quantity :: "('r, 'q) karp_ops \<Rightarrow> int \<Rightarrow> 'q outcome" where
  "gi_quantity K n = mustParse K (show_int n @ ''Gi'')"

text \<open>The overhead of the virtual machine in Mi: memory times the percentage, rounded up.\<close>

definition vm_overhead_Mi :: "options \<Rightarrow> int \<Rightarrow> int" where
  "vm_overhead_Mi opts memValue =
     f_to_int64 (fceil (fdiv r64 (fdiv r64 (fmul r64 (r64 (of_int memValue)) (VMMemoryOverheadPercent opts)) (Fin 1024)) (Fin 1024)))"

definition memory_quantity :: "('r, 'q) karp_ops \<Rightarrow> options \<Rightarrow> int \<Rightarrow> 'q outcome" where
  "memory_quantity K opts memoryInGBs =
     obind (gi_quantity K memoryInGBs) (\<lambda>mem.
     obind (mustParse K (show_int (vm_overhead_Mi opts (q_Value K mem)) @ ''Mi'')) (\<lambda>ov.
       Ret (q_Sub K mem ov)))"

definition ephemeralStorage :: "('r, 'q) karp_ops \<Rightarrow> ociNodeClass \<Rightarrow> 'q outcome" where
  "ephemeralStorage K nc =
     obind (deref (BootConfig (cl_Spec nc))) (\<lambda>b. gi_quantity K (BootVolumeSizeInGBs b))"

definition gpu_count :: "'a shape_scheme \<Rightarrow> int" where
  "gpu_count s = from_ptr 0 (sh_Gpus s)"

definition nvidiaGPUs :: "('r, 'q) karp_ops \<Rightarrow> 'a shape_scheme \<Rightarrow> 'q outcome" where
  "nvidiaGPUs K s = mustParse K (show_int (gpu_count s))"

definition pods_count :: "wrapShape \<Rightarrow> kubeletConfiguration option \<Rightarrow> int" where
  "pods_count shape kc =
     (let count = (case kc of Some c \<Rightarrow> (case MaxPods c of Some n \<Rightarrow> n | None \<Rightarrow> 110) | None \<Rightarrow> 110);
          count = (case kc of
              Some c \<Rightarrow> (case PodsPerCore c of Some n \<Rightarrow> min (wrap64 (n * CalcCpu shape)) count | None \<Rightarrow> count)
            | None \<Rightarrow> count)
      in min count (wrap64 (wrap64 (CalMaxVnic shape - 1) * 31)))"

definition pods :: "('r, 'q) karp_ops \<Rightarrow> wrapShape \<Rightarrow> kubeletConfiguration option \<Rightarrow> 'q outcome" where
  "pods K shape kc = mustParse K (show_int (pods_count shape kc))"

definition computeCapacity ::
  "('r, 'q) karp_ops \<Rightarrow> options \<Rightarrow> wrapShape \<Rightarrow> kubeletConfiguration option \<Rightarrow> ociNodeClass \<Rightarrow> (string, 'q) gomap outcome" where
  "computeCapacity K opts shape kc nc =
     obind (cpu_quantity K (CalcCpu shape)) (\<lambda>c.
     obind (memory_quantity K opts (CalMemInGBs shape)) (\<lambda>m.
     obind (ephemeralStorage K nc) (\<lambda>e.
     obind (pods K shape kc) (\<lambda>p.
     obind (nvidiaGPUs K shape) (\<lambda>g.
       Ret [(ResourceCPU, c), (ResourceMemory, m), (ResourceEphemeralStorage, e), (ResourcePods, p), (ResourceNVIDIAGPU, g)])))))"

definition shape_arch :: "string \<Rightarrow> string" where
  "shape_arch name = (if name \<in> set ArmShapes then ''arm64'' else ''amd64'')"

text \<open>Inserting values into the requirement a map has under a key; a missing one is a nil pointer.\<close>

definition insert_values :: "('r, 'q) karp_ops \<Rightarrow> string \<Rightarrow> string list \<Rightarrow> (string, 'r) gomap \<Rightarrow> (string, 'r) gomap outcome" where
  "insert_values K k vs reqs =
     obind (deref (map_of reqs k)) (\<lambda>r. Ret (AList.update k (req_Insert K r vs) reqs))"

definition requirement_specs :: "('r, 'q) karp_ops \<Rightarrow> string \<Rightarrow> wrapShape \<Rightarrow> 'r offering list \<Rightarrow> string list \<Rightarrow> string \<Rightarrow>
    (string \<times> selector_op \<times> string list) list" where
  "requirement_specs K name shape offerings zones region = [
     (LabelInstanceTypeStable, OpIn, [name]),
     (LabelArchStable, OpIn, [shape_arch name]),
     (LabelOSStable, OpIn, [''linux'']),
     (LabelTopologyZone, OpIn, zones),
     (LabelTopologyRegion, OpIn, [region]),
     (CapacityTypeLabelKey, OpIn, map (\<lambda>o'. req_Any K (reqs_Get K (off_Requirements o') CapacityTypeLabelKey)) (offs_Available K offerings)),
     (LabelInstanceShapeName, OpIn, [name]),
     (LabelInstanceCPU, OpIn, [show_int (CalcCpu shape)]),
     (LabelIsFlexible, OpIn, [show_bool (from_ptr False (sh_IsFlexible shape))]),
     (LabelInstanceGPU, OpDoesNotExist, []),
     (LabelInstanceGPUDescription, OpDoesNotExist, []),
     (LabelInstanceMemory, OpIn, [show_int (wrap64 (CalMemInGBs shape * 1024))]),
     (LabelInstanceNetworkBandwidth, OpDoesNotExist, []),
     (LabelInstanceMaxVNICs, OpDoesNotExist, [])]"

definition computeRequirements ::
  "('r, 'q) karp_ops \<Rightarrow> wrapShape \<Rightarrow> 'r offering list \<Rightarrow> string list \<Rightarrow> string \<Rightarrow> (string, 'r) gomap outcome" where
  "computeRequirements K shape offerings zones region =
     obind (deref (sh_Shape shape)) (\<lambda>name.
     let reqs = newRequirements K (map (\<lambda>(k, op, vs). newRequirement K k op vs) (requirement_specs K name shape offerings zones region)) in
     obind (if sh_NetworkingBandwidthInGbps shape \<noteq> None
            then insert_values K LabelInstanceNetworkBandwidth [show_int (wrap64 (CalMaxBandwidthInGbps shape * 1024))] reqs
            else Ret reqs) (\<lambda>reqs.
     obind (if sh_MaxVnicAttachments shape \<noteq> None
            then insert_values K LabelInstanceMaxVNICs [show_int (CalMaxVnic shape)] reqs else Ret reqs) (\<lambda>reqs.
     if sh_Gpus shape \<noteq> None \<and> from_ptr 0 (sh_Gpus shape) \<noteq> 0 then
       obind (nvidiaGPUs K shape) (\<lambda>g.
       obind (insert_values K LabelInstanceGPU [show_int (q_Value K g)] reqs) (\<lambda>reqs.
         insert_values K LabelInstanceGPUDescription [SanitizeLabelValue (from_ptr '''' (sh_GpuDescription shape))] reqs))
     else Ret reqs)))"

definition emptyKubelet :: kubeletConfiguration where
  "emptyKubelet = \<lparr>ClusterDNS = [], MaxPods = None, PodsPerCore = None, SystemReserved = None, KubeReserved = [],
     EvictionHard = [], EvictionSoft = [], EvictionSoftGracePeriod = [], EvictionMaxPodGracePeriod = None,
     ImageGCHighThresholdPercent = None, ImageGCLowThresholdPercent = None, CPUCFSQuota = None\<rparr>"

definition NewInstanceType ::
  "('r, 'q) karp_ops \<Rightarrow> (gofloat \<Rightarrow> string) \<Rightarrow> options \<Rightarrow> wrapShape \<Rightarrow> ociNodeClass \<Rightarrow> string \<Rightarrow> string list \<Rightarrow> 'r offering list \<Rightarrow>
   ('r, 'q) instanceType outcome" where
  "NewInstanceType K sp opts shape nc region zones offerings =
     (let kc = Some (from_ptr emptyKubelet (Kubelet (cl_Spec nc))) in
      obind (deref (sh_Shape shape)) (\<lambda>name.
      obind (computeRequirements K shape offerings zones region) (\<lambda>reqs.
      obind (computeCapacity K opts shape kc nc) (\<lambda>cap.
      obind (cpu_quantity K (CalcCpu shape)) (\<lambda>c.
      obind (gi_quantity K (CalMemInGBs shape)) (\<lambda>m.
      obind (KubeReservedResources K kc c m) (\<lambda>kr.
      obind (SystemReservedResources K kc) (\<lambda>sr.
      obind (ephemeralStorage K nc) (\<lambda>st.
      obind (EvictionThreshold K sp m st kc) (\<lambda>ev.
        Ret \<lparr>it_Name = name, it_Requirements = reqs, it_Offerings = offerings, it_Capacity = cap,
             it_KubeReserved = kr, it_SystemReserved = sr, it_EvictionThreshold = ev\<rparr>))))))))))"

section \<open>Lemmas\<close>

lemma r64_lit: "\<bar>n\<bar> < 2 ^ 53 \<Longrightarrow> r64 (rat_of_int n) = Fin (rat_of_int n)"
  by (rule r64_int)

lemma bracket_int:
  "\<bar>l\<bar> < 2 ^ 53 \<Longrightarrow> \<bar>c\<bar> < 2 ^ 53 \<Longrightarrow> bracket (of_int l) (of_int c) 0 = \<lparr>tb_LowerBound = Fin (of_int l), tb_Recommended = Fin (of_int c), tb_Rate = Fin 0\<rparr>"
  using r64_int [of 0] by (simp add: bracket_def r64_int)

text \<open>A bracket without a rate gives its recommended value.\<close>

lemma flat_bracket:
  assumes "\<bar>n\<bar> < 2 ^ 40" and "\<bar>l\<bar> < 2 ^ 40" and "\<bar>c\<bar> < 2 ^ 40"
  shows "tax_loop (bracket (of_int l) (of_int c) 0 # bs) (Fin (of_int n)) t =
    (if n < l then t else tax_loop bs (Fin (of_int n)) (Fin (of_int c)))"
proof -
  have z: "r64 0 = Fin 0" using r64_int [of 0] by simp
  have "r64 (of_int n + of_int (- l)) = Fin (of_int (n - l))"
    using r64_int [of "n - l"] assms by simp
  moreover have "r64 (of_int c) = Fin (of_int c)" using assms(3) by (intro r64_int) simp
  moreover have b: "bracket (of_int l) (of_int c) 0 = \<lparr>tb_LowerBound = Fin (of_int l), tb_Recommended = Fin (of_int c), tb_Rate = Fin 0\<rparr>"
    using assms by (intro bracket_int) auto
  ultimately show ?thesis using z by (simp add: b fsub_def)
qed

lemma memory_tax_small:
  assumes "0 \<le> n" and "n < 128"
  shows "Calculate_tax reservedMemoryTaxGi (Fin (of_int n)) = Fin (of_int (if n < 2 then 0 else if n < 16 then 1 else 2))"
proof -
  note f = flat_bracket [of n 2 1] flat_bracket [of n 4 1] flat_bracket [of n 8 1] flat_bracket [of n 16 2]
  have l: "flt (Fin (of_int n)) (tb_LowerBound (bracket 128 9 (2 / 100)))"
    using r64_int [of 128] assms by (simp add: bracket_def)
  show ?thesis
    using f l assms by (simp add: Calculate_tax_def reservedMemoryTaxGi_def)
qed

text \<open>Rounding a value that lies below a value of the format keeps it there, and above zero.\<close>

lemma r64_between:
  assumes "0 \<le> x" and "x \<le> b" and "r64 b = Fin b"
  obtains y where "r64 x = Fin y" and "0 \<le> y" and "y \<le> b"
proof (cases "r64 x")
  case (Fin y)
  with r64_mono [OF assms(2)] r64_nonneg [OF assms(1)] assms(3) that show ?thesis by simp
next
  case PInf
  with r64_mono [OF assms(2)] assms(3) show ?thesis by simp
qed (use r64_nonneg [OF assms(1)] in auto)

lemma vm_overhead_range:
  assumes "0 \<le> n" and "n < 2 ^ 22" and "VMMemoryOverheadPercent opts = Fin p" and "0 \<le> p" and "p \<le> 1"
  shows "0 \<le> vm_overhead_Mi opts (n * 2 ^ 30) \<and> vm_overhead_Mi opts (n * 2 ^ 30) \<le> n * 1024"
proof -
  let ?M = "of_int (n * 2 ^ 30) :: rat"
  have M: "r64 ?M = Fin ?M" "r64 (of_int (n * 2 ^ 20)) = Fin (of_int (n * 2 ^ 20))" "r64 (of_int (n * 2 ^ 10)) = Fin (of_int (n * 2 ^ 10))"
    using r64_int [of "n * 2 ^ 30"] r64_int [of "n * 2 ^ 20"] r64_int [of "n * 2 ^ 10"] assms(1,2) by simp_all
  have M0: "0 \<le> ?M" using assms(1) by simp
  have m: "0 \<le> ?M * p" "?M * p \<le> ?M"
    using M0 assms(4) mult_left_mono [OF assms(5) M0] by (simp_all del: of_int_mult of_int_power)
  obtain a where a: "r64 (?M * p) = Fin a" "0 \<le> a" "a \<le> ?M" using r64_between [OF m M(1)] by blast
  have "a / 1024 \<le> of_int (n * 2 ^ 20)" using a(3) by simp
  then obtain b where b: "r64 (a / 1024) = Fin b" "0 \<le> b" "b \<le> of_int (n * 2 ^ 20)"
    using r64_between [OF _ _ M(2), of "a / 1024"] a(2) by auto
  have "b / 1024 \<le> of_int (n * 2 ^ 10)" using b(3) by simp
  then obtain c where c: "r64 (b / 1024) = Fin c" "0 \<le> c" "c \<le> of_int (n * 2 ^ 10)"
    using r64_between [OF _ _ M(3), of "b / 1024"] b(2) by auto
  have "0 \<le> \<lceil>c\<rceil>" "\<lceil>c\<rceil> \<le> n * 2 ^ 10" using c by (auto simp: ceiling_le_iff)
  moreover have "vm_overhead_Mi opts (n * 2 ^ 30) = f_to_int64 (Fin (of_int \<lceil>c\<rceil>))"
    using M(1) a(1) b(1) c(1) by (simp add: vm_overhead_Mi_def assms(3))
  moreover have "n * 2 ^ 10 < 2 ^ 63" "- (2 ^ 63) \<le> (0 :: int)" using assms(2) by simp_all
  then have "in_int64 \<lceil>c\<rceil>" unfolding in_int64_def using calculation(1,2) by linarith
  ultimately show ?thesis using f_to_int64_int by simp
qed

definition requirement_keys :: "string set" where
  "requirement_keys = {LabelInstanceTypeStable, LabelArchStable, LabelOSStable, LabelTopologyZone, LabelTopologyRegion,
     CapacityTypeLabelKey, LabelInstanceShapeName, LabelInstanceCPU, LabelIsFlexible, LabelInstanceGPU,
     LabelInstanceGPUDescription, LabelInstanceMemory, LabelInstanceNetworkBandwidth, LabelInstanceMaxVNICs}"

lemma requirement_keys_distinct: "distinct (map fst (requirement_specs K name w offs zones region))"
  by (simp add: requirement_specs_def label_defs LabelTopologyRegion_def)

lemma requirement_keys_subset: "fst ` set (requirement_specs K name w offs zones region) \<subseteq> requirement_keys"
  by (auto simp: requirement_specs_def requirement_keys_def)

lemma label_distinct:
  "distinct [LabelInstanceTypeStable, LabelArchStable, LabelOSStable, LabelTopologyZone, LabelTopologyRegion,
     CapacityTypeLabelKey, LabelInstanceShapeName, LabelInstanceCPU, LabelIsFlexible, LabelInstanceGPU,
     LabelInstanceGPUDescription, LabelInstanceMemory, LabelInstanceNetworkBandwidth, LabelInstanceMaxVNICs]"
  by (simp add: label_defs LabelTopologyRegion_def)

lemma label_distinct_rev:
  "distinct (rev [LabelInstanceTypeStable, LabelArchStable, LabelOSStable, LabelTopologyZone, LabelTopologyRegion,
     CapacityTypeLabelKey, LabelInstanceShapeName, LabelInstanceCPU, LabelIsFlexible, LabelInstanceGPU,
     LabelInstanceGPUDescription, LabelInstanceMemory, LabelInstanceNetworkBandwidth, LabelInstanceMaxVNICs])"
  unfolding distinct_rev by (rule label_distinct)

lemmas label_neq = label_distinct [simplified] label_distinct_rev [simplified]

lemma requirements_lookup:
  assumes "add_law K requirement_keys"
  shows "map_of (newRequirements K (map (\<lambda>(k, op, vs). newRequirement K k op vs) (requirement_specs K name w offs zones region))) =
    map_of (map (\<lambda>(k, op, vs). (k, newRequirement K k op vs)) (requirement_specs K name w offs zones region))"
proof -
  have "map_of (reqs_Add K [] (map (\<lambda>(k, op, vs). newRequirement K k op vs) specs)) =
      map_of [] ++ map_of (map (\<lambda>(k, op, vs). (k, newRequirement K k op vs)) specs)"
    if "distinct (map fst specs)" "fst ` set specs \<subseteq> requirement_keys" for specs
    using assms [unfolded add_law_def, rule_format, of specs "[]"] that by simp
  from this [OF requirement_keys_distinct requirement_keys_subset] show ?thesis
    by (simp add: newRequirements_def)
qed

lemma spec_lookup:
  assumes "add_law K requirement_keys" and "(k, op, vs) \<in> set (requirement_specs K name w offs zones region)"
  shows "map_of (newRequirements K (map (\<lambda>(k, op, vs). newRequirement K k op vs) (requirement_specs K name w offs zones region))) k =
    Some (newRequirement K k op vs)"
  unfolding requirements_lookup [OF assms(1)]
  using assms(2) by (intro map_of_is_SomeI) (force simp: requirement_keys_distinct comp_def split_def)+

lemma insert_values_Ret:
  "map_of m k = Some r \<Longrightarrow> insert_values K k vs m = Ret (AList.update k (req_Insert K r vs) m)"
  by (simp add: insert_values_def)

lemma nvidiaGPUs_Ret:
  assumes "quantity_laws K" and "in_int64 (gpu_count w)"
  obtains q where "nvidiaGPUs K w = Ret q" and "q_Value K q = gpu_count w"
  using assms unfolding quantity_laws_def nvidiaGPUs_def mustParse_def by (metis option.simps(5))

text \<open>The requirements before and after the values that depend on the shape are inserted.\<close>

definition base_requirements :: "('r, 'q) karp_ops \<Rightarrow> string \<Rightarrow> wrapShape \<Rightarrow> 'r offering list \<Rightarrow> string list \<Rightarrow> string \<Rightarrow> (string, 'r) gomap" where
  "base_requirements K name w offs zones region =
     newRequirements K (map (\<lambda>(k, op, vs). newRequirement K k op vs) (requirement_specs K name w offs zones region))"

definition inserted :: "('r, 'q) karp_ops \<Rightarrow> bool \<Rightarrow> string \<Rightarrow> string \<Rightarrow> (string \<rightharpoonup> 'r) \<Rightarrow> (string \<rightharpoonup> 'r)" where
  "inserted K b k v f = (if b then f(k \<mapsto> req_Insert K (newRequirement K k OpDoesNotExist []) [v]) else f)"

lemma inserted_other: "k' \<noteq> k \<Longrightarrow> inserted K b k v f k' = f k'"
  by (simp add: inserted_def)

lemma inserted_same:
  "f k = Some (newRequirement K k OpDoesNotExist []) \<Longrightarrow>
   inserted K b k v f k = Some (if b then req_Insert K (newRequirement K k OpDoesNotExist []) [v] else newRequirement K k OpDoesNotExist [])"
  by (simp add: inserted_def)

lemma insert_step:
  assumes "map_of m k = Some (newRequirement K k OpDoesNotExist [])"
  obtains m' where "(if b then insert_values K k [v] m else Ret m) = Ret m'" and "map_of m' = inserted K b k v (map_of m)"
  using that insert_values_Ret [OF assms, of K "[v]"] by (cases b) (auto simp: inserted_def)

lemma computeRequirements_map:
  assumes "add_law K requirement_keys" and "quantity_laws K" and "sh_Shape w = Some name" and "in_int64 (gpu_count w)"
  shows "\<exists>reqs. computeRequirements K w offs zones region = Ret reqs \<and>
    map_of reqs =
      inserted K (gpu_count w \<noteq> 0) LabelInstanceGPUDescription (SanitizeLabelValue (from_ptr '''' (sh_GpuDescription w)))
       (inserted K (gpu_count w \<noteq> 0) LabelInstanceGPU (show_int (gpu_count w))
         (inserted K (sh_MaxVnicAttachments w \<noteq> None) LabelInstanceMaxVNICs (show_int (CalMaxVnic w))
           (inserted K (sh_NetworkingBandwidthInGbps w \<noteq> None) LabelInstanceNetworkBandwidth (show_int (wrap64 (CalMaxBandwidthInGbps w * 1024)))
             (map_of (base_requirements K name w offs zones region)))))"
proof -
  let ?m = "base_requirements K name w offs zones region"
  have b: "map_of ?m k = Some (newRequirement K k OpDoesNotExist [])"
    if "k \<in> {LabelInstanceNetworkBandwidth, LabelInstanceMaxVNICs, LabelInstanceGPU, LabelInstanceGPUDescription}" for k
    unfolding base_requirements_def by (rule spec_lookup [OF assms(1)]) (use that in \<open>auto simp: requirement_specs_def\<close>)
  obtain q where q: "nvidiaGPUs K w = Ret q" "q_Value K q = gpu_count w" by (rule nvidiaGPUs_Ret [OF assms(2,4)])
  obtain r1 where r1: "(if sh_NetworkingBandwidthInGbps w \<noteq> None
        then insert_values K LabelInstanceNetworkBandwidth [show_int (wrap64 (CalMaxBandwidthInGbps w * 1024))] ?m else Ret ?m) = Ret r1"
    "map_of r1 = inserted K (sh_NetworkingBandwidthInGbps w \<noteq> None) LabelInstanceNetworkBandwidth
       (show_int (wrap64 (CalMaxBandwidthInGbps w * 1024))) (map_of ?m)"
    by (rule insert_step [OF b [of LabelInstanceNetworkBandwidth, simplified]])
  have "map_of r1 LabelInstanceMaxVNICs = Some (newRequirement K LabelInstanceMaxVNICs OpDoesNotExist [])"
    by (simp add: r1(2) inserted_other label_neq b)
  then obtain r2 where r2: "(if sh_MaxVnicAttachments w \<noteq> None
        then insert_values K LabelInstanceMaxVNICs [show_int (CalMaxVnic w)] r1 else Ret r1) = Ret r2"
    "map_of r2 = inserted K (sh_MaxVnicAttachments w \<noteq> None) LabelInstanceMaxVNICs (show_int (CalMaxVnic w)) (map_of r1)"
    by (rule insert_step)
  have g: "map_of r2 LabelInstanceGPU = Some (newRequirement K LabelInstanceGPU OpDoesNotExist [])"
    "map_of r2 LabelInstanceGPUDescription = Some (newRequirement K LabelInstanceGPUDescription OpDoesNotExist [])"
    by (simp_all add: r2(2) r1(2) inserted_other label_neq b)
  have c: "computeRequirements K w offs zones region =
     (if sh_Gpus w \<noteq> None \<and> from_ptr 0 (sh_Gpus w) \<noteq> 0 then
       obind (nvidiaGPUs K w) (\<lambda>g. obind (insert_values K LabelInstanceGPU [show_int (q_Value K g)] r2) (\<lambda>reqs.
         insert_values K LabelInstanceGPUDescription [SanitizeLabelValue (from_ptr '''' (sh_GpuDescription w))] reqs))
      else Ret r2)"
    by (simp only: computeRequirements_def assms(3) deref_simps obind.simps Let_def base_requirements_def [symmetric] r1(1) r2(1))
  have "sh_Gpus w \<noteq> None \<and> from_ptr 0 (sh_Gpus w) \<noteq> 0 \<longleftrightarrow> gpu_count w \<noteq> 0"
    by (cases "sh_Gpus w") (simp_all add: gpu_count_def)
  then show ?thesis
    unfolding c r1(2) [symmetric] r2(2) [symmetric] using q g
    by (cases "gpu_count w = 0") (auto simp: insert_values_Ret inserted_def label_neq)
qed

section \<open>Properties\<close>


definition sample_shape :: wrapShape where
  "sample_shape = (sample_wrap ''VM.GPU.A10.1'' 30 240)\<lparr>sh_Gpus := Some 1, sh_GpuDescription := Some ''NVIDIA A10''\<rparr>"


text \<open>C36. The memory capacity of an instance type is its memory less the configured overhead, and stays between zero and the
  memory of the shape, for every overhead the option validation accepts other than NaN.\<close>

theorem memory_capacity_range:
  assumes "quantity_laws K" and "options_ok pu opts" and "VMMemoryOverheadPercent opts = Fin p" and "0 \<le> n" and "n < 2 ^ 22"
  shows "\<exists>q. memory_quantity K opts n = Ret q \<and> q_Value K q = n * 2 ^ 30 - vm_overhead_Mi opts (n * 2 ^ 30) * 2 ^ 20 \<and>
    0 \<le> q_Value K q \<and> q_Value K q \<le> n * 2 ^ 30"
proof -
  have p: "0 \<le> p" "p \<le> 1" using assms(2,3) by (auto simp: options_ok_def)
  let ?v = "vm_overhead_Mi opts (n * 2 ^ 30)"
  have v: "0 \<le> ?v" "?v \<le> n * 1024" using vm_overhead_range [OF assms(4,5,3) p] by auto
  have i: "in_int64 (n * 2 ^ 30)" "in_int64 (?v * 2 ^ 20)" "in_int64 (n * 2 ^ 30 - ?v * 2 ^ 20)"
    using v assms(4,5) by (auto simp: in_int64_def)
  obtain a where a: "q_Parse K (show_int n @ ''Gi'') = Some a" "q_Value K a = n * 2 ^ 30"
    using assms(1) i(1) unfolding quantity_laws_def by blast
  obtain b where b: "q_Parse K (show_int ?v @ ''Mi'') = Some b"
    using assms(1) i(2) unfolding quantity_laws_def by blast
  have "q_Value K (q_Sub K a b) = n * 2 ^ 30 - ?v * 2 ^ 20"
    using assms(1) a(1) b i unfolding quantity_laws_def by blast
  moreover have "memory_quantity K opts n = Ret (q_Sub K a b)"
    by (simp add: memory_quantity_def gi_quantity_def mustParse_def a [simplified] b [simplified])
  ultimately show ?thesis using v assms(4) by simp
qed

theorem memory_capacity_range_witness:
  "\<exists>q. memory_quantity ref_ops (zero_options\<lparr>ClusterName := ''c'', VMMemoryOverheadPercent := Fin (3 / 40)\<rparr>) 16 = Ret q \<and>
     0 \<le> q_Value ref_ops q \<and> q_Value ref_ops q \<le> 16 * 2 ^ 30"
proof -
  have "options_ok (\<lambda>_. None) (zero_options\<lparr>ClusterName := ''c'', VMMemoryOverheadPercent := Fin (3 / 40)\<rparr>)"
    by (simp add: options_ok_def zero_options_def)
  from memory_capacity_range [OF ref_quantity_laws this, of "3 / 40" 16] show ?thesis by auto
qed

text \<open>An overhead of NaN passes the validation of the options, and makes the overhead the least 64-bit integer, so that the
  memory capacity is not the memory of the shape less anything.\<close>

theorem memory_overhead_NaN:
  "options_ok pu (zero_options\<lparr>ClusterName := CHR ''c'' # cs, VMMemoryOverheadPercent := NaN\<rparr>) \<and>
   vm_overhead_Mi (opts\<lparr>VMMemoryOverheadPercent := NaN\<rparr>) memValue = - (2 ^ 63)"
proof -
  have "fmul r64 (r64 x) NaN = NaN" for x by (cases "r64 x") auto
  then show ?thesis by (simp add: options_ok_def zero_options_def vm_overhead_Mi_def)
qed

text \<open>The memory reserved for Kubernetes on a node with whole Gi below 128: nothing below 2 Gi, 1 Gi below 16 Gi and
  2 Gi from there on, so never more than half of the memory.\<close>

theorem reserved_memory_table:
  assumes "0 \<le> n" and "n < 128"
  shows "reservedMemoryMi (n * Gi) = (if n < 2 then 0 else if n < 16 then 1024 else 2048) \<and>
    2 * reservedMemoryMi (n * Gi) \<le> n * 1024"
proof -
  have "gdiv (n * Gi) Gi = n" using assms by (simp add: gdiv_nonneg Gi_def)
  moreover have "r64 (of_int n) = Fin (of_int n)" using assms by (intro r64_int) simp
  moreover have "fmul r64 (Fin 1024) (Fin (of_int c)) = Fin (of_int (1024 * c))" if "\<bar>c\<bar> < 2 ^ 20" for c :: int
    using r64_int [of "1024 * c"] that by simp
  ultimately have "reservedMemoryMi (n * Gi) = f_to_int64 (Fin (of_int (1024 * (if n < 2 then 0 else if n < 16 then 1 else 2))))"
    by (simp add: reservedMemoryMi_def memory_tax_small [OF assms])
  then have "reservedMemoryMi (n * Gi) = 1024 * (if n < 2 then 0 else if n < 16 then 1 else 2)"
    by (simp only:) (rule f_to_int64_int, simp add: in_int64_def)
  then show ?thesis using assms by auto
qed

theorem reserved_memory_table_witness: "reservedMemoryMi (64 * Gi) = 2048"
  using reserved_memory_table [of 64] by simp

text \<open>C37. The number of pods of a node never exceeds 31 for each network attachment but the first, nor the limit of the kubelet
  configuration (110 without one), nor the pods per core times the cores; and it is not negative for a valid
  configuration and at least one attachment.\<close>

theorem pods_count_bounds:
  assumes "0 < CalMaxVnic w" and "CalMaxVnic w < 2 ^ 31" and "0 \<le> CalcCpu w" and "CalcCpu w < 2 ^ 31"
    and "valid_kubelet kc" and "\<And>n. PodsPerCore kc = Some n \<Longrightarrow> n < 2 ^ 31"
  shows "0 \<le> pods_count w (Some kc) \<and> pods_count w (Some kc) \<le> 31 * (CalMaxVnic w - 1) \<and>
    pods_count w (Some kc) \<le> (case MaxPods kc of Some n \<Rightarrow> n | None \<Rightarrow> 110) \<and>
    (\<forall>n. PodsPerCore kc = Some n \<longrightarrow> pods_count w (Some kc) \<le> n * CalcCpu w)"
proof -
  have v: "wrap64 (wrap64 (CalMaxVnic w - 1) * 31) = 31 * (CalMaxVnic w - 1)"
    using assms(1,2) by (simp add: in_int64_def)
  have c: "wrap64 (n * CalcCpu w) = n * CalcCpu w \<and> 0 \<le> n * CalcCpu w" if "PodsPerCore kc = Some n" for n
  proof -
    have n: "0 \<le> n" "n < 2 ^ 31" using that assms(5,6) by (auto simp: valid_kubelet_def)
    then have "n * CalcCpu w \<le> 2 ^ 31 * 2 ^ 31" using assms(3,4) by (intro mult_mono) auto
    moreover have "0 \<le> n * CalcCpu w" using n assms(3) by simp
    ultimately show ?thesis by (simp add: in_int64_def)
  qed
  have m: "0 \<le> n" if "MaxPods kc = Some n" for n using that assms(5) by (auto simp: valid_kubelet_def)
  show ?thesis
    using v c m assms(1) by (auto simp: pods_count_def Let_def split: option.splits)
qed

theorem pods_count_bounds_witness:
  "pods_count (sample_wrap ''VM.Standard.E4.Flex'' 4 16) (Some emptyKubelet) \<le> 31"
  using pods_count_bounds [of "sample_wrap ''VM.Standard.E4.Flex'' 4 16" emptyKubelet]
  by (simp add: sample_wrap_def emptyKubelet_def valid_kubelet_def valid_reserved_def valid_percent_def)

end
