(* ===== verification/Selector.thy ===== *)
theory Selector
  imports OfferingCache External Apis
begin

text \<open>
  What the subnet, security group and image providers share: the objects selected by a list of terms are collected in a Go map
  under their identifiers, so that an object selected twice is listed once, and the values of the map are kept in a
  cache under a key made from the selector.  \<open>order\<close> arguments are the orders in which \<open>lo.Values\<close> visits the map.
\<close>

section \<open>Collecting\<close>

fun collect_terms ::
  "('t \<Rightarrow> 'a list outcome) \<Rightarrow> ('a \<Rightarrow> string) \<Rightarrow> 't list \<Rightarrow> (string, 'a) gomap \<Rightarrow> (string, 'a) gomap outcome" where
  "collect_terms lkup id_of [] m = Ret m"
| "collect_terms lkup id_of (t # ts) m =
     obind (lkup t) (\<lambda>xs. collect_terms lkup id_of ts (fold (\<lambda>x. AList.update (id_of x) x) xs m))"

lemma map_of_fold_update:
  "map_of (fold (\<lambda>x. AList.update (id_of x) x) xs m) k =
     (case List.find (\<lambda>x. id_of x = k) (rev xs) of None \<Rightarrow> map_of m k | Some x \<Rightarrow> Some x)"
  by (induction xs rule: rev_induct) auto

lemma gomap_wf_fold_update: "gomap_wf m \<Longrightarrow> gomap_wf (fold (\<lambda>x. AList.update (id_of x) x) xs m)"
  by (induction xs arbitrary: m) auto

text \<open>The map that \<open>collect\<close> has built from the objects seen.\<close>

definition keyed :: "('a \<Rightarrow> string) \<Rightarrow> 'a set \<Rightarrow> (string, 'a) gomap \<Rightarrow> bool" where
  "keyed id_of seen m \<longleftrightarrow> gomap_wf m \<and> fst ` set m = id_of ` seen \<and> (\<forall>(k, x) \<in> set m. k = id_of x \<and> x \<in> seen)"

lemma keyed_Nil: "keyed id_of {} []"
  by (simp add: keyed_def)

lemma gomap_set: "gomap_wf m \<Longrightarrow> (k, x) \<in> set m \<longleftrightarrow> map_of m k = Some x"
  by (simp add: gomap_wf_def)

lemma keyed_update:
  assumes "keyed id_of seen m"
  shows "keyed id_of (insert x seen) (AList.update (id_of x) x m)"
proof -
  have w: "gomap_wf (AList.update (id_of x) x m)" using assms by (simp add: keyed_def)
  have "fst ` set (AList.update (id_of x) x m) = insert (id_of x) (fst ` set m)"
    by (simp add: update_keys flip: dom_map_of_conv_image_fst)
  moreover have "k = id_of y \<and> y \<in> insert x seen" if "(k, y) \<in> set (AList.update (id_of x) x m)" for k y
  proof -
    have "map_of (AList.update (id_of x) x m) k = Some y" using that gomap_set [OF w] by simp
    then have "k = id_of x \<and> y = x \<or> (k, y) \<in> set m" by (auto dest: map_of_SomeD split: if_splits)
    then show ?thesis using assms by (auto simp: keyed_def)
  qed
  ultimately show ?thesis using w assms by (auto simp: keyed_def)
qed

lemma keyed_fold: "keyed id_of seen m \<Longrightarrow> keyed id_of (seen \<union> set xs) (fold (\<lambda>x. AList.update (id_of x) x) xs m)"
proof (induction xs arbitrary: seen m)
  case (Cons x xs)
  from Cons.IH [OF keyed_update [OF Cons.prems, of x]] show ?case by (simp add: insert_commute Un_commute)
qed simp

lemma collect_terms_keyed:
  "keyed id_of seen m \<Longrightarrow> collect_terms lkup id_of ts m = Ret m' \<Longrightarrow>
   keyed id_of (seen \<union> {x. \<exists>t \<in> set ts. \<exists>xs. lkup t = Ret xs \<and> x \<in> set xs}) m'"
proof (induction ts arbitrary: seen m)
  case (Cons t ts)
  obtain xs where xs: "lkup t = Ret xs" "collect_terms lkup id_of ts (fold (\<lambda>x. AList.update (id_of x) x) xs m) = Ret m'"
    using Cons.prems(2) by (auto simp: obind_eq_Ret_iff)
  from Cons.IH [OF keyed_fold [OF Cons.prems(1)] xs(2)]
  have "keyed id_of (seen \<union> set xs \<union> {x. \<exists>t \<in> set ts. \<exists>xs. lkup t = Ret xs \<and> x \<in> set xs}) m'" .
  moreover have "seen \<union> set xs \<union> {x. \<exists>t \<in> set ts. \<exists>xs. lkup t = Ret xs \<and> x \<in> set xs} =
      seen \<union> {x. \<exists>t \<in> set (t # ts). \<exists>xs. lkup t = Ret xs \<and> x \<in> set xs}" using xs(1) by auto
  ultimately show ?case by simp
qed simp

lemma collect_terms_total:
  "(\<And>t. t \<in> set ts \<Longrightarrow> \<exists>xs. lkup t = Ret xs) \<Longrightarrow> \<exists>m'. collect_terms lkup id_of ts m = Ret m'"
proof (induction ts arbitrary: m)
  case (Cons t ts)
  then obtain xs where "lkup t = Ret xs" by fastforce
  with Cons show ?case by simp
qed simp

lemma collect_terms_fails:
  "(\<And>t. t \<in> set ts \<Longrightarrow> (\<exists>xs. lkup t = Ret xs) \<or> (\<exists>e. lkup t = Err e)) \<Longrightarrow> t \<in> set ts \<Longrightarrow> lkup t = Err e \<Longrightarrow>
   \<exists>e'. collect_terms lkup id_of ts m = Err e'"
proof (induction ts arbitrary: m)
  case (Cons u us)
  have "(\<exists>xs. lkup u = Ret xs) \<or> (\<exists>e. lkup u = Err e)" using Cons.prems(1) [of u] by simp
  then show ?case
  proof
    assume "\<exists>xs. lkup u = Ret xs"
    then obtain xs where xs: "lkup u = Ret xs" ..
    then have "t \<in> set us" using Cons.prems(2,3) by auto
    then show ?thesis using Cons.IH Cons.prems xs by simp
  next
    assume "\<exists>e. lkup u = Err e"
    then show ?thesis by auto
  qed
qed simp

text \<open>The objects the terms select.\<close>

definition selected :: "('t \<Rightarrow> 'a list outcome) \<Rightarrow> 't list \<Rightarrow> 'a set" where
  "selected lkup ts = {x. \<exists>t \<in> set ts. \<exists>xs. lkup t = Ret xs \<and> x \<in> set xs}"

text \<open>The values of the map, in some order, list every selected identifier once.\<close>

definition lists_selected :: "('t \<Rightarrow> 'a list outcome) \<Rightarrow> ('a \<Rightarrow> string) \<Rightarrow> 't list \<Rightarrow> 'a list \<Rightarrow> bool" where
  "lists_selected lkup id_of ts xs \<longleftrightarrow>
     distinct (map id_of xs) \<and> id_of ` set xs = id_of ` selected lkup ts \<and> set xs \<subseteq> selected lkup ts"

lemma keyed_values:
  assumes "keyed id_of seen m" and "mset m' = mset m"
  shows "distinct (map id_of (map snd m')) \<and> id_of ` set (map snd m') = id_of ` seen \<and> set (map snd m') \<subseteq> seen"
proof -
  have s: "set m' = set m" using assms(2) by (rule mset_eq_setD)
  then have "id_of (snd p) = fst p" if "p \<in> set m'" for p using assms(1) that by (auto simp: keyed_def)
  then have e: "map id_of (map snd m') = map fst m'" by simp
  moreover have "distinct (map fst m')" using assms gomap_wf_perm [OF assms(2)] by (simp add: keyed_def gomap_wf_def)
  moreover have "id_of ` set (map snd m') = fst ` set m'" using arg_cong [OF e, of set] by (simp add: image_comp)
  moreover have "set (map snd m') \<subseteq> seen" using assms(1) s by (auto simp: keyed_def)
  moreover have "fst ` set m' = id_of ` seen" using assms(1) s by (simp add: keyed_def)
  ultimately show ?thesis unfolding e by simp
qed

lemma collect_lists_selected:
  "collect_terms lkup id_of ts [] = Ret m \<Longrightarrow> mset m' = mset m \<Longrightarrow> lists_selected lkup id_of ts (map snd m')"
  using keyed_values [OF collect_terms_keyed [OF keyed_Nil]] by (simp add: lists_selected_def selected_def)

section \<open>Caching\<close>

text \<open>The value found in the cache, or the fetched one; \<open>fetch\<close> gives the value to keep and the value to return.\<close>

definition cached_list ::
  "('c, 'v) cache_ops \<Rightarrow> int \<Rightarrow> string \<Rightarrow> ('v \<times> 'v) outcome \<Rightarrow> 'c \<Rightarrow> 'c \<times> 'v outcome" where
  "cached_list C now key fetch c =
     (case cache_get C c now key of
        Some v \<Rightarrow> (c, Ret v)
      | None \<Rightarrow> (case fetch of
          Ret (keep, v) \<Rightarrow> (cache_setDefault C c now key keep, Ret v)
        | Err e \<Rightarrow> (c, Err e)
        | Panic s \<Rightarrow> (c, Panic s)))"

context go_cache
begin

text \<open>Until the entry expires the kept value is returned whatever a fetch would give, and the cache does not change; after that the
  value is fetched again.\<close>

lemma cached_list_hit:
  "cache_get ops c t key = None \<Longrightarrow> fetch = Ret (keep, v) \<Longrightarrow> t \<le> t' \<Longrightarrow> t' < t + ttl \<Longrightarrow>
   cached_list ops t' key fetch' (fst (cached_list ops t key fetch c)) = (fst (cached_list ops t key fetch c), Ret keep)"
  by (simp add: cached_list_def get_set_live)

lemma cached_list_expired:
  "cache_get ops c t key = None \<Longrightarrow> fetch = Ret (keep, v) \<Longrightarrow> t + ttl < t' \<Longrightarrow> fetch' = Ret (keep', v') \<Longrightarrow>
   snd (cached_list ops t' key fetch' (fst (cached_list ops t key fetch c))) = Ret v'"
  by (simp add: cached_list_def get_set_expired)

lemma cached_list_other_key:
  "key' \<noteq> key \<Longrightarrow> cache_get ops (fst (cached_list ops t key fetch c)) t' key' = cache_get ops c t' key'"
  by (cases fetch) (auto simp: cached_list_def get_set_other split: option.split)

end

lemma cached_list_miss:
  "cache_get C c now key = None \<Longrightarrow> fetch = Ret (keep, v) \<Longrightarrow>
   cached_list C now key fetch c = (cache_setDefault C c now key keep, Ret v)"
  by (simp add: cached_list_def)

lemma cached_list_error: "snd (cached_list C now key fetch c) = Err e \<Longrightarrow> fst (cached_list C now key fetch c) = c \<and> fetch = Err e"
  by (auto simp: cached_list_def split: option.splits outcome.splits)

section \<open>Providers that select\<close>

text \<open>What is fetched when nothing is cached: the values of the collected map, in one order for the cache and in another for the caller.\<close>

definition fetch_selected ::
  "('t \<Rightarrow> 'a list outcome) \<Rightarrow> ('a \<Rightarrow> string) \<Rightarrow> ((string, 'a) gomap \<Rightarrow> (string, 'a) gomap) \<times> ((string, 'a) gomap \<Rightarrow> (string, 'a) gomap) \<Rightarrow>
   't list \<Rightarrow> ('a list \<times> 'a list) outcome" where
  "fetch_selected lkup id_of order ts = obind (collect_terms lkup id_of ts []) (\<lambda>m. Ret (map snd (fst order m), map snd (snd order m)))"

lemma fetch_selected_total:
  assumes "\<forall>t \<in> set ts. \<exists>xs. lkup t = Ret xs" and "\<And>m. mset (fst order m) = mset m" and "\<And>m. mset (snd order m) = mset m"
  shows "\<exists>keep v. fetch_selected lkup id_of order ts = Ret (keep, v) \<and> mset keep = mset v \<and> lists_selected lkup id_of ts v"
proof -
  obtain m where m: "collect_terms lkup id_of ts [] = Ret m" using collect_terms_total assms(1) by metis
  then show ?thesis unfolding fetch_selected_def using collect_lists_selected [OF m assms(3)] assms(2,3) by simp
qed

text \<open>The contract that the three providers share: for a class \<open>k\<close> whose selector is looked up at all and can be hashed, \<open>provide\<close> answers from the cache under
  the key of the class and fetches what its terms select otherwise; \<open>e\<close> is the service that is asked.\<close>

locale selector_provider =
  fixes provide :: "('c, 'a list) cache_ops \<Rightarrow> 'e \<Rightarrow> ((string, 'a) gomap \<Rightarrow> (string, 'a) gomap) \<times> ((string, 'a) gomap \<Rightarrow> (string, 'a) gomap) \<Rightarrow>
      'k \<Rightarrow> int \<Rightarrow> 'c \<Rightarrow> 'c \<times> 'a list outcome"
    and looked_up :: "'k \<Rightarrow> bool" and key :: "'k \<Rightarrow> string option" and terms :: "'k \<Rightarrow> 't list"
    and lkup :: "'e \<Rightarrow> 'k \<Rightarrow> 't \<Rightarrow> 'a list outcome" and id_of :: "'a \<Rightarrow> string"
  assumes provide_cached: "looked_up k \<Longrightarrow> key k = Some h \<Longrightarrow>
      provide C e order k now c = cached_list C now h (fetch_selected (lkup e k) id_of order (terms k)) c"
begin

lemma provide_error:
  assumes "looked_up k" and "key k = Some h" and "provide C e order k now c = (c', Err err)"
  shows "c' = c"
  using assms cached_list_error [of C now h "fetch_selected (lkup e k) id_of order (terms k)" c err] by (simp add: provide_cached)

lemma provide_fresh:
  assumes "looked_up k" and "key k = Some h" and "go_cache C ttl" and "cache_get C c now h = None"
    and "\<And>m. mset (fst order m) = mset m" and "\<And>m. mset (snd order m) = mset m" and "\<forall>t \<in> set (terms k). \<exists>xs. lkup e k t = Ret xs"
  shows "\<exists>c' v. provide C e order k now c = (c', Ret v) \<and> lists_selected (lkup e k) id_of (terms k) v \<and>
    (\<forall>t e' order'. now \<le> t \<and> t < now + ttl \<longrightarrow> (\<exists>v'. provide C e' order' k t c' = (c', Ret v') \<and> mset v' = mset v))"
proof -
  from fetch_selected_total [OF assms(7,5,6)] obtain keep v where
    f: "fetch_selected (lkup e k) id_of order (terms k) = Ret (keep, v)" "mset keep = mset v" "lists_selected (lkup e k) id_of (terms k) v" by blast
  let ?c = "cache_setDefault C c now h keep"
  have "provide C e order k now c = (?c, Ret v)" by (simp add: provide_cached [OF assms(1,2)] cached_list_def assms(4) f(1))
  moreover have "provide C e' order' k t ?c = (?c, Ret keep)" if "now \<le> t \<and> t < now + ttl" for t e' order'
    using go_cache.get_set_live [OF assms(3)] that by (simp add: provide_cached [OF assms(1,2)] cached_list_def)
  ultimately show ?thesis using f(2,3) by blast
qed

end

section \<open>Sorting by identifier\<close>

text \<open>\<open>sort.Slice\<close> with the comparison of a key: the list in ascending key order.  It dereferences the keys of the elements it
  compares, so it panics on a nil key once there are two elements.\<close>

definition sort_by_id :: "('a \<Rightarrow> string option) \<Rightarrow> 'a list \<Rightarrow> 'a list outcome" where
  "sort_by_id id_of xs =
     (if length xs \<le> 1 then Ret xs
      else if list_all (\<lambda>x. id_of x \<noteq> None) xs then Ret (sort_key (\<lambda>x. from_ptr '''' (id_of x)) xs)
      else Panic ''nil pointer dereference'')"

lemma sort_by_id_Ret:
  "\<forall>x \<in> set xs. id_of x \<noteq> None \<Longrightarrow> sort_by_id id_of xs = Ret (sort_key (\<lambda>x. from_ptr '''' (id_of x)) xs)"
proof -
  assume a: "\<forall>x \<in> set xs. id_of x \<noteq> None"
  have "sort_key (\<lambda>x. from_ptr '''' (id_of x)) xs = xs" if "length xs \<le> 1"
    using that by (cases xs) auto
  with a show ?thesis by (auto simp: sort_by_id_def list_all_iff)
qed

end
