(* ===== verification/Net.thy ===== *)
theory Net
  imports GoStr
begin

text \<open>
  \<open>net.ParseCIDR\<close> of Go's standard library, as far as the sources use it: whether an address with a prefix length parses,
  the prefix length and the width of the address (32 or 128 bits), which is what the size of the mask gives.
\<close>

section \<open>Addresses\<close>

text \<open>A field of a dotted address: decimal, no leading zero, at most 255.\<close>

definition ip4_field :: "string \<Rightarrow> bool" where
  "ip4_field f \<longleftrightarrow> f \<noteq> [] \<and> list_all is_digit f \<and> (hd f = CHR ''0'' \<longrightarrow> length f = 1) \<and>
     (case read_nat 0 f of None \<Rightarrow> False | Some v \<Rightarrow> v \<le> 255)"

definition parse_ip4 :: "string \<Rightarrow> bool" where
  "parse_ip4 s \<longleftrightarrow> (let fs = split_str s ''.'' in length fs = 4 \<and> list_all ip4_field fs)"

definition is_hex :: "char \<Rightarrow> bool" where
  "is_hex c \<longleftrightarrow> is_digit c \<or> CHR ''a'' \<le> c \<and> c \<le> CHR ''f'' \<or> CHR ''A'' \<le> c \<and> c \<le> CHR ''F''"

text \<open>The end of an address with \<open>g\<close> groups: an ellipsis stands for at least one missing group.\<close>

definition ip6_end :: "nat \<Rightarrow> bool \<Rightarrow> bool" where
  "ip6_end g ell = (if g < 8 then ell else \<not> ell)"

text \<open>The loop over the groups: \<open>g\<close> groups read so far, \<open>ell\<close> whether an ellipsis was seen.\<close>

function ip6_loop :: "nat \<Rightarrow> bool \<Rightarrow> string \<Rightarrow> bool" where
  "ip6_loop g ell s =
     (if 8 \<le> g then s = [] \<and> ip6_end g ell
      else let hs = takeWhile is_hex s; r = dropWhile is_hex s
        in if hs = [] \<or> 4 < length hs then False
           else case r of
             [] \<Rightarrow> ip6_end (Suc g) ell
           | c # r' \<Rightarrow>
               if c = CHR ''.'' then (ell \<or> g = 6) \<and> g \<le> 6 \<and> parse_ip4 s \<and> ip6_end (g + 2) ell
               else if c \<noteq> CHR '':'' then False
               else case r' of
                 [] \<Rightarrow> False
               | d # r'' \<Rightarrow>
                   if d = CHR '':'' then \<not> ell \<and> (if r'' = [] then ip6_end (Suc g) True else ip6_loop (Suc g) True r'')
                   else ip6_loop (Suc g) ell r')"
  by auto
termination by (relation "measure (\<lambda>(g, _, _). 8 - g)") auto

declare ip6_loop.simps [simp del]

definition parse_ip6 :: "string \<Rightarrow> bool" where
  "parse_ip6 s =
     (if has_prefix s ''::'' then drop 2 s = [] \<or> ip6_loop 0 True (drop 2 s) else ip6_loop 0 False s)"

text \<open>\<open>netip.ParseAddr\<close>: the first of the bytes dot, colon and percent decides; an address with a zone is refused by
  \<open>ParseCIDR\<close>.  The result is the width of the address.\<close>

definition parse_addr :: "string \<Rightarrow> nat option" where
  "parse_addr s =
     (case List.find (\<lambda>c. c \<in> {CHR ''.'', CHR '':'', CHR ''%''}) s of
        None \<Rightarrow> None
      | Some c \<Rightarrow>
          if c = CHR ''.'' then (if parse_ip4 s then Some 32 else None)
          else if c = CHR '':'' then (if CHR ''%'' \<notin> set s \<and> parse_ip6 s then Some 128 else None)
          else None)"

section \<open>Blocks\<close>

text \<open>The prefix length and the width.\<close>

definition ParseCIDR :: "string \<Rightarrow> (nat \<times> nat) outcome" where
  "ParseCIDR s =
     (let a = takeWhile (\<lambda>c. c \<noteq> CHR ''/'') s; r = dropWhile (\<lambda>c. c \<noteq> CHR ''/'') s; m = tl r
      in if r = [] then Err (Errorf ''invalid CIDR address'')
         else case parse_addr a of
           None \<Rightarrow> Err (Errorf ''invalid CIDR address'')
         | Some bits \<Rightarrow> (case read_nat 0 m of
             None \<Rightarrow> Err (Errorf ''invalid CIDR address'')
           | Some n \<Rightarrow> if m = [] \<or> bits < n then Err (Errorf ''invalid CIDR address'') else Ret (n, bits)))"

definition show_ip4 :: "nat list \<Rightarrow> string" where
  "show_ip4 fs = join_str ''.'' (map show_nat fs)"

lemma show_nat_hd_zero: "hd (show_nat n) = CHR ''0'' \<Longrightarrow> length (show_nat n) = 1"
proof (induction n rule: show_nat.induct)
  case (1 n)
  show ?case
  proof (cases "n < 10")
    case True
    then show ?thesis by (subst show_nat.simps) simp
  next
    case False
    then have eq: "show_nat n = show_nat (n div 10) @ [digit_char (n mod 10)]" by (subst show_nat.simps) simp
    then have "hd (show_nat (n div 10)) = CHR ''0''" using 1(2) by simp
    then have l: "length (show_nat (n div 10)) = 1" using 1(1) False by blast
    have "n div 10 \<noteq> 0" using False by simp
    then have "read_nat 0 (show_nat (n div 10)) \<noteq> Some 0" by (simp add: read_nat_show)
    moreover obtain c where c: "show_nat (n div 10) = [c]" using l by (metis length_0_conv length_Suc_conv One_nat_def)
    ultimately have False using \<open>hd (show_nat (n div 10)) = CHR ''0''\<close>
      by (simp add: is_digit_def digit_val_def less_eq_char_def)
    then show ?thesis ..
  qed
qed

lemma ip4_field_show: "v \<le> 255 \<Longrightarrow> ip4_field (show_nat v)"
  unfolding ip4_field_def using show_nat_hd_zero [of v]
  by (auto simp: read_nat_show list_all_iff dest: show_nat_digits)

lemma show_nat_free: "\<not> is_digit c \<Longrightarrow> c \<notin> set (show_nat n)"
  using show_nat_digits by blast

lemma parse_ip4_show: "length fs = 4 \<Longrightarrow> \<forall>f \<in> set fs. f \<le> 255 \<Longrightarrow> parse_ip4 (show_ip4 fs)"
proof -
  assume a: "length fs = 4" "\<forall>f \<in> set fs. f \<le> 255"
  have "\<not> is_digit CHR ''.''" by (simp add: is_digit_def less_eq_char_def)
  then have "split_str (show_ip4 fs) ''.'' = map show_nat fs"
    unfolding show_ip4_def using a(1) by (intro split_join) (auto simp: show_nat_free)
  then show ?thesis using a by (simp add: parse_ip4_def list_all_iff ip4_field_show)
qed

lemma break_at:
  "c \<notin> set xs \<Longrightarrow> takeWhile (\<lambda>x. x \<noteq> c) (xs @ c # ys) = xs"
  "c \<notin> set xs \<Longrightarrow> dropWhile (\<lambda>x. x \<noteq> c) (xs @ c # ys) = c # ys"
  by (induction xs) auto

text \<open>Reading back a printed IPv4 block gives its prefix length.\<close>

lemma ParseCIDR_show:
  assumes "length fs = 4" and "\<forall>f \<in> set fs. f \<le> 255" and "n \<le> 32"
  shows "ParseCIDR (show_ip4 fs @ ''/'' @ show_nat n) = Ret (n, 32)"
proof -
  obtain a b c d where fs: "fs = [a, b, c, d]" using assms(1) by (auto simp: numeral_eq_Suc length_Suc_conv)
  have s: "show_ip4 fs = show_nat a @ CHR ''.'' # show_nat b @ CHR ''.'' # show_nat c @ CHR ''.'' # show_nat d"
    by (simp add: show_ip4_def fs)
  have "CHR ''/'' \<notin> set (show_ip4 fs)"
    unfolding s by (simp add: show_nat_free is_digit_def less_eq_char_def)
  then have t: "takeWhile (\<lambda>c. c \<noteq> CHR ''/'') (show_ip4 fs @ ''/'' @ show_nat n) = show_ip4 fs"
      "dropWhile (\<lambda>c. c \<noteq> CHR ''/'') (show_ip4 fs @ ''/'' @ show_nat n) = ''/'' @ show_nat n"
    by (simp_all add: break_at)
  have "List.find (\<lambda>c. c \<in> {CHR ''.'', CHR '':'', CHR ''%''}) (xs @ CHR ''.'' # ys) = Some CHR ''.''"
    if "\<forall>x \<in> set xs. is_digit x" for xs ys
    using that by (induction xs) (auto simp: is_digit_def less_eq_char_def)
  then have "List.find (\<lambda>c. c \<in> {CHR ''.'', CHR '':'', CHR ''%''}) (show_ip4 fs) = Some CHR ''.''"
    unfolding s by (blast dest: show_nat_digits)
  then have "parse_addr (show_ip4 fs) = Some 32"
    unfolding parse_addr_def using parse_ip4_show [OF assms(1,2)] by simp
  then show ?thesis unfolding ParseCIDR_def Let_def t using assms(3) by (simp add: read_nat_show)
qed

end
