(* ===== verification/Subnet.thy ===== *)
theory Subnet
  imports Selector Net Options
begin

text \<open>
  \<open>pkg/providers/subnet\<close>: the subnets a node class selects, the number of addresses a subnet has left, and the subnets of the network
  attachments of an instance.  The mutex of the provider serialises \<open>List\<close>, so one call is one step on the cache.
\<close>

section \<open>Definitions\<close>

definition subnet_term :: "net_ops \<Rightarrow> options \<Rightarrow> string \<Rightarrow> subnetSelectorTerm \<Rightarrow> oci_subnet list outcome" where
  "subnet_term N opts vcn t =
     (if sst_Id t \<noteq> '''' then obind (net_GetSubnet N (Some (sst_Id t))) (\<lambda>s. Ret [s])
      else if sst_Name t \<noteq> '''' then net_ListSubnets N (CompartmentId opts) vcn (sst_Name t)
      else Ret [])"

definition subnet_id :: "oci_subnet \<Rightarrow> string" where
  "subnet_id s = from_ptr '''' (sn_Id s)"

definition fetch_subnets ::
  "net_ops \<Rightarrow> options \<Rightarrow> ((string, oci_subnet) gomap \<Rightarrow> (string, oci_subnet) gomap) \<times> ((string, oci_subnet) gomap \<Rightarrow> (string, oci_subnet) gomap) \<Rightarrow>
   ociNodeClass \<Rightarrow> (oci_subnet list \<times> oci_subnet list) outcome" where
  "fetch_subnets N opts order nc =
     obind (collect_terms (subnet_term N opts (VcnId (cl_Spec nc))) subnet_id (SubnetSelector (cl_Spec nc)) []) (\<lambda>m.
       Ret (map snd (fst order m), map snd (snd order m)))"

text \<open>\<open>hash\<close> is \<open>hashstructure.Hash\<close> of the selector, \<open>order\<close> the orders in which the map is read for the cache and for the result.\<close>

definition List_subnets ::
  "('c, oci_subnet list) cache_ops \<Rightarrow> net_ops \<Rightarrow> (subnetSelectorTerm list \<Rightarrow> nat outcome) \<Rightarrow>
   ((string, oci_subnet) gomap \<Rightarrow> (string, oci_subnet) gomap) \<times> ((string, oci_subnet) gomap \<Rightarrow> (string, oci_subnet) gomap) \<Rightarrow>
   options \<Rightarrow> ociNodeClass \<Rightarrow> int \<Rightarrow> 'c \<Rightarrow> 'c \<times> oci_subnet list outcome" where
  "List_subnets C N hash order opts nc now c =
     (case hash (SubnetSelector (cl_Spec nc)) of
        Err e \<Rightarrow> (c, Err e)
      | Panic s \<Rightarrow> (c, Panic s)
      | Ret h \<Rightarrow> cached_list C now (VcnId (cl_Spec nc) @ '':'' @ show_nat h) (fetch_subnets N opts order nc) c)"

definition GetSubnetUtilization :: "net_ops \<Rightarrow> oci_subnet \<Rightarrow> cidr_utilization list outcome" where
  "GetSubnetUtilization N sn = net_GetSubnetCidrUtilization N (sn_Id sn)"

text \<open>\<open>1 << n\<close> on a 64-bit integer; from 64 on nothing is left of it.\<close>

definition calculateTotalIps :: "string \<Rightarrow> int outcome" where
  "calculateTotalIps cidr = obind (ParseCIDR cidr) (\<lambda>(maskLen, maxLen). Ret (wrap64 (2 ^ (maxLen - maskLen))))"

text \<open>The addresses in use: \<open>int(float32(availableCount) * utilization / 100)\<close>.\<close>

definition used_ips :: "int \<Rightarrow> gofloat \<Rightarrow> int" where
  "used_ips tot u = f_to_int64 (fdiv r32 (fmul r32 (r32 (of_int tot)) u) (Fin 100))"

text \<open>The loop over the summaries looks for the one of the block, but reads the utilization of the first one.\<close>

definition subtract_used :: "string \<Rightarrow> int \<Rightarrow> cidr_utilization list \<Rightarrow> int outcome" where
  "subtract_used cidr tot smys =
     (case List.find (\<lambda>s. cu_Cidr s = Some cidr) smys of
        None \<Rightarrow> Ret tot
      | Some _ \<Rightarrow> obind (deref (cu_Utilization (hd smys))) (\<lambda>u. Ret (wrap64 (tot - used_ips tot u))))"

definition GetSubnetAvailableIPv4Count :: "net_ops \<Rightarrow> oci_subnet \<Rightarrow> int outcome" where
  "GetSubnetAvailableIPv4Count N sn =
     (case sn_CidrBlock sn of
        None \<Rightarrow> Ret 0
      | Some cidr \<Rightarrow>
          obind (calculateTotalIps cidr) (\<lambda>tot.
          obind (net_GetSubnetCidrUtilization N (sn_Id sn)) (\<lambda>smys.
          obind (subtract_used cidr tot smys) (\<lambda>n. Ret (if n < 0 then 0 else n)))))"

text \<open>The loop of \<open>GetSubnets\<close>: \<open>skipped\<close> says that an attachment that is not the primary one was skipped; then the first subnet
  ends the loop.\<close>

fun subnets_loop ::
  "net_ops \<Rightarrow> bool \<Rightarrow> vnic_attachment list \<Rightarrow> bool \<Rightarrow> oci_subnet list \<Rightarrow> oci_subnet list outcome" where
  "subnets_loop N onlyPrimary [] skipped acc = Ret acc"
| "subnets_loop N onlyPrimary (v # vs) skipped acc =
     obind (if onlyPrimary then obind (net_GetVnic N (va_VnicId v)) (\<lambda>r. Ret (vn_IsPrimary r = Some True)) else Ret True) (\<lambda>use.
       if \<not> use then subnets_loop N onlyPrimary vs True acc
       else obind (net_GetSubnet N (va_SubnetId v)) (\<lambda>s.
         if skipped then Ret (acc @ [s]) else subnets_loop N onlyPrimary vs skipped (acc @ [s])))"

definition GetSubnets :: "net_ops \<Rightarrow> vnic_attachment list \<Rightarrow> bool \<Rightarrow> oci_subnet list outcome" where
  "GetSubnets N vnics onlyPrimary =
     obind (subnets_loop N onlyPrimary vnics False []) (\<lambda>ss.
       if list_all (\<lambda>s. sn_Id s \<noteq> None) ss then Ret (lo_uniq_by subnet_id ss) else Panic ''nil pointer dereference'')"

section \<open>Lemmas\<close>

definition vnic_primary :: "net_ops \<Rightarrow> vnic_attachment \<Rightarrow> bool" where
  "vnic_primary N v \<longleftrightarrow> (case net_GetVnic N (va_VnicId v) of Ret r \<Rightarrow> vn_IsPrimary r = Some True | _ \<Rightarrow> False)"

lemma subnets_loop_none:
  "\<forall>v \<in> set vs. \<exists>r. net_GetVnic N (va_VnicId v) = Ret r \<Longrightarrow> filter (vnic_primary N) vs = [] \<Longrightarrow>
   subnets_loop N True vs skipped acc = Ret acc"
  by (induction vs arbitrary: skipped) (auto simp: vnic_primary_def split: if_splits)

lemma subnets_loop_one:
  "\<forall>v \<in> set vs. \<exists>r. net_GetVnic N (va_VnicId v) = Ret r \<Longrightarrow> filter (vnic_primary N) vs = [p] \<Longrightarrow>
   net_GetSubnet N (va_SubnetId p) = Ret s \<Longrightarrow> subnets_loop N True vs skipped acc = Ret (acc @ [s])"
proof (induction vs arbitrary: skipped)
  case (Cons v vs)
  obtain r where r: "net_GetVnic N (va_VnicId v) = Ret r" using Cons.prems(1) by auto
  show ?case
  proof (cases "vnic_primary N v")
    case True
    then have "p = v" "filter (vnic_primary N) vs = []" using Cons.prems(2) by simp_all
    with True r Cons.prems(1,3) show ?thesis by (simp add: vnic_primary_def subnets_loop_none)
  next
    case False
    with r Cons show ?thesis by (simp add: vnic_primary_def)
  qed
qed simp

lemma subnets_loop_all:
  "\<forall>v \<in> set vs. net_GetSubnet N (va_SubnetId v) = Ret (sub v) \<Longrightarrow>
   subnets_loop N False vs False acc = Ret (acc @ map sub vs)"
  by (induction vs arbitrary: acc) auto

lemma in_int64_pow2: "k \<le> 32 \<Longrightarrow> in_int64 (2 ^ k)"
proof -
  assume "k \<le> 32"
  then have "(2 :: int) ^ k \<le> 2 ^ 32" by (intro power_increasing) simp_all
  moreover have "in_int64 x" if "0 \<le> x" "x \<le> 2 ^ 32" for x using that by (simp add: in_int64_def)
  ultimately show ?thesis by simp
qed

lemma total_ips_v4: "ParseCIDR cidr = Ret (n, 32) \<Longrightarrow> calculateTotalIps cidr = Ret (2 ^ (32 - n))"
  using in_int64_pow2 [of "32 - n"] by (simp add: calculateTotalIps_def)

lemma used_ips_range:
  assumes "0 \<le> u" and "u \<le> 100" and "k \<le> 32"
  shows "0 \<le> used_ips (2 ^ k) (Fin u) \<and> used_ips (2 ^ k) (Fin u) \<le> 2 ^ k"
proof -
  let ?t = "of_int (2 ^ k) :: rat"
  have t: "r32 ?t = Fin ?t" using r32_scaled [of 1 k] assms(3) by simp
  have h: "r32 (of_int (100 * 2 ^ k)) = Fin (of_int (100 * 2 ^ k))" using r32_scaled [of 100 k] assms(3) by simp
  have "0 \<le> ?t * u" "?t * u \<le> of_int (100 * 2 ^ k)" using assms(1,2) by simp_all
  then obtain a where a: "r32 (?t * u) = Fin a" "0 \<le> a" "a \<le> of_int (100 * 2 ^ k)" using r32_between [OF _ _ h] by blast
  have "0 \<le> a / 100" "a / 100 \<le> ?t" using a(2,3) by simp_all
  then obtain b where b: "r32 (a / 100) = Fin b" "0 \<le> b" "b \<le> ?t" using r32_between [OF _ _ t] by blast
  from f_to_int64_between [OF b(2,3) in_int64_pow2 [OF assms(3)]] show ?thesis
    unfolding used_ips_def using t a(1) b(1) by (simp del: f_to_int64.simps)
qed

text \<open>The key under which the subnets of a class are cached, when its selector can be hashed.\<close>

definition subnet_key :: "(subnetSelectorTerm list \<Rightarrow> nat outcome) \<Rightarrow> ociNodeClass \<Rightarrow> string option" where
  "subnet_key hash nc = (case hash (SubnetSelector (cl_Spec nc)) of Ret h \<Rightarrow> Some (VcnId (cl_Spec nc) @ '':'' @ show_nat h) | _ \<Rightarrow> None)"

interpretation subnet_list: selector_provider "\<lambda>C N order nc. List_subnets C N hash order opts nc" "\<lambda>_. True" "subnet_key hash"
    "\<lambda>nc. SubnetSelector (cl_Spec nc)" "\<lambda>N nc. subnet_term N opts (VcnId (cl_Spec nc))" subnet_id
  by unfold_locales (auto simp: List_subnets_def subnet_key_def fetch_subnets_def fetch_selected_def split: outcome.splits)

section \<open>Properties\<close>

text \<open>C24. When the service answers every term of the selector, listing with nothing cached gives every selected subnet exactly once (one
  entry for every identifier), and for the time to live of the cache every later call for the same network and selector
  gives the same subnets, whatever the service answers then.  A failing call leaves the cache as it was.\<close>

theorem List_subnets_spec:
  assumes "go_cache C ttl" and "hash (SubnetSelector (cl_Spec nc)) = Ret h"
    and "cache_get C c now (VcnId (cl_Spec nc) @ '':'' @ show_nat h) = None"
    and "\<And>m. mset (fst order m) = mset m" and "\<And>m. mset (snd order m) = mset m"
  shows "(\<forall>c' e. List_subnets C N hash order opts nc now c = (c', Err e) \<longrightarrow> c' = c) \<and>
    ((\<forall>t \<in> set (SubnetSelector (cl_Spec nc)). \<exists>xs. subnet_term N opts (VcnId (cl_Spec nc)) t = Ret xs) \<longrightarrow>
     (\<exists>c' v. List_subnets C N hash order opts nc now c = (c', Ret v) \<and>
       lists_selected (subnet_term N opts (VcnId (cl_Spec nc))) subnet_id (SubnetSelector (cl_Spec nc)) v \<and>
       (\<forall>t N' order'. now \<le> t \<and> t < now + ttl \<longrightarrow>
          (\<exists>v'. List_subnets C N' hash order' opts nc t c' = (c', Ret v') \<and> mset v' = mset v))))"
proof -
  have k: "subnet_key hash nc = Some (VcnId (cl_Spec nc) @ '':'' @ show_nat h)" by (simp add: subnet_key_def assms(2))
  show ?thesis
  proof (intro conjI allI impI)
    show "c' = c" if "List_subnets C N hash order opts nc now c = (c', Err e)" for c' e
      by (rule subnet_list.provide_error [OF TrueI k that])
  qed (rule subnet_list.provide_fresh [OF TrueI k assms(1,3), of order N opts, OF assms(4,5)])
qed

text \<open>A subnet with an IPv4 block and a sensible utilization in its first summary has a number of free addresses between none and
  all of its block; without a block it counts as having none, and when no summary is for its block, all are free.\<close>

theorem AvailableIPv4Count_range:
  assumes "sn_CidrBlock sn = Some cidr" and "ParseCIDR cidr = Ret (n, 32)"
    and "net_GetSubnetCidrUtilization N (sn_Id sn) = Ret (s # ss)" and "cu_Utilization s = Some (Fin u)" and "0 \<le> u" and "u \<le> 100"
  shows "\<exists>k. GetSubnetAvailableIPv4Count N sn = Ret k \<and> 0 \<le> k \<and> k \<le> 2 ^ (32 - n) \<and>
    (Some cidr \<notin> cu_Cidr ` set (s # ss) \<longrightarrow> k = 2 ^ (32 - n)) \<and>
    GetSubnetAvailableIPv4Count N (sn\<lparr>sn_CidrBlock := None\<rparr>) = Ret 0"
proof -
  let ?t = "2 ^ (32 - n) :: int"
  have k: "32 - n \<le> 32" by simp
  note u = used_ips_range [OF assms(5,6) k]
  have "in_int64 (?t - used_ips ?t (Fin u))" using u in_int64_pow2 [OF k] unfolding in_int64_def by linarith
  then have "wrap64 (?t - used_ips ?t (Fin u)) = ?t - used_ips ?t (Fin u)" by simp
  moreover have "List.find (\<lambda>x. cu_Cidr x = Some cidr) (s # ss) = None \<longleftrightarrow> Some cidr \<notin> cu_Cidr ` set (s # ss)"
    by (simp only: find_None_set) force
  ultimately have "subtract_used cidr ?t (s # ss) = Ret (if Some cidr \<in> cu_Cidr ` set (s # ss) then ?t - used_ips ?t (Fin u) else ?t)"
    by (cases "List.find (\<lambda>x. cu_Cidr x = Some cidr) (s # ss)") (simp_all add: subtract_used_def assms(4) del: find.simps image_insert)
  then have "GetSubnetAvailableIPv4Count N sn = Ret (if Some cidr \<in> cu_Cidr ` set (s # ss) then ?t - used_ips ?t (Fin u) else ?t)"
    using u by (simp add: GetSubnetAvailableIPv4Count_def assms(1,3) total_ips_v4 [OF assms(2)])
  moreover have "GetSubnetAvailableIPv4Count N (sn\<lparr>sn_CidrBlock := None\<rparr>) = Ret 0" by (simp add: GetSubnetAvailableIPv4Count_def)
  ultimately show ?thesis using u by simp
qed


text \<open>Of an instance with exactly one primary attachment, the subnets of the primary attachment are the one subnet of that
  attachment, wherever it stands among the attachments; without the restriction they are the subnets of all attachments,
  each once.\<close>

theorem GetSubnets_spec:
  assumes "\<forall>v \<in> set vnics. \<exists>r. net_GetVnic N (va_VnicId v) = Ret r"
    and "\<forall>v \<in> set vnics. net_GetSubnet N (va_SubnetId v) = Ret (sub v) \<and> sn_Id (sub v) \<noteq> None"
    and "filter (vnic_primary N) vnics = [p]"
  shows "GetSubnets N vnics True = Ret [sub p] \<and>
    (\<exists>ss. GetSubnets N vnics False = Ret ss \<and> distinct (map subnet_id ss) \<and> set ss \<subseteq> sub ` set vnics \<and>
       subnet_id ` set ss = (subnet_id \<circ> sub) ` set vnics)"
proof -
  have "p \<in> set (filter (vnic_primary N) vnics)" using assms(3) by simp
  then have p: "p \<in> set vnics" by simp
  then have "subnets_loop N True vnics False [] = Ret [sub p]"
    using subnets_loop_one [OF assms(1,3), of "sub p" False "[]"] assms(2) by simp
  then have "GetSubnets N vnics True = Ret [sub p]" using p assms(2) by (simp add: GetSubnets_def)
  moreover have "subnets_loop N False vnics False [] = Ret (map sub vnics)"
    using subnets_loop_all [of vnics N sub "[]"] assms(2) by simp
  then have "GetSubnets N vnics False = Ret (lo_uniq_by subnet_id (map sub vnics))"
    using assms(2) by (simp add: GetSubnets_def list_all_iff)
  moreover note lo_uniq_by_subset [of subnet_id "map sub vnics"] lo_uniq_by_keys [of subnet_id "map sub vnics"]
    lo_uniq_by_distinct [of subnet_id "map sub vnics"]
  ultimately show ?thesis by (auto simp: image_comp)
qed

section \<open>Examples\<close>

definition sample_subnet :: oci_subnet where
  "sample_subnet = \<lparr>sn_Id = Some ''s1'', sn_DisplayName = Some ''nodes'', sn_CidrBlock = Some ''10.0.0.0/24''\<rparr>"

definition sample_net :: net_ops where
  "sample_net = \<lparr>net_GetSubnet = (\<lambda>_. Ret sample_subnet), net_ListSubnets = (\<lambda>_ _ _. Ret [sample_subnet]),
     net_GetVnic = (\<lambda>i. Ret \<lparr>vn_IsPrimary = Some (i = Some ''v1''), vn_NsgIds = [''g1'']\<rparr>),
     net_GetSubnetCidrUtilization = (\<lambda>_. Ret [\<lparr>cu_Cidr = Some ''10.0.0.0/24'', cu_Utilization = Some (Fin 50), cu_AddressType = None\<rparr>]),
     net_GetNetworkSecurityGroup = (\<lambda>_. Ret \<lparr>sg_Id = Some ''g1'', sg_DisplayName = Some ''group''\<rparr>),
     net_ListNetworkSecurityGroups = (\<lambda>_ _ _. Ret [\<lparr>sg_Id = Some ''g1'', sg_DisplayName = Some ''group''\<rparr>])\<rparr>"

lemma sample_block: "ParseCIDR ''10.0.0.0/24'' = Ret (24, 32)"
  by code_simp

theorem AvailableIPv4Count_range_witness:
  "\<exists>k. GetSubnetAvailableIPv4Count sample_net sample_subnet = Ret k \<and> 0 \<le> k \<and> k \<le> 256"
  using AvailableIPv4Count_range [of sample_subnet "''10.0.0.0/24''" 24 sample_net _ _ 50]
  by (auto simp: sample_net_def sample_subnet_def sample_block)


theorem GetSubnets_spec_witness:
  "GetSubnets sample_net [\<lparr>va_VnicId = Some ''v2'', va_SubnetId = Some ''s2''\<rparr>, \<lparr>va_VnicId = Some ''v1'', va_SubnetId = Some ''s1''\<rparr>] True =
     Ret [sample_subnet]"
  using GetSubnets_spec [of "[\<lparr>va_VnicId = Some ''v2'', va_SubnetId = Some ''s2''\<rparr>, \<lparr>va_VnicId = Some ''v1'', va_SubnetId = Some ''s1''\<rparr>]"
      sample_net "\<lambda>_. sample_subnet" "\<lparr>va_VnicId = Some ''v1'', va_SubnetId = Some ''s1''\<rparr>"]
  by (simp add: sample_net_def sample_subnet_def vnic_primary_def)

theorem List_subnets_spec_witness:
  "\<exists>c' v. List_subnets (ttl_cache DefaultTTL) sample_net (\<lambda>_. Ret 7) (rev, id) zero_options sample_class 0 Map.empty = (c', Ret v) \<and>
     subnet_id ` set v = {''s1''}"
proof -
  have g: "go_cache (ttl_cache DefaultTTL :: (_, oci_subnet list) cache_ops) DefaultTTL"
    by (intro ttl_cache_go_cache) (simp add: DefaultTTL_def)
  have sel: "selected (subnet_term sample_net zero_options (VcnId (cl_Spec sample_class))) (SubnetSelector (cl_Spec sample_class)) = {sample_subnet}"
    by (simp add: selected_def subnet_term_def sample_class_def sample_spec_def sample_net_def)
  have "\<forall>t \<in> set (SubnetSelector (cl_Spec sample_class)). \<exists>xs. subnet_term sample_net zero_options (VcnId (cl_Spec sample_class)) t = Ret xs"
    by (simp add: subnet_term_def sample_class_def sample_spec_def sample_net_def)
  note terms = this
  have "cache_get (ttl_cache DefaultTTL :: (_, oci_subnet list) cache_ops) Map.empty 0 k = None" for k
    by (simp add: ttl_cache_def ttl_get_def)
  from List_subnets_spec [where order = "(rev, id)" and hash = "\<lambda>_. Ret 7", OF g refl this, THEN conjunct2, THEN mp, OF _ _ terms]
  obtain c' v where
    "List_subnets (ttl_cache DefaultTTL) sample_net (\<lambda>_. Ret 7) (rev, id) zero_options sample_class 0 Map.empty = (c', Ret v)"
    "lists_selected (subnet_term sample_net zero_options (VcnId (cl_Spec sample_class))) subnet_id (SubnetSelector (cl_Spec sample_class)) v"
    by auto
  moreover from this(2) have "subnet_id ` set v = {''s1''}"
    unfolding lists_selected_def sel by (simp add: subnet_id_def sample_subnet_def)
  ultimately show ?thesis by blast
qed

end
