(* ===== verification/SecurityGroup.thy ===== *)
theory SecurityGroup
  imports Subnet
begin

text \<open>
  \<open>pkg/providers/securitygroup\<close>: the network security groups a node class selects, and those of the network attachments of an instance.
\<close>

section \<open>Definitions\<close>

definition sg_term :: "net_ops \<Rightarrow> options \<Rightarrow> string \<Rightarrow> securityGroupSelectorTerm \<Rightarrow> oci_nsg list outcome" where
  "sg_term N opts vcn t =
     (if sgt_Id t \<noteq> '''' then obind (net_GetNetworkSecurityGroup N (Some (sgt_Id t))) (\<lambda>s. Ret [s])
      else if sgt_Name t \<noteq> '''' then net_ListNetworkSecurityGroups N (CompartmentId opts) vcn (sgt_Name t)
      else Ret [])"

definition nsg_id :: "oci_nsg \<Rightarrow> string" where
  "nsg_id s = from_ptr '''' (sg_Id s)"

definition fetch_sgs ::
  "net_ops \<Rightarrow> options \<Rightarrow> ((string, oci_nsg) gomap \<Rightarrow> (string, oci_nsg) gomap) \<times> ((string, oci_nsg) gomap \<Rightarrow> (string, oci_nsg) gomap) \<Rightarrow>
   ociNodeClass \<Rightarrow> (oci_nsg list \<times> oci_nsg list) outcome" where
  "fetch_sgs N opts order nc =
     obind (collect_terms (sg_term N opts (VcnId (cl_Spec nc))) nsg_id (SecurityGroupSelector (cl_Spec nc)) []) (\<lambda>m.
       Ret (map snd (fst order m), map snd (snd order m)))"

definition List_sgs ::
  "('c, oci_nsg list) cache_ops \<Rightarrow> net_ops \<Rightarrow> (securityGroupSelectorTerm list \<Rightarrow> nat outcome) \<Rightarrow>
   ((string, oci_nsg) gomap \<Rightarrow> (string, oci_nsg) gomap) \<times> ((string, oci_nsg) gomap \<Rightarrow> (string, oci_nsg) gomap) \<Rightarrow>
   options \<Rightarrow> ociNodeClass \<Rightarrow> int \<Rightarrow> 'c \<Rightarrow> 'c \<times> oci_nsg list outcome" where
  "List_sgs C N hash order opts nc now c =
     (if SecurityGroupSelector (cl_Spec nc) = [] then (c, Ret [])
      else case hash (SecurityGroupSelector (cl_Spec nc)) of
        Err e \<Rightarrow> (c, Err e)
      | Panic s \<Rightarrow> (c, Panic s)
      | Ret h \<Rightarrow> cached_list C now (VcnId (cl_Spec nc) @ '':'' @ show_nat h) (fetch_sgs N opts order nc) c)"

fun sgs_loop :: "net_ops \<Rightarrow> bool \<Rightarrow> vnic_attachment list \<Rightarrow> oci_nsg list \<Rightarrow> oci_nsg list outcome" where
  "sgs_loop N onlyPrimary [] acc = Ret acc"
| "sgs_loop N onlyPrimary (v # vs) acc =
     obind (net_GetVnic N (va_VnicId v)) (\<lambda>r.
       if onlyPrimary \<and> vn_IsPrimary r \<noteq> Some True then sgs_loop N onlyPrimary vs acc
       else obind (omapM (\<lambda>i. net_GetNetworkSecurityGroup N (Some i)) (vn_NsgIds r)) (\<lambda>gs.
         sgs_loop N onlyPrimary vs (acc @ gs)))"

definition GetSecurityGroups :: "net_ops \<Rightarrow> vnic_attachment list \<Rightarrow> bool \<Rightarrow> oci_nsg list outcome" where
  "GetSecurityGroups N vnics onlyPrimary = sgs_loop N onlyPrimary vnics []"

section \<open>Lemmas\<close>

definition sg_key :: "(securityGroupSelectorTerm list \<Rightarrow> nat outcome) \<Rightarrow> ociNodeClass \<Rightarrow> string option" where
  "sg_key hash nc = (case hash (SecurityGroupSelector (cl_Spec nc)) of Ret h \<Rightarrow> Some (VcnId (cl_Spec nc) @ '':'' @ show_nat h) | _ \<Rightarrow> None)"

interpretation sg_list: selector_provider "\<lambda>C N order nc. List_sgs C N hash order opts nc" "\<lambda>nc. SecurityGroupSelector (cl_Spec nc) \<noteq> []" "sg_key hash"
    "\<lambda>nc. SecurityGroupSelector (cl_Spec nc)" "\<lambda>N nc. sg_term N opts (VcnId (cl_Spec nc))" nsg_id
  by unfold_locales (auto simp: List_sgs_def sg_key_def fetch_sgs_def fetch_selected_def split: outcome.splits)

text \<open>As for subnets; a class without a selector has no groups and does not touch the cache.\<close>

lemma List_sgs_spec:
  assumes "go_cache C ttl" and "hash (SecurityGroupSelector (cl_Spec nc)) = Ret h" and "cache_get C c now (VcnId (cl_Spec nc) @ '':'' @ show_nat h) = None"
    and "\<And>m. mset (fst order m) = mset m" and "\<And>m. mset (snd order m) = mset m"
    and "\<forall>t \<in> set (SecurityGroupSelector (cl_Spec nc)). \<exists>xs. sg_term N opts (VcnId (cl_Spec nc)) t = Ret xs"
  shows "\<exists>c' v. List_sgs C N hash order opts nc now c = (c', Ret v) \<and>
    lists_selected (sg_term N opts (VcnId (cl_Spec nc))) nsg_id (SecurityGroupSelector (cl_Spec nc)) v \<and>
    (\<forall>t N' order'. now \<le> t \<and> t < now + ttl \<longrightarrow> (\<exists>v'. List_sgs C N' hash order' opts nc t c' = (c', Ret v') \<and> mset v' = mset v))"
proof (cases "SecurityGroupSelector (cl_Spec nc) = []")
  case False
  have "sg_key hash nc = Some (VcnId (cl_Spec nc) @ '':'' @ show_nat h)" by (simp add: sg_key_def assms(2))
  from sg_list.provide_fresh [OF False this assms(1,3), of order N opts, OF assms(4-6)] show ?thesis by blast
qed (auto simp: List_sgs_def lists_selected_def selected_def)

text \<open>The security groups of the primary attachment: those its network interface names, in order.\<close>

lemma sgs_loop_none:
  "\<forall>v \<in> set vs. \<exists>r. net_GetVnic N (va_VnicId v) = Ret r \<Longrightarrow> filter (vnic_primary N) vs = [] \<Longrightarrow> sgs_loop N True vs acc = Ret acc"
  by (induction vs arbitrary: acc) (auto simp: vnic_primary_def split: if_splits)

lemma GetSecurityGroups_primary:
  assumes "\<forall>v \<in> set vnics. \<exists>r. net_GetVnic N (va_VnicId v) = Ret r" and "filter (vnic_primary N) vnics = [p]"
    and "net_GetVnic N (va_VnicId p) = Ret r" and "\<forall>i \<in> set (vn_NsgIds r). net_GetNetworkSecurityGroup N (Some i) = Ret (g i)"
  shows "GetSecurityGroups N vnics True = Ret (map g (vn_NsgIds r))"
proof -
  have gs: "omapM (\<lambda>i. net_GetNetworkSecurityGroup N (Some i)) (vn_NsgIds r) = Ret (map g (vn_NsgIds r))"
    using assms(4) by (intro omapM_Ret_map) simp
  have "sgs_loop N True vs acc = Ret (acc @ map g (vn_NsgIds r))"
    if "\<forall>v \<in> set vs. \<exists>r. net_GetVnic N (va_VnicId v) = Ret r" "filter (vnic_primary N) vs = [p]" for vs acc
    using that
  proof (induction vs)
    case (Cons v vs)
    obtain q where q: "net_GetVnic N (va_VnicId v) = Ret q" using Cons.prems(1) by auto
    show ?case
    proof (cases "vnic_primary N v")
      case True
      then have "p = v" "filter (vnic_primary N) vs = []" using Cons.prems(2) by simp_all
      then show ?thesis using True q assms(3) gs Cons.prems(1) by (simp add: vnic_primary_def sgs_loop_none)
    next
      case False
      then show ?thesis using q Cons by (simp add: vnic_primary_def)
    qed
  qed simp
  then show ?thesis using assms(1,2) by (simp add: GetSecurityGroups_def)
qed

end
