(* ===== verification/ImageFamily.thy ===== *)
theory ImageFamily
  imports Selector Bootstrap InstanceType
begin

text \<open>
  \<open>pkg/providers/imagefamily\<close> and \<open>pkg/providers/launchtemplate\<close>: the images a node class selects with the requirements of
  each, and the resolution of a node claim and an instance type to a launch template (an image and the user data).
\<close>

section \<open>Images\<close>

record 'r wrapImage =
  wi_Image :: oci_image
  wi_Requirements :: "(string, 'r) gomap"

definition requirementsForImage :: "('r, 'q) karp_ops \<Rightarrow> string \<Rightarrow> oci_image \<Rightarrow> (string, 'r) gomap" where
  "requirementsForImage K imageFamily img =
     (if imageFamily \<noteq> OracleOKELinuxImageFamily then newRequirements K []
      else let name = to_lower (from_ptr '''' (img_DisplayName img));
               arch = (if str_contains name ''aarch64'' then ArchitectureArm64 else ArchitectureAmd64);
               requires = newRequirements K [newRequirement K LabelArchStable OpIn [arch]]
           in if str_contains name ''gpu'' then reqs_Add K requires [newRequirement K LabelInstanceGPU OpExists []] else requires)"

definition image_term ::
  "('r, 'q) karp_ops \<Rightarrow> image_ops \<Rightarrow> string \<Rightarrow> imageSelectorTerm \<Rightarrow> 'r wrapImage list outcome" where
  "image_term K I family t =
     obind (if ist_Id t = '''' then img_ListImages I (ist_CompartmentId t) (ist_Name t)
            else obind (img_GetImage I (Some (ist_Id t))) (\<lambda>i. Ret [i])) (\<lambda>imgs.
       Ret (map (\<lambda>i. \<lparr>wi_Image = i, wi_Requirements = requirementsForImage K family i\<rparr>) imgs))"

definition image_id :: "'r wrapImage \<Rightarrow> string" where
  "image_id w = from_ptr '''' (img_Id (wi_Image w))"

definition fetch_images ::
  "('r, 'q) karp_ops \<Rightarrow> image_ops \<Rightarrow>
   ((string, 'r wrapImage) gomap \<Rightarrow> (string, 'r wrapImage) gomap) \<times> ((string, 'r wrapImage) gomap \<Rightarrow> (string, 'r wrapImage) gomap) \<Rightarrow>
   ociNodeClass \<Rightarrow> ('r wrapImage list \<times> 'r wrapImage list) outcome" where
  "fetch_images K I order nc =
     obind (collect_terms (image_term K I (ImageFamily_name (cl_Spec nc))) image_id (ImageSelector (cl_Spec nc)) []) (\<lambda>m.
       Ret (map snd (fst order m), map snd (snd order m)))"

definition List_images ::
  "('r, 'q) karp_ops \<Rightarrow> ('c, 'r wrapImage list) cache_ops \<Rightarrow> image_ops \<Rightarrow> (imageSelectorTerm list \<Rightarrow> nat outcome) \<Rightarrow>
   ((string, 'r wrapImage) gomap \<Rightarrow> (string, 'r wrapImage) gomap) \<times> ((string, 'r wrapImage) gomap \<Rightarrow> (string, 'r wrapImage) gomap) \<Rightarrow>
   ociNodeClass \<Rightarrow> int \<Rightarrow> 'c \<Rightarrow> 'c \<times> 'r wrapImage list outcome" where
  "List_images K C I hash order nc now c =
     (case hash (ImageSelector (cl_Spec nc)) of
        Err e \<Rightarrow> (c, Err e)
      | Panic s \<Rightarrow> (c, Panic s)
      | Ret h \<Rightarrow> cached_list C now (show_nat h) (fetch_images K I order nc) c)"

section \<open>Launch templates\<close>

record imgOptions =
  io_ClusterName :: string
  io_ClusterEndpoint :: string
  io_ClusterDns :: string
  io_CABundle :: "string option"
  io_BootstrapToken :: string
  io_Labels :: labels
  io_NodeClassName :: string

text \<open>The values of the interface \<open>Bootstrapper\<close>.\<close>

datatype bootstrapper = BootCustom bootOptions | BootOKE bootOptions | BootUbuntu bootOptions

record launchTemplate =
  lt_Options :: imgOptions
  lt_UserData :: bootstrapper
  lt_ImageId :: string

datatype imageFamily = UbuntuLinux imgOptions | OracleOKELinux imgOptions | Custom imgOptions

definition MapToInstanceTypes ::
  "('r, 'q) karp_ops \<Rightarrow> ('r, 'q) instanceType \<Rightarrow> statusImage list \<Rightarrow> (string, ('r, 'q) instanceType list) gomap" where
  "MapToInstanceTypes K it images =
     (case List.find (\<lambda>i. reqs_Compatible K (it_Requirements it) (reqs_OfSelectors K (si_Requirements i))) images of
        None \<Rightarrow> [] | Some i \<Rightarrow> [(si_Id i, [it])])"

definition GetImageFamily :: "string \<Rightarrow> imgOptions \<Rightarrow> imageFamily" where
  "GetImageFamily imageFamily o' =
     (if imageFamily = Ubuntu2204ImageFamily then UbuntuLinux o'
      else if imageFamily = OracleOKELinuxImageFamily then OracleOKELinux o'
      else if imageFamily = CustomImageFamily then Custom o'
      else OracleOKELinux o')"

definition full_boot ::
  "imgOptions \<Rightarrow> kubeletConfiguration \<Rightarrow> taint list \<Rightarrow> labels \<Rightarrow> string option \<Rightarrow> string option \<Rightarrow> bootOptions" where
  "full_boot a kc taints labels customUserData preInstallScript =
     \<lparr>bo_ClusterName = io_ClusterName a, bo_ClusterEndpoint = io_ClusterEndpoint a, bo_ClusterDns = io_ClusterDns a,
      bo_KubeletConfig = Some kc, bo_Taints = taints, bo_Labels = labels, bo_CABundle = io_CABundle a,
      bo_BootstrapToken = io_BootstrapToken a, bo_CustomUserData = customUserData, bo_PreInstallScript = preInstallScript\<rparr>"

fun family_UserData ::
  "imageFamily \<Rightarrow> kubeletConfiguration \<Rightarrow> taint list \<Rightarrow> labels \<Rightarrow> string option \<Rightarrow> string option \<Rightarrow> bootstrapper" where
  "family_UserData (UbuntuLinux a) kc taints labels u p = BootUbuntu (full_boot a kc taints labels u p)"
| "family_UserData (OracleOKELinux a) kc taints labels u p = BootOKE (full_boot a kc taints labels u p)"
| "family_UserData (Custom a) kc taints labels u p = BootCustom
     \<lparr>bo_ClusterName = '''', bo_ClusterEndpoint = '''', bo_ClusterDns = '''', bo_KubeletConfig = None, bo_Taints = [], bo_Labels = [],
      bo_CABundle = None, bo_BootstrapToken = '''', bo_CustomUserData = u, bo_PreInstallScript = None\<rparr>"

definition resolve_kubelet :: "('r, 'q) karp_ops \<Rightarrow> ociNodeClass \<Rightarrow> ('r, 'q) instanceType \<Rightarrow> kubeletConfiguration" where
  "resolve_kubelet K nc it =
     (let kc = from_ptr emptyKubelet (Kubelet (cl_Spec nc))
      in if MaxPods kc = None then kc\<lparr>MaxPods := Some (wrap32 (q_Value K (rl_Pods K (it_Capacity it))))\<rparr> else kc)"

definition resolveLaunchTemplate ::
  "('r, 'q) karp_ops \<Rightarrow> ociNodeClass \<Rightarrow> 'q nodeClaim \<Rightarrow> ('r, 'q) instanceType \<Rightarrow> imageFamily \<Rightarrow> string \<Rightarrow> imgOptions \<Rightarrow> launchTemplate outcome" where
  "resolveLaunchTemplate K nc claim it family imageId o' =
     Ret \<lparr>lt_Options = o',
          lt_UserData = family_UserData family (resolve_kubelet K nc it) (nc_Taints claim @ nc_StartupTaints claim) (io_Labels o')
            (UserData (cl_Spec nc)) (PreInstallScript (cl_Spec nc)),
          lt_ImageId = imageId\<rparr>"

definition Resolve ::
  "('r, 'q) karp_ops \<Rightarrow> ociNodeClass \<Rightarrow> 'q nodeClaim \<Rightarrow> ('r, 'q) instanceType \<Rightarrow> imgOptions \<Rightarrow> launchTemplate list outcome" where
  "Resolve K nc claim it o' =
     (let images = st_Images (cl_Status nc) in
      if images = [] then Err (Errorf ''no amis exist given constraints'')
      else let mapped = MapToInstanceTypes K it images in
        if mapped = [] then Err (Errorf ''no instance types satisfy requirements of images'')
        else omapM (\<lambda>(imageId, _). resolveLaunchTemplate K nc claim it (GetImageFamily (ImageFamily_name (cl_Spec nc)) o') imageId o') mapped)"

text \<open>The launch template provider.\<close>

record launchTemplateProvider =
  ltp_CABundle :: "string option"
  ltp_ClusterEndpoint :: string
  ltp_BootstrapToken :: string

definition createImageOptions :: "launchTemplateProvider \<Rightarrow> options \<Rightarrow> ociNodeClass \<Rightarrow> labels \<Rightarrow> imgOptions outcome" where
  "createImageOptions p opts nc labels =
     Ret \<lparr>io_ClusterName = ClusterName opts, io_ClusterEndpoint = ltp_ClusterEndpoint p, io_ClusterDns = ClusterDns opts,
          io_CABundle = ltp_CABundle p, io_BootstrapToken = ltp_BootstrapToken p, io_Labels = labels, io_NodeClassName = cl_Name nc\<rparr>"

definition CreateLaunchTemplate ::
  "('r, 'q) karp_ops \<Rightarrow> launchTemplateProvider \<Rightarrow> options \<Rightarrow> ociNodeClass \<Rightarrow> 'q nodeClaim \<Rightarrow> ('r, 'q) instanceType \<Rightarrow>
   launchTemplate list outcome" where
  "CreateLaunchTemplate K p opts nc claim it =
     obind (createImageOptions p opts nc (nc_Labels claim)) (\<lambda>o'. Resolve K nc claim it o')"

text \<open>The script of a template, \<open>UserData.Script()\<close>; the arguments are those of the three scripts.\<close>

record script_env =
  se_mime :: mime_ops
  se_parse_url :: "string \<Rightarrow> url option"
  se_taint_ToString :: "taint \<Rightarrow> string"
  se_boundaries :: "string \<times> string"
  se_shared :: nodeBootstrapVariables

fun Script_boot :: "script_env \<Rightarrow> bootstrapper \<Rightarrow> string outcome" where
  "Script_boot E (BootCustom b) = Script_Custom b"
| "Script_boot E (BootOKE b) = Script_OKE (se_mime E) (se_parse_url E) (se_taint_ToString E) (se_boundaries E) b"
| "Script_boot E (BootUbuntu b) = Script_Ubuntu (se_parse_url E) (se_taint_ToString E) b (se_shared E)"

section \<open>Lemmas\<close>

lemma MapToInstanceTypes_first:
  "MapToInstanceTypes K it images = [(k, its)] \<Longrightarrow>
     its = [it] \<and> (\<exists>us i vs. images = us @ i # vs \<and> si_Id i = k \<and>
       reqs_Compatible K (it_Requirements it) (reqs_OfSelectors K (si_Requirements i)) \<and>
       (\<forall>u \<in> set us. \<not> reqs_Compatible K (it_Requirements it) (reqs_OfSelectors K (si_Requirements u))))"
  by (auto simp: MapToInstanceTypes_def split: option.splits dest!: find_Some_split)

lemma MapToInstanceTypes_none:
  "MapToInstanceTypes K it images = [] \<longleftrightarrow>
     (\<forall>i \<in> set images. \<not> reqs_Compatible K (it_Requirements it) (reqs_OfSelectors K (si_Requirements i)))"
  by (auto simp: MapToInstanceTypes_def find_None_set split: option.split dest: find_Some_D)

definition image_key :: "(imageSelectorTerm list \<Rightarrow> nat outcome) \<Rightarrow> ociNodeClass \<Rightarrow> string option" where
  "image_key hash nc = (case hash (ImageSelector (cl_Spec nc)) of Ret h \<Rightarrow> Some (show_nat h) | _ \<Rightarrow> None)"

interpretation image_list: selector_provider "\<lambda>C I order nc. List_images K C I hash order nc" "\<lambda>_. True" "image_key hash"
    "\<lambda>nc. ImageSelector (cl_Spec nc)" "\<lambda>I nc. image_term K I (ImageFamily_name (cl_Spec nc))" image_id
  by unfold_locales (auto simp: List_images_def image_key_def fetch_images_def fetch_selected_def split: outcome.splits)

text \<open>As for subnets, for two calls with the same class.\<close>

lemma List_images_spec:
  assumes "go_cache C ttl" and "hash (ImageSelector (cl_Spec nc)) = Ret h" and "cache_get C c now (show_nat h) = None"
    and "\<And>m. mset (fst order m) = mset m" and "\<And>m. mset (snd order m) = mset m"
    and "\<forall>t \<in> set (ImageSelector (cl_Spec nc)). \<exists>xs. image_term K I (ImageFamily_name (cl_Spec nc)) t = Ret xs"
  shows "\<exists>c' v. List_images K C I hash order nc now c = (c', Ret v) \<and>
    lists_selected (image_term K I (ImageFamily_name (cl_Spec nc))) image_id (ImageSelector (cl_Spec nc)) v \<and>
    (\<forall>t I' order'. now \<le> t \<and> t < now + ttl \<longrightarrow> (\<exists>v'. List_images K C I' hash order' nc t c' = (c', Ret v') \<and> mset v' = mset v))"
proof -
  have "image_key hash nc = Some (show_nat h)" by (simp add: image_key_def assms(2))
  from image_list.provide_fresh [OF TrueI this assms(1,3), of order K I, OF assms(4-6)] show ?thesis by blast
qed

lemma fetch_images_requirements:
  assumes "fetch_images K I order nc = Ret (keep, v)" and "\<And>m. mset (fst order m) = mset m" and "w \<in> set keep"
  shows "wi_Requirements w = requirementsForImage K (ImageFamily_name (cl_Spec nc)) (wi_Image w)"
proof -
  let ?f = "image_term K I (ImageFamily_name (cl_Spec nc))"
  obtain m where m: "collect_terms ?f image_id (ImageSelector (cl_Spec nc)) [] = Ret m" "keep = map snd (fst order m)"
    using assms(1) by (auto simp: fetch_images_def obind_eq_Ret_iff)
  have "set keep \<subseteq> selected ?f (ImageSelector (cl_Spec nc))"
    using collect_lists_selected [OF m(1) assms(2)] m(2) by (simp add: lists_selected_def)
  then obtain t xs where "?f t = Ret xs" "w \<in> set xs" using assms(3) by (auto simp: selected_def)
  then show ?thesis by (auto simp: image_term_def obind_eq_Ret_iff)
qed

section \<open>Properties\<close>

text \<open>C25. A launch template is resolved exactly when the node class has an image whose requirements the instance type satisfies; it is
  then a single template, for the first such image, and its user data (for the OKE and Ubuntu families) carries the taints and
  startup taints of the claim, its labels, the node class's user data, and a pod limit: the configured one, else the pods of
  the instance type.\<close>

theorem CreateLaunchTemplate_spec:
  "(case CreateLaunchTemplate K p opts nc claim it of
      Ret ts \<Rightarrow> \<exists>t us i vs. ts = [t] \<and> st_Images (cl_Status nc) = us @ i # vs \<and> lt_ImageId t = si_Id i \<and>
        reqs_Compatible K (it_Requirements it) (reqs_OfSelectors K (si_Requirements i)) \<and>
        list_all (\<lambda>u. \<not> reqs_Compatible K (it_Requirements it) (reqs_OfSelectors K (si_Requirements u))) us \<and>
        (case lt_UserData t of
           BootCustom b \<Rightarrow> ImageFamily_name (cl_Spec nc) = CustomImageFamily \<and> bo_CustomUserData b = UserData (cl_Spec nc)
         | BootOKE b \<Rightarrow> b = full_boot (lt_Options t) (resolve_kubelet K nc it) (nc_Taints claim @ nc_StartupTaints claim)
             (nc_Labels claim) (UserData (cl_Spec nc)) (PreInstallScript (cl_Spec nc))
         | BootUbuntu b \<Rightarrow> ImageFamily_name (cl_Spec nc) = Ubuntu2204ImageFamily \<and>
             b = full_boot (lt_Options t) (resolve_kubelet K nc it) (nc_Taints claim @ nc_StartupTaints claim)
             (nc_Labels claim) (UserData (cl_Spec nc)) (PreInstallScript (cl_Spec nc))) \<and>
        MaxPods (resolve_kubelet K nc it) =
          Some (case obind (deref (Kubelet (cl_Spec nc))) (\<lambda>k. deref (MaxPods k)) of
             Ret n \<Rightarrow> n | _ \<Rightarrow> wrap32 (q_Value K (rl_Pods K (it_Capacity it))))
    | Err e \<Rightarrow> list_all (\<lambda>i. \<not> reqs_Compatible K (it_Requirements it) (reqs_OfSelectors K (si_Requirements i))) (st_Images (cl_Status nc))
    | Panic s \<Rightarrow> False)"
proof -
  obtain o' where o': "createImageOptions p opts nc (nc_Labels claim) = Ret o'" "io_Labels o' = nc_Labels claim"
    by (simp add: createImageOptions_def)
  let ?im = "st_Images (cl_Status nc)"
  have pods: "MaxPods (resolve_kubelet K nc it) = Some (case obind (deref (Kubelet (cl_Spec nc))) (\<lambda>k. deref (MaxPods k)) of
      Ret n \<Rightarrow> n | _ \<Rightarrow> wrap32 (q_Value K (rl_Pods K (it_Capacity it))))"
    by (auto simp: resolve_kubelet_def Let_def deref_def emptyKubelet_def split: option.split)
  show ?thesis
  proof (cases "MapToInstanceTypes K it ?im")
    case Nil
    then show ?thesis using MapToInstanceTypes_none [of K it ?im]
      by (auto simp: CreateLaunchTemplate_def o'(1) Resolve_def Let_def list_all_iff)
  next
    case (Cons q qs)
    then have "qs = [] \<and> snd q = [it]" by (auto simp: MapToInstanceTypes_def split: option.splits)
    with Cons obtain k where k: "MapToInstanceTypes K it ?im = [(k, [it])]" by (cases q) auto
    then have "?im \<noteq> []" by (auto simp: MapToInstanceTypes_def)
    with k have "CreateLaunchTemplate K p opts nc claim it = Ret [\<lparr>lt_Options = o',
        lt_UserData = family_UserData (GetImageFamily (ImageFamily_name (cl_Spec nc)) o') (resolve_kubelet K nc it)
          (nc_Taints claim @ nc_StartupTaints claim) (nc_Labels claim) (UserData (cl_Spec nc)) (PreInstallScript (cl_Spec nc)),
        lt_ImageId = k\<rparr>]"
      by (simp add: CreateLaunchTemplate_def o' Resolve_def Let_def resolveLaunchTemplate_def)
    with MapToInstanceTypes_first [OF k] pods show ?thesis
      by (auto simp: GetImageFamily_def list_all_iff)
  qed
qed

text \<open>The cache of the images is keyed by the selector only, but the cached images carry the requirements of the image family of
  the node class that fetched them: a second node class with the same selector and another family gets the wrong
  requirements until the entry expires.\<close>

theorem List_images_family_shared:
  assumes "go_cache C ttl" and "hash (ImageSelector (cl_Spec nc1)) = Ret h" and "ImageSelector (cl_Spec nc2) = ImageSelector (cl_Spec nc1)"
    and "cache_get C c now (show_nat h) = None" and "List_images K C I hash order nc1 now c = (c1, Ret v1)"
    and "\<And>m. mset (fst order m) = mset m" and "now \<le> t" and "t < now + ttl"
  shows "\<exists>v2. List_images K C I hash order' nc2 t c1 = (c1, Ret v2) \<and>
    (\<forall>w \<in> set v2. wi_Requirements w = requirementsForImage K (ImageFamily_name (cl_Spec nc1)) (wi_Image w))"
proof -
  have "cached_list C now (show_nat h) (fetch_images K I order nc1) c = (c1, Ret v1)"
    using assms(2,5) by (simp add: List_images_def)
  then obtain keep where f: "fetch_images K I order nc1 = Ret (keep, v1)" "c1 = cache_setDefault C c now (show_nat h) keep"
    using assms(4) by (auto simp: cached_list_def split: outcome.splits)
  then have "List_images K C I hash order' nc2 t c1 = (c1, Ret keep)"
    using go_cache.get_set_live [OF assms(1,7,8)] assms(2,3) by (simp add: List_images_def cached_list_def)
  with fetch_images_requirements [OF f(1) assms(6)] show ?thesis by blast
qed

definition sample_images :: image_ops where
  "sample_images = \<lparr>img_ListImages = (\<lambda>_ _. Ret [\<lparr>img_Id = Some ''i1'', img_DisplayName = Some ''OL8-aarch64'', img_CompartmentId = None\<rparr>]),
     img_GetImage = (\<lambda>_. Err (Errorf ''none''))\<rparr>"

theorem List_images_family_shared_witness:
  "\<exists>c1 v1 v2. List_images ref_ops (ttl_cache DefaultTTL) sample_images (\<lambda>_. Ret 3) (id, id)
       (sample_class\<lparr>cl_Spec := sample_spec\<lparr>ImageFamily_name := CustomImageFamily\<rparr>\<rparr>) 0 Map.empty = (c1, Ret v1) \<and>
     List_images ref_ops (ttl_cache DefaultTTL) sample_images (\<lambda>_. Ret 3) (id, id) sample_class 1 c1 = (c1, Ret v2) \<and>
     (\<forall>w \<in> set v2. wi_Requirements w = newRequirements ref_ops [])"
proof -
  let ?n = "sample_class\<lparr>cl_Spec := sample_spec\<lparr>ImageFamily_name := CustomImageFamily\<rparr>\<rparr>"
  have g: "go_cache (ttl_cache DefaultTTL :: (_, ref_req wrapImage list) cache_ops) DefaultTTL"
    by (intro ttl_cache_go_cache) (simp add: DefaultTTL_def)
  have "\<exists>c1 v1. List_images ref_ops (ttl_cache DefaultTTL) sample_images (\<lambda>_. Ret 3) (id, id) ?n 0 Map.empty = (c1, Ret v1)"
    by (simp add: List_images_def cached_list_def fetch_images_def image_term_def sample_images_def sample_class_def sample_spec_def
        ttl_cache_def ttl_get_def)
  then obtain c1 v1 where 1: "List_images ref_ops (ttl_cache DefaultTTL) sample_images (\<lambda>_. Ret 3) (id, id) ?n 0 Map.empty = (c1, Ret v1)"
    by blast
  have "CustomImageFamily \<noteq> OracleOKELinuxImageFamily" by (simp add: CustomImageFamily_def OracleOKELinuxImageFamily_def)
  then have r: "requirementsForImage ref_ops CustomImageFamily w = newRequirements ref_ops []" for w
    by (simp add: requirementsForImage_def)
  have "\<exists>v2. List_images ref_ops (ttl_cache DefaultTTL) sample_images (\<lambda>_. Ret 3) (id, id) sample_class 1 c1 = (c1, Ret v2) \<and>
      (\<forall>w \<in> set v2. wi_Requirements w = requirementsForImage ref_ops (ImageFamily_name (cl_Spec ?n)) (wi_Image w))"
    by (rule List_images_family_shared [OF g, where ?nc1.0 = ?n, OF refl _ _ 1])
      (simp_all add: sample_class_def ttl_cache_def ttl_get_def DefaultTTL_def)
  with 1 r show ?thesis by auto
qed

end
