(* ===== verification/InstanceTypeProvider.thy ===== *)
theory InstanceTypeProvider
  imports InstanceType
begin

text \<open>
  \<open>pkg/providers/instancetype/instancetype.go\<close>: listing the shapes of every availability domain, splitting the
  flexible ones into the configured sizes, merging the domains of equal sizes, the cache of the result, and the
  offerings of a size.  The metrics the code sets are not modelled.
\<close>

section \<open>Splitting flexible shapes\<close>

definition with_size :: "shape \<Rightarrow> int \<Rightarrow> int \<Rightarrow> string list \<Rightarrow> int \<Rightarrow> int \<Rightarrow> wrapShape" where
  "with_size s cpu mem ads vnic bw = shape.extend s
     \<lparr>CalcCpu = cpu, CalMemInGBs = mem, ws_AvailableDomains = ads, CalMaxVnic = vnic, CalMaxBandwidthInGbps = bw\<rparr>"

text \<open>A dereferenced float pointer converted to an integer.\<close>

definition int_of_ptr :: "gofloat option \<Rightarrow> int outcome" where
  "int_of_ptr p = obind (deref p) (\<lambda>f. Ret (f_to_int64 f))"

definition flex_max_vnic :: "shape \<Rightarrow> int \<Rightarrow> int outcome" where
  "flex_max_vnic s cpus =
     (case sh_MaxVnicAttachmentOptions s of
        Some vo \<Rightarrow> (case vo_DefaultPerOcpu vo of
            Some d \<Rightarrow> Ret (min 24 (if cpus = 1 then 2 else wrap64 (f_to_int64 d * cpus)))
          | None \<Rightarrow> deref (sh_MaxVnicAttachments s))
      | None \<Rightarrow> deref (sh_MaxVnicAttachments s))"

definition flex_max_bandwidth :: "shape \<Rightarrow> int \<Rightarrow> int outcome" where
  "flex_max_bandwidth s cpus =
     (case sh_NetworkingBandwidthOptions s of
        Some bo \<Rightarrow> (case bo_DefaultPerOcpuInGbps bo of
            Some d \<Rightarrow>
              obind (int_of_ptr (bo_MinInGbps bo)) (\<lambda>mn.
              obind (int_of_ptr (bo_MaxInGbps bo)) (\<lambda>mx.
                Ret (max mn (min mx (wrap64 (f_to_int64 d * cpus))))))
          | None \<Rightarrow> int_of_ptr (sh_NetworkingBandwidthInGbps s))
      | None \<Rightarrow> int_of_ptr (sh_NetworkingBandwidthInGbps s))"

text \<open>Whether a size is within the bounds of the shape, with the short-circuit evaluation of the two conditions.\<close>

definition flex_in_bounds :: "shape \<Rightarrow> int \<Rightarrow> int \<Rightarrow> bool outcome" where
  "flex_in_bounds s cpus memInGBs =
     obind (deref (sh_OcpuOptions s)) (\<lambda>oo.
     obind (int_of_ptr (oo_Min oo)) (\<lambda>cmin.
     if cpus < cmin then Ret False
     else obind (deref (sh_MemoryOptions s)) (\<lambda>mo.
       obind (int_of_ptr (mo_MinInGBs mo)) (\<lambda>mmin.
       if memInGBs < mmin then Ret False
       else obind (int_of_ptr (oo_Max oo)) (\<lambda>cmax.
         if cpus > cmax then Ret False
         else obind (int_of_ptr (mo_MaxInGBs mo)) (\<lambda>mmax. Ret (\<not> memInGBs > mmax)))))))"

text \<open>One pass of the inner loop: nothing when the loop continues, else the size.\<close>

definition flex_size :: "shape \<Rightarrow> string \<Rightarrow> int \<Rightarrow> string \<Rightarrow> string \<Rightarrow> wrapShape list outcome" where
  "flex_size s ad factor cpuText ratio =
     (case atoi ratio of None \<Rightarrow> Ret []
      | Some ratioInt \<Rightarrow> (case atoi cpuText of None \<Rightarrow> Ret []
          | Some cpus \<Rightarrow>
              let memInGBs = wrap64 (wrap64 (cpus * factor) * ratioInt) in
              obind (flex_in_bounds s cpus memInGBs) (\<lambda>ok.
                if \<not> ok then Ret []
                else obind (flex_max_vnic s cpus) (\<lambda>vnic.
                  obind (flex_max_bandwidth s cpus) (\<lambda>bw.
                    Ret [with_size s (wrap64 (cpus * factor)) memInGBs [ad] vnic bw])))))"

definition splitFlexCpuMem :: "options \<Rightarrow> shape \<Rightarrow> string \<Rightarrow> wrapShape list outcome" where
  "splitFlexCpuMem opts s ad =
     (let flexCpuMemRatios = split_str (FlexCpuMemRatios opts) '','';
          constrainCpus = split_str (FlexCpuConstrainList opts) '',''
      in obind (deref (sh_Shape s)) (\<lambda>name.
         obind (omapM (\<lambda>(c, r). flex_size s ad (ratioFactor name) c r)
             (concat (map (\<lambda>c. map (\<lambda>r. (c, r)) flexCpuMemRatios) constrainCpus))) (\<lambda>ws. Ret (concat ws))))"

definition toWrapShape_one :: "options \<Rightarrow> string \<Rightarrow> shape \<Rightarrow> wrapShape list outcome" where
  "toWrapShape_one opts ad s =
     obind (deref (sh_IsFlexible s)) (\<lambda>flex.
       if flex then splitFlexCpuMem opts s ad
       else obind (int_of_ptr (sh_Ocpus s)) (\<lambda>o'.
         obind (int_of_ptr (sh_MemoryInGBs s)) (\<lambda>m.
         obind (deref (sh_MaxVnicAttachments s)) (\<lambda>v.
         obind (int_of_ptr (sh_NetworkingBandwidthInGbps s)) (\<lambda>b.
           Ret [with_size s (wrap64 (o' * 2)) m [ad] v b])))))"

definition toWrapShape :: "options \<Rightarrow> shape list \<Rightarrow> string \<Rightarrow> wrapShape list outcome" where
  "toWrapShape opts shapes ad = obind (omapM (toWrapShape_one opts ad) shapes) (\<lambda>ws. Ret (concat ws))"

section \<open>Listing and merging\<close>

definition InstanceTypesCacheKey :: string where "InstanceTypesCacheKey = ''types''"

definition wrap_key :: "string \<Rightarrow> wrapShape \<Rightarrow> string" where
  "wrap_key name w = name @ ''-'' @ show_int (CalcCpu w) @ ''-'' @ show_int (CalMemInGBs w)"

text \<open>The part of an availability-domain name after the first colon, up to the next one.\<close>

definition ad_suffix :: "string \<Rightarrow> string outcome" where
  "ad_suffix availableDomain =
     (let ps = split_str availableDomain '':'' in if length ps < 2 then Panic ''index out of range'' else Ret (ps ! 1))"

text \<open>The shapes of every domain: the outer loop over the domains, each with its page loop; \<open>None\<close> is out of fuel.\<close>

fun collect_domains ::
  "nat \<Rightarrow> (string \<Rightarrow> string \<Rightarrow> shape page outcome) \<Rightarrow> options \<Rightarrow> string list \<Rightarrow> (string, wrapShape list) gomap \<Rightarrow>
   (string, wrapShape list) gomap outcome option" where
  "collect_domains n listShapes opts [] m = Some (Ret m)"
| "collect_domains n listShapes opts (d # ds) m =
     (case list_pages n (listShapes d) of
        None \<Rightarrow> None
      | Some (Err e) \<Rightarrow> Some (Err e)
      | Some (Panic s) \<Rightarrow> Some (Panic s)
      | Some (Ret shapes) \<Rightarrow>
          (case obind (ad_suffix d) (\<lambda>ad. obind (toWrapShape opts shapes ad) (\<lambda>ws. Ret (ad, ws))) of
             Err e \<Rightarrow> Some (Err e)
           | Panic s \<Rightarrow> Some (Panic s)
           | Ret (ad, ws) \<Rightarrow>
               collect_domains n listShapes opts ds (AList.update ad (from_ptr [] (map_of m ad) @ ws) m)))"

definition merge_one :: "string \<Rightarrow> wrapShape \<Rightarrow> (string, wrapShape) gomap \<Rightarrow> (string, wrapShape) gomap outcome" where
  "merge_one ad w m =
     obind (deref (sh_Shape w)) (\<lambda>name.
       Ret (case map_of m (wrap_key name w) of
          None \<Rightarrow> AList.update (wrap_key name w) w m
        | Some old \<Rightarrow> AList.update (wrap_key name w) (old\<lparr>ws_AvailableDomains := ws_AvailableDomains old @ [ad]\<rparr>) m))"

fun merge_shapes :: "(string \<times> wrapShape) list \<Rightarrow> (string, wrapShape) gomap \<Rightarrow> (string, wrapShape) gomap outcome" where
  "merge_shapes [] m = Ret m"
| "merge_shapes ((ad, w) # ws) m = obind (merge_one ad w m) (merge_shapes ws)"

text \<open>\<open>order\<close> is the order in which the map of the domains is visited.\<close>

definition combine_zones ::
  "((string, wrapShape list) gomap \<Rightarrow> (string, wrapShape list) gomap) \<Rightarrow> (string, wrapShape list) gomap \<Rightarrow>
   (string, wrapShape) gomap outcome" where
  "combine_zones order m = merge_shapes (concat (map (\<lambda>(ad, ws). map (\<lambda>w. (ad, w)) ws) (order m))) []"

definition ListInstanceType ::
  "('c, (string, wrapShape) gomap) cache_ops \<Rightarrow> nat \<Rightarrow> (string \<Rightarrow> string \<Rightarrow> shape page outcome) \<Rightarrow>
   ((string, wrapShape list) gomap \<Rightarrow> (string, wrapShape list) gomap) \<Rightarrow> options \<Rightarrow> int \<Rightarrow> 'c \<Rightarrow>
   ('c \<times> (string, wrapShape) gomap outcome) option" where
  "ListInstanceType C n listShapes order opts now c =
     (case cache_get C c now InstanceTypesCacheKey of
        Some cached \<Rightarrow> Some (c, Ret cached)
      | None \<Rightarrow>
          (case collect_domains n listShapes opts (AvailableDomains opts) [] of
             None \<Rightarrow> None
           | Some (Err e) \<Rightarrow> Some (c, Err e)
           | Some (Panic s) \<Rightarrow> Some (c, Panic s)
           | Some (Ret m) \<Rightarrow>
               (case combine_zones order m of
                  Ret ws \<Rightarrow> Some (cache_setDefault C c now InstanceTypesCacheKey ws, Ret ws)
                | Err e \<Rightarrow> Some (c, Err e)
                | Panic s \<Rightarrow> Some (c, Panic s))))"

section \<open>Offerings\<close>

definition supportInstanceTypes :: "string list" where
  "supportInstanceTypes = [CapacityTypeOnDemand, CapacityTypePreemptible]"

definition supportPreemptible :: "options \<Rightarrow> string \<Rightarrow> bool" where
  "supportPreemptible opts shapeName \<longleftrightarrow>
     list_ex (\<lambda>s. has_prefix shapeName s) (split_str (PreemptibleShapes opts) '','') \<and>
     \<not> list_ex (\<lambda>s. has_prefix shapeName s) (split_str (PreemptibleExcludeShapes opts) '','')"

text \<open>The offering of one zone and capacity type; \<open>unavailable\<close> is the cache of unavailable offerings and \<open>price\<close> the price
  provider.\<close>

definition offering_requirements :: "('r, 'q) karp_ops \<Rightarrow> wrapShape \<Rightarrow> string \<Rightarrow> string \<Rightarrow> (string, 'r) gomap" where
  "offering_requirements K w zone capacityType =
     (let reqs = newRequirements K [newRequirement K CapacityTypeLabelKey OpIn [capacityType], newRequirement K LabelTopologyZone OpIn [zone]]
      in if from_ptr False (sh_IsFlexible w)
         then reqs_Add K reqs [newRequirement K LabelInstanceCPU OpIn [show_int (CalcCpu w)],
                newRequirement K LabelInstanceMemory OpIn [show_int (wrap64 (CalMemInGBs w * 1024))]]
         else reqs)"

definition createOffering ::
  "('r, 'q) karp_ops \<Rightarrow> (string \<Rightarrow> string \<Rightarrow> string \<Rightarrow> bool) \<Rightarrow> (wrapShape \<Rightarrow> gofloat outcome) \<Rightarrow> options \<Rightarrow> wrapShape \<Rightarrow>
   string \<Rightarrow> string \<Rightarrow> 'r offering outcome" where
  "createOffering K unavailable price opts w zone capacityType =
     obind (deref (sh_Shape w)) (\<lambda>name.
     obind (price w) (\<lambda>p.
       let isUnavailable = unavailable name zone capacityType;
           preemptible = (capacityType = CapacityTypePreemptible);
           supported = supportPreemptible opts name
       in Ret \<lparr>off_Requirements = offering_requirements K w zone capacityType,
               off_Price = (if preemptible \<and> supported then fmul r64 p (Fin (1 / 2)) else p),
               off_Available = (\<not> (if preemptible \<and> \<not> supported then True else isUnavailable))\<rparr>))"

definition CreateOfferings ::
  "('r, 'q) karp_ops \<Rightarrow> (string \<Rightarrow> string \<Rightarrow> string \<Rightarrow> bool) \<Rightarrow> (wrapShape \<Rightarrow> gofloat outcome) \<Rightarrow> options \<Rightarrow> wrapShape \<Rightarrow>
   string list \<Rightarrow> 'r offering list outcome" where
  "CreateOfferings K unavailable price opts w zones =
     omapM (\<lambda>(z, c). createOffering K unavailable price opts w z c)
       (concat (map (\<lambda>z. map (\<lambda>c. (z, c)) supportInstanceTypes) zones))"

text \<open>\<open>List\<close>: an instance type for every listed size; \<open>zone_order\<close> is the order in which a set of zones is visited, \<open>shape_order\<close>
  the order of the map of sizes.\<close>

definition List_types ::
  "('r, 'q) karp_ops \<Rightarrow> (gofloat \<Rightarrow> string) \<Rightarrow> ('c, (string, wrapShape) gomap) cache_ops \<Rightarrow> nat \<Rightarrow>
   (string \<Rightarrow> string \<Rightarrow> shape page outcome) \<Rightarrow> ((string, wrapShape list) gomap \<Rightarrow> (string, wrapShape list) gomap) \<Rightarrow>
   ((string, wrapShape) gomap \<Rightarrow> (string, wrapShape) gomap) \<Rightarrow> (string list \<Rightarrow> string list) \<Rightarrow>
   (string \<Rightarrow> string \<Rightarrow> string \<Rightarrow> bool) \<Rightarrow> (wrapShape \<Rightarrow> gofloat outcome) \<Rightarrow> options \<Rightarrow> string \<Rightarrow> ociNodeClass \<Rightarrow> int \<Rightarrow> 'c \<Rightarrow>
   ('c \<times> ('r, 'q) instanceType list outcome) option" where
  "List_types K sp C n listShapes order shape_order zone_order unavailable price opts region nc now c =
     (case ListInstanceType C n listShapes order opts now c of
        None \<Rightarrow> None
      | Some (c', Err e) \<Rightarrow> Some (c', Err e)
      | Some (c', Panic s) \<Rightarrow> Some (c', Panic s)
      | Some (c', Ret ws) \<Rightarrow>
          Some (c', omapM (\<lambda>(_, w).
            obind (CreateOfferings K unavailable price opts w (zone_order (remdups (ws_AvailableDomains w)))) (\<lambda>offs.
              NewInstanceType K sp opts w nc region (ws_AvailableDomains w) offs)) (shape_order ws)))"

section \<open>Lemmas\<close>

lemma with_size_sel [simp]:
  "CalcCpu (with_size s cpu mem ads v b) = cpu" "CalMemInGBs (with_size s cpu mem ads v b) = mem"
  "ws_AvailableDomains (with_size s cpu mem ads v b) = ads" "CalMaxVnic (with_size s cpu mem ads v b) = v"
  "CalMaxBandwidthInGbps (with_size s cpu mem ads v b) = b" "sh_Shape (with_size s cpu mem ads v b) = sh_Shape s"
  "sh_IsFlexible (with_size s cpu mem ads v b) = sh_IsFlexible s"
  by (simp_all add: with_size_def shape.defs)

lemma omapM_set: "omapM f xs = Ret ys \<Longrightarrow> set ys = {y. \<exists>x \<in> set xs. f x = Ret y}"
  by (induction xs arbitrary: ys) (auto simp: obind_eq_Ret_iff)

lemma omapM_each: "omapM f xs = Ret ys \<Longrightarrow> x \<in> set xs \<Longrightarrow> \<exists>y. f x = Ret y"
  by (induction xs arbitrary: ys) (auto simp: obind_eq_Ret_iff)

lemma omapM_concat_set:
  "omapM f xs = Ret ys \<Longrightarrow> set (concat ys) = {z. \<exists>x \<in> set xs. \<exists>y. f x = Ret y \<and> z \<in> set y}"
  by (auto simp: omapM_set)

text \<open>The bounds of a flexible shape as integers.\<close>

definition flex_bounds :: "shape \<Rightarrow> int \<Rightarrow> int \<Rightarrow> int \<Rightarrow> int \<Rightarrow> bool" where
  "flex_bounds s cmin cmax mmin mmax \<longleftrightarrow>
     (\<exists>oo mo. sh_OcpuOptions s = Some oo \<and> sh_MemoryOptions s = Some mo \<and> int_of_ptr (oo_Min oo) = Ret cmin \<and>
        int_of_ptr (oo_Max oo) = Ret cmax \<and> int_of_ptr (mo_MinInGBs mo) = Ret mmin \<and> int_of_ptr (mo_MaxInGBs mo) = Ret mmax)"

lemma flex_in_bounds_iff:
  "flex_bounds s cmin cmax mmin mmax \<Longrightarrow>
   flex_in_bounds s cpus mem = Ret (cmin \<le> cpus \<and> cpus \<le> cmax \<and> mmin \<le> mem \<and> mem \<le> mmax)"
  by (auto simp: flex_bounds_def flex_in_bounds_def)

text \<open>A size the configuration asks for: a core count of the list and a ratio of the list.\<close>

definition asked_size :: "options \<Rightarrow> string \<Rightarrow> int \<Rightarrow> int \<Rightarrow> bool" where
  "asked_size opts name cpus mem \<longleftrightarrow>
     (\<exists>c \<in> set (split_str (FlexCpuConstrainList opts) '',''). \<exists>r \<in> set (split_str (FlexCpuMemRatios opts) '','').
        \<exists>ri. atoi c = Some cpus \<and> atoi r = Some ri \<and> mem = wrap64 (wrap64 (cpus * ratioFactor name) * ri))"

lemma flex_size_set:
  assumes "flex_bounds s cmin cmax mmin mmax" and "flex_size s ad factor c r = Ret ws"
  shows "w \<in> set ws \<longleftrightarrow> (\<exists>cpus ri mem vnic bw. atoi c = Some cpus \<and> atoi r = Some ri \<and>
     mem = wrap64 (wrap64 (cpus * factor) * ri) \<and> cmin \<le> cpus \<and> cpus \<le> cmax \<and> mmin \<le> mem \<and> mem \<le> mmax \<and>
     flex_max_vnic s cpus = Ret vnic \<and> flex_max_bandwidth s cpus = Ret bw \<and>
     w = with_size s (wrap64 (cpus * factor)) mem [ad] vnic bw)"
  using assms(2)
  by (auto simp: flex_size_def flex_in_bounds_iff [OF assms(1)] Let_def obind_eq_Ret_iff split: option.splits if_splits)

lemma flex_max_vnic_le:
  "flex_max_vnic s cpus = Ret v \<Longrightarrow> sh_MaxVnicAttachmentOptions s = Some vo \<Longrightarrow> vo_DefaultPerOcpu vo \<noteq> None \<Longrightarrow> v \<le> 24"
  by (auto simp: flex_max_vnic_def)

lemma flex_max_bandwidth_range:
  assumes "flex_max_bandwidth s cpus = Ret b" and "sh_NetworkingBandwidthOptions s = Some bo" and "bo_DefaultPerOcpuInGbps bo \<noteq> None"
    and "int_of_ptr (bo_MinInGbps bo) = Ret mn" and "int_of_ptr (bo_MaxInGbps bo) = Ret mx" and "mn \<le> mx"
  shows "mn \<le> b \<and> b \<le> mx"
  using assms by (auto simp: flex_max_bandwidth_def)

subsection \<open>Merging\<close>

definition shape_named :: "wrapShape \<Rightarrow> bool" where
  "shape_named w \<longleftrightarrow> sh_Shape w \<noteq> None"

definition key_of :: "wrapShape \<Rightarrow> string" where
  "key_of w = wrap_key (from_ptr '''' (sh_Shape w)) w"

lemma key_of_domains [simp]: "key_of (w\<lparr>ws_AvailableDomains := ds\<rparr>) = key_of w"
  by (simp add: key_of_def wrap_key_def)

lemma merge_one_Ret:
  "shape_named w \<Longrightarrow> merge_one ad w m = Ret (case map_of m (key_of w) of
      None \<Rightarrow> AList.update (key_of w) w m
    | Some old \<Rightarrow> AList.update (key_of w) (old\<lparr>ws_AvailableDomains := ws_AvailableDomains old @ [ad]\<rparr>) m)"
  by (auto simp: merge_one_def shape_named_def key_of_def split: option.split)

text \<open>What the merge has made of the sizes seen so far: one entry for every key, the first size with that key, offered in
  the domains of all of them.\<close>

definition merged :: "(string \<times> wrapShape) list \<Rightarrow> (string, wrapShape) gomap \<Rightarrow> bool" where
  "merged seen m \<longleftrightarrow> gomap_wf m \<and> dom (map_of m) = (key_of \<circ> snd) ` set seen \<and>
     (\<forall>k w. map_of m k = Some w \<longrightarrow> k = key_of w \<and> sh_Shape w \<noteq> None \<and>
        set (ws_AvailableDomains w) = {ad. \<exists>v. (ad, v) \<in> set seen \<and> key_of v = k})"

lemma merged_step:
  assumes "merged seen m" and "shape_named w" and "ws_AvailableDomains w = [ad]"
  shows "\<exists>m'. merge_one ad w m = Ret m' \<and> merged (seen @ [(ad, w)]) m'"
proof (cases "map_of m (key_of w)")
  case None
  then have "key_of w \<notin> (key_of \<circ> snd) ` set seen" using assms(1) unfolding merged_def by (metis domIff)
  then have new: "{a. \<exists>v. (a, v) \<in> set seen \<and> key_of v = key_of w} = {}" by force
  have "merged (seen @ [(ad, w)]) (AList.update (key_of w) w m)"
    using assms new unfolding merged_def shape_named_def by (auto simp: Collect_disj_eq split: if_splits)
  with None assms(2) show ?thesis by (simp add: merge_one_Ret)
next
  case (Some old)
  then have "merged (seen @ [(ad, w)]) (AList.update (key_of w) (old\<lparr>ws_AvailableDomains := ws_AvailableDomains old @ [ad]\<rparr>) m)"
    using assms unfolding merged_def by (auto split: if_splits)
  with Some assms(2) show ?thesis by (simp add: merge_one_Ret)
qed

lemma merge_shapes_merged:
  "merged seen m \<Longrightarrow> \<forall>(ad, w) \<in> set ws. shape_named w \<and> ws_AvailableDomains w = [ad] \<Longrightarrow>
   \<exists>m'. merge_shapes ws m = Ret m' \<and> merged (seen @ ws) m'"
proof (induction ws arbitrary: seen m)
  case (Cons p ws)
  obtain ad w where p: "p = (ad, w)" by (cases p)
  with Cons.prems obtain m1 where "merge_one ad w m = Ret m1" "merged (seen @ [(ad, w)]) m1"
    using merged_step by (metis (mono_tags, lifting) case_prodD list.set_intros(1))
  with Cons.IH [of "seen @ [(ad, w)]" m1] Cons.prems p show ?case by simp
qed simp

lemma splitFlexCpuMem_sizes:
  assumes "splitFlexCpuMem opts s ad = Ret ws" and "flex_bounds s cmin cmax mmin mmax" and "sh_Shape s = Some name"
  shows "(\<forall>w \<in> set ws. \<exists>cpus. asked_size opts name cpus (CalMemInGBs w) \<and> CalcCpu w = wrap64 (cpus * ratioFactor name) \<and>
        cmin \<le> cpus \<and> cpus \<le> cmax \<and> mmin \<le> CalMemInGBs w \<and> CalMemInGBs w \<le> mmax \<and> ws_AvailableDomains w = [ad] \<and>
        flex_max_vnic s cpus = Ret (CalMaxVnic w) \<and> flex_max_bandwidth s cpus = Ret (CalMaxBandwidthInGbps w) \<and>
        (\<forall>vo. sh_MaxVnicAttachmentOptions s = Some vo \<and> vo_DefaultPerOcpu vo \<noteq> None \<longrightarrow> CalMaxVnic w \<le> 24)) \<and>
    (\<forall>cpus mem. asked_size opts name cpus mem \<and> cmin \<le> cpus \<and> cpus \<le> cmax \<and> mmin \<le> mem \<and> mem \<le> mmax \<longrightarrow>
        (\<exists>w \<in> set ws. CalcCpu w = wrap64 (cpus * ratioFactor name) \<and> CalMemInGBs w = mem))"
proof -
  let ?pairs = "concat (map (\<lambda>c. map (\<lambda>r. (c, r)) (split_str (FlexCpuMemRatios opts) '','')) (split_str (FlexCpuConstrainList opts) '',''))"
  obtain yss where y: "omapM (\<lambda>(c, r). flex_size s ad (ratioFactor name) c r) ?pairs = Ret yss" "ws = concat yss"
    using assms(1,3) by (auto simp: splitFlexCpuMem_def obind_eq_Ret_iff Let_def)
  have mem: "w \<in> set ws \<longleftrightarrow> (\<exists>c \<in> set (split_str (FlexCpuConstrainList opts) '',''). \<exists>r \<in> set (split_str (FlexCpuMemRatios opts) '','').
      \<exists>y. flex_size s ad (ratioFactor name) c r = Ret y \<and> w \<in> set y)" for w
    using omapM_concat_set [OF y(1)] y(2) by auto
  have each: "\<exists>y. flex_size s ad (ratioFactor name) c r = Ret y"
    if "c \<in> set (split_str (FlexCpuConstrainList opts) '','')" "r \<in> set (split_str (FlexCpuMemRatios opts) '','')" for c r
    using omapM_each [OF y(1), of "(c, r)"] that by auto
  show ?thesis
  proof (intro conjI ballI allI impI)
    fix w assume "w \<in> set ws"
    then obtain c r cpus ri vnic bw where *:
      "c \<in> set (split_str (FlexCpuConstrainList opts) '','')" "r \<in> set (split_str (FlexCpuMemRatios opts) '','')"
      "atoi c = Some cpus" "atoi r = Some ri" "cmin \<le> cpus" "cpus \<le> cmax"
      "mmin \<le> wrap64 (wrap64 (cpus * ratioFactor name) * ri)" "wrap64 (wrap64 (cpus * ratioFactor name) * ri) \<le> mmax"
      "flex_max_vnic s cpus = Ret vnic" "flex_max_bandwidth s cpus = Ret bw"
      "w = with_size s (wrap64 (cpus * ratioFactor name)) (wrap64 (wrap64 (cpus * ratioFactor name) * ri)) [ad] vnic bw"
      using mem flex_size_set [OF assms(2)] by blast
    then show "\<exists>cpus. asked_size opts name cpus (CalMemInGBs w) \<and> CalcCpu w = wrap64 (cpus * ratioFactor name) \<and>
        cmin \<le> cpus \<and> cpus \<le> cmax \<and> mmin \<le> CalMemInGBs w \<and> CalMemInGBs w \<le> mmax \<and> ws_AvailableDomains w = [ad] \<and>
        flex_max_vnic s cpus = Ret (CalMaxVnic w) \<and> flex_max_bandwidth s cpus = Ret (CalMaxBandwidthInGbps w) \<and>
        (\<forall>vo. sh_MaxVnicAttachmentOptions s = Some vo \<and> vo_DefaultPerOcpu vo \<noteq> None \<longrightarrow> CalMaxVnic w \<le> 24)"
      by (intro exI [of _ cpus]) (auto simp: asked_size_def dest: flex_max_vnic_le)
  next
    fix cpus mem assume a: "asked_size opts name cpus mem \<and> cmin \<le> cpus \<and> cpus \<le> cmax \<and> mmin \<le> mem \<and> mem \<le> mmax"
    then obtain c r ri where *:
      "c \<in> set (split_str (FlexCpuConstrainList opts) '','')" "r \<in> set (split_str (FlexCpuMemRatios opts) '','')"
      "atoi c = Some cpus" "atoi r = Some ri" "mem = wrap64 (wrap64 (cpus * ratioFactor name) * ri)"
      by (auto simp: asked_size_def)
    obtain y where fy: "flex_size s ad (ratioFactor name) c r = Ret y" using each * by blast
    then obtain w where "w \<in> set y" "CalcCpu w = wrap64 (cpus * ratioFactor name)" "CalMemInGBs w = mem"
      using a * by (auto simp: flex_size_def flex_in_bounds_iff [OF assms(2)] Let_def obind_eq_Ret_iff)
    with \<open>flex_size s ad (ratioFactor name) c r = Ret y\<close> *(1,2) mem
    show "\<exists>w \<in> set ws. CalcCpu w = wrap64 (cpus * ratioFactor name) \<and> CalMemInGBs w = mem" by blast
  qed
qed

text \<open>A shape whose attachments and bandwidth can be read.\<close>

definition flex_complete :: "shape \<Rightarrow> bool" where
  "flex_complete s \<longleftrightarrow> sh_MaxVnicAttachments s \<noteq> None \<and> sh_NetworkingBandwidthInGbps s \<noteq> None \<and>
     (\<forall>bo. sh_NetworkingBandwidthOptions s = Some bo \<longrightarrow> bo_MinInGbps bo \<noteq> None \<and> bo_MaxInGbps bo \<noteq> None)"

lemma flex_size_total:
  assumes "flex_complete s" and "flex_bounds s cmin cmax mmin mmax"
  shows "\<exists>ws. flex_size s ad factor c r = Ret ws"
proof -
  obtain v b where vb: "sh_MaxVnicAttachments s = Some v" "sh_NetworkingBandwidthInGbps s = Some b"
    using assms(1) by (auto simp: flex_complete_def)
  have "\<exists>x. flex_max_vnic s cpus = Ret x" for cpus
    by (auto simp: flex_max_vnic_def vb split: option.split)
  moreover have "\<exists>x. flex_max_bandwidth s cpus = Ret x" for cpus
    using assms(1) by (auto simp: flex_max_bandwidth_def flex_complete_def int_of_ptr_def vb split: option.split)
  ultimately show ?thesis
    by (fastforce simp: flex_size_def flex_in_bounds_iff [OF assms(2)] Let_def obind_eq_Ret_iff split: option.split)
qed

lemma omapM_total: "(\<And>x. x \<in> set xs \<Longrightarrow> \<exists>y. f x = Ret y) \<Longrightarrow> \<exists>ys. omapM f xs = Ret ys"
  by (induction xs) (auto simp: obind_eq_Ret_iff)

lemma splitFlexCpuMem_total:
  assumes "flex_complete s" and "flex_bounds s cmin cmax mmin mmax" and "sh_Shape s = Some name"
  shows "\<exists>ws. splitFlexCpuMem opts s ad = Ret ws"
proof -
  have "\<exists>ws. omapM (\<lambda>(c, r). flex_size s ad (ratioFactor name) c r) ps = Ret ws" for ps
    using flex_size_total [OF assms(1,2)] by (intro omapM_total) (auto split: prod.split)
  then show ?thesis by (auto simp: splitFlexCpuMem_def assms(3) Let_def obind_eq_Ret_iff)
qed

lemma combine_zones_total:
  assumes "mset (order m) = mset m" and "\<forall>(ad, ws) \<in> set m. \<forall>w \<in> set ws. shape_named w \<and> ws_AvailableDomains w = [ad]"
  shows "\<exists>r. combine_zones order m = Ret r \<and> gomap_wf r \<and>
    dom (map_of r) = {key_of w | ad ws w. (ad, ws) \<in> set m \<and> w \<in> set ws} \<and>
    (\<forall>k w. map_of r k = Some w \<longrightarrow> k = key_of w \<and>
       set (ws_AvailableDomains w) = {ad. \<exists>ws v. (ad, ws) \<in> set m \<and> v \<in> set ws \<and> key_of v = k})"
proof -
  let ?all = "concat (map (\<lambda>(ad, ws). map (\<lambda>w. (ad, w)) ws) (order m))"
  have s: "set (order m) = set m" using assms(1) by (metis set_mset_mset)
  have all: "(ad, w) \<in> set ?all \<longleftrightarrow> (\<exists>ws. (ad, ws) \<in> set m \<and> w \<in> set ws)" for ad w
    by (force simp: s)
  then have "\<forall>(ad, w) \<in> set ?all. shape_named w \<and> ws_AvailableDomains w = [ad]" using assms(2) by blast
  moreover have "merged [] []" by (simp add: merged_def)
  ultimately obtain r where r: "merge_shapes ?all [] = Ret r" "merged ([] @ ?all) r"
    using merge_shapes_merged by blast
  have "(key_of \<circ> snd) ` set ?all = {key_of w | ad ws w. (ad, ws) \<in> set m \<and> w \<in> set ws}"
  proof (rule set_eqI)
    fix k
    have "k \<in> (key_of \<circ> snd) ` set ?all \<longleftrightarrow> (\<exists>ad w. (ad, w) \<in> set ?all \<and> k = key_of w)" by (auto simp: image_iff)
    then show "k \<in> (key_of \<circ> snd) ` set ?all \<longleftrightarrow> k \<in> {key_of w | ad ws w. (ad, ws) \<in> set m \<and> w \<in> set ws}"
      unfolding all by blast
  qed
  with r all show ?thesis unfolding combine_zones_def merged_def by auto
qed

subsection \<open>Listing\<close>

text \<open>The service answers the listing of a domain: it has finitely many pages (fewer than the fuel), its shapes have names,
  and the domain's name and its shapes convert.\<close>

definition domain_listed ::
  "nat \<Rightarrow> (string \<Rightarrow> string \<Rightarrow> shape page outcome) \<Rightarrow> options \<Rightarrow> string \<Rightarrow> string \<Rightarrow> wrapShape list \<Rightarrow> bool" where
  "domain_listed n listShapes opts d ad ws \<longleftrightarrow>
     (\<exists>ps final. serves (listShapes d) '''' ps final \<and> length ps < n \<and>
        (\<forall>s \<in> set (concat (map fst ps) @ final). sh_Shape s \<noteq> None) \<and>
        ad_suffix d = Ret ad \<and> toWrapShape opts (concat (map fst ps) @ final) ad = Ret ws)"

lemma toWrapShape_named:
  assumes "toWrapShape opts shapes ad = Ret ws" and "\<forall>s \<in> set shapes. sh_Shape s \<noteq> None" and "w \<in> set ws"
  shows "shape_named w \<and> ws_AvailableDomains w = [ad]"
proof -
  obtain yss where "omapM (toWrapShape_one opts ad) shapes = Ret yss" "ws = concat yss"
    using assms(1) by (auto simp: toWrapShape_def obind_eq_Ret_iff)
  then obtain s y where "s \<in> set shapes" "toWrapShape_one opts ad s = Ret y" "w \<in> set y"
    using omapM_concat_set assms(3) by fast
  moreover have "sh_Shape w = sh_Shape s \<and> ws_AvailableDomains w = [ad]" if "flex_size s ad f c r = Ret y" "w \<in> set y" for f c r y
    using that by (auto simp: flex_size_def Let_def obind_eq_Ret_iff split: option.splits if_splits)
  ultimately have "sh_Shape w = sh_Shape s \<and> ws_AvailableDomains w = [ad]"
    unfolding toWrapShape_one_def splitFlexCpuMem_def Let_def
    by (fastforce simp: obind_eq_Ret_iff omapM_set split: if_splits)
  with assms(2) \<open>s \<in> set shapes\<close> show ?thesis by (simp add: shape_named_def)
qed

lemma collect_domains_listed:
  assumes "\<And>d. d \<in> set ds \<Longrightarrow> domain_listed n listShapes opts d (ad d) (ws d)" and "gomap_wf m"
  shows "\<exists>m'. collect_domains n listShapes opts ds m = Some (Ret m') \<and> gomap_wf m' \<and>
    (\<forall>a. set (from_ptr [] (map_of m' a)) = set (from_ptr [] (map_of m a)) \<union> (\<Union>d \<in> {d \<in> set ds. ad d = a}. set (ws d)))"
  using assms
proof (induction ds arbitrary: m)
  case (Cons d ds)
  let ?m = "AList.update (ad d) (from_ptr [] (map_of m (ad d)) @ ws d) m"
  obtain m' where m': "collect_domains n listShapes opts ds ?m = Some (Ret m')" "gomap_wf m'"
    "\<And>a. set (from_ptr [] (map_of m' a)) = set (from_ptr [] (map_of ?m a)) \<union> (\<Union>d \<in> {d \<in> set ds. ad d = a}. set (ws d))"
    using Cons.IH [of ?m] Cons.prems by auto
  obtain ps final where p: "serves (listShapes d) '''' ps final" "length ps < n" "ad_suffix d = Ret (ad d)"
      "toWrapShape opts (concat (map fst ps) @ final) (ad d) = Ret (ws d)"
    using Cons.prems(1) [of d] by (auto simp: domain_listed_def)
  have "collect_domains n listShapes opts (d # ds) m = Some (Ret m')"
    using list_pages_serves [OF p(1,2)] p(3,4) m'(1) by simp
  moreover have "set (from_ptr [] (map_of m' a)) = set (from_ptr [] (map_of m a)) \<union> (\<Union>d' \<in> {d' \<in> set (d # ds). ad d' = a}. set (ws d'))" for a
    using m'(3) [of a] by auto
  ultimately show ?case using m'(2) by blast
qed simp

lemma gomap_entries:
  "gomap_wf m \<Longrightarrow> (\<exists>ws. (a, ws) \<in> set m \<and> w \<in> set ws) \<longleftrightarrow> w \<in> set (from_ptr [] (map_of m a))"
  by (auto simp: gomap_wf_def from_ptr_def map_of_eq_None_iff split: option.split dest: map_of_SomeD)

section \<open>Properties\<close>

text \<open>C10. Splitting a flexible shape succeeds when the shape has its bounds, attachments and bandwidth, and gives exactly the sizes the configuration asks for that are within the bounds of the shape:
  every size has a core count and a memory within the bounds, its virtual CPUs are the cores times the factor of the
  shape, its network attachments are capped by 24 and its bandwidth kept within the bounds of the shape; and no
  size that qualifies is left out.\<close>

theorem splitFlexCpuMem_spec:
  assumes "flex_complete s" and "flex_bounds s cmin cmax mmin mmax" and "sh_Shape s = Some name"
  shows "\<exists>ws. splitFlexCpuMem opts s ad = Ret ws \<and>
    (\<forall>w \<in> set ws. \<exists>cpus. asked_size opts name cpus (CalMemInGBs w) \<and> CalcCpu w = wrap64 (cpus * ratioFactor name) \<and>
        cmin \<le> cpus \<and> cpus \<le> cmax \<and> mmin \<le> CalMemInGBs w \<and> CalMemInGBs w \<le> mmax \<and> ws_AvailableDomains w = [ad] \<and>
        flex_max_vnic s cpus = Ret (CalMaxVnic w) \<and> flex_max_bandwidth s cpus = Ret (CalMaxBandwidthInGbps w) \<and>
        (\<forall>vo. sh_MaxVnicAttachmentOptions s = Some vo \<and> vo_DefaultPerOcpu vo \<noteq> None \<longrightarrow> CalMaxVnic w \<le> 24)) \<and>
    (\<forall>cpus mem. asked_size opts name cpus mem \<and> cmin \<le> cpus \<and> cpus \<le> cmax \<and> mmin \<le> mem \<and> mem \<le> mmax \<longrightarrow>
        (\<exists>w \<in> set ws. CalcCpu w = wrap64 (cpus * ratioFactor name) \<and> CalMemInGBs w = mem))"
proof -
  obtain ws where "splitFlexCpuMem opts s ad = Ret ws" using splitFlexCpuMem_total [OF assms] by blast
  with splitFlexCpuMem_sizes [OF this assms(2,3)] show ?thesis by blast
qed

definition sample_flex :: shape where
  "sample_flex = shape.truncate (sample_wrap ''VM.Standard.E4.Flex'' 0 0)
     \<lparr>sh_OcpuOptions := Some \<lparr>oo_Min = Some (Fin 1), oo_Max = Some (Fin 64)\<rparr>,
      sh_MemoryOptions := Some \<lparr>mo_MinInGBs = Some (Fin 1), mo_MaxInGBs = Some (Fin 1024)\<rparr>\<rparr>"

theorem splitFlexCpuMem_spec_witness:
  "\<exists>ws. splitFlexCpuMem (zero_options\<lparr>FlexCpuConstrainList := ''1,2,128'', FlexCpuMemRatios := ''4''\<rparr>) sample_flex ''AD-1'' = Ret ws \<and>
     (\<exists>w \<in> set ws. CalcCpu w = 4 \<and> CalMemInGBs w = 16)"
proof -
  let ?o = "zero_options\<lparr>FlexCpuConstrainList := ''1,2,128'', FlexCpuMemRatios := ''4''\<rparr>"
  have "flex_complete sample_flex"
    by (simp add: flex_complete_def sample_flex_def sample_wrap_def shape.defs)
  moreover have "f_to_int64 (Fin 1) = 1" "f_to_int64 (Fin 64) = 64" "f_to_int64 (Fin 1024) = 1024"
    using f_to_int64_int [of 1] f_to_int64_int [of 64] f_to_int64_int [of 1024] by (simp_all add: in_int64_def del: f_to_int64.simps)
  then have "flex_bounds sample_flex 1 64 1 1024"
    by (simp add: flex_bounds_def sample_flex_def sample_wrap_def shape.defs int_of_ptr_def del: f_to_int64.simps)
  moreover have "sh_Shape sample_flex = Some ''VM.Standard.E4.Flex''"
    by (simp add: sample_flex_def sample_wrap_def shape.defs)
  moreover have "''2'' \<in> set (split_str ''1,2,128'' '','')" "''4'' \<in> set (split_str ''4'' '','')" "atoi ''2'' = Some 2"
    "atoi ''4'' = Some 4" "16 = wrap64 (wrap64 (2 * ratioFactor ''VM.Standard.E4.Flex'') * 4)" by code_simp+
  then have "asked_size ?o ''VM.Standard.E4.Flex'' 2 16" unfolding asked_size_def by force
  moreover have "wrap64 (2 * ratioFactor ''VM.Standard.E4.Flex'') = 4" by code_simp
  ultimately show ?thesis using splitFlexCpuMem_spec [of sample_flex 1 64 1 1024 "''VM.Standard.E4.Flex''" ?o "''AD-1''"] by fastforce
qed

text \<open>Whatever the order in which the domains are visited, merging gives one entry for every size (shape, virtual CPUs,
  memory) seen in any domain, under the key of that size, and the entry is offered in exactly the domains that have
  it.\<close>

theorem combine_zones_spec:
  assumes "mset (order m) = mset m" and "\<forall>(ad, ws) \<in> set m. \<forall>w \<in> set ws. shape_named w \<and> ws_AvailableDomains w = [ad]"
  shows "\<exists>r. combine_zones order m = Ret r \<and> gomap_wf r \<and>
    dom (map_of r) = {key_of w | ad ws w. (ad, ws) \<in> set m \<and> w \<in> set ws} \<and>
    (\<forall>k w. map_of r k = Some w \<longrightarrow> k = key_of w \<and>
       set (ws_AvailableDomains w) = {ad. \<exists>ws v. (ad, ws) \<in> set m \<and> v \<in> set ws \<and> key_of v = k})"
  by (rule combine_zones_total) (rule assms)+

lemma domains_with_key:
  "{ad. \<exists>ws v. (ad, ws) \<in> set m \<and> v \<in> set ws \<and> key_of v = k} =
   fst ` set (filter (\<lambda>(ad, ws). list_ex (\<lambda>v. key_of v = k) ws) m)"
  by (force simp: list_ex_iff)

definition sample_domains :: "(string, wrapShape list) gomap" where
  "sample_domains =
     [(''AD-1'', [sample_wrap ''VM.Standard.E4.Flex'' 4 16\<lparr>ws_AvailableDomains := [''AD-1'']\<rparr>]),
      (''AD-2'', [sample_wrap ''VM.Standard.E4.Flex'' 4 16\<lparr>ws_AvailableDomains := [''AD-2'']\<rparr>])]"

theorem combine_zones_spec_witness:
  "\<exists>r w. combine_zones rev sample_domains = Ret r \<and> map_of r ''VM.Standard.E4.Flex-4-16'' = Some w \<and>
     set (ws_AvailableDomains w) = {''AD-1'', ''AD-2''}"
proof -
  have "\<forall>(ad, ws) \<in> set sample_domains. \<forall>w \<in> set ws. shape_named w \<and> ws_AvailableDomains w = [ad]"
    by (simp add: sample_domains_def shape_named_def sample_wrap_def)
  then obtain r where r: "combine_zones rev sample_domains = Ret r"
    "dom (map_of r) = {key_of w | ad ws w. (ad, ws) \<in> set sample_domains \<and> w \<in> set ws}"
    "\<And>k w. map_of r k = Some w \<Longrightarrow> set (ws_AvailableDomains w) = {ad. \<exists>ws v. (ad, ws) \<in> set sample_domains \<and> v \<in> set ws \<and> key_of v = k}"
    using combine_zones_spec [of rev sample_domains] by auto
  have k: "key_of (sample_wrap ''VM.Standard.E4.Flex'' 4 16) = ''VM.Standard.E4.Flex-4-16''" by code_simp
  then have "''VM.Standard.E4.Flex-4-16'' \<in> dom (map_of r)" unfolding r(2)
    by (intro CollectI exI [of _ "''AD-1''"] exI [of _ "snd (hd sample_domains)"] exI [of _ "hd (snd (hd sample_domains))"])
      (simp add: sample_domains_def)
  then obtain w where "map_of r ''VM.Standard.E4.Flex-4-16'' = Some w" by blast
  moreover from r(3) [OF this] have "set (ws_AvailableDomains w) = {''AD-1'', ''AD-2''}"
    unfolding domains_with_key by (simp add: sample_domains_def k)
  ultimately show ?thesis using r(1) by blast
qed

text \<open>C11. A shape has exactly one offering for each of its zones and each capacity type, on-demand and preemptible: the
  on-demand one at the price of the shape, the preemptible one at exactly half of it when the shape supports
  preemption; an offering is available when it is not in the cache of unavailable offerings and, if preemptible, the
  shape supports preemption.\<close>

theorem CreateOfferings_spec:
  assumes "sh_Shape w = Some name" and "price w = Ret (Fin p)" and "r32 p = Fin p"
  shows "CreateOfferings K unavailable price opts w zones = Ret (concat (map (\<lambda>z.
     [\<lparr>off_Requirements = offering_requirements K w z CapacityTypeOnDemand, off_Price = Fin p,
       off_Available = (\<not> unavailable name z CapacityTypeOnDemand)\<rparr>,
      \<lparr>off_Requirements = offering_requirements K w z CapacityTypePreemptible,
       off_Price = Fin (if supportPreemptible opts name then p / 2 else p),
       off_Available = (supportPreemptible opts name \<and> \<not> unavailable name z CapacityTypePreemptible)\<rparr>]) zones))"
proof -
  have d: "CapacityTypeOnDemand \<noteq> CapacityTypePreemptible"
    by (simp add: CapacityTypeOnDemand_def CapacityTypePreemptible_def)
  have "fmul r64 (Fin p) (Fin (1 / 2)) = Fin (p / 2)" using r32_half [OF assms(3)] by simp
  with d have "createOffering K unavailable price opts w z c = Ret
      \<lparr>off_Requirements = offering_requirements K w z c,
       off_Price = Fin (if c = CapacityTypePreemptible \<and> supportPreemptible opts name then p / 2 else p),
       off_Available = ((c \<noteq> CapacityTypePreemptible \<or> supportPreemptible opts name) \<and> \<not> unavailable name z c)\<rparr>" for z c
    by (auto simp: createOffering_def assms Let_def)
  then show ?thesis
    unfolding CreateOfferings_def supportInstanceTypes_def using d
    by (subst omapM_Ret_map) (auto simp: map_concat comp_def split_def)
qed

theorem CreateOfferings_spec_witness:
  "\<exists>o1 o2. CreateOfferings ref_ops (\<lambda>_ _ _. False) (\<lambda>_. Ret (Fin 2)) (zero_options\<lparr>PreemptibleShapes := ''VM.Standard'', PreemptibleExcludeShapes := ''VM.GPU''\<rparr>)
     (sample_wrap ''VM.Standard.E4.Flex'' 4 16) [''AD-1''] = Ret [o1, o2] \<and> off_Price o1 = Fin 2 \<and> off_Price o2 = Fin 1"
proof -
  have "r32 2 = Fin 2" using r32_int [of 2] by simp
  moreover have "supportPreemptible (zero_options\<lparr>PreemptibleShapes := ''VM.Standard'', PreemptibleExcludeShapes := ''VM.GPU''\<rparr>) ''VM.Standard.E4.Flex''" by code_simp
  moreover have "sh_Shape (sample_wrap ''VM.Standard.E4.Flex'' 4 16) = Some ''VM.Standard.E4.Flex''" by (simp add: sample_wrap_def)
  ultimately show ?thesis
    by (subst CreateOfferings_spec [of "sample_wrap ''VM.Standard.E4.Flex'' 4 16" "''VM.Standard.E4.Flex''" "\<lambda>_. Ret (Fin 2)" 2]) simp_all
qed

text \<open>C5. When the service answers the listing of every configured availability domain, listing with an empty cache ends and
  gives one entry for every size seen in any domain, offered in exactly the domains that have it; the result is kept
  in the cache, so that until it expires every call gives the same sizes whatever the service answers.\<close>

theorem ListInstanceType_spec:
  assumes "go_cache C InstanceTypesAndZonesTTL" and "cache_get C c now InstanceTypesCacheKey = None"
    and "\<forall>d \<in> set (AvailableDomains opts). domain_listed n listShapes opts d (ad d) (ws d)"
    and "\<And>m. mset (order m) = mset m"
  shows "\<exists>c' r. ListInstanceType C n listShapes order opts now c = Some (c', Ret r) \<and>
    (\<forall>k. k \<in> dom (map_of r) \<longleftrightarrow> (\<exists>d \<in> set (AvailableDomains opts). \<exists>v \<in> set (ws d). key_of v = k)) \<and>
    (\<forall>k w. map_of r k = Some w \<longrightarrow> k = key_of w \<and>
       set (ws_AvailableDomains w) = {ad d | d. d \<in> set (AvailableDomains opts) \<and> (\<exists>v \<in> set (ws d). key_of v = k)}) \<and>
    (\<forall>t. now \<le> t \<and> t < now + InstanceTypesAndZonesTTL \<longrightarrow>
       (\<forall>n' ls' order' opts'. ListInstanceType C n' ls' order' opts' t c' = Some (c', Ret r)))"
proof -
  obtain m where m: "collect_domains n listShapes opts (AvailableDomains opts) [] = Some (Ret m)" "gomap_wf m"
    "\<And>a. set (from_ptr [] (map_of m a)) = (\<Union>d \<in> {d \<in> set (AvailableDomains opts). ad d = a}. set (ws d))"
    using collect_domains_listed [of "AvailableDomains opts" n listShapes opts ad ws "[]"] assms(3) by auto
  have ent: "(\<exists>vs. (a, vs) \<in> set m \<and> w \<in> set vs) \<longleftrightarrow> (\<exists>d \<in> set (AvailableDomains opts). ad d = a \<and> w \<in> set (ws d))" for a w
    unfolding gomap_entries [OF m(2)] m(3) by auto
  have nm: "shape_named w \<and> ws_AvailableDomains w = [ad d]" if "d \<in> set (AvailableDomains opts)" "w \<in> set (ws d)" for d w
    using assms(3) that toWrapShape_named unfolding domain_listed_def by blast
  have "shape_named w \<and> ws_AvailableDomains w = [a]" if in_m: "(a, vs) \<in> set m" "w \<in> set vs" for a vs w
  proof -
    obtain d where "d \<in> set (AvailableDomains opts)" "ad d = a" "w \<in> set (ws d)" using in_m ent [of a w] by blast
    then show ?thesis using nm by auto
  qed
  then have "\<forall>(a, vs) \<in> set m. \<forall>w \<in> set vs. shape_named w \<and> ws_AvailableDomains w = [a]" by auto
  from combine_zones_total [of order m, OF assms(4) this] obtain r where r: "combine_zones order m = Ret r"
    "dom (map_of r) = {key_of w | a vs w. (a, vs) \<in> set m \<and> w \<in> set vs}"
    "\<And>k w. map_of r k = Some w \<Longrightarrow> k = key_of w \<and> set (ws_AvailableDomains w) = {a. \<exists>vs v. (a, vs) \<in> set m \<and> v \<in> set vs \<and> key_of v = k}"
    by auto
  let ?c = "cache_setDefault C c now InstanceTypesCacheKey r"
  have "ListInstanceType C n listShapes order opts now c = Some (?c, Ret r)"
    by (simp add: ListInstanceType_def assms(2) m(1) r(1))
  moreover have "k \<in> dom (map_of r) \<longleftrightarrow> (\<exists>d \<in> set (AvailableDomains opts). \<exists>v \<in> set (ws d). key_of v = k)" for k
    unfolding r(2) using ent by blast
  moreover have "k = key_of w \<and> set (ws_AvailableDomains w) = {ad d | d. d \<in> set (AvailableDomains opts) \<and> (\<exists>v \<in> set (ws d). key_of v = k)}"
    if "map_of r k = Some w" for k w
  proof -
    have "{a. \<exists>vs v. (a, vs) \<in> set m \<and> v \<in> set vs \<and> key_of v = k} =
        {a. \<exists>v. (\<exists>vs. (a, vs) \<in> set m \<and> v \<in> set vs) \<and> key_of v = k}" by blast
    also have "\<dots> = {ad d | d. d \<in> set (AvailableDomains opts) \<and> (\<exists>v \<in> set (ws d). key_of v = k)}"
      unfolding ent by blast
    finally show ?thesis using r(3) [OF that] by simp
  qed
  moreover have "ListInstanceType C n' ls' order' opts' t ?c = Some (?c, Ret r)"
    if "now \<le> t \<and> t < now + InstanceTypesAndZonesTTL" for t n' ls' order' opts'
    using go_cache.get_set_live [OF assms(1)] that by (simp add: ListInstanceType_def)
  ultimately show ?thesis by blast
qed

definition sample_list :: "string \<Rightarrow> string \<Rightarrow> shape page outcome" where
  "sample_list d t = (if t = '''' then Ret ([shape.truncate (sample_wrap ''VM.Standard2.1'' 0 0)\<lparr>sh_IsFlexible := Some False\<rparr>], None) else Err (Errorf ''token''))"

definition sample_domain_options :: options where
  "sample_domain_options = zero_options\<lparr>AvailableDomains := [''x:AD-1'', ''x:AD-2'']\<rparr>"

theorem ListInstanceType_spec_witness:
  "\<exists>c' r. ListInstanceType (ttl_cache InstanceTypesAndZonesTTL) 1 sample_list (\<lambda>m. m)
       sample_domain_options 0 Map.empty = Some (c', Ret r) \<and>
     (\<exists>w. map_of r ''VM.Standard2.1-2-16'' = Some w \<and> set (ws_AvailableDomains w) = {''AD-1'', ''AD-2''})"
proof -
  let ?o = sample_domain_options
  have o: "AvailableDomains ?o = [''x:AD-1'', ''x:AD-2'']" by (simp add: sample_domain_options_def)
  let ?s = "shape.truncate (sample_wrap ''VM.Standard2.1'' 0 0)\<lparr>sh_IsFlexible := Some False\<rparr>"
  let ?w = "\<lambda>a. with_size ?s 2 16 [a] 2 1"
  let ?ad = "\<lambda>d::string. drop 2 d"
  have gc: "go_cache (ttl_cache InstanceTypesAndZonesTTL :: (_, (string, wrapShape) gomap) cache_ops) InstanceTypesAndZonesTTL"
    by (intro ttl_cache_go_cache) (simp add: InstanceTypesAndZonesTTL_def)
  have "f_to_int64 (Fin 1) = 1" "f_to_int64 (Fin 16) = 16"
    using f_to_int64_int [of 1] f_to_int64_int [of 16] by (simp_all add: in_int64_def del: f_to_int64.simps)
  then have one: "toWrapShape ?o [?s] a = Ret [?w a]" for a
    by (simp add: toWrapShape_def toWrapShape_one_def int_of_ptr_def sample_wrap_def shape.defs in_int64_def del: f_to_int64.simps)
  have listed: "\<forall>d \<in> set (AvailableDomains ?o). domain_listed 1 sample_list ?o d (?ad d) [?w (?ad d)]"
  proof
    fix d assume that: "d \<in> set (AvailableDomains ?o)"
    have "ad_suffix d = Ret (?ad d)" using that unfolding o by simp (elim disjE; simp; code_simp)
    moreover have "serves (sample_list d) '''' [] [?s]" by (simp add: sample_list_def)
    moreover have "sh_Shape ?s \<noteq> None" by (simp add: sample_wrap_def shape.defs)
    ultimately show "domain_listed 1 sample_list ?o d (?ad d) [?w (?ad d)]" unfolding domain_listed_def using one
      by (intro exI [of _ "[]"] exI [of _ "[?s]"]) simp
  qed
  have key: "key_of (?w a) = ''VM.Standard2.1-2-16''" for a
    by (simp add: key_of_def wrap_key_def sample_wrap_def shape.defs) code_simp
  have "cache_get (ttl_cache InstanceTypesAndZonesTTL :: (_, (string, wrapShape) gomap) cache_ops) Map.empty 0 InstanceTypesCacheKey = None"
    by (simp add: ttl_cache_def ttl_get_def)
  from ListInstanceType_spec [where order = "\<lambda>m. m" and ad = ?ad and ws = "\<lambda>d. [?w (?ad d)]", OF gc this listed refl]
  obtain c' r where
    r: "ListInstanceType (ttl_cache InstanceTypesAndZonesTTL) 1 sample_list (\<lambda>m. m) ?o 0 Map.empty = Some (c', Ret r)"
      "\<forall>k. k \<in> dom (map_of r) \<longleftrightarrow> (\<exists>d \<in> set (AvailableDomains ?o). \<exists>v \<in> set [?w (?ad d)]. key_of v = k)"
      "\<forall>k w. map_of r k = Some w \<longrightarrow> k = key_of w \<and>
         set (ws_AvailableDomains w) = {?ad d | d. d \<in> set (AvailableDomains ?o) \<and> (\<exists>v \<in> set [?w (?ad d)]. key_of v = k)}"
    by (elim exE conjE) (rule that)
  have "''VM.Standard2.1-2-16'' \<in> dom (map_of r)" using r(2) key by (auto simp: o)
  then obtain w where w: "map_of r ''VM.Standard2.1-2-16'' = Some w" by blast
  moreover have "set (ws_AvailableDomains w) = ?ad ` set (AvailableDomains ?o)"
    using r(3) [rule_format, OF w] key by (simp add: image_def Bex_def) auto
  ultimately show ?thesis using r(1) by (auto simp: o)
qed

end
