(* ===== verification/GoState.thy ===== *)
theory GoState
  imports Prelude
begin

text \<open>
  Go code that changes a state: a computation takes the state and gives the new state with the outcome of the call, or
  nothing when a loop inside it ran out of fuel.  The state survives an error and a panic, as the effects of a Go
  call do.
\<close>

type_synonym ('s, 'a) go = "'s \<Rightarrow> ('s \<times> 'a outcome) option"

definition gret :: "'a \<Rightarrow> ('s, 'a) go" where
  "gret x = (\<lambda>s. Some (s, Ret x))"

definition glift :: "'a outcome \<Rightarrow> ('s, 'a) go" where
  "glift r = (\<lambda>s. Some (s, r))"

definition gbind :: "('s, 'a) go \<Rightarrow> ('a \<Rightarrow> ('s, 'b) go) \<Rightarrow> ('s, 'b) go" where
  "gbind m f = (\<lambda>s. case m s of
     None \<Rightarrow> None
   | Some (s', Ret x) \<Rightarrow> f x s'
   | Some (s', Err e) \<Rightarrow> Some (s', Err e)
   | Some (s', Panic p) \<Rightarrow> Some (s', Panic p))"

text \<open>\<open>x, err := m; if err != nil { ... }\<close> with the given treatment of the error.\<close>

definition gcatch :: "('s, 'a) go \<Rightarrow> (goerr \<Rightarrow> ('s, 'a) go) \<Rightarrow> ('s, 'a) go" where
  "gcatch m h = (\<lambda>s. case m s of
     None \<Rightarrow> None
   | Some (s', Ret x) \<Rightarrow> Some (s', Ret x)
   | Some (s', Err e) \<Rightarrow> h e s'
   | Some (s', Panic p) \<Rightarrow> Some (s', Panic p))"

definition gmodify :: "('s \<Rightarrow> 's) \<Rightarrow> ('s, unit) go" where
  "gmodify f = (\<lambda>s. Some (f s, Ret ()))"

definition gget :: "('s \<Rightarrow> 'a) \<Rightarrow> ('s, 'a) go" where
  "gget f = (\<lambda>s. Some (s, Ret (f s)))"

definition gwrap :: "string \<Rightarrow> ('s, 'a) go \<Rightarrow> ('s, 'a) go" where
  "gwrap msg m = gcatch m (\<lambda>e. glift (Err (Wrapf msg e)))"

primrec gmapM :: "('a \<Rightarrow> ('s, 'b) go) \<Rightarrow> 'a list \<Rightarrow> ('s, 'b list) go" where
  "gmapM f [] = gret []"
| "gmapM f (x # xs) = gbind (f x) (\<lambda>y. gbind (gmapM f xs) (\<lambda>ys. gret (y # ys)))"

lemma go_run [go_simps]:
  "gret x s = Some (s, Ret x)" "glift r s = Some (s, r)" "gmodify f s = Some (f s, Ret ())" "gget g s = Some (s, Ret (g s))"
  by (simp_all add: gret_def glift_def gmodify_def gget_def)

lemma gbind_run [go_simps]:
  "m s = Some (s', Ret x) \<Longrightarrow> gbind m f s = f x s'"
  "m s = Some (s', Err e) \<Longrightarrow> gbind m f s = Some (s', Err e)"
  "m s = Some (s', Panic p) \<Longrightarrow> gbind m f s = Some (s', Panic p)"
  by (simp_all add: gbind_def)

lemma gcatch_run [go_simps]:
  "m s = Some (s', Ret x) \<Longrightarrow> gcatch m h s = Some (s', Ret x)"
  "m s = Some (s', Err e) \<Longrightarrow> gcatch m h s = h e s'"
  "m s = Some (s', Panic p) \<Longrightarrow> gcatch m h s = Some (s', Panic p)"
  by (simp_all add: gcatch_def)

lemma gwrap_run [go_simps]:
  "m s = Some (s', Ret x) \<Longrightarrow> gwrap msg m s = Some (s', Ret x)"
  "m s = Some (s', Err e) \<Longrightarrow> gwrap msg m s = Some (s', Err (Wrapf msg e))"
  by (simp_all add: gwrap_def gcatch_def glift_def)

lemma gbind_Ret_iff:
  "gbind m f s = Some (s', Ret y) \<longleftrightarrow> (\<exists>s1 x. m s = Some (s1, Ret x) \<and> f x s1 = Some (s', Ret y))"
  by (auto simp: gbind_def split: option.split outcome.split)

lemma gwrap_Ret_iff: "gwrap msg m s = Some (s', Ret y) \<longleftrightarrow> m s = Some (s', Ret y)"
  by (auto simp: gwrap_def gcatch_def glift_def split: option.split outcome.split)

lemma glift_Ret_iff: "glift r s = Some (s', Ret y) \<longleftrightarrow> s' = s \<and> r = Ret y"
  by (auto simp: glift_def)

lemma gret_Ret_iff: "gret x s = Some (s', Ret y) \<longleftrightarrow> s' = s \<and> y = x"
  by (auto simp: gret_def)

lemmas go_Ret_iff = gbind_Ret_iff gwrap_Ret_iff glift_Ret_iff gret_Ret_iff

text \<open>An invariant of the state that every step keeps holds after a loop.\<close>

lemma gmapM_inv:
  assumes "\<And>x s s' r. x \<in> set xs \<Longrightarrow> I s \<Longrightarrow> f x s = Some (s', r) \<Longrightarrow> I s'" and "I s" and "gmapM f xs s = Some (s', r)"
  shows "I s'"
  using assms
proof (induction xs arbitrary: s r)
  case (Cons x xs)
  obtain s1 o1 where 1: "f x s = Some (s1, o1)" using Cons.prems(3) by (cases "f x s") (auto simp: gbind_def)
  then have I1: "I s1" using Cons.prems(1) [OF _ Cons.prems(2) 1] by simp
  show ?case
  proof (cases o1)
    case (Ret y)
    obtain r' where g: "gmapM f xs s1 = Some (s', r')"
      using Cons.prems(3) 1 Ret by (auto simp: gbind_def gret_def split: option.splits outcome.splits)
    show ?thesis by (rule Cons.IH [OF Cons.prems(1) I1 g]) simp_all
  qed (use Cons.prems(3) 1 I1 in \<open>auto simp: gbind_def\<close>)
qed (simp add: gret_def)

lemma gmapM_Ret_all2:
  "gmapM f xs s = Some (s', Ret ys) \<Longrightarrow> list_all2 (\<lambda>x y. \<exists>s1 s2. f x s1 = Some (s2, Ret y)) xs ys"
  by (induction xs arbitrary: s ys) (auto simp: go_Ret_iff)

text \<open>A relation between the states before and after a computation, for whole computations from that of their parts.\<close>

definition keeps :: "('s \<Rightarrow> 's \<Rightarrow> bool) \<Rightarrow> ('s, 'a) go \<Rightarrow> bool" where
  "keeps R m \<longleftrightarrow> (\<forall>s s' r. m s = Some (s', r) \<longrightarrow> R s s')"

lemma keepsD: "keeps R m \<Longrightarrow> m s = Some (s', r) \<Longrightarrow> R s s'"
  by (auto simp: keeps_def)

lemma keeps_pure: "reflp R \<Longrightarrow> keeps R (gret x)" "reflp R \<Longrightarrow> keeps R (glift r)" "reflp R \<Longrightarrow> keeps R (gget f)"
  by (auto simp: keeps_def gret_def glift_def gget_def reflp_def)

lemma keeps_gmodify: "(\<And>s. R s (f s)) \<Longrightarrow> keeps R (gmodify f)"
  by (auto simp: keeps_def gmodify_def)

lemma keeps_gbind: "transp R \<Longrightarrow> keeps R m \<Longrightarrow> (\<And>x. keeps R (f x)) \<Longrightarrow> keeps R (gbind m f)"
  unfolding keeps_def gbind_def transp_def by (auto split: option.splits prod.splits outcome.splits) blast

lemma keeps_gcatch: "transp R \<Longrightarrow> keeps R m \<Longrightarrow> (\<And>e. keeps R (h e)) \<Longrightarrow> keeps R (gcatch m h)"
  unfolding keeps_def gcatch_def transp_def by (auto split: option.splits prod.splits outcome.splits) blast

lemma keeps_gwrap: "reflp R \<Longrightarrow> transp R \<Longrightarrow> keeps R m \<Longrightarrow> keeps R (gwrap msg m)"
  unfolding gwrap_def by (intro keeps_gcatch keeps_pure)

lemma keeps_gmapM: "reflp R \<Longrightarrow> transp R \<Longrightarrow> (\<And>x. x \<in> set xs \<Longrightarrow> keeps R (f x)) \<Longrightarrow> keeps R (gmapM f xs)"
  by (induction xs) (auto intro!: keeps_gbind keeps_pure)

lemmas keeps_intros = keeps_gbind keeps_gcatch keeps_gwrap keeps_gmapM keeps_pure keeps_gmodify

end
