(* ===== verification/Errors.thy ===== *)
theory Errors
  imports GoState
begin

text \<open>
  How the sources inspect errors: the reason of a Kubernetes status error, karpenter's "node claim not found", and the combination of the
  errors of a loop by \<open>multierr\<close>.
\<close>

section \<open>Errors of the Kubernetes API\<close>

text \<open>\<open>errors.As\<close> finds the first status error of an error tree.  \<open>ku\<close> says whether karpenter's own error types can be looked behind
  (their documentation does not say so).\<close>

fun status_reason :: "bool \<Rightarrow> goerr \<Rightarrow> api_reason option" where
  "status_reason ku (StatusError r m) = Some r"
| "status_reason ku (Wrapf s e) = status_reason ku e"
| "status_reason ku (InsufficientCapacityError e) = (if ku then status_reason ku e else None)"
| "status_reason ku (NodeClassNotReadyError e) = (if ku then status_reason ku e else None)"
| "status_reason ku (NodeClaimNotFoundError (Some e)) = (if ku then status_reason ku e else None)"
| "status_reason ku (MultiErr []) = None"
| "status_reason ku (MultiErr (e # es)) = (case status_reason ku e of Some r \<Rightarrow> Some r | None \<Rightarrow> status_reason ku (MultiErr es))"
| "status_reason ku _ = None"

definition IsNotFound :: "bool \<Rightarrow> goerr \<Rightarrow> bool" where
  "IsNotFound ku e \<longleftrightarrow> status_reason ku e = Some ReasonNotFound"

definition IsConflict :: "bool \<Rightarrow> goerr \<Rightarrow> bool" where
  "IsConflict ku e \<longleftrightarrow> status_reason ku e = Some ReasonConflict"

text \<open>\<open>client.IgnoreNotFound(err)\<close> as the result of a function that returns \<open>x\<close> without an error.\<close>

definition IgnoreNotFound :: "bool \<Rightarrow> 'a \<Rightarrow> goerr \<Rightarrow> 'a outcome" where
  "IgnoreNotFound ku x e = (if IsNotFound ku e then Ret x else Err e)"

section \<open>Errors of karpenter\<close>

text \<open>\<open>IsNodeClaimNotFoundError\<close> of karpenter looks for its error type behind \<open>%w\<close>; \<open>ku\<close> says whether karpenter's own error types
  can be looked behind as well.\<close>

fun IsNodeClaimNotFoundError :: "bool \<Rightarrow> goerr \<Rightarrow> bool" where
  "IsNodeClaimNotFoundError ku (NodeClaimNotFoundError e) \<longleftrightarrow> True"
| "IsNodeClaimNotFoundError ku (Wrapf s e) \<longleftrightarrow> IsNodeClaimNotFoundError ku e"
| "IsNodeClaimNotFoundError ku (InsufficientCapacityError e) \<longleftrightarrow> ku \<and> IsNodeClaimNotFoundError ku e"
| "IsNodeClaimNotFoundError ku (NodeClassNotReadyError e) \<longleftrightarrow> ku \<and> IsNodeClaimNotFoundError ku e"
| "IsNodeClaimNotFoundError ku (MultiErr es) \<longleftrightarrow> (\<exists>e \<in> set es. IsNodeClaimNotFoundError ku e)"
| "IsNodeClaimNotFoundError ku _ \<longleftrightarrow> False"

definition IgnoreNodeClaimNotFoundError :: "bool \<Rightarrow> 'a \<Rightarrow> goerr \<Rightarrow> 'a outcome" where
  "IgnoreNodeClaimNotFoundError ku x e = (if IsNodeClaimNotFoundError ku e then Ret x else Err e)"

section \<open>Combined errors\<close>

text \<open>\<open>multierr.Combine\<close>: no error, the only error, or all of them.\<close>

definition multierr_Combine :: "goerr option list \<Rightarrow> goerr option" where
  "multierr_Combine es = (case List.map_filter id es of [] \<Rightarrow> None | [e] \<Rightarrow> Some e | xs \<Rightarrow> Some (MultiErr xs))"

lemma multierr_Combine_None: "multierr_Combine es = None \<longleftrightarrow> (\<forall>e \<in> set es. e = None)"
  by (induction es) (auto simp: multierr_Combine_def map_filter_simps split: list.splits option.splits)

lemma multierr_Combine_Nones [simp]: "multierr_Combine (map (\<lambda>_. None) xs) = None"
  by (simp add: multierr_Combine_None)

text \<open>A function that returns an error value.\<close>

definition of_err :: "'a \<Rightarrow> goerr option \<Rightarrow> 'a outcome" where
  "of_err x e = (case e of None \<Rightarrow> Ret x | Some e \<Rightarrow> Err e)"

text \<open>Two Go maps are equal when they have the same entries.\<close>

definition gomap_eq :: "('k, 'v) gomap \<Rightarrow> ('k, 'v) gomap \<Rightarrow> bool" where
  "gomap_eq a b \<longleftrightarrow> set a = set b"

lemma gomap_eq_iff: "gomap_wf a \<Longrightarrow> gomap_wf b \<Longrightarrow> gomap_eq a b \<longleftrightarrow> map_of a = map_of b"
  unfolding gomap_eq_def gomap_wf_def by (metis map_of_inject_set)

end
