(* ===== verification/Instance.thy ===== *)
theory Instance
  imports SecurityGroup ImageFamily InstanceTypeProvider Errors
begin

text \<open>
  \<open>pkg/providers/instance\<close>: launching an instance for a node claim (choice of subnet, instance type, zone and capacity type, the launch
  request and the treatment of capacity errors), terminating, reading, listing and tagging instances.  The compute service is a
  record of its requests.  Launching is split at the request: \<open>build_request\<close> is everything before it is sent.
\<close>

section \<open>The compute service\<close>

record launch_request =
  lr_SubnetId :: "string option"
  lr_NsgIds :: "string list"
  lr_Volumes :: "(int \<times> int) list"
  lr_ImageId :: string
  lr_BootVolumeVpusPerGB :: int
  lr_BootVolumeSizeInGBs :: int
  lr_DefinedTags :: defined_tags
  lr_CompartmentId :: string
  lr_DisplayName :: string
  lr_AvailabilityDomain :: string
  lr_Shape :: string
  lr_Metadata :: labels
  lr_Preemptible :: bool
  lr_ShapeConfig :: "(gofloat \<times> gofloat) option"
  lr_LaunchOptions :: "oci_launchOptions option"
  lr_Agents :: "string list"

text \<open>A volume is its performance units and its size; the shape configuration is the memory in GB and the OCPUs.  The responses of
  the requests that the sources inspect beyond their error carry the HTTP status, \<open>None\<close> when there is no response.\<close>

record compute_ops =
  cmp_LaunchInstance :: "launch_request \<Rightarrow> oci_instance outcome"
  cmp_TerminateInstance :: "string \<Rightarrow> int option \<times> unit outcome"
  cmp_GetInstance :: "string \<Rightarrow> (int option \<times> oci_instance) outcome"
  cmp_ListInstances :: "string \<Rightarrow> string \<Rightarrow> oci_instance page outcome"
  cmp_ListVnicAttachments :: "string \<Rightarrow> string \<Rightarrow> vnic_attachment list outcome"
  cmp_UpdateInstance :: "string \<Rightarrow> labels \<Rightarrow> int option \<times> unit outcome"

text \<open>What the provider is built with: the clients, the caches' operations, and the choices Go leaves open.\<close>

record ('c, 'u) inst_env =
  ie_Net :: net_ops
  ie_Compute :: compute_ops
  ie_SubnetCache :: "('c, oci_subnet list) cache_ops"
  ie_Unavailable :: "('u, unit) cache_ops"
  ie_Hash :: "subnetSelectorTerm list \<Rightarrow> nat outcome"
  ie_Order :: "((string, oci_subnet) gomap \<Rightarrow> (string, oci_subnet) gomap) \<times> ((string, oci_subnet) gomap \<Rightarrow> (string, oci_subnet) gomap)"
  ie_Template :: launchTemplateProvider
  ie_Script :: script_env
  ie_Enums :: enum_maps
  ie_Shuffle :: "string list \<Rightarrow> string list"

record ('c, 'u) inst_state =
  is_Subnets :: 'c
  is_Offerings :: "'u unavailableOfferings"

section \<open>Subnet, tags and instance type\<close>

fun least_utilized :: "net_ops \<Rightarrow> oci_subnet list \<Rightarrow> oci_subnet \<Rightarrow> int \<Rightarrow> (oci_subnet \<times> int) outcome" where
  "least_utilized N [] best availableIPCount = Ret (best, availableIPCount)"
| "least_utilized N (s # ss) best availableIPCount =
     (case GetSubnetAvailableIPv4Count N s of
        Ret k \<Rightarrow> if k > availableIPCount then least_utilized N ss s k else least_utilized N ss best availableIPCount
      | Err e \<Rightarrow> obind (deref (sn_Id s)) (\<lambda>_. Err (Errorf ''GetSubnetAvailableIPv4Count failed''))
      | Panic p \<Rightarrow> Panic p)"

definition FindLeastUtilizedSubnet ::
  "('c, 'u) inst_env \<Rightarrow> options \<Rightarrow> ociNodeClass \<Rightarrow> int \<Rightarrow> 'c \<Rightarrow> 'c \<times> (oci_subnet \<times> int) outcome" where
  "FindLeastUtilizedSubnet E opts nc now c =
     (case List_subnets (ie_SubnetCache E) (ie_Net E) (ie_Hash E) (ie_Order E) opts nc now c of
        (c', Err e) \<Rightarrow> (c', Err e)
      | (c', Panic s) \<Rightarrow> (c', Panic s)
      | (c', Ret []) \<Rightarrow> (c', Err (Errorf ''no subnets found''))
      | (c', Ret (s # ss)) \<Rightarrow> (c', least_utilized (ie_Net E) (s # ss) s 0))"

text \<open>The entries of the tag maps in iteration order, until the limit is reached.\<close>

fun remove_loop :: "nat \<Rightarrow> labels \<Rightarrow> labels \<Rightarrow> labels" where
  "remove_loop sizeLimit [] res = res"
| "remove_loop sizeLimit ((k, v) # ps) res =
     (let res' = AList.update (SafeTagKey k) v res
      in if length res' \<ge> sizeLimit then res' else remove_loop sizeLimit ps res')"

definition removeExcludingChars :: "nat \<Rightarrow> labels list \<Rightarrow> labels" where
  "removeExcludingChars sizeLimit tags = remove_loop sizeLimit (concat tags) []"

definition static_tags :: "options \<Rightarrow> ociNodeClass \<Rightarrow> 'q nodeClaim \<Rightarrow> labels" where
  "static_tags opts nc claim =
     [(NodePoolLabelKey, mget (nc_Labels claim) NodePoolLabelKey), (ManagedByAnnotationKey, ClusterName opts),
      (LabelNodeClass, cl_Name nc), (LabelNodeClaim, nc_Name claim)]"

text \<open>One pass of the loop over the user's namespaces.\<close>

definition tag_step :: "string \<times> labels \<Rightarrow> defined_tags \<Rightarrow> defined_tags" where
  "tag_step p tags = AList.update (fst p) (lo_assign (from_ptr [] (map_of tags (fst p))) (removeExcludingChars 48 [snd p])) tags"

definition getTags :: "options \<Rightarrow> ociNodeClass \<Rightarrow> 'q nodeClaim \<Rightarrow> defined_tags" where
  "getTags opts nc claim = fold tag_step (DefinedTags (cl_Spec nc)) [(TagNamespace opts, removeExcludingChars 48 [static_tags opts nc claim])]"

definition claim_reqs :: "('r, 'q) karp_ops \<Rightarrow> 'q nodeClaim \<Rightarrow> (string, 'r) gomap" where
  "claim_reqs K claim = reqs_OfSelectors K (nc_Requirements claim)"

definition offering_zone :: "('r, 'q) karp_ops \<Rightarrow> 'r offering \<Rightarrow> string" where
  "offering_zone K o' = req_Any K (reqs_Get K (off_Requirements o') LabelTopologyZone)"

text \<open>The instance type (\<open>None\<close> is nil) and the zone.\<close>

definition pickBestInstanceType ::
  "('r, 'q) karp_ops \<Rightarrow> (string list \<Rightarrow> string list) \<Rightarrow> 'q nodeClaim \<Rightarrow> ('r, 'q) instanceType list \<Rightarrow>
   (('r, 'q) instanceType option \<times> string) outcome" where
  "pickBestInstanceType K shuffle claim its =
     (if its = [] then Ret (None, '''')
      else case orderByPrice K its (claim_reqs K claim) of
        [] \<Rightarrow> Panic ''index out of range''
      | it # _ \<Rightarrow>
          let requestedZones = reqs_Get K (claim_reqs K claim) LabelTopologyZone;
              priorityOfferings = filter (\<lambda>o'. req_Has K requestedZones (offering_zone K o')) (offs_Available K (it_Offerings it))
          in if priorityOfferings = [] then Ret (None, '''')
             else case shuffle (map (offering_zone K) priorityOfferings) of
               [] \<Rightarrow> Panic ''index out of range''
             | z # _ \<Rightarrow> Ret (Some it, z))"

definition getIntValFromRequirements :: "('r, 'q) karp_ops \<Rightarrow> string \<Rightarrow> (string, 'r) gomap \<Rightarrow> int outcome" where
  "getIntValFromRequirements K key reqs =
     (case req_Values K (reqs_Get K reqs key) of
        [] \<Rightarrow> Err (Errorf (''can't found key '' @ key @ '' in requirements''))
      | v # _ \<Rightarrow> Ret (from_ptr 0 (atoi v)))"

section \<open>Launching\<close>

text \<open>The memory and the OCPUs of a flexible instance type; its labels are in Mi and virtual CPUs.\<close>

definition flex_config :: "('r, 'q) karp_ops \<Rightarrow> ('r, 'q) instanceType \<Rightarrow> (gofloat \<times> gofloat) option outcome" where
  "flex_config K it =
     (if req_Has K (reqs_Get K (it_Requirements it) LabelIsFlexible) ''true'' then
        obind (omap_err (\<lambda>_. Errorf ''failed to calculate cpu flex instance'') (getIntValFromRequirements K LabelInstanceCPU (it_Requirements it))) (\<lambda>vcpu.
        obind (omap_err (\<lambda>_. Errorf ''failed to calculate memory for flex instance'') (getIntValFromRequirements K LabelInstanceMemory (it_Requirements it))) (\<lambda>mi.
          Ret (Some (f32 (gdiv mi 1024), if IsA1FlexShape (it_Name it) then f32 vcpu else fdiv r32 (f32 vcpu) (Fin 2)))))
      else Ret None)"

definition launch_metadata :: "('r, 'q) karp_ops \<Rightarrow> ociNodeClass \<Rightarrow> ('r, 'q) instanceType \<Rightarrow> oci_subnet \<Rightarrow> labels" where
  "launch_metadata K nc it sn =
     (let m = MetaData (cl_Spec nc)
      in if mget m ''oke-native-pod-networking'' = ''true''
         then AList.update ''pod-subnets'' (ToString (sn_Id sn))
                (AList.update ''oke-max-pods'' (show_int (q_Value K (rl_Pods K (it_Capacity it)))) m)
         else m)"

text \<open>Everything between the choice of the subnet and the request; also the chosen instance type and zone.\<close>

definition build_request ::
  "('r, 'q) karp_ops \<Rightarrow> ('c, 'u) inst_env \<Rightarrow> options \<Rightarrow> ociNodeClass \<Rightarrow> 'q nodeClaim \<Rightarrow> ('r, 'q) instanceType list \<Rightarrow> oci_subnet \<Rightarrow> int \<Rightarrow>
   (launch_request \<times> ('r, 'q) instanceType \<times> string) outcome" where
  "build_request K E opts nc claim its sn cnt =
     (if q_Value K (rl_Pods K (nc_Requests claim)) > cnt then Err (Errorf ''not enough IPs are available on all subnets'')
      else obind (pickBestInstanceType K (ie_Shuffle E) claim its) (\<lambda>(it_ptr, zone).
        case List.find (\<lambda>d. str_contains d zone) (AvailableDomains opts) of
          None \<Rightarrow> Err (Errorf (''failed to find a zone for '' @ zone))
        | Some ad \<Rightarrow> (case it_ptr of
            None \<Rightarrow> Err (InsufficientCapacityError (Errorf ''no instance types available''))
          | Some it \<Rightarrow>
              obind (CreateLaunchTemplate K (ie_Template E) opts nc claim it) (\<lambda>ts.
              case ts of [] \<Rightarrow> Panic ''index out of range''
              | t # _ \<Rightarrow>
                obind (Script_boot (ie_Script E) (lt_UserData t)) (\<lambda>userdata.
                obind (deref (BootConfig (cl_Spec nc))) (\<lambda>boot.
                obind (flex_config K it) (\<lambda>cfg.
                  Ret (\<lparr>lr_SubnetId = sn_Id sn, lr_NsgIds = map ssg_Id (st_SecurityGroups (cl_Status nc)),
                        lr_Volumes = map (\<lambda>v. (VpusPerGB v, SizeInGBs v)) (BlockDevices (cl_Spec nc)), lr_ImageId = lt_ImageId t,
                        lr_BootVolumeVpusPerGB = BootVolumeVpusPerGB boot, lr_BootVolumeSizeInGBs = BootVolumeSizeInGBs boot,
                        lr_DefinedTags = getTags opts nc claim, lr_CompartmentId = CompartmentId opts, lr_DisplayName = nc_Name claim,
                        lr_AvailabilityDomain = ad, lr_Shape = it_Name it,
                        lr_Metadata = AList.update ''user_data'' userdata (launch_metadata K nc it sn),
                        lr_Preemptible = req_Has K (reqs_Get K (claim_reqs K claim) CapacityTypeLabelKey) CapacityTypePreemptible,
                        lr_ShapeConfig = cfg,
                        lr_LaunchOptions = map_option (ConvertLaunchOptions (ie_Enums E)) (LaunchOptions_ptr (cl_Spec nc)),
                        lr_Agents = AgentList (cl_Spec nc)\<rparr>, it, zone))))))))"

text \<open>The two service errors that count as a lack of capacity.\<close>

fun capacity_error :: "goerr \<Rightarrow> string option" where
  "capacity_error (ServiceError st code msg) =
     (if st = 500 \<and> str_contains msg ''Out of host capacity'' \<or> st = 400 \<and> str_contains msg ''service limits were exceeded''
      then Some msg else None)"
| "capacity_error _ = None"

definition Create_instance ::
  "('r, 'q) karp_ops \<Rightarrow> ('c, 'u) inst_env \<Rightarrow> options \<Rightarrow> ociNodeClass \<Rightarrow> 'q nodeClaim \<Rightarrow> ('r, 'q) instanceType list \<Rightarrow> int \<Rightarrow>
   ('c, 'u) inst_state \<Rightarrow> ('c, 'u) inst_state \<times> oci_instance outcome" where
  "Create_instance K E opts nc claim its now st =
     (case FindLeastUtilizedSubnet E opts nc now (is_Subnets st) of
        (c', r) \<Rightarrow>
          let st' = st\<lparr>is_Subnets := c'\<rparr> in
          case obind r (\<lambda>(sn, cnt). build_request K E opts nc claim its sn cnt) of
            Err e \<Rightarrow> (st', Err e)
          | Panic s \<Rightarrow> (st', Panic s)
          | Ret (req, it, zone) \<Rightarrow>
              (case cmp_LaunchInstance (ie_Compute E) req of
                 Ret i \<Rightarrow> (st', Ret i)
               | Panic s \<Rightarrow> (st', Panic s)
               | Err e \<Rightarrow> (case capacity_error e of
                   None \<Rightarrow> (st', Err e)
                 | Some msg \<Rightarrow>
                     (st'\<lparr>is_Offerings := MarkUnavailableForLaunchInstanceErr (ie_Unavailable E) now (is_Offerings st')
                            CapacityTypeOnDemand (it_Name it) zone\<rparr>,
                      Err (InsufficientCapacityError (Errorf (''InsufficientCapacityError: '' @ msg)))))))"

section \<open>The other requests\<close>

definition Delete_instance :: "compute_ops \<Rightarrow> string \<Rightarrow> unit outcome" where
  "Delete_instance M ident =
     (case cmp_TerminateInstance M ident of
        (http, r) \<Rightarrow> if http = Some 404 \<or> http = Some 204
          then Err (NodeClaimNotFoundError (Some (Errorf ''instance already terminated''))) else r)"

definition Get_instance :: "compute_ops \<Rightarrow> string \<Rightarrow> oci_instance outcome" where
  "Get_instance M ident =
     obind (omap_err (Wrapf ''failed to get instances'') (cmp_GetInstance M ident)) (\<lambda>(http, i).
       if http = Some 404 then Err (NodeClaimNotFoundError None)
       else if in_LifecycleState i = LcTerminated then Err (NodeClaimNotFoundError None)
       else Ret i)"

text \<open>An instance belongs to the cluster when the tag of the namespace says so.\<close>

definition managed_tag :: "options \<Rightarrow> oci_instance \<Rightarrow> string option" where
  "managed_tag opts i = map_of (from_ptr [] (map_of (in_DefinedTags i) (TagNamespace opts))) (SafeTagKey ManagedByAnnotationKey)"

definition List_instances :: "nat \<Rightarrow> compute_ops \<Rightarrow> options \<Rightarrow> oci_instance list outcome option" where
  "List_instances n M opts = list_pages n (\<lambda>t.
     obind (omap_err (Wrapf ''list instances error'') (cmp_ListInstances M (CompartmentId opts) t)) (\<lambda>(is, t').
       Ret (filter (\<lambda>i. managed_tag opts i = Some (ClusterName opts)) is, t')))"

definition GetVnicAttachments :: "compute_ops \<Rightarrow> options \<Rightarrow> oci_instance \<Rightarrow> vnic_attachment list outcome" where
  "GetVnicAttachments M opts i = obind (deref (in_Id i)) (\<lambda>ident. cmp_ListVnicAttachments M (CompartmentId opts) ident)"

definition CreateTags :: "compute_ops \<Rightarrow> string \<Rightarrow> labels \<Rightarrow> unit outcome" where
  "CreateTags M ident tags =
     (case cmp_UpdateInstance M ident tags of
        (http, r) \<Rightarrow> if http = Some 404 \<or> http = Some 204
          then (case r of Panic s \<Rightarrow> Panic s | Err e \<Rightarrow> Err (NodeClaimNotFoundError (Some (Wrapf ''tagging instance'' e)))
                | Ret _ \<Rightarrow> Err (NodeClaimNotFoundError (Some (Errorf ''tagging instance''))))
          else omap_err (Wrapf ''tagging instance'') r)"

section \<open>Lemmas\<close>

lemma least_utilized_max:
  assumes "\<forall>s \<in> set ss. GetSubnetAvailableIPv4Count N s = Ret (k s)"
  shows "\<exists>b m. least_utilized N ss best cnt = Ret (b, m) \<and> cnt \<le> m \<and> (\<forall>s \<in> set ss. k s \<le> m) \<and>
    (b = best \<and> m = cnt \<or> b \<in> set ss \<and> k b = m)"
  using assms
proof (induction ss arbitrary: best cnt)
  case (Cons s ss)
  have g: "GetSubnetAvailableIPv4Count N s = Ret (k s)" using Cons.prems by simp
  show ?case
  proof (cases "k s > cnt")
    case True
    with Cons.IH [of s "k s"] Cons.prems g show ?thesis by fastforce
  next
    case False
    with Cons.IH [of best cnt] Cons.prems g show ?thesis by fastforce
  qed
qed simp

lemma serves_filter:
  "serves call t ps final \<Longrightarrow>
   serves (\<lambda>t. obind (omap_err w (call t)) (\<lambda>(xs, t'). Ret (filter p xs, t'))) t (map (\<lambda>(xs, t'). (filter p xs, t')) ps) (filter p final)"
  by (induction call t ps final rule: serves.induct) auto

lemma remove_loop_small:
  assumes "length res + length ps < n"
  shows "remove_loop n ps res = fold (\<lambda>(k, v). AList.update (SafeTagKey k) v) ps res"
  using assms
proof (induction ps arbitrary: res)
  case (Cons p ps)
  obtain k v where p: "p = (k, v)" by (cases p)
  have "length (AList.update (SafeTagKey k) v res) \<le> Suc (length res)"
    by (induction res) auto
  with Cons p show ?case by (simp add: Let_def)
qed simp

lemma map_of_remove_small:
  assumes "length ps < n"
  shows "map_of (removeExcludingChars n [ps]) k = map_of (rev (map (\<lambda>(k, v). (SafeTagKey k, v)) ps)) k"
proof -
  have "map_of (fold (\<lambda>(k, v). AList.update (SafeTagKey k) v) ps res) k =
      (map_of res ++ map_of (rev (map (\<lambda>(k, v). (SafeTagKey k, v)) ps))) k" for res
    by (induction ps arbitrary: res) (auto simp: map_add_def split: option.splits)
  then show ?thesis using assms by (simp add: removeExcludingChars_def remove_loop_small)
qed

lemma gomap_wf_remove [simp]: "gomap_wf (removeExcludingChars n ts)"
proof -
  have "gomap_wf res \<Longrightarrow> gomap_wf (remove_loop n ps res)" for ps res
    by (induction n ps res rule: remove_loop.induct) (auto simp: Let_def)
  then show ?thesis by (simp add: removeExcludingChars_def)
qed

lemma map_of_tag_fold:
  "gomap_wf ds \<Longrightarrow> map_of (fold tag_step ds tags) ns =
     (case map_of ds ns of None \<Rightarrow> map_of tags ns
      | Some kvs \<Rightarrow> Some (lo_assign (from_ptr [] (map_of tags ns)) (removeExcludingChars 48 [kvs])))"
proof (induction ds arbitrary: tags)
  case (Cons d ds)
  then have "gomap_wf ds" "map_of ds (fst d) = None" by (auto simp: gomap_wf_def map_of_eq_None_iff)
  with Cons.IH [of "tag_step d tags"] show ?case
    by (cases d) (auto simp: tag_step_def split: option.split)
qed simp

lemma static_tag_keys:
  "distinct (map (SafeTagKey \<circ> fst) (static_tags opts nc claim))"
  by (simp add: static_tags_def label_defs SafeTagKey_def replace_byte_def)

text \<open>The value of a tag in karpenter's namespace: the user's if there is one, else the static one.\<close>

lemma getTags_value:
  assumes "gomap_wf (DefinedTags (cl_Spec nc))"
  shows "map_of (from_ptr [] (map_of (getTags opts nc claim) (TagNamespace opts))) k =
    (case map_of (removeExcludingChars 48 [from_ptr [] (map_of (DefinedTags (cl_Spec nc)) (TagNamespace opts))]) k of
       Some v \<Rightarrow> Some v | None \<Rightarrow> map_of (removeExcludingChars 48 [static_tags opts nc claim]) k)"
proof -
  have e: "removeExcludingChars 48 [[]] = []" by (simp add: removeExcludingChars_def)
  show ?thesis
    unfolding getTags_def map_of_tag_fold [OF assms]
    by (auto simp: map_of_assign map_add_def e split: option.split)
qed

lemma static_tag_value:
  "map_of (removeExcludingChars 48 [static_tags opts nc claim]) (SafeTagKey ManagedByAnnotationKey) = Some (ClusterName opts)"
  "map_of (removeExcludingChars 48 [static_tags opts nc claim]) (SafeTagKey NodePoolLabelKey) = Some (mget (nc_Labels claim) NodePoolLabelKey)"
  by (subst map_of_remove_small; simp add: static_tags_def label_defs SafeTagKey_def replace_byte_def)+

lemma build_request_inv:
  assumes "build_request K E opts nc claim its sn cnt = Ret (req, it, zone)"
  shows "\<exists>ad t ts. q_Value K (rl_Pods K (nc_Requests claim)) \<le> cnt \<and>
    pickBestInstanceType K (ie_Shuffle E) claim its = Ret (Some it, zone) \<and>
    List.find (\<lambda>d. str_contains d zone) (AvailableDomains opts) = Some ad \<and> lr_AvailabilityDomain req = ad \<and>
    CreateLaunchTemplate K (ie_Template E) opts nc claim it = Ret (t # ts) \<and> lr_ImageId req = lt_ImageId t \<and>
    lr_Shape req = it_Name it \<and> lr_SubnetId req = sn_Id sn \<and> lr_NsgIds req = map ssg_Id (st_SecurityGroups (cl_Status nc)) \<and>
    lr_DefinedTags req = getTags opts nc claim \<and> flex_config K it = Ret (lr_ShapeConfig req) \<and>
    (lr_Preemptible req \<longleftrightarrow> req_Has K (reqs_Get K (claim_reqs K claim) CapacityTypeLabelKey) CapacityTypePreemptible)"
proof -
  have c: "q_Value K (rl_Pods K (nc_Requests claim)) \<le> cnt" using assms by (auto simp: build_request_def split: if_splits)
  then obtain ip z where p: "pickBestInstanceType K (ie_Shuffle E) claim its = Ret (ip, z)"
    using assms by (auto simp: build_request_def obind_eq_Ret_iff)
  obtain ad i where ad: "List.find (\<lambda>d. str_contains d z) (AvailableDomains opts) = Some ad" and i: "ip = Some i"
    using assms p c by (auto simp: build_request_def split: option.splits)
  obtain x where x: "CreateLaunchTemplate K (ie_Template E) opts nc claim i = Ret x"
    using assms p c ad i by (auto simp: build_request_def obind_eq_Ret_iff)
  obtain t ts where t: "CreateLaunchTemplate K (ie_Template E) opts nc claim i = Ret (t # ts)"
    using assms p c ad i x by (cases x) (auto simp: build_request_def obind_eq_Ret_iff)
  show ?thesis using assms c p ad i t by (auto simp: build_request_def obind_eq_Ret_iff)
qed

lemma template_image:
  assumes "CreateLaunchTemplate K p opts nc claim it = Ret (t # ts)"
  shows "\<exists>i \<in> set (st_Images (cl_Status nc)). lt_ImageId t = si_Id i \<and>
    reqs_Compatible K (it_Requirements it) (reqs_OfSelectors K (si_Requirements i))"
proof -
  obtain i where "List.find (\<lambda>i. reqs_Compatible K (it_Requirements it) (reqs_OfSelectors K (si_Requirements i))) (st_Images (cl_Status nc)) = Some i"
      "lt_ImageId t = si_Id i"
    using assms
    by (auto simp: CreateLaunchTemplate_def createImageOptions_def Resolve_def MapToInstanceTypes_def Let_def resolveLaunchTemplate_def
        split: if_splits option.splits)
  then show ?thesis using find_Some_D by fastforce
qed

lemma pickBest_spec:
  assumes "pickBestInstanceType K shuffle claim its = Ret (Some it, zone)" and "order_law K" and "offerings_law K"
    and "\<And>zs. mset (shuffle zs) = mset zs"
  shows "it \<in> set its \<and> (\<exists>o' \<in> set (it_Offerings it). off_Available o' \<and> offering_zone K o' = zone \<and>
    req_Has K (reqs_Get K (claim_reqs K claim) LabelTopologyZone) zone)"
proof -
  obtain rest where o': "orderByPrice K its (claim_reqs K claim) = it # rest"
    using assms(1) by (auto simp: pickBestInstanceType_def Let_def split: if_splits list.splits)
  then have "it \<in> set its" using assms(2) unfolding order_law_def by (metis list.set_intros(1) mset_eq_setD)
  let ?offs = "filter (\<lambda>o'. req_Has K (reqs_Get K (claim_reqs K claim) LabelTopologyZone) (offering_zone K o')) (offs_Available K (it_Offerings it))"
  obtain zs where "shuffle (map (offering_zone K) ?offs) = zone # zs"
    using assms(1) o' by (auto simp: pickBestInstanceType_def Let_def split: if_splits list.splits)
  then have "zone \<in> set (map (offering_zone K) ?offs)" using assms(4) by (metis list.set_intros(1) mset_eq_setD)
  with \<open>it \<in> set its\<close> assms(3) show ?thesis by (auto simp: offerings_law_def)
qed

text \<open>A tag of the user in karpenter's namespace under the key of the owner replaces the cluster's name.\<close>

lemma managed_tag_value:
  assumes "gomap_wf (DefinedTags (cl_Spec nc))" and "in_DefinedTags i = getTags opts nc claim"
  shows "managed_tag opts i = Some (from_ptr (ClusterName opts)
    (map_of (removeExcludingChars 48 [from_ptr [] (map_of (DefinedTags (cl_Spec nc)) (TagNamespace opts))]) (SafeTagKey ManagedByAnnotationKey)))"
  unfolding managed_tag_def assms(2) getTags_value [OF assms(1)] static_tag_value by (auto split: option.split)

lemma managed_tag_overridden:
  "gomap_wf (DefinedTags (cl_Spec nc)) \<Longrightarrow> in_DefinedTags i = getTags opts nc claim \<Longrightarrow>
   map_of (DefinedTags (cl_Spec nc)) (TagNamespace opts) = Some [(ManagedByAnnotationKey, v)] \<Longrightarrow> managed_tag opts i = Some v"
  by (simp add: managed_tag_value removeExcludingChars_def)

lemma Create_instance_sent:
  assumes "FindLeastUtilizedSubnet E opts nc now (is_Subnets st) = (c', Ret (sn, cnt))"
    and "build_request K E opts nc claim its sn cnt = Ret (req, it, zone)"
  shows "Create_instance K E opts nc claim its now st =
    (let st' = st\<lparr>is_Subnets := c'\<rparr> in
     case cmp_LaunchInstance (ie_Compute E) req of
       Ret i \<Rightarrow> (st', Ret i)
     | Panic s \<Rightarrow> (st', Panic s)
     | Err e \<Rightarrow> (case capacity_error e of
         None \<Rightarrow> (st', Err e)
       | Some msg \<Rightarrow> (st'\<lparr>is_Offerings := uo_mark (ie_Unavailable E) now (is_Offerings st) (it_Name it, zone, CapacityTypeOnDemand)\<rparr>,
           Err (InsufficientCapacityError (Errorf (''InsufficientCapacityError: '' @ msg))))))"
  by (simp add: Create_instance_def assms uo_mark_def MarkUnavailableForLaunchInstanceErr_def Let_def split: outcome.split option.split)

section \<open>Properties\<close>

text \<open>C23. The subnet chosen for a launch is one of the selected subnets, with the most free addresses, and the number returned is its number
  of free addresses; without any selected subnet the call fails.\<close>

theorem FindLeastUtilizedSubnet_spec:
  assumes "List_subnets (ie_SubnetCache E) (ie_Net E) (ie_Hash E) (ie_Order E) opts nc now c = (c', Ret ss)"
    and "\<forall>s \<in> set ss. GetSubnetAvailableIPv4Count (ie_Net E) s = Ret (k s) \<and> 0 \<le> k s"
  shows "if ss = [] then FindLeastUtilizedSubnet E opts nc now c = (c', Err (Errorf ''no subnets found''))
    else \<exists>b. FindLeastUtilizedSubnet E opts nc now c = (c', Ret (b, k b)) \<and> b \<in> set ss \<and> (\<forall>s \<in> set ss. k s \<le> k b)"
proof (cases ss)
  case Nil
  then show ?thesis by (simp add: FindLeastUtilizedSubnet_def assms(1))
next
  case (Cons s r)
  then obtain b m where b: "least_utilized (ie_Net E) ss s 0 = Ret (b, m)" "0 \<le> m" "\<forall>s \<in> set ss. k s \<le> m"
      "b = s \<and> m = 0 \<or> b \<in> set ss \<and> k b = m"
    using least_utilized_max [of ss "ie_Net E" k s 0] assms(2) by auto
  have "0 \<le> k s" using assms(2) Cons by simp
  then have "b \<in> set ss \<and> k b = m" using b(3,4) Cons by auto
  with b(1,3) Cons show ?thesis by (auto simp: FindLeastUtilizedSubnet_def assms(1))
qed

text \<open>C9. A request that is built is for an instance type of the given ones, in a zone where that type has an available offering and which the
  claim allows, in an availability domain of the configuration that contains the zone's name, with an image that the
  type satisfies, in the chosen subnet; the claim does not ask for more pods than that subnet has free addresses, and a
  flexible type gets the OCPUs and memory of its labels.\<close>

theorem build_request_spec:
  assumes "build_request K E opts nc claim its sn cnt = Ret (req, it, zone)" and "order_law K" and "offerings_law K"
    and "\<And>zs. mset (ie_Shuffle E zs) = mset zs"
  shows "it \<in> set its \<and> lr_Shape req = it_Name it \<and>
    (\<exists>o' \<in> set (it_Offerings it). off_Available o' \<and> offering_zone K o' = zone) \<and>
    req_Has K (reqs_Get K (claim_reqs K claim) LabelTopologyZone) zone \<and>
    lr_AvailabilityDomain req \<in> set (AvailableDomains opts) \<and> str_contains (lr_AvailabilityDomain req) zone \<and>
    lr_SubnetId req = sn_Id sn \<and> q_Value K (rl_Pods K (nc_Requests claim)) \<le> cnt \<and>
    (\<exists>i \<in> set (st_Images (cl_Status nc)). lr_ImageId req = si_Id i \<and>
       reqs_Compatible K (it_Requirements it) (reqs_OfSelectors K (si_Requirements i))) \<and>
    lr_NsgIds req = map ssg_Id (st_SecurityGroups (cl_Status nc)) \<and> lr_DefinedTags req = getTags opts nc claim \<and>
    flex_config K it = Ret (lr_ShapeConfig req)"
proof -
  obtain ad t ts where b: "q_Value K (rl_Pods K (nc_Requests claim)) \<le> cnt"
      "pickBestInstanceType K (ie_Shuffle E) claim its = Ret (Some it, zone)"
      "List.find (\<lambda>d. str_contains d zone) (AvailableDomains opts) = Some ad" "lr_AvailabilityDomain req = ad"
    and t: "CreateLaunchTemplate K (ie_Template E) opts nc claim it = Ret (t # ts)"
    and r: "lr_ImageId req = lt_ImageId t" "lr_Shape req = it_Name it" "lr_SubnetId req = sn_Id sn"
      "lr_NsgIds req = map ssg_Id (st_SecurityGroups (cl_Status nc))" "lr_DefinedTags req = getTags opts nc claim"
      "flex_config K it = Ret (lr_ShapeConfig req)"
    using build_request_inv [OF assms(1)] by metis
  have "\<exists>i \<in> set (st_Images (cl_Status nc)). lt_ImageId t = si_Id i \<and>
      reqs_Compatible K (it_Requirements it) (reqs_OfSelectors K (si_Requirements i))"
    by (rule template_image [OF t])
  with pickBest_spec [OF b(2) assms(2-4)] find_Some_D [OF b(3)] b(1,4) r show ?thesis by auto
qed


text \<open>C8. When the service refuses a launch for lack of capacity (status 500 with "Out of host capacity") or because of a service limit
  (status 400), the caller gets an insufficient-capacity error and the on-demand offering of the instance type in the
  zone is unavailable until the time to live has passed.  No other offering is affected: in particular not the
  preemptible one, even when the refused request was for a preemptible instance.  Every other error is passed on and
  changes no offering.\<close>

theorem Create_capacity_spec:
  assumes "go_cache (ie_Unavailable E) ttl"
    and "FindLeastUtilizedSubnet E opts nc now (is_Subnets st) = (c', Ret (sn, cnt))"
    and "build_request K E opts nc claim its sn cnt = Ret (req, it, zone)"
    and "cmp_LaunchInstance (ie_Compute E) req = Err (ServiceError status code msg)" and "CHR '':'' \<notin> set (it_Name it)"
  shows "if status = 500 \<and> str_contains msg ''Out of host capacity'' \<or> status = 400 \<and> str_contains msg ''service limits were exceeded''
    then \<exists>st'. Create_instance K E opts nc claim its now st =
           (st', Err (InsufficientCapacityError (Errorf (''InsufficientCapacityError: '' @ msg)))) \<and>
         (\<forall>t. now \<le> t \<and> t < now + ttl \<longrightarrow> IsUnavailable (ie_Unavailable E) t (is_Offerings st') (it_Name it) zone CapacityTypeOnDemand) \<and>
         (\<forall>t. now + ttl < t \<longrightarrow> \<not> IsUnavailable (ie_Unavailable E) t (is_Offerings st') (it_Name it) zone CapacityTypeOnDemand) \<and>
         (\<forall>t i z c. offering_ok (i, z, c) \<and> (i, z, c) \<noteq> (it_Name it, zone, CapacityTypeOnDemand) \<longrightarrow>
            IsUnavailable (ie_Unavailable E) t (is_Offerings st') i z c = IsUnavailable (ie_Unavailable E) t (is_Offerings st) i z c) \<and>
         (\<forall>t. IsUnavailable (ie_Unavailable E) t (is_Offerings st') (it_Name it) zone CapacityTypePreemptible =
            IsUnavailable (ie_Unavailable E) t (is_Offerings st) (it_Name it) zone CapacityTypePreemptible)
    else Create_instance K E opts nc claim its now st = (st\<lparr>is_Subnets := c'\<rparr>, Err (ServiceError status code msg))"
proof -
  note st = go_cache_offering_store [OF assms(1)]
  note laws = offering_store.mark_live [OF st] offering_store.mark_expired [OF st] offering_store.mark_other [OF st]
  let ?x = "(it_Name it, zone, CapacityTypeOnDemand)" and ?y = "(it_Name it, zone, CapacityTypePreemptible)"
  let ?u = "uo_mark (ie_Unavailable E) now (is_Offerings st) ?x"
  have ok: "offering_ok ?x" "offering_ok ?y" "?y \<noteq> ?x"
    using assms(5) by (simp_all add: offering_ok_def CapacityTypeOnDemand_def CapacityTypePreemptible_def)
  have un: "IsUnavailable (ie_Unavailable E) t u i z c = uo_unavailable (ie_Unavailable E) t u (i, z, c)" for t u i z c
    by (simp add: uo_unavailable_def)
  show ?thesis
  proof (cases "status = 500 \<and> str_contains msg ''Out of host capacity'' \<or> status = 400 \<and> str_contains msg ''service limits were exceeded''")
    case True
    then have "Create_instance K E opts nc claim its now st = (st\<lparr>is_Subnets := c', is_Offerings := ?u\<rparr>,
        Err (InsufficientCapacityError (Errorf (''InsufficientCapacityError: '' @ msg))))"
      by (simp add: Create_instance_sent [OF assms(2,3)] assms(4) Let_def)
    with True laws ok show ?thesis by (simp add: un) blast
  next
    case False
    then have "capacity_error (ServiceError status code msg) = None" by auto
    with False show ?thesis by (simp add: Create_instance_sent [OF assms(2,3)] assms(4) Let_def del: capacity_error.simps)
  qed
qed

lemma page_loop_all:
  assumes "page_loop n call t acc = Some (Ret xs)" and "\<forall>x \<in> set acc. P x" and "\<And>t ys t'. call t = Ret (ys, t') \<Longrightarrow> \<forall>y \<in> set ys. P y"
  shows "\<forall>x \<in> set xs. P x"
  using assms(1,2)
proof (induction n arbitrary: t acc)
  case (Suc n)
  show ?case
  proof (cases "t = ''''")
    case False
    then obtain ys t' where c: "call (if t = ''0'' then '''' else t) = Ret (ys, t')" using Suc.prems(1) by (auto split: outcome.splits)
    then have "page_loop n call (from_ptr '''' t') (acc @ ys) = Some (Ret xs)" using Suc.prems(1) False by simp
    from Suc.IH [OF this] show ?thesis using Suc.prems(2) assms(3) [OF c] by auto
  qed (use Suc.prems in simp)
qed (auto split: if_splits)

lemma List_instances_managed:
  "List_instances n M opts = Some (Ret insts) \<Longrightarrow> i \<in> set insts \<Longrightarrow> managed_tag opts i = Some (ClusterName opts)"
  using page_loop_all [of n _ _ "[]" insts "\<lambda>i. managed_tag opts i = Some (ClusterName opts)"]
  by (fastforce simp: List_instances_def list_pages_def obind_eq_Ret_iff)

text \<open>C19. Listing returns, for a service that has finitely many pages, the instances of all pages that the cluster manages.  An instance that
  carries the tags of a launch is among them for the cluster that launched it and for no cluster of another name, provided
  the user's tags do not set the owner's key in karpenter's namespace.\<close>

theorem List_instances_spec:
  assumes "serves (cmp_ListInstances M (CompartmentId opts)) '''' ps final" and "length ps < n"
    and "i \<in> set (concat (map fst ps) @ final)" and "in_DefinedTags i = getTags opts' nc claim" and "TagNamespace opts' = TagNamespace opts"
    and "gomap_wf (DefinedTags (cl_Spec nc))" and "map_of (DefinedTags (cl_Spec nc)) (TagNamespace opts) = None"
  shows "\<exists>is. List_instances n M opts = Some (Ret is) \<and>
    is = filter (\<lambda>i. managed_tag opts i = Some (ClusterName opts)) (concat (map fst ps) @ final) \<and>
    (i \<in> set is \<longleftrightarrow> ClusterName opts' = ClusterName opts)"
proof -
  let ?p = "\<lambda>i. managed_tag opts i = Some (ClusterName opts)"
  have "List_instances n M opts = Some (Ret (concat (map fst (map (\<lambda>(xs, t'). (filter ?p xs, t')) ps)) @ filter ?p final))"
    unfolding List_instances_def by (intro list_pages_serves serves_filter assms(1)) (simp add: assms(2))
  moreover have "concat (map fst (map (\<lambda>(xs, t'). (filter ?p xs, t')) ps)) = filter ?p (concat (map fst ps))"
    by (simp add: filter_concat comp_def case_prod_beta)
  moreover have "managed_tag opts i = Some (ClusterName opts')"
    using managed_tag_value [OF assms(6,4)] assms(5,7) by (simp add: managed_tag_def removeExcludingChars_def)
  ultimately show ?thesis using assms(3) by auto
qed


section \<open>Examples\<close>

definition sample_env :: "(string \<rightharpoonup> oci_subnet list \<times> int, string \<rightharpoonup> unit \<times> int) inst_env" where
  "sample_env = \<lparr>ie_Net = sample_net,
     ie_Compute = \<lparr>cmp_LaunchInstance = (\<lambda>_. Err (ServiceError 500 ''InternalError'' ''Out of host capacity.'')),
       cmp_TerminateInstance = (\<lambda>_. (Some 200, Ret ())), cmp_GetInstance = (\<lambda>_. Err (ServiceError 404 ''NotFound'' '''')),
       cmp_ListInstances = (\<lambda>_ _. Ret ([], None)), cmp_ListVnicAttachments = (\<lambda>_ _. Ret []), cmp_UpdateInstance = (\<lambda>_ _. (Some 200, Ret ()))\<rparr>,
     ie_SubnetCache = ttl_cache DefaultTTL, ie_Unavailable = ttl_cache UnavailableOfferingsTTL, ie_Hash = (\<lambda>_. Ret 7), ie_Order = (id, id),
     ie_Template = \<lparr>ltp_CABundle = None, ltp_ClusterEndpoint = ''https://10.0.0.1:6443'', ltp_BootstrapToken = ''t''\<rparr>,
     ie_Script = \<lparr>se_mime = sample_mime, se_parse_url = (\<lambda>_. None), se_taint_ToString = (\<lambda>_. ''''), se_boundaries = (''r1'', ''r2''),
       se_shared = staticNodeBootstrapVars\<rparr>,
     ie_Enums = \<lparr>em_BootVolumeType = id, em_Firmware = id, em_NetworkType = id, em_RemoteDataVolumeType = id\<rparr>, ie_Shuffle = rev\<rparr>"

definition sample_opts :: options where
  "sample_opts = zero_options\<lparr>ClusterName := ''prod'', TagNamespace := ''karpenter'', AvailableDomains := [''x:IAD-AD-1'']\<rparr>"

definition launch_class :: ociNodeClass where
  "launch_class = sample_class\<lparr>cl_Spec := sample_spec\<lparr>ImageFamily_name := CustomImageFamily\<rparr>,
     cl_Status := (cl_Status sample_class)\<lparr>st_Images := [\<lparr>si_Id = ''i1'', si_Name = ''OL8'', si_CompartmentId = '''', si_Requirements = []\<rparr>]\<rparr>\<rparr>"

definition sample_claim :: "int nodeClaim" where
  "sample_claim = \<lparr>nc_Name = ''claim-1'', nc_UID = ''u2'', nc_Labels = [(NodePoolLabelKey, ''pool'')], nc_Annotations = [], nc_CreationTimestamp = 0,
     nc_DeletionTimestamp = None, nc_NodeClassRef = Some ''default'', nc_Requirements = [\<lparr>nsr_Key = CapacityTypeLabelKey, nsr_Operator = OpIn,
       nsr_Values = [CapacityTypePreemptible]\<rparr>], nc_Requests = [(''pods'', 3000)], nc_Taints = [], nc_StartupTaints = [], nc_ProviderID = '''',
     nc_ImageID = '''', nc_NodeName = '''', nc_Capacity = [], nc_Allocatable = [], nc_Conditions = []\<rparr>"

definition sample_type :: "(ref_req, int) instanceType" where
  "sample_type = \<lparr>it_Name = ''VM.Standard2.1'', it_Requirements = [(LabelIsFlexible, (LabelIsFlexible, False, [''false'']))],
     it_Offerings = [\<lparr>off_Requirements = [(LabelTopologyZone, (LabelTopologyZone, False, [''AD-1'']))], off_Price = Fin 1, off_Available = True\<rparr>],
     it_Capacity = [(''pods'', 110000)], it_KubeReserved = [], it_SystemReserved = [], it_EvictionThreshold = []\<rparr>"

definition sample_state :: "(string \<rightharpoonup> oci_subnet list \<times> int, string \<rightharpoonup> unit \<times> int) inst_state" where
  "sample_state = \<lparr>is_Subnets = Map.empty, is_Offerings = \<lparr>uo_cache = Map.empty, SeqNum = 0\<rparr>\<rparr>"

lemmas sample_defs = sample_env_def sample_opts_def launch_class_def sample_claim_def sample_type_def sample_class_def sample_spec_def
  zero_options_def

lemma sample_request:
  "\<exists>req. build_request ref_ops sample_env sample_opts launch_class sample_claim [sample_type] sample_subnet 128 = Ret (req, sample_type, ''AD-1'') \<and>
     lr_Preemptible req"
  by (simp add: build_request_def sample_defs ref_ops_def ref_value_def pickBestInstanceType_def Let_def claim_reqs_def ref_add_def ref_add1_def
      ref_new_def ref_get_def ref_has_def offering_zone_def label_defs CreateLaunchTemplate_def createImageOptions_def Resolve_def MapToInstanceTypes_def
      ref_compatible_def resolveLaunchTemplate_def GetImageFamily_def OracleOKELinuxImageFamily_def Ubuntu2204ImageFamily_def CustomImageFamily_def
      flex_config_def Script_Custom_def)

theorem build_request_spec_witness:
  "\<exists>req. build_request ref_ops sample_env sample_opts launch_class sample_claim [sample_type] sample_subnet 128 = Ret (req, sample_type, ''AD-1'') \<and>
     lr_AvailabilityDomain req = ''x:IAD-AD-1'' \<and> lr_ImageId req = ''i1''"
proof -
  obtain req where r: "build_request ref_ops sample_env sample_opts launch_class sample_claim [sample_type] sample_subnet 128 = Ret (req, sample_type, ''AD-1'')"
    using sample_request by blast
  moreover have "mset (ie_Shuffle sample_env zs) = mset zs" for zs by (simp add: sample_env_def)
  ultimately show ?thesis
    using build_request_spec [OF r ref_order_law ref_offerings_law] by (simp add: sample_opts_def launch_class_def)
qed

lemma sample_count: "GetSubnetAvailableIPv4Count sample_net sample_subnet = Ret 128"
  by code_simp

lemma sample_subnets:
  "\<exists>c'. List_subnets (ie_SubnetCache sample_env) (ie_Net sample_env) (ie_Hash sample_env) (ie_Order sample_env) sample_opts launch_class 0 Map.empty =
     (c', Ret [sample_subnet])"
  by (simp add: List_subnets_def cached_list_def fetch_subnets_def subnet_term_def sample_defs sample_net_def ttl_cache_def ttl_get_def subnet_id_def)

theorem FindLeastUtilizedSubnet_spec_witness:
  "\<exists>c'. FindLeastUtilizedSubnet sample_env sample_opts launch_class 0 Map.empty = (c', Ret (sample_subnet, 128))"
proof -
  obtain c' where "List_subnets (ie_SubnetCache sample_env) (ie_Net sample_env) (ie_Hash sample_env) (ie_Order sample_env) sample_opts launch_class 0
      Map.empty = (c', Ret [sample_subnet])" using sample_subnets by blast
  from FindLeastUtilizedSubnet_spec [OF this, of "\<lambda>_. 128"] show ?thesis by (simp add: sample_count sample_env_def)
qed

theorem Create_capacity_spec_witness:
  "\<exists>st'. Create_instance ref_ops sample_env sample_opts launch_class sample_claim [sample_type] 0
      sample_state =
      (st', Err (InsufficientCapacityError (Errorf ''InsufficientCapacityError: Out of host capacity.''))) \<and>
    IsUnavailable (ie_Unavailable sample_env) 1 (is_Offerings st') ''VM.Standard2.1'' ''AD-1'' CapacityTypeOnDemand \<and>
    \<not> IsUnavailable (ie_Unavailable sample_env) 1 (is_Offerings st') ''VM.Standard2.1'' ''AD-1'' CapacityTypePreemptible"
proof -
  obtain c' where f: "FindLeastUtilizedSubnet sample_env sample_opts launch_class 0
      (is_Subnets sample_state) = (c', Ret (sample_subnet, 128))"
    using sample_subnets by (auto simp: FindLeastUtilizedSubnet_def sample_count sample_env_def sample_state_def)
  obtain req where r: "build_request ref_ops sample_env sample_opts launch_class sample_claim [sample_type] sample_subnet 128 = Ret (req, sample_type, ''AD-1'')"
    using sample_request by blast
  have g: "go_cache (ie_Unavailable sample_env) UnavailableOfferingsTTL" using ttl_uo.go_cache_axioms by (simp add: sample_env_def)
  have l: "cmp_LaunchInstance (ie_Compute sample_env) req = Err (ServiceError 500 ''InternalError'' ''Out of host capacity.'')"
    by (simp add: sample_env_def)
  have c: "CHR '':'' \<notin> set (it_Name sample_type)" by (simp add: sample_type_def)
  have m: "str_contains ''Out of host capacity.'' ''Out of host capacity''" by code_simp
  show ?thesis
    using Create_capacity_spec [OF g f r l c, simplified m] 
    by (auto simp: sample_type_def UnavailableOfferingsTTL_def IsUnavailable_def sample_env_def sample_state_def ttl_cache_def ttl_get_def)
qed

theorem List_instances_spec_witness:
  "\<exists>i. List_instances 1 ((ie_Compute sample_env)\<lparr>cmp_ListInstances := (\<lambda>_ _. Ret ([i], None))\<rparr>) sample_opts = Some (Ret [i])"
proof -
  let ?i = "\<lparr>in_Id = Some ''n1'', in_Shape = None, in_AvailabilityDomain = None, in_ImageId = None, in_SourceImageId = None, in_TimeCreated = None,
    in_LifecycleState = LcRunning, in_DefinedTags = getTags sample_opts launch_class sample_claim, in_FreeformTags = [], in_Preemptible = False\<rparr>"
  let ?M = "(ie_Compute sample_env)\<lparr>cmp_ListInstances := (\<lambda>_ _. Ret ([?i], None))\<rparr>"
  have "\<exists>is. List_instances 1 ?M sample_opts = Some (Ret is) \<and>
      is = filter (\<lambda>i. managed_tag sample_opts i = Some (ClusterName sample_opts)) (concat (map fst ([] :: (oci_instance list \<times> string) list)) @ [?i]) \<and>
      (?i \<in> set is \<longleftrightarrow> ClusterName sample_opts = ClusterName sample_opts)"
    by (rule List_instances_spec [where nc = launch_class and claim = sample_claim and opts' = sample_opts]) (simp_all add: sample_defs gomap_wf_def)
  then have "List_instances 1 ?M sample_opts = Some (Ret [?i])" by (auto split: if_splits)
  then show ?thesis by blast
qed

end
