(* ===== verification/CloudProvider.thy ===== *)
theory CloudProvider
  imports Instance Errors
begin

text \<open>
  \<open>pkg/cloudprovider\<close>: karpenter's cloud-provider interface over the providers.  The objects of the Kubernetes API that it reads
  are parameters; the state is that of the instance provider, the cache of the shapes, and the events published.
\<close>

section \<open>Environment and state\<close>

record ('r, 'q, 'c, 'u, 't) cp_env =
  ce_K :: "('r, 'q) karp_ops"
  ce_Inst :: "('c, 'u) inst_env"
  ce_TypeCache :: "('t, (string, wrapShape) gomap) cache_ops"
  ce_Fuel :: nat
  ce_ListShapes :: "string \<Rightarrow> string \<Rightarrow> shape page outcome"
  ce_DomainOrder :: "(string, wrapShape list) gomap \<Rightarrow> (string, wrapShape list) gomap"
  ce_ShapeOrder :: "(string, wrapShape) gomap \<Rightarrow> (string, wrapShape) gomap"
  ce_ZoneOrder :: "string list \<Rightarrow> string list"
  ce_Sprint :: "gofloat \<Rightarrow> string"
  ce_Price :: "wrapShape \<Rightarrow> gofloat outcome"
  ce_Region :: string
  ce_Opts :: options
  ce_Now :: int
  ce_Conds :: cond_ops
  ce_Hash :: "ociNodeClassSpec \<Rightarrow> nat option"
  ce_NodePool :: "string \<Rightarrow> nodePool outcome"
  ce_NodeClass :: "string \<Rightarrow> ociNodeClass outcome"
  ce_Unwrap :: bool

record ('c, 'u, 't) cp_state =
  cs_Inst :: "('c, 'u) inst_state"
  cs_Types :: 't
  cs_Events :: "event list"

definition publish :: "event \<Rightarrow> (('c, 'u, 't) cp_state, unit) go" where
  "publish ev = gmodify (\<lambda>s. s\<lparr>cs_Events := cs_Events s @ [ev]\<rparr>)"

definition NodePoolFailedToResolveNodeClass :: "nodePool \<Rightarrow> event" where
  "NodePoolFailedToResolveNodeClass np = \<lparr>ev_Object = np_Name np, ev_Type = ''Warning'', ev_Reason = '''',
     ev_Message = ''Failed resolving OciNodeClass'', ev_DedupeValues = [np_UID np]\<rparr>"

definition NodeClaimFailedToResolveNodeClass :: "'q nodeClaim \<Rightarrow> event" where
  "NodeClaimFailedToResolveNodeClass claim = \<lparr>ev_Object = nc_Name claim, ev_Type = ''Warning'', ev_Reason = '''',
     ev_Message = ''Failed resolving OciNodeClass'', ev_DedupeValues = [nc_UID claim]\<rparr>"

section \<open>Node classes, node pools and instance types\<close>

record repairPolicy =
  rp_ConditionType :: string
  rp_ConditionStatus :: condition_status
  rp_TolerationDuration :: int

definition RepairPolicies :: "repairPolicy list" where
  "RepairPolicies =
     [\<lparr>rp_ConditionType = ''Ready'', rp_ConditionStatus = CondFalse, rp_TolerationDuration = 30 * minute_ns\<rparr>,
      \<lparr>rp_ConditionType = ''Ready'', rp_ConditionStatus = CondUnknown, rp_TolerationDuration = 30 * minute_ns\<rparr>]"

definition Name_provider :: string where
  "Name_provider = ''oracle''"

text \<open>The names of Kubernetes objects need no escaping between quotes.\<close>

definition newTerminatingNodeClassError :: "string \<Rightarrow> goerr" where
  "newTerminatingNodeClassError name = StatusError ReasonNotFound
     (''ocinodeclasses.'' @ Group @ '' '' @ [CHR 0x22] @ name @ [CHR 0x22] @ '' is terminating, treating as not found'')"

definition live_class :: "ociNodeClass \<Rightarrow> ociNodeClass outcome" where
  "live_class nc = (if cl_DeletionTimestamp nc \<noteq> None then Err (newTerminatingNodeClassError (cl_Name nc)) else Ret nc)"

definition resolveNodeClassFromNodeClaim :: "('r, 'q, 'c, 'u, 't) cp_env \<Rightarrow> 'q nodeClaim \<Rightarrow> ociNodeClass outcome" where
  "resolveNodeClassFromNodeClaim E claim = obind (deref (nc_NodeClassRef claim)) (\<lambda>name. obind (ce_NodeClass E name) live_class)"

definition resolveNodeClassFromNodePool :: "('r, 'q, 'c, 'u, 't) cp_env \<Rightarrow> nodePool \<Rightarrow> ociNodeClass outcome" where
  "resolveNodeClassFromNodePool E np = obind (deref (np_NodeClassRef np)) (\<lambda>name. obind (ce_NodeClass E name) live_class)"

text \<open>\<open>instanceTypeProvider.List\<close> with the state of the caches.\<close>

definition types_of :: "('r, 'q, 'c, 'u, 't) cp_env \<Rightarrow> ociNodeClass \<Rightarrow> (('c, 'u, 't) cp_state, ('r, 'q) instanceType list) go" where
  "types_of E nc = (\<lambda>s.
     case List_types (ce_K E) (ce_Sprint E) (ce_TypeCache E) (ce_Fuel E) (ce_ListShapes E) (ce_DomainOrder E) (ce_ShapeOrder E) (ce_ZoneOrder E)
         (\<lambda>i z c. IsUnavailable (ie_Unavailable (ce_Inst E)) (ce_Now E) (is_Offerings (cs_Inst s)) i z c) (ce_Price E) (ce_Opts E) (ce_Region E)
         nc (ce_Now E) (cs_Types s) of
       None \<Rightarrow> None
     | Some (t, r) \<Rightarrow> Some (s\<lparr>cs_Types := t\<rparr>, r))"

definition type_serves :: "('r, 'q) karp_ops \<Rightarrow> 'q nodeClaim \<Rightarrow> ('r, 'q) instanceType \<Rightarrow> bool" where
  "type_serves K claim it \<longleftrightarrow>
     reqs_Compatible K (claim_reqs K claim) (it_Requirements it) \<and>
     offs_Available K (offs_Compatible K (it_Offerings it) (claim_reqs K claim)) \<noteq> [] \<and>
     res_Fits K (nc_Requests claim) (it_Allocatable K it)"

definition resolveInstanceTypes ::
  "('r, 'q, 'c, 'u, 't) cp_env \<Rightarrow> 'q nodeClaim \<Rightarrow> ociNodeClass \<Rightarrow> (('c, 'u, 't) cp_state, ('r, 'q) instanceType list) go" where
  "resolveInstanceTypes E claim nc =
     gbind (gwrap ''getting instance types'' (types_of E nc)) (\<lambda>its. gret (filter (type_serves (ce_K E) claim) its))"

definition emptyNodeClass :: ociNodeClass where
  "emptyNodeClass = \<lparr>cl_Name = '''', cl_UID = '''', cl_Annotations = [], cl_Finalizers = [], cl_DeletionTimestamp = None,
     cl_Spec = \<lparr>VcnId = '''', ImageSelector = [], SubnetSelector = [], SecurityGroupSelector = [], UserData = None, PreInstallScript = None,
       MetaData = [], ImageFamily_name = '''', Tags = [], DefinedTags = [], FreeFormTags = [], Kubelet = None, BootConfig = None,
       LaunchOptions_ptr = None, BlockDevices = [], AgentList = []\<rparr>,
     cl_Status = \<lparr>st_Subnets = [], st_Images = [], st_SecurityGroups = [], st_Conditions = []\<rparr>\<rparr>"

definition GetInstanceTypes ::
  "('r, 'q, 'c, 'u, 't) cp_env \<Rightarrow> nodePool option \<Rightarrow> (('c, 'u, 't) cp_state, ('r, 'q) instanceType list) go" where
  "GetInstanceTypes E np_ptr =
     (case np_ptr of
        None \<Rightarrow> types_of E emptyNodeClass
      | Some np \<Rightarrow>
          (case resolveNodeClassFromNodePool E np of
             Panic s \<Rightarrow> glift (Panic s)
           | Err e \<Rightarrow> gbind (if IsNotFound (ce_Unwrap E) e then publish (NodePoolFailedToResolveNodeClass np) else gret ())
               (\<lambda>_. glift (Err (InsufficientCapacityError (Wrapf ''resolving node class'' e))))
           | Ret nc \<Rightarrow> gbind (types_of E nc) (\<lambda>its.
               if its = [] then glift (Err (InsufficientCapacityError (Errorf ''all requested instance types were unavailable during launch'')))
               else gret its)))"

section \<open>Node claims of instances\<close>

definition karp_tag :: "options \<Rightarrow> oci_instance \<Rightarrow> string \<Rightarrow> string option" where
  "karp_tag opts i key = map_of (from_ptr [] (map_of (in_DefinedTags i) (TagNamespace opts))) (SafeTagKey key)"

definition zone_of_domain :: "string \<Rightarrow> string" where
  "zone_of_domain ad = (let splitAd = split_str ad '':'' in if length splitAd = 2 then splitAd ! 1 else splitAd ! 0)"

text \<open>The labels that the single-valued requirements of the instance type give.\<close>

definition type_labels :: "('r, 'q) karp_ops \<Rightarrow> ('r, 'q) instanceType option \<Rightarrow> labels outcome" where
  "type_labels K it_ptr =
     (case it_ptr of None \<Rightarrow> Ret []
      | Some it \<Rightarrow> omapM (\<lambda>(key, req). case req_Values K req of [] \<Rightarrow> Panic ''index out of range'' | v # _ \<Rightarrow> Ret (key, v))
          (filter (\<lambda>(key, req). req_Len K req = 1) (it_Requirements it)))"

definition instance_labels :: "options \<Rightarrow> oci_instance \<Rightarrow> labels \<Rightarrow> labels" where
  "instance_labels opts i ls =
     (let zoned = AList.update LabelTopologyZone (zone_of_domain (from_ptr '''' (in_AvailabilityDomain i))) ls;
          typed = AList.update CapacityTypeLabelKey (if in_Preemptible i then CapacityTypePreemptible else CapacityTypeOnDemand) zoned
      in case karp_tag opts i NodePoolLabelKey of None \<Rightarrow> typed | Some v \<Rightarrow> AList.update NodePoolLabelKey v typed)"

definition terminating :: "oci_instance \<Rightarrow> bool" where
  "terminating i \<longleftrightarrow> in_LifecycleState i = LcTerminating \<or> in_LifecycleState i = LcTerminated"

definition instanceToNodeClaim ::
  "('r, 'q, 'c, 'u, 't) cp_env \<Rightarrow> oci_instance \<Rightarrow> ('r, 'q) instanceType option \<Rightarrow> 'q nodeClaim outcome" where
  "instanceToNodeClaim E i it_ptr =
     (let nonzero = (\<lambda>m. FilterMap m (\<lambda>_ v. \<not> q_IsZero (ce_K E) v)) in
      obind (type_labels (ce_K E) it_ptr) (\<lambda>ls.
      obind (deref (in_TimeCreated i)) (\<lambda>created.
      obind (deref (in_Id i)) (\<lambda>ident.
      obind (case in_SourceImageId i of None \<Rightarrow> Panic ''interface conversion'' | Some p \<Rightarrow> deref p) (\<lambda>img.
        Ret \<lparr>nc_Name = '''', nc_UID = '''', nc_Labels = instance_labels (ce_Opts E) i ls,
             nc_Annotations = (case karp_tag (ce_Opts E) i ManagedByAnnotationKey of None \<Rightarrow> [] | Some v \<Rightarrow> [(ManagedByAnnotationKey, v)]),
             nc_CreationTimestamp = created, nc_DeletionTimestamp = (if terminating i then Some (ce_Now E) else None),
             nc_NodeClassRef = None, nc_Requirements = [], nc_Requests = [], nc_Taints = [], nc_StartupTaints = [],
             nc_ProviderID = ident, nc_ImageID = img, nc_NodeName = '''',
             nc_Capacity = (case it_ptr of None \<Rightarrow> [] | Some it \<Rightarrow> nonzero (it_Capacity it)),
             nc_Allocatable = (case it_ptr of None \<Rightarrow> [] | Some it \<Rightarrow> nonzero (it_Allocatable (ce_K E) it)), nc_Conditions = []\<rparr>)))))"

definition resolveNodePoolFromInstance :: "('r, 'q, 'c, 'u, 't) cp_env \<Rightarrow> oci_instance \<Rightarrow> nodePool outcome" where
  "resolveNodePoolFromInstance E i =
     (case karp_tag (ce_Opts E) i NodePoolLabelKey of
        Some name \<Rightarrow> ce_NodePool E name
      | None \<Rightarrow> Err (StatusError ReasonNotFound ''nodepools.karpenter.sh not found''))"

text \<open>\<open>lo.Find\<close> by the shape of the instance: the pointer is read once there is a type to compare with.\<close>

definition find_shape :: "('r, 'q) instanceType list \<Rightarrow> oci_instance \<Rightarrow> ('r, 'q) instanceType option outcome" where
  "find_shape its i = (if its = [] then Ret None else obind (deref (in_Shape i)) (\<lambda>n. Ret (List.find (\<lambda>it. it_Name it = n) its)))"

definition resolveInstanceTypeFromInstance ::
  "('r, 'q, 'c, 'u, 't) cp_env \<Rightarrow> oci_instance \<Rightarrow> (('c, 'u, 't) cp_state, ('r, 'q) instanceType option) go" where
  "resolveInstanceTypeFromInstance E i =
     (case resolveNodePoolFromInstance E i of
        Panic s \<Rightarrow> glift (Panic s)
      | Err e \<Rightarrow> glift (IgnoreNotFound (ce_Unwrap E) None (Wrapf ''resolving nodepool'' e))
      | Ret np \<Rightarrow> gcatch (gbind (GetInstanceTypes E (Some np)) (\<lambda>its. glift (find_shape its i)))
          (\<lambda>e. glift (IgnoreNotFound (ce_Unwrap E) None (Wrapf ''resolving nodeclass'' e))))"

section \<open>The interface\<close>

definition Create_instance_go ::
  "('r, 'q, 'c, 'u, 't) cp_env \<Rightarrow> ociNodeClass \<Rightarrow> 'q nodeClaim \<Rightarrow> ('r, 'q) instanceType list \<Rightarrow> (('c, 'u, 't) cp_state, oci_instance) go" where
  "Create_instance_go E nc claim its = (\<lambda>s.
     case Create_instance (ce_K E) (ce_Inst E) (ce_Opts E) nc claim its (ce_Now E) (cs_Inst s) of (st, r) \<Rightarrow> Some (s\<lparr>cs_Inst := st\<rparr>, r))"

text \<open>The part of \<open>Create\<close> after the node class was resolved.\<close>

definition Create_ready :: "('r, 'q, 'c, 'u, 't) cp_env \<Rightarrow> 'q nodeClaim \<Rightarrow> ociNodeClass \<Rightarrow> (('c, 'u, 't) cp_state, 'q nodeClaim) go" where
  "Create_ready E claim nc =
     gbind (gwrap ''resolving instance types'' (resolveInstanceTypes E claim nc)) (\<lambda>its.
       if its = [] then glift (Err (InsufficientCapacityError (Errorf ''all requested instance types were unavailable during launch'')))
       else gbind (Create_instance_go E nc claim its) (\<lambda>i.
         gbind (glift (find_shape its i)) (\<lambda>it_ptr.
         gbind (glift (instanceToNodeClaim E i it_ptr)) (\<lambda>nc'.
         gbind (glift (Hash_nc (ce_Hash E) nc)) (\<lambda>h.
           gret (nc'\<lparr>nc_Annotations := lo_assign (cl_Annotations nc)
             [(AnnotationOciNodeClassHash, h), (AnnotationOciNodeClassHashVersion, OciNodeClassHashVersion)]\<rparr>))))))"

definition Create_claim :: "('r, 'q, 'c, 'u, 't) cp_env \<Rightarrow> 'q nodeClaim \<Rightarrow> (('c, 'u, 't) cp_state, 'q nodeClaim) go" where
  "Create_claim E claim =
     (case resolveNodeClassFromNodeClaim E claim of
        Panic s \<Rightarrow> glift (Panic s)
      | Err e \<Rightarrow> gbind (if IsNotFound (ce_Unwrap E) e then publish (NodeClaimFailedToResolveNodeClass claim) else gret ())
          (\<lambda>_. glift (Err (InsufficientCapacityError (Wrapf ''resolving node class'' e))))
      | Ret nc \<Rightarrow>
          (case nc_GetCondition (ce_Conds E) nc ConditionReady of
             None \<Rightarrow> glift (Panic ''nil pointer dereference'')
           | Some c \<Rightarrow>
               if cond_Status c = CondFalse then glift (Err (NodeClassNotReadyError (Errorf (cond_Message c))))
               else if cond_Status c = CondUnknown
               then glift (Err (Errorf (''resolving NodeClass readiness, NodeClass is in Ready=Unknown, '' @ cond_Message c)))
               else Create_ready E claim nc))"

definition List_claims :: "('r, 'q, 'c, 'u, 't) cp_env \<Rightarrow> (('c, 'u, 't) cp_state, 'q nodeClaim list) go" where
  "List_claims E =
     gbind (gwrap ''listing instances'' (\<lambda>s. map_option (Pair s) (List_instances (ce_Fuel E) (ie_Compute (ce_Inst E)) (ce_Opts E)))) (\<lambda>is.
       gmapM (\<lambda>i. gbind (gwrap ''resolving instance type'' (resolveInstanceTypeFromInstance E i)) (\<lambda>it_ptr.
         glift (instanceToNodeClaim E i it_ptr))) is)"

definition Get_claim :: "('r, 'q, 'c, 'u, 't) cp_env \<Rightarrow> string \<Rightarrow> (('c, 'u, 't) cp_state, 'q nodeClaim) go" where
  "Get_claim E providerID =
     gbind (gwrap ''getting instance'' (glift (Get_instance (ie_Compute (ce_Inst E)) providerID))) (\<lambda>i.
     gbind (gwrap ''resolving instance type'' (resolveInstanceTypeFromInstance E i)) (\<lambda>it_ptr.
       glift (instanceToNodeClaim E i it_ptr)))"

definition Delete_claim :: "('r, 'q, 'c, 'u, 't) cp_env \<Rightarrow> 'q nodeClaim \<Rightarrow> unit outcome" where
  "Delete_claim E claim = Delete_instance (ie_Compute (ce_Inst E)) (nc_ProviderID claim)"

section \<open>Drift\<close>

definition ImageDrift :: string where "ImageDrift = ''ImageDrift''"
definition SubnetDrift :: string where "SubnetDrift = ''SubnetDrift''"
definition SecurityGroupDrift :: string where "SecurityGroupDrift = ''SecurityGroupDrift''"
definition NodeClassDrift :: string where "NodeClassDrift = ''NodeClassDrift''"

definition isImageDrifted ::
  "('r, 'q, 'c, 'u, 't) cp_env \<Rightarrow> 'q nodeClaim \<Rightarrow> nodePool \<Rightarrow> oci_instance \<Rightarrow> ociNodeClass \<Rightarrow> (('c, 'u, 't) cp_state, string) go" where
  "isImageDrifted E claim np i nc =
     gbind (gwrap ''getting instanceTypes'' (GetInstanceTypes E (Some np))) (\<lambda>its. glift (
       let name = mget (nc_Labels claim) LabelInstanceTypeStable in
       case List.find (\<lambda>it. it_Name it = name) its of
         None \<Rightarrow> Err (Errorf (''finding node instance type '' @ [CHR 0x22] @ name @ [CHR 0x22]))
       | Some it \<Rightarrow>
           if st_Images (cl_Status nc) = [] then Err (Errorf ''no image exist given constraints'')
           else obind (deref (in_ImageId i)) (\<lambda>img.
             Ret (if img \<in> set (map fst (MapToInstanceTypes (ce_K E) it (st_Images (cl_Status nc)))) then '''' else ImageDrift))))"

fun subnet_drift_loop :: "statusSubnet list \<Rightarrow> oci_subnet list \<Rightarrow> string outcome" where
  "subnet_drift_loop discovered [] = Ret ''''"
| "subnet_drift_loop discovered (sub # subs) =
     obind (deref (sn_Id sub)) (\<lambda>ident.
       if ident \<in> set (map ss_Id discovered) then subnet_drift_loop discovered subs else Ret SubnetDrift)"

definition isSubnetDrifted :: "oci_subnet list \<Rightarrow> ociNodeClass \<Rightarrow> string outcome" where
  "isSubnetDrifted subnets nc =
     (if st_Subnets (cl_Status nc) = [] then Err (Errorf ''no subnets are discovered'')
      else subnet_drift_loop (st_Subnets (cl_Status nc)) subnets)"

definition areSecurityGroupsDrifted :: "oci_nsg list \<Rightarrow> ociNodeClass \<Rightarrow> string outcome" where
  "areSecurityGroupsDrifted sgs nc =
     (let securityGroupIds = map ssg_Id (st_SecurityGroups (cl_Status nc)) in
      if securityGroupIds = [] then Err (Errorf ''no security groups are present in the status'')
      else obind (omapM (\<lambda>g. deref (sg_Id g)) sgs) (\<lambda>sgsIds.
        Ret (if set securityGroupIds \<noteq> set sgsIds then SecurityGroupDrift else '''')))"

definition isNodeClassDrifted ::
  "('r, 'q, 'c, 'u, 't) cp_env \<Rightarrow> 'q nodeClaim \<Rightarrow> nodePool \<Rightarrow> ociNodeClass \<Rightarrow> (('c, 'u, 't) cp_state, string) go" where
  "isNodeClassDrifted E claim np nc =
     (let M = ie_Compute (ce_Inst E); N = ie_Net (ce_Inst E) in
      gbind (glift (Get_instance M (nc_ProviderID claim))) (\<lambda>i.
      gbind (gwrap ''calculating image drift'' (isImageDrifted E claim np i nc)) (\<lambda>imageDrifted.
      gbind (gwrap ''calculating securitygroup drift'' (glift (GetVnicAttachments M (ce_Opts E) i))) (\<lambda>vnics.
      gbind (gwrap ''calculating securitygroup drift'' (glift (GetSecurityGroups N vnics True))) (\<lambda>sgs.
      gbind (gwrap ''calculating securitygroup drift'' (glift (areSecurityGroupsDrifted sgs nc))) (\<lambda>securitygroupDrifted.
      gbind (gwrap ''calculating subnet drift'' (glift (GetSubnets N vnics True))) (\<lambda>subnets.
      gbind (gwrap ''calculating subnet drift'' (glift (isSubnetDrifted subnets nc))) (\<lambda>subnetDrifted.
        gret (from_ptr '''' (List.find (\<lambda>d. d \<noteq> '''') [imageDrifted, securitygroupDrifted, subnetDrifted]))))))))))"

definition IsDrifted :: "('r, 'q, 'c, 'u, 't) cp_env \<Rightarrow> 'q nodeClaim \<Rightarrow> (('c, 'u, 't) cp_state, string) go" where
  "IsDrifted E claim =
     (case map_of (nc_Labels claim) NodePoolLabelKey of
        None \<Rightarrow> gret ''''
      | Some name \<Rightarrow>
          (case ce_NodePool E name of
             Panic s \<Rightarrow> glift (Panic s)
           | Err e \<Rightarrow> glift (IgnoreNotFound (ce_Unwrap E) '''' e)
           | Ret np \<Rightarrow>
               if np_NodeClassRef np = None then gret ''''
               else (case resolveNodeClassFromNodePool E np of
                  Panic s \<Rightarrow> glift (Panic s)
                | Err e \<Rightarrow> gbind (if IsNotFound (ce_Unwrap E) e then publish (NodePoolFailedToResolveNodeClass np) else gret ())
                    (\<lambda>_. glift (IgnoreNotFound (ce_Unwrap E) '''' (Wrapf ''resolving node class'' e)))
                | Ret nc \<Rightarrow> isNodeClassDrifted E claim np nc)))"

section \<open>Lemmas\<close>

lemma Create_instance_Ret:
  assumes "Create_instance K E opts nc claim its now st = (st', Ret i)"
  obtains c' sn cnt req it zone where "FindLeastUtilizedSubnet E opts nc now (is_Subnets st) = (c', Ret (sn, cnt))"
    "build_request K E opts nc claim its sn cnt = Ret (req, it, zone)" "cmp_LaunchInstance (ie_Compute E) req = Ret i"
    "st' = st\<lparr>is_Subnets := c'\<rparr>"
proof -
  obtain c' r where f: "FindLeastUtilizedSubnet E opts nc now (is_Subnets st) = (c', r)" by (cases "FindLeastUtilizedSubnet E opts nc now (is_Subnets st)")
  obtain sn cnt where r: "r = Ret (sn, cnt)" using assms f by (cases r) (auto simp: Create_instance_def)
  obtain req it zone where b: "build_request K E opts nc claim its sn cnt = Ret (req, it, zone)"
    using assms f r by (cases "build_request K E opts nc claim its sn cnt") (auto simp: Create_instance_def)
  have "cmp_LaunchInstance (ie_Compute E) req = Ret i \<and> st' = st\<lparr>is_Subnets := c'\<rparr>"
    using assms f r b
    by (cases "cmp_LaunchInstance (ie_Compute E) req") (auto simp: Create_instance_def Let_def split: option.splits)
  then show ?thesis using that f r b by blast
qed

lemma instanceToNodeClaim_Ret:
  "instanceToNodeClaim E i it_ptr = Ret c \<Longrightarrow>
     \<exists>ls. type_labels (ce_K E) it_ptr = Ret ls \<and> nc_Labels c = instance_labels (ce_Opts E) i ls \<and> in_Id i = Some (nc_ProviderID c) \<and>
       in_TimeCreated i = Some (nc_CreationTimestamp c) \<and> nc_DeletionTimestamp c = (if terminating i then Some (ce_Now E) else None) \<and>
       nc_Capacity c = (case it_ptr of None \<Rightarrow> [] | Some it \<Rightarrow> FilterMap (it_Capacity it) (\<lambda>_ v. \<not> q_IsZero (ce_K E) v)) \<and>
       nc_Annotations c = (case karp_tag (ce_Opts E) i ManagedByAnnotationKey of None \<Rightarrow> [] | Some v \<Rightarrow> [(ManagedByAnnotationKey, v)]) \<and>
       in_SourceImageId i = Some (Some (nc_ImageID c))"
  by (cases "in_TimeCreated i"; cases "in_Id i"; cases "in_SourceImageId i"; cases "the (in_SourceImageId i)")
    (auto simp: instanceToNodeClaim_def Let_def obind_eq_Ret_iff)

lemma instance_label_value:
  "map_of (instance_labels opts i ls) k =
     (if k = NodePoolLabelKey \<and> karp_tag opts i NodePoolLabelKey \<noteq> None then karp_tag opts i NodePoolLabelKey
      else if k = CapacityTypeLabelKey then Some (if in_Preemptible i then CapacityTypePreemptible else CapacityTypeOnDemand)
      else if k = LabelTopologyZone then Some (zone_of_domain (from_ptr '''' (in_AvailabilityDomain i)))
      else map_of ls k)"
  by (auto simp: instance_labels_def Let_def split: option.split)

lemma zone_of_domain_suffix: "CHR '':'' \<notin> set p \<Longrightarrow> CHR '':'' \<notin> set z \<Longrightarrow> zone_of_domain (p @ '':'' @ z) = z"
  by (simp add: zone_of_domain_def Let_def split_char_step split_char_free)

lemma karp_tag_managed: "karp_tag opts i ManagedByAnnotationKey = managed_tag opts i"
  by (simp add: karp_tag_def managed_tag_def)

text \<open>The tags a launch writes in karpenter's namespace, when the user's tags leave it alone.\<close>

lemma karp_tag_static:
  assumes "gomap_wf (DefinedTags (cl_Spec nc))" and "map_of (DefinedTags (cl_Spec nc)) (TagNamespace opts) = None"
    and "in_DefinedTags i = getTags opts nc claim"
  shows "karp_tag opts i ManagedByAnnotationKey = Some (ClusterName opts)"
    "karp_tag opts i NodePoolLabelKey = Some (mget (nc_Labels claim) NodePoolLabelKey)"
proof -
  have "removeExcludingChars 48 [[]] = []" by (simp add: removeExcludingChars_def)
  then show "karp_tag opts i ManagedByAnnotationKey = Some (ClusterName opts)"
    "karp_tag opts i NodePoolLabelKey = Some (mget (nc_Labels claim) NodePoolLabelKey)"
    unfolding karp_tag_def assms(3) getTags_value [OF assms(1)] assms(2) by (simp_all add: static_tag_value)
qed

lemma types_of_frame: "types_of E nc s = Some (s', r) \<Longrightarrow> cs_Inst s' = cs_Inst s \<and> cs_Events s' = cs_Events s"
  by (auto simp: types_of_def split: option.splits)

lemma resolveNodeClass_live:
  "resolveNodeClassFromNodeClaim E claim = Ret nc \<longleftrightarrow>
     (\<exists>name. nc_NodeClassRef claim = Some name \<and> ce_NodeClass E name = Ret nc \<and> cl_DeletionTimestamp nc = None)"
  by (cases "nc_NodeClassRef claim") (auto simp: resolveNodeClassFromNodeClaim_def obind_eq_Ret_iff live_class_def split: if_splits)

lemma Create_claim_ready:
  assumes "Create_claim E claim s = Some (s', Ret c)"
  obtains nc where "resolveNodeClassFromNodeClaim E claim = Ret nc"
    "cond_is CondTrue (nc_GetCondition (ce_Conds E) nc ConditionReady)" "Create_ready E claim nc s = Some (s', Ret c)"
proof -
  obtain nc where nc: "resolveNodeClassFromNodeClaim E claim = Ret nc"
    using assms by (cases "resolveNodeClassFromNodeClaim E claim") (auto simp: Create_claim_def go_Ret_iff split: if_splits)
  obtain c0 where c0: "nc_GetCondition (ce_Conds E) nc ConditionReady = Some c0"
    using assms nc by (cases "nc_GetCondition (ce_Conds E) nc ConditionReady") (auto simp: Create_claim_def go_Ret_iff)
  have "cond_Status c0 = CondTrue \<and> Create_ready E claim nc s = Some (s', Ret c)"
    using assms nc c0 by (cases "cond_Status c0") (auto simp: Create_claim_def go_Ret_iff)
  then show ?thesis using that nc c0 by (simp add: cond_is_def)
qed

lemma Create_ready_inv:
  assumes "Create_ready E claim nc s = Some (s', Ret c)"
  obtains s1 all its st' i it_ptr c0 h where "types_of E nc s = Some (s1, Ret all)" "its = filter (type_serves (ce_K E) claim) all"
    "Create_instance (ce_K E) (ce_Inst E) (ce_Opts E) nc claim its (ce_Now E) (cs_Inst s1) = (st', Ret i)"
    "find_shape its i = Ret it_ptr" "instanceToNodeClaim E i it_ptr = Ret c0" "Hash_nc (ce_Hash E) nc = Ret h"
    "c = c0\<lparr>nc_Annotations := lo_assign (cl_Annotations nc) [(AnnotationOciNodeClassHash, h), (AnnotationOciNodeClassHashVersion, OciNodeClassHashVersion)]\<rparr>"
  using assms
  by (auto simp: Create_ready_def resolveInstanceTypes_def Create_instance_go_def go_Ret_iff split: if_splits prod.splits)

lemma NewInstanceType_boot: "BootConfig (cl_Spec nc) = None \<Longrightarrow> NewInstanceType K sp opts w nc region zones offs \<noteq> Ret it"
  by (auto simp: NewInstanceType_def Let_def obind_eq_Ret_iff ephemeralStorage_def)

lemma List_types_boot:
  assumes "List_types K sp C n listShapes order shape_order zone_order unavailable price opts region nc now c = Some (c', Ret its)"
    and "BootConfig (cl_Spec nc) = None"
  shows "its = []"
proof -
  obtain ws where "omapM (\<lambda>(_, w). obind (CreateOfferings K unavailable price opts w (zone_order (remdups (ws_AvailableDomains w)))) (\<lambda>offs.
      NewInstanceType K sp opts w nc region (ws_AvailableDomains w) offs)) (shape_order ws) = Ret its"
    using assms(1) by (auto simp: List_types_def split: option.splits outcome.splits)
  then have "list_all2 (\<lambda>x y. False) (shape_order ws) its"
    unfolding omapM_Ret_iff
    by (rule list_all2_mono) (auto simp: obind_eq_Ret_iff NewInstanceType_boot [OF assms(2)])
  then show ?thesis by (cases its; cases "shape_order ws") auto
qed

section \<open>Properties\<close>

text \<open>C2. A node claim that is created is backed by a launched instance: the node class exists, is not being deleted and is ready; the launch
  request is for one of the class's instance types that is compatible with the requirements of the claim, has an available
  compatible offering and has room for the requested resources, in a zone that the claim allows; the claim returned has the
  identifier of the launched instance, its pool's and cluster's tags were sent with the request, and it is annotated with the
  hash of the node class and the hash version.\<close>

theorem Create_claim_spec:
  assumes "Create_claim E claim s = Some (s', Ret c)" and "order_law (ce_K E)" and "offerings_law (ce_K E)"
    and "\<And>zs. mset (ie_Shuffle (ce_Inst E) zs) = mset zs"
  shows "\<exists>nc name req it zone i h s1 all. nc_NodeClassRef claim = Some name \<and> ce_NodeClass E name = Ret nc \<and> cl_DeletionTimestamp nc = None \<and>
    cond_is CondTrue (nc_GetCondition (ce_Conds E) nc ConditionReady) \<and>
    types_of E nc s = Some (s1, Ret all) \<and> it \<in> set all \<and> type_serves (ce_K E) claim it \<and>
    lr_Shape req = it_Name it \<and> req_Has (ce_K E) (reqs_Get (ce_K E) (claim_reqs (ce_K E) claim) LabelTopologyZone) zone \<and>
    str_contains (lr_AvailabilityDomain req) zone \<and> lr_DefinedTags req = getTags (ce_Opts E) nc claim \<and>
    cmp_LaunchInstance (ie_Compute (ce_Inst E)) req = Ret i \<and> in_Id i = Some (nc_ProviderID c) \<and>
    Hash_nc (ce_Hash E) nc = Ret h \<and> map_of (nc_Annotations c) AnnotationOciNodeClassHash = Some h \<and>
    map_of (nc_Annotations c) AnnotationOciNodeClassHashVersion = Some OciNodeClassHashVersion"
proof -
  obtain nc where nc: "resolveNodeClassFromNodeClaim E claim = Ret nc"
      "cond_is CondTrue (nc_GetCondition (ce_Conds E) nc ConditionReady)" "Create_ready E claim nc s = Some (s', Ret c)"
    by (rule Create_claim_ready [OF assms(1)])
  obtain s1 all its st' i it_ptr c0 h where r: "types_of E nc s = Some (s1, Ret all)" "its = filter (type_serves (ce_K E) claim) all"
      "Create_instance (ce_K E) (ce_Inst E) (ce_Opts E) nc claim its (ce_Now E) (cs_Inst s1) = (st', Ret i)"
      "instanceToNodeClaim E i it_ptr = Ret c0" "Hash_nc (ce_Hash E) nc = Ret h"
      "c = c0\<lparr>nc_Annotations := lo_assign (cl_Annotations nc) [(AnnotationOciNodeClassHash, h), (AnnotationOciNodeClassHashVersion, OciNodeClassHashVersion)]\<rparr>"
    by (rule Create_ready_inv [OF nc(3)])
  obtain c' sn cnt req it zone where b: "build_request (ce_K E) (ce_Inst E) (ce_Opts E) nc claim its sn cnt = Ret (req, it, zone)"
      "cmp_LaunchInstance (ie_Compute (ce_Inst E)) req = Ret i"
    by (rule Create_instance_Ret [OF r(3)])
  obtain ad where ad: "lr_Shape req = it_Name it" "lr_DefinedTags req = getTags (ce_Opts E) nc claim"
      "pickBestInstanceType (ce_K E) (ie_Shuffle (ce_Inst E)) claim its = Ret (Some it, zone)"
      "List.find (\<lambda>d. str_contains d zone) (AvailableDomains (ce_Opts E)) = Some ad" "lr_AvailabilityDomain req = ad"
    using build_request_inv [OF b(1)] by metis
  have "gomap_wf [(AnnotationOciNodeClassHash, h), (AnnotationOciNodeClassHashVersion, OciNodeClassHashVersion)]"
    by (simp add: gomap_wf_def label_defs)
  then have "map_of (nc_Annotations c) AnnotationOciNodeClassHash = Some h"
      "map_of (nc_Annotations c) AnnotationOciNodeClassHashVersion = Some OciNodeClassHashVersion"
    by (simp_all add: r(6) map_of_assign label_defs)
  with pickBest_spec [OF ad(3) assms(2-4)] find_Some_D [OF ad(4)] nc(1,2) r b(2) ad(1,2,5) instanceToNodeClaim_Ret [OF r(4)]
  show ?thesis unfolding resolveNodeClass_live by fastforce
qed

text \<open>C20. Nothing is launched for a node class that is being deleted or not ready: a class being deleted is treated as missing, so the claim fails
  with an insufficient-capacity error and a warning event; a class that is not ready, or of unknown readiness, fails without
  an event.  In all three cases neither the offerings nor any cache changes.\<close>

theorem Create_claim_refused:
  assumes "nc_NodeClassRef claim = Some name" and "ce_NodeClass E name = Ret nc"
    and "nc_GetCondition (ce_Conds E) nc ConditionReady = Some c" and "cl_DeletionTimestamp nc \<noteq> None \<or> cond_Status c \<noteq> CondTrue"
  shows "\<exists>e evs. Create_claim E claim s = Some (s\<lparr>cs_Events := cs_Events s @ evs\<rparr>, Err e) \<and>
    (if cl_DeletionTimestamp nc \<noteq> None
     then evs = [NodeClaimFailedToResolveNodeClass claim] \<and>
       e = InsufficientCapacityError (Wrapf ''resolving node class'' (newTerminatingNodeClassError (cl_Name nc)))
     else evs = [] \<and> (e = NodeClassNotReadyError (Errorf (cond_Message c)) \<longleftrightarrow> cond_Status c = CondFalse))"
proof (cases "cl_DeletionTimestamp nc")
  case None
  then have "resolveNodeClassFromNodeClaim E claim = Ret nc" using assms(1,2) by (simp add: resolveNodeClass_live)
  with None assms(3,4) show ?thesis by (cases "cond_Status c") (auto simp: Create_claim_def glift_def)
next
  case (Some t)
  then have "resolveNodeClassFromNodeClaim E claim = Err (newTerminatingNodeClassError (cl_Name nc))"
    using assms(1,2) by (simp add: resolveNodeClassFromNodeClaim_def live_class_def)
  moreover have "IsNotFound (ce_Unwrap E) (newTerminatingNodeClassError (cl_Name nc))"
    by (simp add: IsNotFound_def newTerminatingNodeClassError_def)
  ultimately show ?thesis using Some by (simp add: Create_claim_def publish_def gbind_def gmodify_def glift_def)
qed

text \<open>C17. The node claim of a launched instance gives back what it was launched for: an instance with the tags of the launch, in the domain
  \<open>prefix:zone\<close>, becomes a claim of the same node pool, in that zone, with the capacity type of the instance, managed by the
  launching cluster; it is being deleted exactly when the instance is terminating or terminated.\<close>

theorem instanceToNodeClaim_roundtrip:
  assumes "instanceToNodeClaim E i it_ptr = Ret c" and "in_DefinedTags i = getTags (ce_Opts E) nc claim"
    and "gomap_wf (DefinedTags (cl_Spec nc))" and "map_of (DefinedTags (cl_Spec nc)) (TagNamespace (ce_Opts E)) = None"
    and "map_of (nc_Labels claim) NodePoolLabelKey = Some pool" and "in_AvailabilityDomain i = Some (p @ '':'' @ z)"
    and "CHR '':'' \<notin> set p" and "CHR '':'' \<notin> set z"
  shows "map_of (nc_Labels c) NodePoolLabelKey = Some pool \<and> map_of (nc_Labels c) LabelTopologyZone = Some z \<and>
    map_of (nc_Labels c) CapacityTypeLabelKey = Some (if in_Preemptible i then CapacityTypePreemptible else CapacityTypeOnDemand) \<and>
    map_of (nc_Annotations c) ManagedByAnnotationKey = Some (ClusterName (ce_Opts E)) \<and>
    in_Id i = Some (nc_ProviderID c) \<and> (nc_DeletionTimestamp c \<noteq> None \<longleftrightarrow> terminating i)"
proof -
  note t = karp_tag_static [OF assms(3,4,2)]
  have "LabelTopologyZone \<noteq> NodePoolLabelKey" "LabelTopologyZone \<noteq> CapacityTypeLabelKey" "CapacityTypeLabelKey \<noteq> NodePoolLabelKey"
    by (simp_all add: label_defs)
  then show ?thesis
    using instanceToNodeClaim_Ret [OF assms(1)] zone_of_domain_suffix [OF assms(7,8)] assms(5,6) t
    by (auto simp: instance_label_value mget_def split: if_splits)
qed


lemma List_claims_all2:
  assumes "List_claims E s = Some (s', Ret cs)"
  shows "\<exists>insts. List_instances (ce_Fuel E) (ie_Compute (ce_Inst E)) (ce_Opts E) = Some (Ret insts) \<and>
    list_all2 (\<lambda>i c. in_Id i = Some (nc_ProviderID c) \<and> in_TimeCreated i = Some (nc_CreationTimestamp c) \<and>
      (nc_DeletionTimestamp c \<noteq> None) = terminating i \<and>
      map_of (nc_Annotations c) ManagedByAnnotationKey = managed_tag (ce_Opts E) i) insts cs"
proof -
  let ?f = "\<lambda>i. gbind (gwrap ''resolving instance type'' (resolveInstanceTypeFromInstance E i)) (\<lambda>it_ptr. glift (instanceToNodeClaim E i it_ptr))"
  obtain insts s1 where l: "List_instances (ce_Fuel E) (ie_Compute (ce_Inst E)) (ce_Opts E) = Some (Ret insts)" "gmapM ?f insts s1 = Some (s', Ret cs)"
    using assms by (auto simp: List_claims_def go_Ret_iff)
  from gmapM_Ret_all2 [OF l(2)]
  have "list_all2 (\<lambda>i c. \<exists>it_ptr. instanceToNodeClaim E i it_ptr = Ret c) insts cs"
    by (rule list_all2_mono) (auto simp: go_Ret_iff)
  then have "list_all2 (\<lambda>i c. in_Id i = Some (nc_ProviderID c) \<and> in_TimeCreated i = Some (nc_CreationTimestamp c) \<and>
      (nc_DeletionTimestamp c \<noteq> None) = terminating i \<and>
      map_of (nc_Annotations c) ManagedByAnnotationKey = managed_tag (ce_Opts E) i) insts cs"
    by (rule list_all2_mono)
      (auto dest!: instanceToNodeClaim_Ret simp: karp_tag_managed split: option.splits if_splits)
  with l(1) show ?thesis by blast
qed

text \<open>C18. A list that succeeds has one node claim for every instance the cluster manages, in order, with its identifier, creation time and owner,
  and being deleted exactly when the instance is terminating or terminated.\<close>

theorem List_claims_spec:
  assumes "List_claims E s = Some (s', Ret cs)"
  shows "\<exists>insts. List_instances (ce_Fuel E) (ie_Compute (ce_Inst E)) (ce_Opts E) = Some (Ret insts) \<and>
    list_all2 (\<lambda>i c. in_Id i = Some (nc_ProviderID c) \<and> in_TimeCreated i = Some (nc_CreationTimestamp c) \<and>
      (nc_DeletionTimestamp c \<noteq> None) = terminating i \<and>
      map_of (nc_Annotations c) ManagedByAnnotationKey = managed_tag (ce_Opts E) i) insts cs"
  by (rule List_claims_all2 [OF assms])


text \<open>Without a node pool the instance types are computed for an empty node class, which has no boot volume: the call never returns an
  instance type.\<close>

theorem GetInstanceTypes_without_pool:
  "GetInstanceTypes E None s \<noteq> Some (s', Ret (it # its))"
proof
  assume "GetInstanceTypes E None s = Some (s', Ret (it # its))"
  then have "it # its = []"
    by (auto simp: GetInstanceTypes_def types_of_def emptyNodeClass_def split: option.splits dest!: List_types_boot)
  then show False by simp
qed

text \<open>C12. For a claim whose node pool, node class, instance and network attachments can be read, the reason reported is the first that applies of: the
  instance's image is not the one the class now gives its instance type; the security groups of the primary attachment
  are not, as a set, those of the class; the subnet of the primary attachment is not among those of the class.  When none
  applies the claim has not drifted; the reason for a changed class specification is never reported.\<close>

theorem IsDrifted_spec:
  assumes "map_of (nc_Labels claim) NodePoolLabelKey = Some pool" and "ce_NodePool E pool = Ret np" and "np_NodeClassRef np = Some cname"
    and "ce_NodeClass E cname = Ret nc" and "cl_DeletionTimestamp nc = None"
    and "Get_instance (ie_Compute (ce_Inst E)) (nc_ProviderID claim) = Ret i" and "in_ImageId i = Some img"
    and "GetInstanceTypes E (Some np) s = Some (s1, Ret its)"
    and "List.find (\<lambda>it. it_Name it = mget (nc_Labels claim) LabelInstanceTypeStable) its = Some it"
    and "st_Images (cl_Status nc) \<noteq> []" and "st_Subnets (cl_Status nc) \<noteq> []" and "st_SecurityGroups (cl_Status nc) \<noteq> []"
    and "GetVnicAttachments (ie_Compute (ce_Inst E)) (ce_Opts E) i = Ret vnics"
    and "GetSecurityGroups (ie_Net (ce_Inst E)) vnics True = Ret sgs" and "\<forall>g \<in> set sgs. sg_Id g = Some (gid g)"
    and "GetSubnets (ie_Net (ce_Inst E)) vnics True = Ret [sub]" and "sn_Id sub = Some sid"
  shows "IsDrifted E claim s = Some (s1, Ret (
    if (\<forall>m \<in> set (MapToInstanceTypes (ce_K E) it (st_Images (cl_Status nc))). fst m \<noteq> img) then ImageDrift
    else if gid ` set sgs \<noteq> ssg_Id ` set (st_SecurityGroups (cl_Status nc)) then SecurityGroupDrift
    else if sid \<notin> ss_Id ` set (st_Subnets (cl_Status nc)) then SubnetDrift else ''''))"
proof -
  have "omapM (\<lambda>g. deref (sg_Id g)) sgs = Ret (map gid sgs)" using assms(15) by (intro omapM_Ret_map) simp
  then have sg: "areSecurityGroupsDrifted sgs nc =
      Ret (if gid ` set sgs \<noteq> ssg_Id ` set (st_SecurityGroups (cl_Status nc)) then SecurityGroupDrift else '''')"
    using assms(12) by (auto simp: areSecurityGroupsDrifted_def Let_def)
  have sn: "isSubnetDrifted [sub] nc = Ret (if sid \<notin> ss_Id ` set (st_Subnets (cl_Status nc)) then SubnetDrift else '''')"
    using assms(11,17) by (simp add: isSubnetDrifted_def)
  have im: "isImageDrifted E claim np i nc s = Some (s1, Ret (if (\<forall>m \<in> set (MapToInstanceTypes (ce_K E) it (st_Images (cl_Status nc))). fst m \<noteq> img)
      then ImageDrift else ''''))"
    using assms(7-10) by (auto simp: isImageDrifted_def gbind_def gwrap_def gcatch_def glift_def image_iff)
  have "resolveNodeClassFromNodePool E np = Ret nc" using assms(3-5) by (simp add: resolveNodeClassFromNodePool_def live_class_def)
  then have "IsDrifted E claim s = isNodeClassDrifted E claim np nc s" using assms(1-3) by (simp add: IsDrifted_def)
  also have "\<dots> = Some (s1, Ret (from_ptr '''' (List.find (\<lambda>d. d \<noteq> '''')
      [if (\<forall>m \<in> set (MapToInstanceTypes (ce_K E) it (st_Images (cl_Status nc))). fst m \<noteq> img) then ImageDrift else '''',
       if gid ` set sgs \<noteq> ssg_Id ` set (st_SecurityGroups (cl_Status nc)) then SecurityGroupDrift else '''',
       if sid \<notin> ss_Id ` set (st_Subnets (cl_Status nc)) then SubnetDrift else ''''])))"
    unfolding isNodeClassDrifted_def Let_def
    using assms(6,13,14,16) im sg sn by (simp only: gbind_def gwrap_def gcatch_def glift_def gret_def option.case prod.case outcome.case)
  finally show ?thesis by (simp add: ImageDrift_def SecurityGroupDrift_def SubnetDrift_def)
qed

text \<open>A node class without security groups is allowed, but no drift can be found for it: the check never succeeds.\<close>

theorem IsDrifted_no_groups:
  assumes "map_of (nc_Labels claim) NodePoolLabelKey = Some pool" and "ce_NodePool E pool = Ret np" and "np_NodeClassRef np = Some cname"
    and "ce_NodeClass E cname = Ret nc" and "cl_DeletionTimestamp nc = None" and "st_SecurityGroups (cl_Status nc) = []"
  shows "\<not> (\<exists>s' d. IsDrifted E claim s = Some (s', Ret d))"
proof
  have "resolveNodeClassFromNodePool E np = Ret nc" using assms(3-5) by (simp add: resolveNodeClassFromNodePool_def live_class_def)
  then have e: "IsDrifted E claim s = isNodeClassDrifted E claim np nc s" using assms(1-3) by (simp add: IsDrifted_def)
  assume "\<exists>s' d. IsDrifted E claim s = Some (s', Ret d)"
  then obtain sgs d where "areSecurityGroupsDrifted sgs nc = Ret d"
    unfolding e isNodeClassDrifted_def Let_def go_Ret_iff by blast
  then show False by (simp add: areSecurityGroupsDrifted_def assms(6))
qed
section \<open>Examples\<close>

text \<open>Operations of karpenter core on a single requirement and a single quantity, for an example.\<close>

definition unit_ops :: "(unit, unit) karp_ops" where
  "unit_ops = \<lparr>newRequirement = (\<lambda>_ _ _. ()), reqs_Add = (\<lambda>m rs. m), reqs_Get = (\<lambda>_ _. ()), reqs_Compatible = (\<lambda>_ _. True),
     reqs_OfSelectors = (\<lambda>_. []), reqs_Selectors = (\<lambda>_. []), req_Has = (\<lambda>_ _. True), req_Any = (\<lambda>_. ''AD-1''), req_Values = (\<lambda>_. [''2'']),
     req_Len = (\<lambda>_. 1), req_Insert = (\<lambda>_ _. ()), offs_Available = filter off_Available, offs_Compatible = (\<lambda>os _. os),
     orderByPrice = (\<lambda>its _. its), it_Allocatable = it_Capacity, res_Fits = (\<lambda>_ _. True), res_MaxResources = (\<lambda>_ m. m),
     q_Parse = (\<lambda>_. Some ()), q_Value = (\<lambda>_. 0), q_Sub = (\<lambda>_ _. ()), q_Milli = (\<lambda>_. ()), q_BinarySI = (\<lambda>_. ()), q_AsFloat = (\<lambda>_. Fin 0),
     q_IsZero = (\<lambda>_. False), rl_Pods = (\<lambda>_. ())\<rparr>"

lemma unit_laws: "order_law unit_ops" "offerings_law unit_ops" "mustParse unit_ops t = Ret ()"
  by (simp_all add: order_law_def offerings_law_def mustParse_def unit_ops_def)

definition ready_class :: ociNodeClass where
  "ready_class = launch_class\<lparr>cl_Finalizers := [TerminationFinalizer], cl_Status := (cl_Status launch_class)\<lparr>st_Subnets := [\<lparr>ss_Id = ''s1'', ss_Name = ''nodes'', ss_CidrUtilization = []\<rparr>],
     st_SecurityGroups := [\<lparr>ssg_Id = ''g1'', ssg_Name = ''group''\<rparr>],
     st_Conditions := [\<lparr>cond_Type = ConditionReady, cond_Status = CondTrue, cond_Reason = '''', cond_Message = ''''\<rparr>]\<rparr>\<rparr>"

definition sample_instance :: oci_instance where
  "sample_instance = \<lparr>in_Id = Some ''n1'', in_Shape = Some ''VM.Standard2.1'', in_AvailabilityDomain = Some ''x:AD-1'', in_ImageId = Some ''i1'',
     in_SourceImageId = Some (Some ''i1''), in_TimeCreated = Some 5, in_LifecycleState = LcRunning,
     in_DefinedTags = getTags sample_opts launch_class sample_claim, in_FreeformTags = [], in_Preemptible = False\<rparr>"

definition unit_claim :: "unit nodeClaim" where
  "unit_claim = \<lparr>nc_Name = ''claim-1'', nc_UID = ''u2'', nc_Labels = [(NodePoolLabelKey, ''pool''), (LabelInstanceTypeStable, ''VM.Standard2.1'')],
     nc_Annotations = [], nc_CreationTimestamp = 0,
     nc_DeletionTimestamp = None, nc_NodeClassRef = Some ''default'', nc_Requirements = [], nc_Requests = [], nc_Taints = [], nc_StartupTaints = [],
     nc_ProviderID = ''n1'', nc_ImageID = '''', nc_NodeName = '''', nc_Capacity = [], nc_Allocatable = [], nc_Conditions = []\<rparr>"

text \<open>A size of a shape, and a provider whose shape cache holds the given sizes.\<close>

definition unit_wrap :: "int \<times> int \<Rightarrow> wrapShape" where
  "unit_wrap x = (sample_wrap ''VM.Standard2.1'' (fst x) (snd x))\<lparr>ws_AvailableDomains := [''AD-1''], sh_NetworkingBandwidthInGbps := None,
     sh_MaxVnicAttachments := None\<rparr>"

definition sample_cp :: "(int \<times> int) list \<Rightarrow> (unit, unit, string \<rightharpoonup> oci_subnet list \<times> int, string \<rightharpoonup> unit \<times> int, unit) cp_env" where
  "sample_cp sizes = \<lparr>ce_K = unit_ops, ce_Inst = sample_env\<lparr>ie_Compute := (ie_Compute sample_env)\<lparr>cmp_LaunchInstance := (\<lambda>_. Ret sample_instance),
       cmp_GetInstance := (\<lambda>_. Ret (Some 200, sample_instance)), cmp_ListInstances := (\<lambda>_ _. Ret ([sample_instance], None)),
       cmp_ListVnicAttachments := (\<lambda>_ _. Ret [\<lparr>va_VnicId = Some ''v1'', va_SubnetId = Some ''s1''\<rparr>])\<rparr>, ie_Shuffle := (\<lambda>zs. zs)\<rparr>,
     ce_TypeCache = \<lparr>cache_new = (), cache_get = (\<lambda>_ _ _. Some (map (\<lambda>x. (show_int (fst x), unit_wrap x)) sizes)),
       cache_setDefault = (\<lambda>_ _ _ _. ()), cache_delete = (\<lambda>_ _ _. ((), 0)), cache_flush = (\<lambda>_. ()), cache_expire = (\<lambda>_ _. ((), 0))\<rparr>,
     ce_Fuel = 1, ce_ListShapes = (\<lambda>_ _. Ret ([], None)), ce_DomainOrder = id, ce_ShapeOrder = id, ce_ZoneOrder = id, ce_Sprint = (\<lambda>_. ''100''),
     ce_Price = (\<lambda>_. Ret (Fin 1)), ce_Region = ''iad'', ce_Opts = sample_opts, ce_Now = 0, ce_Conds = simple_conds, ce_Hash = (\<lambda>_. Some 7),
     ce_NodePool = (\<lambda>_. Ret \<lparr>np_Name = ''pool'', np_UID = ''p1'', np_NodeClassRef = Some ''default''\<rparr>), ce_NodeClass = (\<lambda>_. Ret ready_class),
     ce_Unwrap = False\<rparr>"

definition sample_cp_state :: "(string \<rightharpoonup> oci_subnet list \<times> int, string \<rightharpoonup> unit \<times> int, unit) cp_state" where
  "sample_cp_state = \<lparr>cs_Inst = sample_state, cs_Types = (), cs_Events = []\<rparr>"

lemma unit_type:
  assumes "BootConfig (cl_Spec nc) = Some b" and "Kubelet (cl_Spec nc) = None"
  shows "\<exists>it. NewInstanceType unit_ops sp opts (unit_wrap x) nc region zones offs = Ret it \<and> it_Name it = ''VM.Standard2.1'' \<and> it_Offerings it = offs"
  by (simp add: NewInstanceType_def Let_def computeRequirements_def computeCapacity_def cpu_quantity_def gi_quantity_def memory_quantity_def
      ephemeralStorage_def pods_def nvidiaGPUs_def KubeReservedResources_def SystemReservedResources_def EvictionThreshold_def emptyKubelet_def
      unit_laws unit_wrap_def sample_wrap_def assms)

definition unit_offering :: "unit offering" where
  "unit_offering = \<lparr>off_Requirements = [], off_Price = Fin 1, off_Available = True\<rparr>"

lemma unit_offerings:
  "\<exists>os. CreateOfferings unit_ops (\<lambda>i z c. IsUnavailable (ie_Unavailable sample_env) 0 (is_Offerings sample_state) i z c) (\<lambda>_. Ret (Fin 1)) sample_opts
     (unit_wrap x) [''AD-1''] = Ret (unit_offering # os)"
  by (simp add: CreateOfferings_def createOffering_def supportInstanceTypes_def offering_requirements_def newRequirements_def sample_wrap_def unit_wrap_def
      unit_ops_def Let_def CapacityTypeOnDemand_def CapacityTypePreemptible_def IsUnavailable_def sample_env_def sample_state_def ttl_cache_def ttl_get_def
      unit_offering_def)

lemma ready_boot:
  "BootConfig (cl_Spec ready_class) = Some \<lparr>BootVolumeSizeInGBs = 100, BootVolumeVpusPerGB = 10\<rparr>" "Kubelet (cl_Spec ready_class) = None"
  by (simp_all add: ready_class_def launch_class_def sample_class_def sample_spec_def)

definition unit_like :: "(unit, unit) instanceType \<Rightarrow> bool" where
  "unit_like it \<longleftrightarrow> it_Name it = ''VM.Standard2.1'' \<and> (\<exists>os. it_Offerings it = unit_offering # os)"

lemma omapM_ex:
  "(\<And>x. x \<in> set xs \<Longrightarrow> \<exists>y. f x = Ret y \<and> P y) \<Longrightarrow> \<exists>ys. omapM f xs = Ret ys \<and> length ys = length xs \<and> list_all P ys"
proof (induction xs)
  case (Cons x xs)
  obtain y ys where "f x = Ret y" "P y" "omapM f xs = Ret ys" "length ys = length xs" "list_all P ys" using Cons by force
  then show ?case by simp
qed simp

lemma unit_types:
  "\<exists>its. types_of (sample_cp sizes) ready_class sample_cp_state = Some (sample_cp_state, Ret its) \<and> length its = length sizes \<and> list_all unit_like its"
proof -
  let ?f = "\<lambda>(_, w). obind (CreateOfferings unit_ops (\<lambda>i z c. IsUnavailable (ie_Unavailable sample_env) 0 (is_Offerings sample_state) i z c) (\<lambda>_. Ret (Fin 1))
      sample_opts w (remdups (ws_AvailableDomains w))) (\<lambda>offs. NewInstanceType unit_ops (\<lambda>_. ''100'') sample_opts w ready_class ''iad'' (ws_AvailableDomains w) offs)"
  have d: "ws_AvailableDomains (unit_wrap x) = [''AD-1'']" for x by (simp add: unit_wrap_def)
  have e: "\<exists>it. ?f (k, unit_wrap x) = Ret it \<and> unit_like it" for k x
    using unit_offerings [of x] unit_type [OF ready_boot] by (fastforce simp: d unit_like_def)
  have "\<exists>its. omapM ?f (map (\<lambda>x. (show_int (fst x), unit_wrap x)) sizes) = Ret its \<and>
      length its = length (map (\<lambda>x. (show_int (fst x), unit_wrap x)) sizes) \<and> list_all unit_like its"
    by (rule omapM_ex) (use e in auto)
  then obtain its where "omapM ?f (map (\<lambda>x. (show_int (fst x), unit_wrap x)) sizes) = Ret its" "length its = length sizes" "list_all unit_like its"
    by auto
  then show ?thesis by (simp add: types_of_def List_types_def ListInstanceType_def sample_cp_def sample_cp_state_def)
qed

lemma sample_cp_sel:
  "ce_K (sample_cp sizes) = unit_ops" "ce_Opts (sample_cp sizes) = sample_opts" "ce_Now (sample_cp sizes) = 0"
  "ce_Hash (sample_cp sizes) = (\<lambda>_. Some 7)" "cmp_LaunchInstance (ie_Compute (ce_Inst (sample_cp sizes))) req = Ret sample_instance"
  "ce_NodeClass (sample_cp sizes) n = Ret ready_class" "cs_Inst sample_cp_state = sample_state" "ie_Shuffle (ce_Inst (sample_cp sizes)) zs = zs"
  by (simp_all add: sample_cp_def sample_cp_state_def)

lemma unit_request:
  assumes "list_all unit_like (it # its)"
  shows "\<exists>req z. build_request unit_ops (ce_Inst (sample_cp sizes)) sample_opts ready_class unit_claim (it # its) sample_subnet 128 = Ret (req, it, z)"
  using assms
  by (auto simp: unit_like_def build_request_def pickBestInstanceType_def offering_zone_def claim_reqs_def Let_def unit_ops_def sample_cp_def sample_env_def
      sample_opts_def zero_options_def CreateLaunchTemplate_def createImageOptions_def Resolve_def MapToInstanceTypes_def ready_class_def launch_class_def
      sample_class_def sample_spec_def resolveLaunchTemplate_def GetImageFamily_def OracleOKELinuxImageFamily_def Ubuntu2204ImageFamily_def
      CustomImageFamily_def Script_Custom_def flex_config_def getIntValFromRequirements_def unit_offering_def)

lemma unit_node_claim: "\<exists>c. instanceToNodeClaim (sample_cp sizes) sample_instance (Some it) = Ret c"
proof -
  have "type_labels unit_ops (Some it) = Ret (map (\<lambda>(k, r). (k, ''2'')) (it_Requirements it))"
    unfolding type_labels_def by (simp add: unit_ops_def case_prod_beta) (rule omapM_Ret_map, auto)
  then show ?thesis by (simp add: instanceToNodeClaim_def sample_cp_sel Let_def) (simp add: sample_instance_def)
qed

lemma unit_launch:
  assumes "list_all unit_like (it # its)"
  shows "\<exists>st'. Create_instance unit_ops (ce_Inst (sample_cp sizes)) sample_opts ready_class unit_claim (it # its) 0 sample_state = (st', Ret sample_instance)"
proof -
  obtain c' where f: "FindLeastUtilizedSubnet (ce_Inst (sample_cp sizes)) sample_opts ready_class 0 (is_Subnets sample_state) = (c', Ret (sample_subnet, 128))"
    using sample_subnets
    by (auto simp: FindLeastUtilizedSubnet_def sample_count sample_env_def sample_state_def sample_cp_def List_subnets_def ready_class_def fetch_subnets_def)
  obtain req z where b: "build_request unit_ops (ce_Inst (sample_cp sizes)) sample_opts ready_class unit_claim (it # its) sample_subnet 128 = Ret (req, it, z)"
    using unit_request [OF assms] by blast
  show ?thesis by (simp add: Create_instance_sent [OF f b] sample_cp_sel Let_def)
qed

lemma unit_serves: "unit_like it \<Longrightarrow> type_serves unit_ops claim it"
  by (auto simp: type_serves_def unit_ops_def unit_like_def unit_offering_def)

lemma unit_ready:
  assumes "types_of (sample_cp sizes) ready_class sample_cp_state = Some (sample_cp_state, Ret (it # its))" and "list_all unit_like (it # its)"
  shows "\<exists>s' c. Create_ready (sample_cp sizes) unit_claim ready_class sample_cp_state = Some (s', Ret c)"
proof -
  have "filter (type_serves unit_ops unit_claim) (it # its) = it # its" using assms(2) by (auto simp: list_all_iff filter_id_conv intro!: unit_serves)
  then have r: "resolveInstanceTypes (sample_cp sizes) unit_claim ready_class sample_cp_state = Some (sample_cp_state, Ret (it # its))"
    using assms(1) by (simp add: resolveInstanceTypes_def gbind_def gwrap_def gcatch_def gret_def sample_cp_sel)
  obtain st' where "Create_instance unit_ops (ce_Inst (sample_cp sizes)) sample_opts ready_class unit_claim (it # its) 0 sample_state = (st', Ret sample_instance)"
    using unit_launch [OF assms(2)] by blast
  moreover have "find_shape (it # its) sample_instance = Ret (Some it)" using assms(2) by (simp add: find_shape_def sample_instance_def unit_like_def)
  moreover obtain c where "instanceToNodeClaim (sample_cp sizes) sample_instance (Some it) = Ret c" using unit_node_claim by blast
  ultimately show ?thesis using r
    by (simp add: Create_ready_def Create_instance_go_def gbind_def gwrap_def gcatch_def glift_def gret_def Hash_nc_def sample_cp_sel)
qed

lemma ready_condition:
  "nc_GetCondition (ce_Conds (sample_cp sizes)) ready_class ConditionReady =
     Some \<lparr>cond_Type = ConditionReady, cond_Status = CondTrue, cond_Reason = '''', cond_Message = ''''\<rparr>"
  by (simp add: nc_GetCondition_def GetConditions_def sample_cp_def ready_class_def simple_conds_def simple_get_def)

lemma one_type: "\<exists>it. types_of (sample_cp [(2, 15)]) ready_class sample_cp_state = Some (sample_cp_state, Ret [it]) \<and> unit_like it"
  using unit_types [of "[(2, 15)]"] by (auto simp: length_Suc_conv)

lemma unit_create: "\<exists>s' c. Create_claim (sample_cp [(2, 15)]) unit_claim sample_cp_state = Some (s', Ret c)"
proof -
  obtain it where "types_of (sample_cp [(2, 15)]) ready_class sample_cp_state = Some (sample_cp_state, Ret [it])" "unit_like it" using one_type by blast
  moreover have "resolveNodeClassFromNodeClaim (sample_cp [(2, 15)]) unit_claim = Ret ready_class"
    by (simp add: resolveNodeClass_live sample_cp_sel) (simp add: unit_claim_def ready_class_def launch_class_def sample_class_def)
  ultimately show ?thesis using unit_ready [of "[(2, 15)]" it "[]"] by (simp add: Create_claim_def ready_condition)
qed

theorem Create_claim_spec_witness:
  "\<exists>s' c. Create_claim (sample_cp [(2, 15)]) unit_claim sample_cp_state = Some (s', Ret c) \<and> nc_ProviderID c = ''n1'' \<and>
     map_of (nc_Annotations c) AnnotationOciNodeClassHash = Some ''7''"
proof -
  obtain s' c where c: "Create_claim (sample_cp [(2, 15)]) unit_claim sample_cp_state = Some (s', Ret c)" using unit_create by blast
  have "show_nat 7 = ''7''" by code_simp
  then show ?thesis
    using Create_claim_spec [OF c, unfolded sample_cp_sel, OF unit_laws(1,2) refl] c
    by (auto simp: Hash_nc_def sample_instance_def)
qed

theorem Create_claim_refused_witness:
  "\<exists>e. Create_claim ((sample_cp [])\<lparr>ce_NodeClass := (\<lambda>_. Ret (ready_class\<lparr>cl_DeletionTimestamp := Some 1\<rparr>))\<rparr>) unit_claim sample_cp_state =
     Some (sample_cp_state\<lparr>cs_Events := [NodeClaimFailedToResolveNodeClass unit_claim]\<rparr>, Err e)"
proof -
  let ?E = "(sample_cp [])\<lparr>ce_NodeClass := (\<lambda>_. Ret (ready_class\<lparr>cl_DeletionTimestamp := Some 1\<rparr>))\<rparr>"
  have "nc_GetCondition (ce_Conds ?E) (ready_class\<lparr>cl_DeletionTimestamp := Some 1\<rparr>) ConditionReady =
      Some \<lparr>cond_Type = ConditionReady, cond_Status = CondTrue, cond_Reason = '''', cond_Message = ''''\<rparr>"
    using ready_condition [of "[]"] by (simp add: nc_GetCondition_def GetConditions_def)
  from Create_claim_refused [OF _ _ this, of unit_claim "''default''" sample_cp_state] show ?thesis
    by (simp add: unit_claim_def sample_cp_state_def)
qed

theorem instanceToNodeClaim_roundtrip_witness:
  "\<exists>c. instanceToNodeClaim (sample_cp []) sample_instance None = Ret c \<and> map_of (nc_Labels c) LabelTopologyZone = Some ''AD-1'' \<and>
     map_of (nc_Labels c) NodePoolLabelKey = Some ''pool''"
proof -
  obtain c where c: "instanceToNodeClaim (sample_cp []) sample_instance None = Ret c"
    by (simp add: instanceToNodeClaim_def Let_def type_labels_def sample_instance_def)
  from instanceToNodeClaim_roundtrip [OF this, of launch_class sample_claim "''pool''" "''x''" "''AD-1''"] show ?thesis
    by (simp add: c sample_cp_sel) (simp add: sample_instance_def sample_defs gomap_wf_def)
qed


lemma sample_list_instances: "List_instances (ce_Fuel (sample_cp sizes)) (ie_Compute (ce_Inst (sample_cp sizes))) sample_opts = Some (Ret [sample_instance])"
proof -
  have "managed_tag sample_opts sample_instance = Some (ClusterName sample_opts)"
    by (subst managed_tag_value [of launch_class _ _ sample_claim]) (simp_all add: sample_instance_def sample_defs gomap_wf_def removeExcludingChars_def)
  then show ?thesis by (simp add: List_instances_def list_pages_def sample_cp_def)
qed

lemma sample_pool_tag: "karp_tag sample_opts sample_instance NodePoolLabelKey = Some ''pool''"
  by (subst karp_tag_static(2) [of launch_class _ _ sample_claim]) (simp_all add: sample_instance_def sample_defs gomap_wf_def mget_def)

definition poolless_cp :: "(unit, unit, string \<rightharpoonup> oci_subnet list \<times> int, string \<rightharpoonup> unit \<times> int, unit) cp_env" where
  "poolless_cp = (sample_cp [])\<lparr>ce_NodePool := (\<lambda>_. Err (StatusError ReasonNotFound ''''))\<rparr>"

lemma poolless_sel:
  "ce_Fuel poolless_cp = ce_Fuel (sample_cp [])" "ce_Inst poolless_cp = ce_Inst (sample_cp [])" "ce_Opts poolless_cp = sample_opts"
  by (simp_all add: poolless_cp_def sample_cp_sel)

lemma poolless_instances: "List_instances (ce_Fuel poolless_cp) (ie_Compute (ce_Inst poolless_cp)) (ce_Opts poolless_cp) = Some (Ret [sample_instance])"
  using sample_list_instances [of "[]"] by (simp add: poolless_sel)

lemma poolless_list: "\<exists>c. List_claims poolless_cp sample_cp_state = Some (sample_cp_state, Ret [c])"
proof -
  have "resolveInstanceTypeFromInstance poolless_cp sample_instance s = Some (s, Ret None)" for s
    using sample_pool_tag
    by (simp add: resolveInstanceTypeFromInstance_def resolveNodePoolFromInstance_def poolless_cp_def sample_cp_sel IgnoreNotFound_def IsNotFound_def glift_def)
  moreover obtain c where "instanceToNodeClaim poolless_cp sample_instance None = Ret c"
    by (simp add: instanceToNodeClaim_def Let_def type_labels_def sample_instance_def)
  ultimately show ?thesis
    by (simp add: List_claims_def poolless_instances gbind_def gwrap_def gcatch_def glift_def gret_def)
qed

theorem List_claims_spec_witness:
  "\<exists>s' c. List_claims poolless_cp sample_cp_state = Some (s', Ret [c]) \<and> nc_ProviderID c = ''n1''"
proof -
  obtain c where c: "List_claims poolless_cp sample_cp_state = Some (sample_cp_state, Ret [c])" using poolless_list by blast
  then show ?thesis using List_claims_spec [OF c] poolless_instances by (auto simp: sample_instance_def)
qed



theorem IsDrifted_spec_witness: "IsDrifted (sample_cp [(2, 15)]) unit_claim sample_cp_state = Some (sample_cp_state, Ret '''')"
proof -
  let ?E = "sample_cp [(2, 15)]" and ?np = "\<lparr>np_Name = ''pool'', np_UID = ''p1'', np_NodeClassRef = Some ''default''\<rparr>"
  obtain it where it: "types_of ?E ready_class sample_cp_state = Some (sample_cp_state, Ret [it])" "unit_like it" using one_type by blast
  have cl: "cl_DeletionTimestamp ready_class = None" "st_Images (cl_Status ready_class) = [\<lparr>si_Id = ''i1'', si_Name = ''OL8'', si_CompartmentId = '''', si_Requirements = []\<rparr>]"
      "st_Subnets (cl_Status ready_class) = [\<lparr>ss_Id = ''s1'', ss_Name = ''nodes'', ss_CidrUtilization = []\<rparr>]"
      "st_SecurityGroups (cl_Status ready_class) = [\<lparr>ssg_Id = ''g1'', ssg_Name = ''group''\<rparr>]"
    by (simp_all add: ready_class_def launch_class_def sample_class_def)
  have ty: "GetInstanceTypes ?E (Some ?np) sample_cp_state = Some (sample_cp_state, Ret [it])"
    using it(1) by (simp add: GetInstanceTypes_def resolveNodeClassFromNodePool_def live_class_def sample_cp_sel cl gbind_def gret_def)
  have "IsDrifted ?E unit_claim sample_cp_state = Some (sample_cp_state, Ret (
    if (\<forall>m \<in> set (MapToInstanceTypes (ce_K ?E) it (st_Images (cl_Status ready_class))). fst m \<noteq> ''i1'') then ImageDrift
    else if (\<lambda>_. ''g1'') ` set [\<lparr>sg_Id = Some ''g1'', sg_DisplayName = Some ''group''\<rparr>] \<noteq> ssg_Id ` set (st_SecurityGroups (cl_Status ready_class)) then SecurityGroupDrift
    else if ''s1'' \<notin> ss_Id ` set (st_Subnets (cl_Status ready_class)) then SubnetDrift else ''''))"
  proof (rule IsDrifted_spec [OF _ _ _ _ cl(1) _ _ ty, where i = sample_instance and vnics = "[\<lparr>va_VnicId = Some ''v1'', va_SubnetId = Some ''s1''\<rparr>]"
        and sub = sample_subnet and pool = "''pool''" and cname = "''default''"])
    show "List.find (\<lambda>it. it_Name it = mget (nc_Labels unit_claim) LabelInstanceTypeStable) [it] = Some it"
      using it(2) by (simp add: unit_like_def mget_def unit_claim_def label_defs)
  qed (simp_all add: cl sample_cp_def unit_claim_def Get_instance_def sample_instance_def GetVnicAttachments_def GetSecurityGroups_def GetSubnets_def sample_env_def sample_net_def
      sample_subnet_def)
  then show ?thesis by (simp add: cl MapToInstanceTypes_def sample_cp_sel unit_ops_def)
qed

theorem IsDrifted_no_groups_witness:
  "\<not> (\<exists>s' d. IsDrifted ((sample_cp [])\<lparr>ce_NodeClass := (\<lambda>_. Ret launch_class)\<rparr>) unit_claim sample_cp_state = Some (s', Ret d))"
  by (rule IsDrifted_no_groups [where pool = "''pool''" and nc = launch_class and np = "\<lparr>np_Name = ''pool'', np_UID = ''p1'', np_NodeClassRef = Some ''default''\<rparr>"])
    (simp_all add: unit_claim_def sample_cp_def launch_class_def sample_class_def)

end
