(* ===== verification/NodeClassHash.thy ===== *)
theory NodeClassHash
  imports Errors Apis
begin

text \<open>
  \<open>pkg/controllers/nodeclass/hash\<close>: the controller that writes the hash of a node class into its annotations, and moves the node claims of
  the class to a new version of the hash.  The state is what the API server holds: the node claims and the node class,
  with the number of patches sent to it; the answers to the patches are parameters.
\<close>

record 'q hash_env =
  he_Hash :: "ociNodeClassSpec \<Rightarrow> nat option"
  he_List :: "unit outcome"
  he_PatchClaim :: "'q nodeClaim \<Rightarrow> unit outcome"
  he_PatchClass :: "ociNodeClass \<Rightarrow> unit outcome"
  he_Drifted :: "'q nodeClaim \<Rightarrow> bool"
  he_Unwrap :: bool

record 'q hash_state =
  hs_Claims :: "'q nodeClaim list"
  hs_Class :: ociNodeClass
  hs_Patches :: nat

definition uses_class :: "string \<Rightarrow> 'q nodeClaim \<Rightarrow> bool" where
  "uses_class name claim \<longleftrightarrow> nc_NodeClassRef claim = Some name"

definition current_version :: "labels \<Rightarrow> bool" where
  "current_version m \<longleftrightarrow> mget m AnnotationOciNodeClassHashVersion = OciNodeClassHashVersion"

text \<open>The change of one node claim of an older version: one that has drifted keeps its hash.\<close>

definition rehash_claim :: "'q hash_env \<Rightarrow> ociNodeClass \<Rightarrow> 'q nodeClaim \<Rightarrow> 'q nodeClaim outcome" where
  "rehash_claim E nc claim =
     (let claim' = claim\<lparr>nc_Annotations := lo_assign (nc_Annotations claim) [(AnnotationOciNodeClassHashVersion, OciNodeClassHashVersion)]\<rparr> in
      if he_Drifted E claim then Ret claim'
      else obind (Hash_nc (he_Hash E) nc) (\<lambda>h.
        Ret (claim'\<lparr>nc_Annotations := lo_assign (nc_Annotations claim') [(AnnotationOciNodeClassHash, h)]\<rparr>)))"

text \<open>A merge patch of a claim or of the class.\<close>

definition patch_claim :: "'q hash_env \<Rightarrow> 'q nodeClaim \<Rightarrow> ('q hash_state, unit) go" where
  "patch_claim E claim = (\<lambda>s. case he_PatchClaim E claim of
     Ret _ \<Rightarrow> Some (s\<lparr>hs_Claims := map (\<lambda>c. if nc_Name c = nc_Name claim then claim else c) (hs_Claims s), hs_Patches := Suc (hs_Patches s)\<rparr>, Ret ())
   | Err e \<Rightarrow> Some (s\<lparr>hs_Patches := Suc (hs_Patches s)\<rparr>, Err e)
   | Panic p \<Rightarrow> Some (s\<lparr>hs_Patches := Suc (hs_Patches s)\<rparr>, Panic p))"

definition patch_class :: "'q hash_env \<Rightarrow> ociNodeClass \<Rightarrow> ('q hash_state, unit) go" where
  "patch_class E nc = (\<lambda>s. case he_PatchClass E nc of
     Ret _ \<Rightarrow> Some (s\<lparr>hs_Class := nc, hs_Patches := Suc (hs_Patches s)\<rparr>, Ret ())
   | Err e \<Rightarrow> Some (s\<lparr>hs_Patches := Suc (hs_Patches s)\<rparr>, Err e)
   | Panic p \<Rightarrow> Some (s\<lparr>hs_Patches := Suc (hs_Patches s)\<rparr>, Panic p))"

text \<open>One pass of the loop: the entry of the error slice.\<close>

definition update_claim :: "'q hash_env \<Rightarrow> ociNodeClass \<Rightarrow> 'q nodeClaim \<Rightarrow> ('q hash_state, goerr option) go" where
  "update_claim E nc claim =
     (if current_version (nc_Annotations claim) then gret None
      else gbind (glift (rehash_claim E nc claim)) (\<lambda>claim'.
        if gomap_eq (nc_Annotations claim) (nc_Annotations claim') then gret None
        else gcatch (gbind (patch_claim E claim') (\<lambda>_. gret None))
          (\<lambda>e. gret (if IsNotFound (he_Unwrap E) e then None else Some e))))"

definition updateNodeClaimHash :: "'q hash_env \<Rightarrow> ociNodeClass \<Rightarrow> ('q hash_state, unit) go" where
  "updateNodeClaimHash E nc =
     gbind (glift (he_List E)) (\<lambda>_.
     gbind (gget (\<lambda>s. filter (uses_class (cl_Name nc)) (hs_Claims s))) (\<lambda>claims.
     gbind (gmapM (update_claim E nc) claims) (\<lambda>errs. glift (of_err () (multierr_Combine errs)))))"

definition Reconcile_hash :: "'q hash_env \<Rightarrow> ociNodeClass \<Rightarrow> ('q hash_state, reconcile_result) go" where
  "Reconcile_hash E nc =
     gbind (if current_version (cl_Annotations nc) then gret () else updateNodeClaimHash E nc) (\<lambda>_.
     gbind (glift (Hash_nc (he_Hash E) nc)) (\<lambda>h.
       let nc' = nc\<lparr>cl_Annotations := lo_assign (cl_Annotations nc)
         [(AnnotationOciNodeClassHash, h), (AnnotationOciNodeClassHashVersion, OciNodeClassHashVersion)]\<rparr> in
       if gomap_eq (cl_Annotations nc) (cl_Annotations nc') then gret no_requeue
       else gbind (patch_class E nc') (\<lambda>_. gret no_requeue)))"

section \<open>Lemmas\<close>

definition rehashed :: "'q hash_env \<Rightarrow> string \<Rightarrow> 'q nodeClaim \<Rightarrow> 'q nodeClaim" where
  "rehashed E h claim = claim\<lparr>nc_Annotations := (let a = lo_assign (nc_Annotations claim) [(AnnotationOciNodeClassHashVersion, OciNodeClassHashVersion)]
     in if he_Drifted E claim then a else lo_assign a [(AnnotationOciNodeClassHash, h)])\<rparr>"

lemma hash_keys: "AnnotationOciNodeClassHash \<noteq> AnnotationOciNodeClassHashVersion" "AnnotationOciNodeClassHashVersion \<noteq> AnnotationOciNodeClassHash"
  by (simp_all add: label_defs)

lemma rehashed_sel [simp]: "nc_Name (rehashed E h c) = nc_Name c" "nc_NodeClassRef (rehashed E h c) = nc_NodeClassRef c"
  by (simp_all add: rehashed_def)

lemma rehashed_annotations:
  "map_of (nc_Annotations (rehashed E h c)) = (map_of (nc_Annotations c))(AnnotationOciNodeClassHashVersion \<mapsto> OciNodeClassHashVersion) ++
     (if he_Drifted E c then Map.empty else [AnnotationOciNodeClassHash \<mapsto> h])"
  by (auto simp: rehashed_def Let_def map_of_assign gomap_wf_def)

lemma rehashed_wf: "gomap_wf (nc_Annotations c) \<Longrightarrow> gomap_wf (nc_Annotations (rehashed E h c))"
  by (simp add: rehashed_def Let_def)

lemma rehash_claim_Ret: "Hash_nc (he_Hash E) nc = Ret h \<Longrightarrow> rehash_claim E nc c = Ret (rehashed E h c)"
  by (simp add: rehash_claim_def rehashed_def Let_def)

lemma rehashed_current: "current_version (nc_Annotations (rehashed E h c))"
  by (auto simp: current_version_def mget_def rehashed_annotations map_add_def hash_keys)

lemma rehashed_changes:
  assumes "gomap_wf (nc_Annotations c)" and "\<not> current_version (nc_Annotations c)"
  shows "\<not> gomap_eq (nc_Annotations c) (nc_Annotations (rehashed E h c))"
  using assms rehashed_current [of E h c] by (auto simp: gomap_eq_iff rehashed_wf current_version_def mget_def)

definition put_claim :: "'q hash_env \<Rightarrow> string \<Rightarrow> 'q nodeClaim \<Rightarrow> 'q nodeClaim list \<Rightarrow> 'q nodeClaim list" where
  "put_claim E h c xs = (if current_version (nc_Annotations c) then xs else map (\<lambda>x. if nc_Name x = nc_Name c then rehashed E h c else x) xs)"

lemma update_claim_run:
  assumes "Hash_nc (he_Hash E) nc = Ret h" and "\<And>c. he_PatchClaim E c = Ret ()" and "gomap_wf (nc_Annotations c)"
  shows "\<exists>n. update_claim E nc c s = Some (s\<lparr>hs_Claims := put_claim E h c (hs_Claims s), hs_Patches := n\<rparr>, Ret None)"
proof (cases "current_version (nc_Annotations c)")
  case True
  then have "update_claim E nc c s = Some (s\<lparr>hs_Claims := put_claim E h c (hs_Claims s), hs_Patches := hs_Patches s\<rparr>, Ret None)"
    by (simp add: update_claim_def gret_def put_claim_def)
  then show ?thesis by blast
next
  case False
  have "patch_claim E (rehashed E h c) s = Some (s\<lparr>hs_Claims := put_claim E h c (hs_Claims s), hs_Patches := Suc (hs_Patches s)\<rparr>, Ret ())"
    using False by (simp add: patch_claim_def assms(2) put_claim_def)
  then have "update_claim E nc c s = Some (s\<lparr>hs_Claims := put_claim E h c (hs_Claims s), hs_Patches := Suc (hs_Patches s)\<rparr>, Ret None)"
    using False by (simp add: update_claim_def rehash_claim_Ret [OF assms(1)] rehashed_changes [OF assms(3)] gbind_def glift_def gcatch_def gret_def)
  then show ?thesis by blast
qed

lemma update_loop_run:
  assumes "Hash_nc (he_Hash E) nc = Ret h" and "\<And>c. he_PatchClaim E c = Ret ()" and "\<forall>c \<in> set cs. gomap_wf (nc_Annotations c)"
  shows "\<exists>n. gmapM (update_claim E nc) cs s = Some (s\<lparr>hs_Claims := fold (put_claim E h) cs (hs_Claims s), hs_Patches := n\<rparr>, Ret (map (\<lambda>_. None) cs))"
  using assms(3)
proof (induction cs arbitrary: s)
  case Nil
  show ?case by (intro exI [of _ "hs_Patches s"]) (simp add: gret_def)
next
  case (Cons c cs)
  obtain n where n: "update_claim E nc c s = Some (s\<lparr>hs_Claims := put_claim E h c (hs_Claims s), hs_Patches := n\<rparr>, Ret None)"
    using update_claim_run [OF assms(1,2)] Cons.prems by force
  from Cons.IH [of "s\<lparr>hs_Claims := put_claim E h c (hs_Claims s), hs_Patches := n\<rparr>"] Cons.prems
  show ?case by (auto simp: n gbind_def gret_def)
qed

lemma put_claims:
  "fold (put_claim E h) cs xs = map (\<lambda>x. case List.find (\<lambda>c. nc_Name c = nc_Name x \<and> \<not> current_version (nc_Annotations c)) (rev cs) of
     None \<Rightarrow> x | Some c \<Rightarrow> rehashed E h c) xs"
proof (induction cs rule: rev_induct)
  case (snoc c cs)
  have "nc_Name (case List.find (\<lambda>c. nc_Name c = nc_Name x \<and> \<not> current_version (nc_Annotations c)) (rev cs) of None \<Rightarrow> x | Some c \<Rightarrow> rehashed E h c) = nc_Name x" for x
    by (auto split: option.split dest: find_Some_D)
  then show ?case by (auto simp: snoc put_claim_def [where c = c] split: option.split)
qed (simp add: map_idI)

lemma put_claims_own:
  assumes "distinct (map nc_Name xs)"
  shows "fold (put_claim E h) (filter P xs) xs = map (\<lambda>x. if P x \<and> \<not> current_version (nc_Annotations x) then rehashed E h x else x) xs"
proof -
  have "List.find (\<lambda>c. nc_Name c = nc_Name x \<and> \<not> current_version (nc_Annotations c)) (rev (filter P xs)) =
      (if P x \<and> \<not> current_version (nc_Annotations x) then Some x else None)" if x: "x \<in> set xs" for x
  proof -
    have same: "c = x" if "c \<in> set xs" "nc_Name c = nc_Name x" for c
      using assms x that by (metis (full_types) distinct_map inj_onD)
    show ?thesis
    proof (cases "List.find (\<lambda>c. nc_Name c = nc_Name x \<and> \<not> current_version (nc_Annotations c)) (rev (filter P xs))")
      case None
      then show ?thesis using x by (auto simp: find_None_set)
    next
      case (Some a)
      then show ?thesis using find_Some_D [OF Some] same [of a] by auto
    qed
  qed
  then show ?thesis unfolding put_claims by (intro map_cong) auto
qed

text \<open>What a run on a reachable API server does.\<close>

definition hashed_class :: "string \<Rightarrow> ociNodeClass \<Rightarrow> ociNodeClass" where
  "hashed_class h nc = nc\<lparr>cl_Annotations := lo_assign (cl_Annotations nc)
     [(AnnotationOciNodeClassHash, h), (AnnotationOciNodeClassHashVersion, OciNodeClassHashVersion)]\<rparr>"

lemma hashed_class_annotations:
  "map_of (cl_Annotations (hashed_class h nc)) =
     (map_of (cl_Annotations nc))(AnnotationOciNodeClassHash \<mapsto> h, AnnotationOciNodeClassHashVersion \<mapsto> OciNodeClassHashVersion)"
  by (simp add: hashed_class_def lo_assign_def)

lemma Reconcile_hash_run:
  assumes "Hash_nc (he_Hash E) nc = Ret h" and "\<And>c. he_PatchClaim E c = Ret ()" and "\<And>c. he_PatchClass E c = Ret ()" and "he_List E = Ret ()"
    and "\<forall>c \<in> set (hs_Claims s). gomap_wf (nc_Annotations c)" and "distinct (map nc_Name (hs_Claims s))" and "gomap_wf (cl_Annotations nc)"
    and "hs_Class s = nc"
  shows "\<exists>n cl. Reconcile_hash E nc s = Some (\<lparr>hs_Claims = map (\<lambda>c. if \<not> current_version (cl_Annotations nc) \<and> uses_class (cl_Name nc) c \<and>
        \<not> current_version (nc_Annotations c) then rehashed E h c else c) (hs_Claims s), hs_Class = cl, hs_Patches = n\<rparr>, Ret no_requeue) \<and>
      (cl = hashed_class h nc \<or> cl = nc \<and> map_of (cl_Annotations nc) = map_of (cl_Annotations (hashed_class h nc)))"
proof -
  let ?f = "\<lambda>c. if \<not> current_version (cl_Annotations nc) \<and> uses_class (cl_Name nc) c \<and> \<not> current_version (nc_Annotations c) then rehashed E h c else c"
  have "\<exists>n. (if current_version (cl_Annotations nc) then gret () else updateNodeClaimHash E nc) s =
      Some (s\<lparr>hs_Claims := map ?f (hs_Claims s), hs_Patches := n\<rparr>, Ret ())"
  proof (cases "current_version (cl_Annotations nc)")
    case True
    then show ?thesis by (intro exI [of _ "hs_Patches s"]) (simp add: gret_def)
  next
    case False
    have "\<forall>c \<in> set (filter (uses_class (cl_Name nc)) (hs_Claims s)). gomap_wf (nc_Annotations c)" using assms(5) by simp
    then obtain n where "gmapM (update_claim E nc) (filter (uses_class (cl_Name nc)) (hs_Claims s)) s = Some (s\<lparr>hs_Claims :=
        fold (put_claim E h) (filter (uses_class (cl_Name nc)) (hs_Claims s)) (hs_Claims s), hs_Patches := n\<rparr>,
        Ret (map (\<lambda>_. None) (filter (uses_class (cl_Name nc)) (hs_Claims s))))"
      using update_loop_run [OF assms(1,2)] by blast
    then show ?thesis using False
      by (auto simp: updateNodeClaimHash_def assms(4) gbind_def glift_def gget_def of_err_def put_claims_own [OF assms(6)])
  qed
  then obtain n where "(if current_version (cl_Annotations nc) then gret () else updateNodeClaimHash E nc) s =
      Some (s\<lparr>hs_Claims := map ?f (hs_Claims s), hs_Patches := n\<rparr>, Ret ())" by blast
  then have r: "Reconcile_hash E nc s = (if gomap_eq (cl_Annotations nc) (cl_Annotations (hashed_class h nc)) then gret no_requeue
      else gbind (patch_class E (hashed_class h nc)) (\<lambda>_. gret no_requeue)) (s\<lparr>hs_Claims := map ?f (hs_Claims s), hs_Patches := n\<rparr>)"
    by (simp add: Reconcile_hash_def gbind_def [of "if _ then _ else _"] assms(1) glift_def gbind_def [of "\<lambda>s. Some (s, Ret h)"] hashed_class_def)
  have e: "gomap_eq (cl_Annotations nc) (cl_Annotations (hashed_class h nc)) \<longleftrightarrow> map_of (cl_Annotations nc) = map_of (cl_Annotations (hashed_class h nc))"
    using assms(7) by (intro gomap_eq_iff) (simp_all add: hashed_class_def)
  show ?thesis unfolding r e
    using assms(8) by (cases s) (auto simp: gret_def gbind_def patch_class_def assms(3))
qed

section \<open>Properties\<close>

text \<open>C16. On a reachable API server, reconciling leaves the node class annotated with the hash of its specification and the hash version, its other
  annotations as they were.  When the class had an older version, its node claims of an older version get the new version and,
  unless they have drifted, the hash of the class; nothing else of any claim changes, nor any claim that is current or of
  another class.  Reconciling again changes nothing and sends nothing.\<close>

theorem Reconcile_hash_spec:
  assumes "Hash_nc (he_Hash E) (hs_Class s) = Ret h" and "\<And>c. he_PatchClaim E c = Ret ()" and "\<And>c. he_PatchClass E c = Ret ()"
    and "he_List E = Ret ()" and "\<forall>c \<in> set (hs_Claims s). gomap_wf (nc_Annotations c)" and "distinct (map nc_Name (hs_Claims s))"
    and "gomap_wf (cl_Annotations (hs_Class s))"
  shows "\<exists>s'. Reconcile_hash E (hs_Class s) s = Some (s', Ret no_requeue) \<and>
    cl_Spec (hs_Class s') = cl_Spec (hs_Class s) \<and>
    map_of (cl_Annotations (hs_Class s')) = (map_of (cl_Annotations (hs_Class s)))(AnnotationOciNodeClassHash \<mapsto> h,
      AnnotationOciNodeClassHashVersion \<mapsto> OciNodeClassHashVersion) \<and>
    list_all2 (\<lambda>c c'. c'\<lparr>nc_Annotations := nc_Annotations c\<rparr> = c \<and> map_of (nc_Annotations c') =
      (if \<not> current_version (cl_Annotations (hs_Class s)) \<and> uses_class (cl_Name (hs_Class s)) c \<and> \<not> current_version (nc_Annotations c)
       then (map_of (nc_Annotations c))(AnnotationOciNodeClassHashVersion \<mapsto> OciNodeClassHashVersion) ++
         (if he_Drifted E c then Map.empty else [AnnotationOciNodeClassHash \<mapsto> h])
       else map_of (nc_Annotations c))) (hs_Claims s) (hs_Claims s') \<and>
    Reconcile_hash E (hs_Class s') s' = Some (s', Ret no_requeue)"
proof -
  let ?nc = "hs_Class s"
  let ?f = "\<lambda>c. if \<not> current_version (cl_Annotations ?nc) \<and> uses_class (cl_Name ?nc) c \<and> \<not> current_version (nc_Annotations c) then rehashed E h c else c"
  obtain n cl where r: "Reconcile_hash E ?nc s = Some (\<lparr>hs_Claims = map ?f (hs_Claims s), hs_Class = cl, hs_Patches = n\<rparr>, Ret no_requeue)"
    and cl: "cl = hashed_class h ?nc \<or> cl = ?nc \<and> map_of (cl_Annotations ?nc) = map_of (cl_Annotations (hashed_class h ?nc))"
    using Reconcile_hash_run [OF assms(1-7) refl] by blast
  let ?s = "\<lparr>hs_Claims = map ?f (hs_Claims s), hs_Class = cl, hs_Patches = n\<rparr>"
  have sp: "cl_Spec cl = cl_Spec ?nc" and wf: "gomap_wf (cl_Annotations cl)" using cl assms(7) by (auto simp: hashed_class_def)
  have an: "map_of (cl_Annotations cl) = (map_of (cl_Annotations ?nc))(AnnotationOciNodeClassHash \<mapsto> h, AnnotationOciNodeClassHashVersion \<mapsto> OciNodeClassHashVersion)"
    using cl by (auto simp: hashed_class_annotations)
  have "current_version (cl_Annotations cl)" by (simp add: current_version_def mget_def an)
  moreover have "Hash_nc (he_Hash E) cl = Ret h" using assms(1) by (simp add: Hash_nc_def sp)
  moreover have "map_of (cl_Annotations (hashed_class h cl)) = map_of (cl_Annotations cl)"
    using hash_keys by (auto simp: hashed_class_annotations an)
  then have "gomap_eq (cl_Annotations cl) (cl_Annotations (hashed_class h cl))"
    using wf by (subst gomap_eq_iff) (simp_all add: hashed_class_def)
  ultimately have "Reconcile_hash E cl ?s = Some (?s, Ret no_requeue)"
    by (simp add: Reconcile_hash_def gbind_def gret_def glift_def hashed_class_def)
  moreover have "list_all2 (\<lambda>c c'. c'\<lparr>nc_Annotations := nc_Annotations c\<rparr> = c \<and> map_of (nc_Annotations c') =
      (if \<not> current_version (cl_Annotations ?nc) \<and> uses_class (cl_Name ?nc) c \<and> \<not> current_version (nc_Annotations c)
       then (map_of (nc_Annotations c))(AnnotationOciNodeClassHashVersion \<mapsto> OciNodeClassHashVersion) ++
         (if he_Drifted E c then Map.empty else [AnnotationOciNodeClassHash \<mapsto> h])
       else map_of (nc_Annotations c))) (hs_Claims s) (map ?f (hs_Claims s))"
    by (simp add: list_all2_map2 list_all2_same rehashed_annotations) (simp add: rehashed_def)
  ultimately show ?thesis using r sp an by (intro exI [of _ ?s]) simp
qed

definition hash_claim :: "string \<Rightarrow> unit nodeClaim" where
  "hash_claim name = \<lparr>nc_Name = name, nc_UID = '''', nc_Labels = [], nc_Annotations = [], nc_CreationTimestamp = 0, nc_DeletionTimestamp = None,
     nc_NodeClassRef = Some ''default'', nc_Requirements = [], nc_Requests = [], nc_Taints = [], nc_StartupTaints = [], nc_ProviderID = '''',
     nc_ImageID = '''', nc_NodeName = '''', nc_Capacity = [], nc_Allocatable = [], nc_Conditions = []\<rparr>"

theorem Reconcile_hash_spec_witness:
  "\<exists>s'. Reconcile_hash \<lparr>he_Hash = (\<lambda>_. Some 7), he_List = Ret (), he_PatchClaim = (\<lambda>_. Ret ()), he_PatchClass = (\<lambda>_. Ret ()),
      he_Drifted = (\<lambda>c. nc_Name c = ''b''), he_Unwrap = False\<rparr> sample_class
      \<lparr>hs_Claims = [hash_claim ''a'', hash_claim ''b''], hs_Class = sample_class, hs_Patches = 0\<rparr> = Some (s', Ret no_requeue) \<and>
    map (\<lambda>c. map_of (nc_Annotations c) AnnotationOciNodeClassHash) (hs_Claims s') = [Some ''7'', None]"
proof -
  let ?E = "\<lparr>he_Hash = (\<lambda>_. Some 7), he_List = Ret (), he_PatchClaim = (\<lambda>_. Ret ()), he_PatchClass = (\<lambda>_. Ret ()),
      he_Drifted = (\<lambda>c. nc_Name c = ''b''), he_Unwrap = False\<rparr> :: unit hash_env"
  let ?s = "\<lparr>hs_Claims = [hash_claim ''a'', hash_claim ''b''], hs_Class = sample_class, hs_Patches = 0\<rparr>"
  have s7: "show_nat 7 = ''7''" by code_simp
  have h: "Hash_nc (he_Hash ?E) (hs_Class ?s) = Ret ''7''" by (simp add: Hash_nc_def s7)
  obtain s' where r: "Reconcile_hash ?E (hs_Class ?s) ?s = Some (s', Ret no_requeue)" and l: "list_all2 (\<lambda>c c'. c'\<lparr>nc_Annotations := nc_Annotations c\<rparr> = c \<and>
      map_of (nc_Annotations c') = (if \<not> current_version (cl_Annotations (hs_Class ?s)) \<and> uses_class (cl_Name (hs_Class ?s)) c \<and> \<not> current_version (nc_Annotations c)
       then (map_of (nc_Annotations c))(AnnotationOciNodeClassHashVersion \<mapsto> OciNodeClassHashVersion) ++
         (if he_Drifted ?E c then Map.empty else [AnnotationOciNodeClassHash \<mapsto> ''7''])
       else map_of (nc_Annotations c))) (hs_Claims ?s) (hs_Claims s')"
    using Reconcile_hash_spec [OF h] by (simp add: hash_claim_def sample_class_def gomap_wf_def) blast
  have "map (\<lambda>c. map_of (nc_Annotations c) AnnotationOciNodeClassHash) (hs_Claims s') = [Some ''7'', None]"
    using l hash_keys
    by (auto simp: list_all2_Cons1 hash_claim_def sample_class_def current_version_def mget_def uses_class_def OciNodeClassHashVersion_def map_add_def)
  with r show ?thesis by auto
qed

end
