(* ===== verification/NodeClassStatus.thy ===== *)
theory NodeClassStatus
  imports SecurityGroup ImageFamily Errors "HOL-Library.Product_Lexorder"
begin

text \<open>
  \<open>pkg/controllers/nodeclass/status\<close>: the controller that keeps the status of a node class: the images, subnets and security groups its
  selectors give, with a condition for each.  \<open>ns_Work\<close> is the object that the reconcilers change in place, \<open>ns_Class\<close> what the
  API server holds.
\<close>

record ('r, 'q, 'c, 'g, 'i) status_env =
  ne_K :: "('r, 'q) karp_ops"
  ne_Net :: net_ops
  ne_Images :: image_ops
  ne_SubnetCache :: "('c, oci_subnet list) cache_ops"
  ne_GroupCache :: "('g, oci_nsg list) cache_ops"
  ne_ImageCache :: "('i, 'r wrapImage list) cache_ops"
  ne_SubnetHash :: "subnetSelectorTerm list \<Rightarrow> nat outcome"
  ne_GroupHash :: "securityGroupSelectorTerm list \<Rightarrow> nat outcome"
  ne_ImageHash :: "imageSelectorTerm list \<Rightarrow> nat outcome"
  ne_SubnetOrder :: "((string, oci_subnet) gomap \<Rightarrow> (string, oci_subnet) gomap) \<times> ((string, oci_subnet) gomap \<Rightarrow> (string, oci_subnet) gomap)"
  ne_GroupOrder :: "((string, oci_nsg) gomap \<Rightarrow> (string, oci_nsg) gomap) \<times> ((string, oci_nsg) gomap \<Rightarrow> (string, oci_nsg) gomap)"
  ne_ImageOrder :: "((string, 'r wrapImage) gomap \<Rightarrow> (string, 'r wrapImage) gomap) \<times> ((string, 'r wrapImage) gomap \<Rightarrow> (string, 'r wrapImage) gomap)"
  ne_Opts :: options
  ne_Now :: int
  ne_Conds :: cond_ops
  ne_Patch :: "ociNodeClass \<Rightarrow> unit outcome"
  ne_PatchStatus :: "ociNodeClass \<Rightarrow> unit outcome"
  ne_Min :: "reconcile_result list \<Rightarrow> reconcile_result"
  ne_FormatFloat :: "gofloat \<Rightarrow> string"
  ne_Unwrap :: bool

record ('c, 'g, 'i) status_state =
  ns_Subnets :: 'c
  ns_Groups :: 'g
  ns_Images :: 'i
  ns_Class :: ociNodeClass
  ns_Work :: ociNodeClass

definition requeue_after :: "int \<Rightarrow> reconcile_result" where
  "requeue_after d = \<lparr>res_Requeue = False, res_RequeueAfter = d\<rparr>"

section \<open>Images\<close>

definition image_status :: "('r, 'q) karp_ops \<Rightarrow> 'r wrapImage \<Rightarrow> statusImage" where
  "image_status K w = \<lparr>si_Id = from_ptr '''' (img_Id (wi_Image w)), si_Name = from_ptr '''' (img_DisplayName (wi_Image w)),
     si_CompartmentId = from_ptr '''' (img_CompartmentId (wi_Image w)),
     si_Requirements = sort_key (\<lambda>r. (length (nsr_Key r), nsr_Key r)) (reqs_Selectors K (wi_Requirements w))\<rparr>"

definition set_images :: "('r, 'q, 'c, 'g, 'i) status_env \<Rightarrow> 'r wrapImage list \<Rightarrow> ociNodeClass \<Rightarrow> ociNodeClass" where
  "set_images E imgs nc =
     (if imgs = [] then nc_SetFalse (ne_Conds E) ConditionTypeImageReady ''ImageNotFound'' ''Image spec did not match any images''
        (nc\<lparr>cl_Status := (cl_Status nc)\<lparr>st_Images := []\<rparr>\<rparr>)
      else nc_SetTrue (ne_Conds E) ConditionTypeImageReady
        (nc\<lparr>cl_Status := (cl_Status nc)\<lparr>st_Images := sort_key si_Id (map (image_status (ne_K E)) imgs)\<rparr>\<rparr>))"

definition Reconcile_images :: "('r, 'q, 'c, 'g, 'i) status_env \<Rightarrow> (('c, 'g, 'i) status_state, reconcile_result) go" where
  "Reconcile_images E =
     gbind (gwrap ''getting amis'' (\<lambda>s.
       case List_images (ne_K E) (ne_ImageCache E) (ne_Images E) (ne_ImageHash E) (ne_ImageOrder E) (ns_Work s) (ne_Now E) (ns_Images s) of
         (c, r) \<Rightarrow> Some (s\<lparr>ns_Images := c\<rparr>, r))) (\<lambda>imgs.
     gbind (gmodify (\<lambda>s. s\<lparr>ns_Work := set_images E imgs (ns_Work s)\<rparr>)) (\<lambda>_.
       gret (if imgs = [] then no_requeue else requeue_after (5 * minute_ns))))"

section \<open>Subnets\<close>

definition subnet_status :: "('r, 'q, 'c, 'g, 'i) status_env \<Rightarrow> oci_subnet \<Rightarrow> statusSubnet outcome" where
  "subnet_status E sn =
     (let st = \<lparr>ss_Id = from_ptr '''' (sn_Id sn), ss_Name = from_ptr '''' (sn_DisplayName sn), ss_CidrUtilization = []\<rparr> in
      case GetSubnetUtilization (ne_Net E) sn of
        Err e \<Rightarrow> Ret st
      | Panic p \<Rightarrow> Panic p
      | Ret summaries \<Rightarrow> Ret (st\<lparr>ss_CidrUtilization := map (\<lambda>u. \<lparr>cus_Cidr = from_ptr '''' (cu_Cidr u),
          cus_Utilization = ne_FormatFloat E (from_ptr (Fin 0) (cu_Utilization u)), cus_AddressType = from_ptr '''' (cu_AddressType u)\<rparr>) summaries\<rparr>))"

definition set_subnets :: "('r, 'q, 'c, 'g, 'i) status_env \<Rightarrow> oci_subnet list \<Rightarrow> ociNodeClass \<Rightarrow> ociNodeClass outcome" where
  "set_subnets E sns nc =
     (if sns = [] then Ret (nc_SetFalse (ne_Conds E) ConditionTypeSubnetsReady ''SubnetsNotFound'' ''SubnetSelector did not match any Subnets''
        (nc\<lparr>cl_Status := (cl_Status nc)\<lparr>st_Subnets := []\<rparr>\<rparr>))
      else obind (sort_by_id sn_Id sns) (\<lambda>sorted. obind (omapM (subnet_status E) sorted) (\<lambda>sts.
        Ret (nc_SetTrue (ne_Conds E) ConditionTypeSubnetsReady (nc\<lparr>cl_Status := (cl_Status nc)\<lparr>st_Subnets := sts\<rparr>\<rparr>)))))"

definition Reconcile_subnets :: "('r, 'q, 'c, 'g, 'i) status_env \<Rightarrow> (('c, 'g, 'i) status_state, reconcile_result) go" where
  "Reconcile_subnets E =
     gbind (gwrap ''getting subnets'' (\<lambda>s.
       case List_subnets (ne_SubnetCache E) (ne_Net E) (ne_SubnetHash E) (ne_SubnetOrder E) (ne_Opts E) (ns_Work s) (ne_Now E) (ns_Subnets s) of
         (c, r) \<Rightarrow> Some (s\<lparr>ns_Subnets := c\<rparr>, r))) (\<lambda>sns.
     gbind (gget ns_Work) (\<lambda>nc.
     gbind (glift (set_subnets E sns nc)) (\<lambda>nc'.
     gbind (gmodify (\<lambda>s. s\<lparr>ns_Work := nc'\<rparr>)) (\<lambda>_.
       gret (if sns = [] then no_requeue else requeue_after minute_ns)))))"

section \<open>Security groups\<close>

definition group_status :: "oci_nsg \<Rightarrow> statusSecurityGroup outcome" where
  "group_status g = obind (deref (sg_Id g)) (\<lambda>i. obind (deref (sg_DisplayName g)) (\<lambda>n. Ret \<lparr>ssg_Id = i, ssg_Name = n\<rparr>))"

definition set_groups :: "('r, 'q, 'c, 'g, 'i) status_env \<Rightarrow> oci_nsg list \<Rightarrow> ociNodeClass \<Rightarrow> ociNodeClass outcome" where
  "set_groups E sgs nc =
     (if sgs = [] \<and> SecurityGroupSelector (cl_Spec nc) \<noteq> []
      then Ret (nc_SetFalse (ne_Conds E) ConditionTypeSecurityGroupsReady ''SecurityGroupsNotFound'' ''SecurityGroupSelector did not match any SecurityGroups''
        (nc\<lparr>cl_Status := (cl_Status nc)\<lparr>st_SecurityGroups := []\<rparr>\<rparr>))
      else obind (sort_by_id sg_Id sgs) (\<lambda>sorted. obind (omapM group_status sorted) (\<lambda>sts.
        Ret (nc_SetTrue (ne_Conds E) ConditionTypeSecurityGroupsReady (nc\<lparr>cl_Status := (cl_Status nc)\<lparr>st_SecurityGroups := sts\<rparr>\<rparr>)))))"

definition Reconcile_groups :: "('r, 'q, 'c, 'g, 'i) status_env \<Rightarrow> (('c, 'g, 'i) status_state, reconcile_result) go" where
  "Reconcile_groups E =
     gbind (gwrap ''getting security groups'' (\<lambda>s.
       case List_sgs (ne_GroupCache E) (ne_Net E) (ne_GroupHash E) (ne_GroupOrder E) (ne_Opts E) (ns_Work s) (ne_Now E) (ns_Groups s) of
         (c, r) \<Rightarrow> Some (s\<lparr>ns_Groups := c\<rparr>, r))) (\<lambda>sgs.
     gbind (gget ns_Work) (\<lambda>nc.
     gbind (glift (set_groups E sgs nc)) (\<lambda>nc'.
     gbind (gmodify (\<lambda>s. s\<lparr>ns_Work := nc'\<rparr>)) (\<lambda>_.
       gret (if sgs = [] \<and> SecurityGroupSelector (cl_Spec nc) \<noteq> [] then no_requeue else requeue_after (5 * minute_ns))))))"

section \<open>The controller\<close>

text \<open>One pass of the loop over the reconcilers: its result and its error.\<close>

definition run_reconciler :: "('s, reconcile_result) go \<Rightarrow> ('s, reconcile_result \<times> goerr option) go" where
  "run_reconciler r = gcatch (gbind r (\<lambda>x. gret (x, None))) (\<lambda>e. gret (no_requeue, Some e))"

definition add_finalizer :: "('r, 'q, 'c, 'g, 'i) status_env \<Rightarrow> (('c, 'g, 'i) status_state, unit) go" where
  "add_finalizer E =
     gbind (gget ns_Work) (\<lambda>nc.
       let nc' = nc\<lparr>cl_Finalizers := cl_Finalizers nc @ [TerminationFinalizer]\<rparr> in
       gbind (glift (ne_Patch E nc')) (\<lambda>_. gmodify (\<lambda>s. s\<lparr>ns_Work := nc', ns_Class := nc'\<rparr>)))"

definition patch_status :: "('r, 'q, 'c, 'g, 'i) status_env \<Rightarrow> (('c, 'g, 'i) status_state, unit) go" where
  "patch_status E =
     gbind (gget ns_Work) (\<lambda>nc. gbind (glift (ne_PatchStatus E nc)) (\<lambda>_. gmodify (\<lambda>s. s\<lparr>ns_Class := nc\<rparr>)))"

text \<open>What follows the finalizer: the reconcilers, and the patch when they changed the object.\<close>

definition reconcile_rest :: "('r, 'q, 'c, 'g, 'i) status_env \<Rightarrow> (('c, 'g, 'i) status_state, reconcile_result) go" where
  "reconcile_rest E =
     gbind (gget ns_Work) (\<lambda>stored.
     gbind (gmapM run_reconciler [Reconcile_images E, Reconcile_subnets E, Reconcile_groups E]) (\<lambda>rs.
     gbind (gget ns_Work) (\<lambda>nc.
     gbind (if stored = nc then gret (None, False)
            else gcatch (gbind (patch_status E) (\<lambda>_. gret (None, False)))
              (\<lambda>e. gret (if IsConflict (ne_Unwrap E) e then (None, True)
                else (if IsNotFound (ne_Unwrap E) e then None else Some e, False)))) (\<lambda>(perr, conflict).
       if conflict then gret \<lparr>res_Requeue = True, res_RequeueAfter = 0\<rparr>
       else glift (of_err (ne_Min E (map fst rs)) (multierr_Combine (map snd rs @ [perr])))))))"

definition Reconcile_status :: "('r, 'q, 'c, 'g, 'i) status_env \<Rightarrow> (('c, 'g, 'i) status_state, reconcile_result) go" where
  "Reconcile_status E =
     gbind (gget ns_Work) (\<lambda>nc.
       if TerminationFinalizer \<in> set (cl_Finalizers nc) then reconcile_rest E
       else gbind (gcatch (gbind (add_finalizer E) (\<lambda>_. gret False))
           (\<lambda>e. if IsConflict (ne_Unwrap E) e then gret True else glift (Err e))) (\<lambda>conflict.
         if conflict then gret \<lparr>res_Requeue = True, res_RequeueAfter = 0\<rparr> else reconcile_rest E))"

section \<open>Lemmas\<close>

lemma set_cond_sel [simp]:
  "cl_Spec (nc_SetTrue C t nc) = cl_Spec nc" "cl_Spec (nc_SetFalse C t r m nc) = cl_Spec nc"
  "cl_Finalizers (nc_SetTrue C t nc) = cl_Finalizers nc" "cl_Finalizers (nc_SetFalse C t r m nc) = cl_Finalizers nc"
  "st_Images (cl_Status (nc_SetTrue C t nc)) = st_Images (cl_Status nc)" "st_Images (cl_Status (nc_SetFalse C t r m nc)) = st_Images (cl_Status nc)"
  "st_Subnets (cl_Status (nc_SetTrue C t nc)) = st_Subnets (cl_Status nc)" "st_Subnets (cl_Status (nc_SetFalse C t r m nc)) = st_Subnets (cl_Status nc)"
  "st_SecurityGroups (cl_Status (nc_SetTrue C t nc)) = st_SecurityGroups (cl_Status nc)"
  "st_SecurityGroups (cl_Status (nc_SetFalse C t r m nc)) = st_SecurityGroups (cl_Status nc)"
  "cl_DeletionTimestamp (nc_SetTrue C t nc) = cl_DeletionTimestamp nc" "cl_DeletionTimestamp (nc_SetFalse C t r m nc) = cl_DeletionTimestamp nc"
  "cl_Name (nc_SetTrue C t nc) = cl_Name nc" "cl_Name (nc_SetFalse C t r m nc) = cl_Name nc"
  by (simp_all add: nc_SetTrue_def nc_SetFalse_def SetConditions_def)

text \<open>The listings read only the specification of the class.\<close>

lemma List_spec_only:
  "cl_Spec nc = cl_Spec nc' \<Longrightarrow> List_images K C I h ord nc now c = List_images K C I h ord nc' now c"
  "cl_Spec nc = cl_Spec nc' \<Longrightarrow> List_subnets SC N sh sord opts nc now sc = List_subnets SC N sh sord opts nc' now sc"
  "cl_Spec nc = cl_Spec nc' \<Longrightarrow> List_sgs GC N gh gord opts nc now gc = List_sgs GC N gh gord opts nc' now gc"
  by (simp_all add: List_images_def fetch_images_def List_subnets_def fetch_subnets_def List_sgs_def fetch_sgs_def split: outcome.split)

definition apply_ret :: "('x \<Rightarrow> ociNodeClass \<Rightarrow> ociNodeClass) \<Rightarrow> 'x outcome \<Rightarrow> ociNodeClass \<Rightarrow> ociNodeClass" where
  "apply_ret f r nc = (case r of Ret x \<Rightarrow> f x nc | _ \<Rightarrow> nc)"

definition outcome_err :: "string \<Rightarrow> 'x outcome \<Rightarrow> goerr option" where
  "outcome_err msg r = (case r of Err e \<Rightarrow> Some (Wrapf msg e) | _ \<Rightarrow> None)"

definition no_panic :: "'x outcome \<Rightarrow> bool" where
  "no_panic r \<longleftrightarrow> (case r of Panic _ \<Rightarrow> False | _ \<Rightarrow> True)"

lemma run_images:
  assumes "List_images (ne_K E) (ne_ImageCache E) (ne_Images E) (ne_ImageHash E) (ne_ImageOrder E) (ns_Work s) (ne_Now E) (ns_Images s) = (c, r)" and "no_panic r"
  shows "\<exists>x. run_reconciler (Reconcile_images E) s = Some (s\<lparr>ns_Images := c, ns_Work := apply_ret (set_images E) r (ns_Work s)\<rparr>, Ret (x, outcome_err ''getting amis'' r))"
  using assms
  by (cases r) (auto simp: run_reconciler_def Reconcile_images_def gbind_def gwrap_def gcatch_def glift_def gret_def gmodify_def apply_ret_def outcome_err_def no_panic_def)

lemma run_subnets:
  assumes "List_subnets (ne_SubnetCache E) (ne_Net E) (ne_SubnetHash E) (ne_SubnetOrder E) (ne_Opts E) (ns_Work s) (ne_Now E) (ns_Subnets s) = (c, r)" and "no_panic r"
    and "\<And>sns. r = Ret sns \<Longrightarrow> set_subnets E sns (ns_Work s) = Ret (f sns (ns_Work s))"
  shows "\<exists>x. run_reconciler (Reconcile_subnets E) s = Some (s\<lparr>ns_Subnets := c, ns_Work := apply_ret f r (ns_Work s)\<rparr>, Ret (x, outcome_err ''getting subnets'' r))"
  using assms
  by (cases r) (auto simp: run_reconciler_def Reconcile_subnets_def gbind_def gwrap_def gcatch_def glift_def gret_def gmodify_def gget_def apply_ret_def outcome_err_def no_panic_def)

lemma run_groups:
  assumes "List_sgs (ne_GroupCache E) (ne_Net E) (ne_GroupHash E) (ne_GroupOrder E) (ne_Opts E) (ns_Work s) (ne_Now E) (ns_Groups s) = (c, r)" and "no_panic r"
    and "\<And>sgs. r = Ret sgs \<Longrightarrow> set_groups E sgs (ns_Work s) = Ret (f sgs (ns_Work s))"
  shows "\<exists>x. run_reconciler (Reconcile_groups E) s = Some (s\<lparr>ns_Groups := c, ns_Work := apply_ret f r (ns_Work s)\<rparr>, Ret (x, outcome_err ''getting security groups'' r))"
  using assms
  by (cases r) (auto simp: run_reconciler_def Reconcile_groups_def gbind_def gwrap_def gcatch_def glift_def gret_def gmodify_def gget_def apply_ret_def outcome_err_def no_panic_def)

definition subnets_set :: "('r, 'q, 'c, 'g, 'i) status_env \<Rightarrow> oci_subnet list \<Rightarrow> ociNodeClass \<Rightarrow> ociNodeClass" where
  "subnets_set E sns nc =
     (if sns = [] then nc_SetFalse (ne_Conds E) ConditionTypeSubnetsReady ''SubnetsNotFound'' ''SubnetSelector did not match any Subnets''
        (nc\<lparr>cl_Status := (cl_Status nc)\<lparr>st_Subnets := []\<rparr>\<rparr>)
      else nc_SetTrue (ne_Conds E) ConditionTypeSubnetsReady
        (nc\<lparr>cl_Status := (cl_Status nc)\<lparr>st_Subnets := map (\<lambda>sn. case subnet_status E sn of Ret st \<Rightarrow> st | _ \<Rightarrow> undefined) (sort_key subnet_id sns)\<rparr>\<rparr>))"

definition groups_set :: "('r, 'q, 'c, 'g, 'i) status_env \<Rightarrow> oci_nsg list \<Rightarrow> ociNodeClass \<Rightarrow> ociNodeClass" where
  "groups_set E sgs nc =
     (if sgs = [] \<and> SecurityGroupSelector (cl_Spec nc) \<noteq> []
      then nc_SetFalse (ne_Conds E) ConditionTypeSecurityGroupsReady ''SecurityGroupsNotFound'' ''SecurityGroupSelector did not match any SecurityGroups''
        (nc\<lparr>cl_Status := (cl_Status nc)\<lparr>st_SecurityGroups := []\<rparr>\<rparr>)
      else nc_SetTrue (ne_Conds E) ConditionTypeSecurityGroupsReady
        (nc\<lparr>cl_Status := (cl_Status nc)\<lparr>st_SecurityGroups := map (\<lambda>g. \<lparr>ssg_Id = nsg_id g, ssg_Name = from_ptr '''' (sg_DisplayName g)\<rparr>) (sort_key nsg_id sgs)\<rparr>\<rparr>))"

lemma set_subnets_Ret:
  assumes "\<forall>sn \<in> set sns. sn_Id sn \<noteq> None \<and> no_panic (GetSubnetUtilization (ne_Net E) sn)"
  shows "set_subnets E sns nc = Ret (subnets_set E sns nc)"
proof -
  have k: "sort_key (\<lambda>x. from_ptr '''' (sn_Id x)) sns = sort_key subnet_id sns" by (simp add: subnet_id_def [abs_def])
  have "subnet_status E sn = Ret (case subnet_status E sn of Ret st \<Rightarrow> st | _ \<Rightarrow> undefined)" if "sn \<in> set sns" for sn
    using assms that by (auto simp: subnet_status_def Let_def no_panic_def split: outcome.splits)
  then have "omapM (subnet_status E) (sort_key subnet_id sns) = Ret (map (\<lambda>sn. case subnet_status E sn of Ret st \<Rightarrow> st | _ \<Rightarrow> undefined) (sort_key subnet_id sns))"
    by (intro omapM_Ret_map) simp
  then show ?thesis using assms by (simp add: set_subnets_def subnets_set_def sort_by_id_Ret k)
qed

lemma set_groups_Ret:
  assumes "\<forall>g \<in> set sgs. sg_Id g \<noteq> None \<and> sg_DisplayName g \<noteq> None"
  shows "set_groups E sgs nc = Ret (groups_set E sgs nc)"
proof -
  have k: "sort_key (\<lambda>x. from_ptr '''' (sg_Id x)) sgs = sort_key nsg_id sgs" by (simp add: nsg_id_def [abs_def])
  have "group_status g = Ret \<lparr>ssg_Id = nsg_id g, ssg_Name = from_ptr '''' (sg_DisplayName g)\<rparr>" if "g \<in> set sgs" for g
    using assms that by (auto simp: group_status_def nsg_id_def)
  then have "omapM group_status (sort_key nsg_id sgs) = Ret (map (\<lambda>g. \<lparr>ssg_Id = nsg_id g, ssg_Name = from_ptr '''' (sg_DisplayName g)\<rparr>) (sort_key nsg_id sgs))"
    by (intro omapM_Ret_map) simp
  then show ?thesis using assms by (simp add: set_groups_def groups_set_def sort_by_id_Ret k)
qed

text \<open>The listings of one run, on the caches as they are at its start.\<close>

definition listings ::
  "('r, 'q, 'c, 'g, 'i) status_env \<Rightarrow> ociNodeClass \<Rightarrow> ('c, 'g, 'i) status_state \<Rightarrow> 'r wrapImage list outcome \<Rightarrow> oci_subnet list outcome \<Rightarrow> oci_nsg list outcome \<Rightarrow> bool" where
  "listings E nc s ri rs rg \<longleftrightarrow>
     snd (List_images (ne_K E) (ne_ImageCache E) (ne_Images E) (ne_ImageHash E) (ne_ImageOrder E) nc (ne_Now E) (ns_Images s)) = ri \<and>
     snd (List_subnets (ne_SubnetCache E) (ne_Net E) (ne_SubnetHash E) (ne_SubnetOrder E) (ne_Opts E) nc (ne_Now E) (ns_Subnets s)) = rs \<and>
     snd (List_sgs (ne_GroupCache E) (ne_Net E) (ne_GroupHash E) (ne_GroupOrder E) (ne_Opts E) nc (ne_Now E) (ns_Groups s)) = rg \<and>
     no_panic ri \<and> no_panic rs \<and> no_panic rg \<and>
     (case rs of Ret sns \<Rightarrow> (\<forall>sn \<in> set sns. sn_Id sn \<noteq> None \<and> no_panic (GetSubnetUtilization (ne_Net E) sn)) | _ \<Rightarrow> True) \<and>
     (case rg of Ret sgs \<Rightarrow> (\<forall>g \<in> set sgs. sg_Id g \<noteq> None \<and> sg_DisplayName g \<noteq> None) | _ \<Rightarrow> True)"

definition updated ::
  "('r, 'q, 'c, 'g, 'i) status_env \<Rightarrow> 'r wrapImage list outcome \<Rightarrow> oci_subnet list outcome \<Rightarrow> oci_nsg list outcome \<Rightarrow> ociNodeClass \<Rightarrow> ociNodeClass" where
  "updated E ri rs rg nc = apply_ret (groups_set E) rg (apply_ret (subnets_set E) rs (apply_ret (set_images E) ri nc))"

lemma apply_ret_spec:
  "(\<And>x nc. cl_Spec (f x nc) = cl_Spec nc) \<Longrightarrow> cl_Spec (apply_ret f r nc) = cl_Spec nc"
  by (auto simp: apply_ret_def split: outcome.split)

lemma set_spec [simp]:
  "cl_Spec (set_images E imgs nc) = cl_Spec nc" "cl_Spec (subnets_set E sns nc) = cl_Spec nc" "cl_Spec (groups_set E sgs nc) = cl_Spec nc"
  "cl_Finalizers (set_images E imgs nc) = cl_Finalizers nc" "cl_Finalizers (subnets_set E sns nc) = cl_Finalizers nc"
  "cl_Finalizers (groups_set E sgs nc) = cl_Finalizers nc"
  "cl_DeletionTimestamp (set_images E imgs nc) = cl_DeletionTimestamp nc" "cl_DeletionTimestamp (subnets_set E sns nc) = cl_DeletionTimestamp nc"
  "cl_DeletionTimestamp (groups_set E sgs nc) = cl_DeletionTimestamp nc"
  by (simp_all add: set_images_def subnets_set_def groups_set_def)

lemma updated_frame:
  "cl_Spec (updated E ri rs rg nc) = cl_Spec nc" "cl_Finalizers (updated E ri rs rg nc) = cl_Finalizers nc"
  "cl_DeletionTimestamp (updated E ri rs rg nc) = cl_DeletionTimestamp nc"
  by (auto simp: updated_def apply_ret_def split: outcome.split)

lemma run_all:
  assumes "listings E (ns_Work s) s ri rs rg"
  shows "\<exists>s' xs. gmapM run_reconciler [Reconcile_images E, Reconcile_subnets E, Reconcile_groups E] s = Some (s', Ret xs) \<and>
    ns_Work s' = updated E ri rs rg (ns_Work s) \<and> ns_Class s' = ns_Class s \<and>
    map snd xs = [outcome_err ''getting amis'' ri, outcome_err ''getting subnets'' rs, outcome_err ''getting security groups'' rg]"
proof -
  let ?nc = "ns_Work s" and ?n1 = "apply_ret (set_images E) ri (ns_Work s)"
  let ?n2 = "apply_ret (subnets_set E) rs ?n1"
  obtain c1 where 1: "List_images (ne_K E) (ne_ImageCache E) (ne_Images E) (ne_ImageHash E) (ne_ImageOrder E) ?nc (ne_Now E) (ns_Images s) = (c1, ri)"
    using assms unfolding listings_def by (metis prod.collapse)
  obtain c2 where 2: "List_subnets (ne_SubnetCache E) (ne_Net E) (ne_SubnetHash E) (ne_SubnetOrder E) (ne_Opts E) ?nc (ne_Now E) (ns_Subnets s) = (c2, rs)"
    using assms unfolding listings_def by (metis prod.collapse)
  obtain c3 where 3: "List_sgs (ne_GroupCache E) (ne_Net E) (ne_GroupHash E) (ne_GroupOrder E) (ne_Opts E) ?nc (ne_Now E) (ns_Groups s) = (c3, rg)"
    using assms unfolding listings_def by (metis prod.collapse)
  have n1: "cl_Spec ?n1 = cl_Spec ?nc" and n2: "cl_Spec ?n2 = cl_Spec ?nc" by (auto simp: apply_ret_def split: outcome.split)
  let ?s1 = "s\<lparr>ns_Images := c1, ns_Work := ?n1\<rparr>"
  let ?s2 = "?s1\<lparr>ns_Subnets := c2, ns_Work := ?n2\<rparr>"
  have np: "no_panic ri" "no_panic rs" "no_panic rg" using assms by (simp_all add: listings_def)
  have ss: "set_subnets E sns nc = Ret (subnets_set E sns nc)" if "rs = Ret sns" for sns nc
    using assms that by (intro set_subnets_Ret) (simp add: listings_def)
  have gs: "set_groups E sgs nc = Ret (groups_set E sgs nc)" if "rg = Ret sgs" for sgs nc
    using assms that by (intro set_groups_Ret) (simp add: listings_def)
  obtain x1 where x1: "run_reconciler (Reconcile_images E) s = Some (?s1, Ret (x1, outcome_err ''getting amis'' ri))"
    using run_images [OF 1 np(1)] by blast
  have "\<exists>x. run_reconciler (Reconcile_subnets E) ?s1 = Some (?s1\<lparr>ns_Subnets := c2, ns_Work := apply_ret (subnets_set E) rs (ns_Work ?s1)\<rparr>,
      Ret (x, outcome_err ''getting subnets'' rs))"
    by (rule run_subnets) (simp_all add: 2 List_spec_only(2) [OF n1] np ss)
  then obtain x2 where x2: "run_reconciler (Reconcile_subnets E) ?s1 = Some (?s2, Ret (x2, outcome_err ''getting subnets'' rs))" by auto
  have "\<exists>x. run_reconciler (Reconcile_groups E) ?s2 = Some (?s2\<lparr>ns_Groups := c3, ns_Work := apply_ret (groups_set E) rg (ns_Work ?s2)\<rparr>,
      Ret (x, outcome_err ''getting security groups'' rg))"
    by (rule run_groups) (simp_all add: 3 List_spec_only(3) [OF n2] np gs)
  then obtain x3 where x3: "run_reconciler (Reconcile_groups E) ?s2 =
      Some (?s2\<lparr>ns_Groups := c3, ns_Work := apply_ret (groups_set E) rg ?n2\<rparr>, Ret (x3, outcome_err ''getting security groups'' rg))" by auto
  show ?thesis by (simp add: gbind_def x1 x2 x3 [simplified] gret_def updated_def)
qed

lemma reconcile_rest_run:
  assumes "listings E (ns_Work s) s ri rs rg" and "\<And>c. ne_PatchStatus E c = Ret ()" and "ns_Class s = ns_Work s"
  shows "\<exists>s' x. reconcile_rest E s = Some (s', of_err x (multierr_Combine [outcome_err ''getting amis'' ri, outcome_err ''getting subnets'' rs,
      outcome_err ''getting security groups'' rg, None])) \<and> ns_Class s' = updated E ri rs rg (ns_Work s)"
proof -
  obtain s' xs where r: "gmapM run_reconciler [Reconcile_images E, Reconcile_subnets E, Reconcile_groups E] s = Some (s', Ret xs)"
      "ns_Work s' = updated E ri rs rg (ns_Work s)" "ns_Class s' = ns_Class s"
      "map snd xs = [outcome_err ''getting amis'' ri, outcome_err ''getting subnets'' rs, outcome_err ''getting security groups'' rg]"
    using run_all [OF assms(1)] by (elim exE conjE) (rule that)
  show ?thesis
  proof (cases "ns_Work s = ns_Work s'")
    case True
    then show ?thesis using r assms(3)
      by (simp add: reconcile_rest_def gbind_def gget_def glift_def gret_def del: gmapM.simps) blast
  next
    case False
    then show ?thesis using r
      by (simp add: reconcile_rest_def patch_status_def assms(2) gbind_def gget_def glift_def gret_def gcatch_def gmodify_def del: gmapM.simps) blast
  qed
qed

lemma Reconcile_status_run:
  assumes "listings E (ns_Work s) s ri rs rg" and "\<And>c. ne_Patch E c = Ret ()" and "\<And>c. ne_PatchStatus E c = Ret ()" and "ns_Class s = ns_Work s"
  shows "\<exists>s' x nc. Reconcile_status E s = Some (s', of_err x (multierr_Combine [outcome_err ''getting amis'' ri, outcome_err ''getting subnets'' rs,
      outcome_err ''getting security groups'' rg, None])) \<and> ns_Class s' = updated E ri rs rg nc \<and>
      TerminationFinalizer \<in> set (cl_Finalizers nc) \<and> nc\<lparr>cl_Finalizers := cl_Finalizers (ns_Work s)\<rparr> = ns_Work s"
proof (cases "TerminationFinalizer \<in> set (cl_Finalizers (ns_Work s))")
  case True
  obtain s' x where "reconcile_rest E s = Some (s', of_err x (multierr_Combine [outcome_err ''getting amis'' ri, outcome_err ''getting subnets'' rs,
      outcome_err ''getting security groups'' rg, None]))" "ns_Class s' = updated E ri rs rg (ns_Work s)"
    using reconcile_rest_run [OF assms(1,3,4)] by (elim exE conjE) (rule that)
  with True show ?thesis
    by (intro exI [of _ s'] exI [of _ x] exI [of _ "ns_Work s"]) (simp add: Reconcile_status_def gbind_def gget_def)
next
  case False
  let ?nc = "(ns_Work s)\<lparr>cl_Finalizers := cl_Finalizers (ns_Work s) @ [TerminationFinalizer]\<rparr>"
  let ?s = "s\<lparr>ns_Work := ?nc, ns_Class := ?nc\<rparr>"
  have "listings E (ns_Work ?s) ?s ri rs rg"
    using assms(1) by (simp add: listings_def List_spec_only [of ?nc "ns_Work s"])
  then obtain s' x where "reconcile_rest E ?s = Some (s', of_err x (multierr_Combine [outcome_err ''getting amis'' ri, outcome_err ''getting subnets'' rs,
      outcome_err ''getting security groups'' rg, None]))" "ns_Class s' = updated E ri rs rg ?nc"
    using reconcile_rest_run [of E ?s ri rs rg] assms(3) by auto
  moreover have "Reconcile_status E s = reconcile_rest E ?s"
    using False by (simp add: Reconcile_status_def add_finalizer_def assms(2) gbind_def gget_def gcatch_def glift_def gret_def gmodify_def Let_def)
  ultimately show ?thesis by (intro exI [of _ s'] exI [of _ x] exI [of _ ?nc]) simp
qed

text \<open>The fields of the updated status.\<close>

lemma subnet_status_id: "no_panic (GetSubnetUtilization (ne_Net E) sn) \<Longrightarrow> ss_Id (case subnet_status E sn of Ret st \<Rightarrow> st | _ \<Rightarrow> undefined) = subnet_id sn"
  by (auto simp: subnet_status_def Let_def no_panic_def subnet_id_def split: outcome.splits)

lemma map_sort_key: "map f (sort_key f xs) = sort (map f xs)"
  by (metis mset_map mset_sort properties_for_sort sorted_sort_key)

lemma updated_images: "st_Images (cl_Status (updated E ri rs rg nc)) =
    (case ri of Ret imgs \<Rightarrow> sort_key si_Id (map (image_status (ne_K E)) imgs) | _ \<Rightarrow> st_Images (cl_Status nc))"
  by (auto simp: updated_def apply_ret_def set_images_def subnets_set_def groups_set_def split: outcome.split)

lemma updated_subnets:
  assumes "case rs of Ret sns \<Rightarrow> (\<forall>sn \<in> set sns. sn_Id sn \<noteq> None \<and> no_panic (GetSubnetUtilization (ne_Net E) sn)) | _ \<Rightarrow> True"
  shows "map ss_Id (st_Subnets (cl_Status (updated E ri rs rg nc))) =
    (case rs of Ret sns \<Rightarrow> sort (map subnet_id sns) | _ \<Rightarrow> map ss_Id (st_Subnets (cl_Status nc)))"
proof (cases rs)
  case (Ret sns)
  have "map ss_Id (map (\<lambda>sn. case subnet_status E sn of Ret st \<Rightarrow> st | _ \<Rightarrow> undefined) (sort_key subnet_id sns)) = map subnet_id (sort_key subnet_id sns)"
    unfolding map_map by (intro map_cong) (use assms Ret in \<open>auto simp: subnet_status_id\<close>)
  then show ?thesis using Ret
    by (auto simp: updated_def apply_ret_def set_images_def subnets_set_def groups_set_def map_sort_key split: outcome.split)
qed (auto simp: updated_def apply_ret_def set_images_def subnets_set_def groups_set_def split: outcome.split)

lemma updated_groups: "map ssg_Id (st_SecurityGroups (cl_Status (updated E ri rs rg nc))) =
    (case rg of Ret sgs \<Rightarrow> sort (map nsg_id sgs) | _ \<Rightarrow> map ssg_Id (st_SecurityGroups (cl_Status nc)))"
  by (auto simp: updated_def apply_ret_def set_images_def subnets_set_def groups_set_def comp_def map_sort_key split: outcome.split)

text \<open>Readiness after the three conditions were set.\<close>

definition is_cond :: "cond_ops \<Rightarrow> condition_status \<Rightarrow> string \<Rightarrow> ociNodeClass \<Rightarrow> bool" where
  "is_cond C st t nc \<longleftrightarrow> cond_is st (nc_GetCondition C nc t)"

lemma cond_types:
  "set StatusConditions = {ConditionTypeImageReady, ConditionTypeSubnetsReady, ConditionTypeSecurityGroupsReady}" "ConditionReady \<notin> set StatusConditions"
  "ConditionTypeImageReady \<noteq> ConditionTypeSubnetsReady" "ConditionTypeImageReady \<noteq> ConditionTypeSecurityGroupsReady"
  "ConditionTypeSubnetsReady \<noteq> ConditionTypeSecurityGroupsReady"
  by (simp_all add: StatusConditions_def ConditionTypeImageReady_def ConditionTypeSubnetsReady_def ConditionTypeSecurityGroupsReady_def ConditionReady_def)

lemma set_cond_get:
  assumes "cond_laws C" and "t \<in> set StatusConditions" and "u \<in> set StatusConditions"
  shows "is_cond C CondTrue u (nc_SetTrue C t nc) \<longleftrightarrow> u = t \<or> is_cond C CondTrue u nc"
    "is_cond C CondTrue u (nc_SetFalse C t r m nc) \<longleftrightarrow> u \<noteq> t \<and> is_cond C CondTrue u nc"
    "is_cond C CondTrue ConditionReady (nc_SetTrue C t nc) \<longleftrightarrow> (\<forall>v \<in> set StatusConditions. v \<noteq> t \<longrightarrow> is_cond C CondTrue v nc)"
    "\<not> is_cond C CondTrue ConditionReady (nc_SetFalse C t r m nc)"
proof -
  have l: "cond_is CondTrue (cs_Get C StatusConditions (cs_SetTrue C StatusConditions (GetConditions nc) t) t)"
     "cond_is CondFalse (cs_Get C StatusConditions (cs_SetFalse C StatusConditions (GetConditions nc) t r m) t)"
     "u \<noteq> t \<Longrightarrow> cs_Get C StatusConditions (cs_SetTrue C StatusConditions (GetConditions nc) t) u = cs_Get C StatusConditions (GetConditions nc) u"
     "u \<noteq> t \<Longrightarrow> cs_Get C StatusConditions (cs_SetFalse C StatusConditions (GetConditions nc) t r m) u = cs_Get C StatusConditions (GetConditions nc) u"
     "cond_is CondTrue (cs_Get C StatusConditions (cs_SetTrue C StatusConditions (GetConditions nc) t) ConditionReady) \<longleftrightarrow>
        (\<forall>u \<in> set StatusConditions. u \<noteq> t \<longrightarrow> cond_is CondTrue (cs_Get C StatusConditions (GetConditions nc) u))"
     "\<not> cond_is CondTrue (cs_Get C StatusConditions (cs_SetFalse C StatusConditions (GetConditions nc) t r m) ConditionReady)"
    using assms cond_types(2) unfolding cond_laws_def by blast+
  show "is_cond C CondTrue u (nc_SetTrue C t nc) \<longleftrightarrow> u = t \<or> is_cond C CondTrue u nc"
    "is_cond C CondTrue ConditionReady (nc_SetTrue C t nc) \<longleftrightarrow> (\<forall>v \<in> set StatusConditions. v \<noteq> t \<longrightarrow> is_cond C CondTrue v nc)"
    "\<not> is_cond C CondTrue ConditionReady (nc_SetFalse C t r m nc)"
    using l(1,3,5,6) by (cases "u = t"; simp add: is_cond_def nc_GetCondition_def nc_SetTrue_def nc_SetFalse_def SetConditions_def GetConditions_def)+
  show "is_cond C CondTrue u (nc_SetFalse C t r m nc) \<longleftrightarrow> u \<noteq> t \<and> is_cond C CondTrue u nc"
    using l(2,4) by (cases "u = t") (auto simp: is_cond_def nc_GetCondition_def nc_SetFalse_def SetConditions_def GetConditions_def cond_is_def split: option.splits)
qed

lemma updated_ready:
  assumes "cond_laws (ne_Conds E)"
  shows "is_cond (ne_Conds E) CondTrue ConditionReady (updated E (Ret imgs) (Ret sns) (Ret sgs) nc) \<longleftrightarrow>
    imgs \<noteq> [] \<and> sns \<noteq> [] \<and> (sgs \<noteq> [] \<or> SecurityGroupSelector (cl_Spec nc) = [])"
proof -
  have st: "is_cond C st t (nc\<lparr>cl_Status := (cl_Status nc)\<lparr>st_Images := a\<rparr>\<rparr>) = is_cond C st t nc"
      "is_cond C st t (nc\<lparr>cl_Status := (cl_Status nc)\<lparr>st_Subnets := b\<rparr>\<rparr>) = is_cond C st t nc"
      "is_cond C st t (nc\<lparr>cl_Status := (cl_Status nc)\<lparr>st_SecurityGroups := c\<rparr>\<rparr>) = is_cond C st t nc" for C st t a b c nc
    by (simp_all add: is_cond_def nc_GetCondition_def GetConditions_def)
  have mem: "ConditionTypeImageReady \<in> set StatusConditions" "ConditionTypeSubnetsReady \<in> set StatusConditions"
      "ConditionTypeSecurityGroupsReady \<in> set StatusConditions" by (simp_all add: cond_types)
  note g = set_cond_get [OF assms]
  show ?thesis
    using cond_types(3-5)
    by (auto simp: updated_def apply_ret_def set_images_def subnets_set_def groups_set_def g(1,2) [OF mem(1)] g(1,2) [OF mem(2)] g(3,4) [OF mem(3) mem(3)]
        cond_types(1) st)
qed

section \<open>Properties\<close>

text \<open>C15. On a reachable API server, reconciling leaves the node class with its termination finalizer and its status brought up to date part by part: the
  images, the subnets and the security groups that could be listed are those listed, in the order of their identifiers, and a part that
  could not be listed is as it was; the call fails exactly when some part could not be listed.  When all could, the class is ready
  exactly when it has images, subnets, and security groups or no selector for them.\<close>

theorem Reconcile_status_spec:
  assumes "listings E (ns_Work s) s ri rs rg" and "\<And>c. ne_Patch E c = Ret ()" and "\<And>c. ne_PatchStatus E c = Ret ()"
    and "ns_Class s = ns_Work s" and "cond_laws (ne_Conds E)"
  shows "\<exists>s' r. Reconcile_status E s = Some (s', r) \<and>
    TerminationFinalizer \<in> set (cl_Finalizers (ns_Class s')) \<and> cl_Spec (ns_Class s') = cl_Spec (ns_Work s) \<and>
    st_Images (cl_Status (ns_Class s')) =
      (case ri of Ret imgs \<Rightarrow> sort_key si_Id (map (image_status (ne_K E)) imgs) | _ \<Rightarrow> st_Images (cl_Status (ns_Work s))) \<and>
    map ss_Id (st_Subnets (cl_Status (ns_Class s'))) =
      (case rs of Ret sns \<Rightarrow> sort (map subnet_id sns) | _ \<Rightarrow> map ss_Id (st_Subnets (cl_Status (ns_Work s)))) \<and>
    map ssg_Id (st_SecurityGroups (cl_Status (ns_Class s'))) =
      (case rg of Ret sgs \<Rightarrow> sort (map nsg_id sgs) | _ \<Rightarrow> map ssg_Id (st_SecurityGroups (cl_Status (ns_Work s)))) \<and>
    ((\<exists>e. r = Err e) \<longleftrightarrow> (\<exists>e. ri = Err e) \<or> (\<exists>e. rs = Err e) \<or> (\<exists>e. rg = Err e)) \<and>
    (\<forall>imgs sns sgs. ri = Ret imgs \<and> rs = Ret sns \<and> rg = Ret sgs \<longrightarrow>
      (is_cond (ne_Conds E) CondTrue ConditionReady (ns_Class s') \<longleftrightarrow>
        imgs \<noteq> [] \<and> sns \<noteq> [] \<and> (sgs \<noteq> [] \<or> SecurityGroupSelector (cl_Spec (ns_Work s)) = [])))"
proof -
  obtain s' x nc where r: "Reconcile_status E s = Some (s', of_err x (multierr_Combine [outcome_err ''getting amis'' ri, outcome_err ''getting subnets'' rs,
      outcome_err ''getting security groups'' rg, None]))" "ns_Class s' = updated E ri rs rg nc"
      "TerminationFinalizer \<in> set (cl_Finalizers nc)" "nc\<lparr>cl_Finalizers := cl_Finalizers (ns_Work s)\<rparr> = ns_Work s"
    using Reconcile_status_run [OF assms(1-4)] by (elim exE conjE) (rule that)
  have nc: "cl_Spec nc = cl_Spec (ns_Work s)" "cl_Status nc = cl_Status (ns_Work s)"
    using arg_cong [OF r(4), of cl_Spec] arg_cong [OF r(4), of cl_Status] by simp_all
  have er: "(\<exists>e. of_err x (multierr_Combine [outcome_err ''getting amis'' ri, outcome_err ''getting subnets'' rs,
      outcome_err ''getting security groups'' rg, None]) = Err e) \<longleftrightarrow> (\<exists>e. ri = Err e) \<or> (\<exists>e. rs = Err e) \<or> (\<exists>e. rg = Err e)"
    by (cases ri; cases rs; cases rg) (auto simp: of_err_def multierr_Combine_def outcome_err_def map_filter_simps)
  have "case rs of Ret sns \<Rightarrow> (\<forall>sn \<in> set sns. sn_Id sn \<noteq> None \<and> no_panic (GetSubnetUtilization (ne_Net E) sn)) | _ \<Rightarrow> True"
    using assms(1) by (simp add: listings_def)
  note sn = updated_subnets [OF this]
  show ?thesis
  proof (intro exI conjI)
    show "Reconcile_status E s = Some (s', of_err x (multierr_Combine [outcome_err ''getting amis'' ri, outcome_err ''getting subnets'' rs,
      outcome_err ''getting security groups'' rg, None]))" by (rule r(1))
    show "\<forall>imgs sns sgs. ri = Ret imgs \<and> rs = Ret sns \<and> rg = Ret sgs \<longrightarrow>
      (is_cond (ne_Conds E) CondTrue ConditionReady (ns_Class s') \<longleftrightarrow>
        imgs \<noteq> [] \<and> sns \<noteq> [] \<and> (sgs \<noteq> [] \<or> SecurityGroupSelector (cl_Spec (ns_Work s)) = []))"
      using updated_ready [OF assms(5)] by (simp add: r(2) nc)
  qed (use r(3) er in \<open>simp_all add: r(2) updated_frame updated_images updated_groups sn nc cong: outcome.case_cong\<close>)
qed

section \<open>An example\<close>

definition status_sample :: "(ref_req, int, string \<rightharpoonup> oci_subnet list \<times> int, string \<rightharpoonup> oci_nsg list \<times> int, string \<rightharpoonup> ref_req wrapImage list \<times> int) status_env" where
  "status_sample = \<lparr>ne_K = ref_ops, ne_Net = sample_net, ne_Images = sample_images, ne_SubnetCache = ttl_cache DefaultTTL, ne_GroupCache = ttl_cache DefaultTTL,
     ne_ImageCache = ttl_cache DefaultTTL, ne_SubnetHash = (\<lambda>_. Ret 1), ne_GroupHash = (\<lambda>_. Ret 2), ne_ImageHash = (\<lambda>_. Ret 3), ne_SubnetOrder = (id, id),
     ne_GroupOrder = (id, id), ne_ImageOrder = (id, id), ne_Opts = zero_options, ne_Now = 0, ne_Conds = simple_conds, ne_Patch = (\<lambda>_. Ret ()),
     ne_PatchStatus = (\<lambda>_. Ret ()), ne_Min = (\<lambda>rs. requeue_after minute_ns), ne_FormatFloat = (\<lambda>_. ''50''), ne_Unwrap = False\<rparr>"

theorem Reconcile_status_spec_witness:
  "\<exists>s' r. Reconcile_status status_sample \<lparr>ns_Subnets = Map.empty, ns_Groups = Map.empty, ns_Images = Map.empty, ns_Class = sample_class, ns_Work = sample_class\<rparr> =
      Some (s', r) \<and> map ss_Id (st_Subnets (cl_Status (ns_Class s'))) = [''s1''] \<and> is_cond simple_conds CondTrue ConditionReady (ns_Class s')"
proof -
  let ?s = "\<lparr>ns_Subnets = Map.empty, ns_Groups = Map.empty, ns_Images = Map.empty, ns_Class = sample_class, ns_Work = sample_class\<rparr>"
  let ?i = "\<lparr>wi_Image = \<lparr>img_Id = Some ''i1'', img_DisplayName = Some ''OL8-aarch64'', img_CompartmentId = None\<rparr>,
      wi_Requirements = requirementsForImage ref_ops OracleOKELinuxImageFamily \<lparr>img_Id = Some ''i1'', img_DisplayName = Some ''OL8-aarch64'', img_CompartmentId = None\<rparr>\<rparr>"
  let ?g = "\<lparr>sg_Id = Some ''g1'', sg_DisplayName = Some ''group''\<rparr>"
  have l: "listings status_sample (ns_Work ?s) ?s (Ret [?i]) (Ret [sample_subnet]) (Ret [?g])"
    by (simp add: listings_def status_sample_def List_images_def List_subnets_def List_sgs_def cached_list_def fetch_images_def fetch_subnets_def fetch_sgs_def
        image_term_def subnet_term_def sg_term_def sample_images_def sample_net_def sample_class_def sample_spec_def ttl_cache_def ttl_get_def no_panic_def
        sample_subnet_def GetSubnetUtilization_def)
  have "cond_laws (ne_Conds status_sample)" using simple_conds_laws by (simp add: status_sample_def)
  from Reconcile_status_spec [OF l _ _ _ this] show ?thesis
    by (auto simp: status_sample_def subnet_id_def sample_subnet_def)
qed

end
