(* ===== verification/NodeClassTermination.thy ===== *)
theory NodeClassTermination
  imports Errors Apis Utils OfferingCache
begin

text \<open>
  \<open>pkg/controllers/nodeclass/termination\<close>: the controller that lets a node class go once no node claim uses it.  The state is what the API
  server holds: the node claims, the node class (gone once it is being deleted and has no finalizer left), and the events.
\<close>

record term_env =
  te_List :: "unit outcome"
  te_Patch :: "ociNodeClass \<Rightarrow> unit outcome"
  te_Unwrap :: bool

record 'q term_state =
  ts_Claims :: "'q nodeClaim list"
  ts_Class :: "ociNodeClass option"
  ts_Events :: "event list"

definition WaitingOnNodeClaimTerminationEvent :: "ociNodeClass \<Rightarrow> string list \<Rightarrow> event" where
  "WaitingOnNodeClaimTerminationEvent nc names = \<lparr>ev_Object = cl_Name nc, ev_Type = ''Normal'', ev_Reason = ''WaitingOnNodeClaimTermination'',
     ev_Message = ''Waiting on NodeClaim termination for '' @ PrettySlice id names 5, ev_DedupeValues = [cl_UID nc]\<rparr>"

text \<open>What the API server keeps of an object that is written.\<close>

definition stored_class :: "ociNodeClass \<Rightarrow> ociNodeClass option" where
  "stored_class nc = (if cl_DeletionTimestamp nc \<noteq> None \<and> cl_Finalizers nc = [] then None else Some nc)"

definition patch_finalizers :: "term_env \<Rightarrow> ociNodeClass \<Rightarrow> ('q term_state, unit) go" where
  "patch_finalizers E nc = (\<lambda>s. case te_Patch E nc of
     Ret _ \<Rightarrow> Some (s\<lparr>ts_Class := stored_class nc\<rparr>, Ret ())
   | Err e \<Rightarrow> Some (s, Err e)
   | Panic p \<Rightarrow> Some (s, Panic p))"

definition finalize :: "term_env \<Rightarrow> ociNodeClass \<Rightarrow> ('q term_state, reconcile_result) go" where
  "finalize E nc =
     (if TerminationFinalizer \<notin> set (cl_Finalizers nc) then gret no_requeue
      else gbind (gwrap ''listing nodeclaims that are using nodeclass'' (glift (te_List E))) (\<lambda>_.
        gbind (gget (\<lambda>s. filter (\<lambda>c. nc_NodeClassRef c = Some (cl_Name nc)) (ts_Claims s))) (\<lambda>claims.
          if claims \<noteq> [] then
            gbind (gmodify (\<lambda>s. s\<lparr>ts_Events := ts_Events s @ [WaitingOnNodeClaimTerminationEvent nc (map nc_Name claims)]\<rparr>)) (\<lambda>_.
              gret \<lparr>res_Requeue = False, res_RequeueAfter = 10 * minute_ns\<rparr>)
          else
            let nc' = nc\<lparr>cl_Finalizers := removeAll TerminationFinalizer (cl_Finalizers nc)\<rparr> in
            gcatch (gbind (patch_finalizers E nc') (\<lambda>_. gret no_requeue)) (\<lambda>e.
              if IsConflict (te_Unwrap E) e then gret \<lparr>res_Requeue = True, res_RequeueAfter = 0\<rparr>
              else glift (IgnoreNotFound (te_Unwrap E) no_requeue (Wrapf ''removing termination finalizer'' e))))))"

definition Reconcile_termination :: "term_env \<Rightarrow> ociNodeClass \<Rightarrow> ('q term_state, reconcile_result) go" where
  "Reconcile_termination E nc = (if cl_DeletionTimestamp nc \<noteq> None then finalize E nc else gret no_requeue)"

text \<open>The node classes that an event of a node claim asks to be reconciled: only deletions pass the filter.\<close>

datatype claim_event = ClaimCreated | ClaimUpdated | ClaimDeleted

definition watch_passes :: "claim_event \<Rightarrow> bool" where
  "watch_passes ev = (case ev of ClaimCreated \<Rightarrow> False | ClaimUpdated \<Rightarrow> False | ClaimDeleted \<Rightarrow> True)"

definition watch_requests :: "claim_event \<Rightarrow> 'q nodeClaim \<Rightarrow> string list" where
  "watch_requests ev nc = (if watch_passes ev then (case nc_NodeClassRef nc of None \<Rightarrow> [] | Some name \<Rightarrow> [name]) else [])"

section \<open>Properties\<close>

text \<open>A class whose finalizer goes, or which goes itself, is being deleted and no node claim uses it.\<close>

lemma Reconcile_termination_removes:
  assumes "Reconcile_termination E nc s = Some (s', r)" and "ts_Class s = Some nc"
  shows "ts_Claims s' = ts_Claims s \<and> (ts_Class s' = ts_Class s \<or>
    cl_DeletionTimestamp nc \<noteq> None \<and> (\<forall>c \<in> set (ts_Claims s). nc_NodeClassRef c \<noteq> Some (cl_Name nc)) \<and>
    ts_Class s' = stored_class (nc\<lparr>cl_Finalizers := removeAll TerminationFinalizer (cl_Finalizers nc)\<rparr>))"
  using assms
  by (auto simp: Reconcile_termination_def finalize_def gret_def glift_def gbind_def gwrap_def gcatch_def gget_def gmodify_def patch_finalizers_def
      Let_def filter_empty_conv split: if_splits outcome.splits option.splits)


text \<open>C14. A node class that is being deleted and waits for one last node claim goes when that claim goes: while the claim is there a pass keeps the class;
  the deletion of the claim asks for a pass on this very class, and that pass removes it.\<close>

theorem class_goes_with_last_claim:
  assumes "ts_Class s = Some nc" and "cl_DeletionTimestamp nc \<noteq> None" and "set (cl_Finalizers nc) = {TerminationFinalizer}"
    and "te_List E = Ret ()" and "te_Patch E (nc\<lparr>cl_Finalizers := []\<rparr>) = Ret ()" and "c \<in> set (ts_Claims s)" and "nc_NodeClassRef c = Some (cl_Name nc)"
    and "\<forall>d \<in> set (ts_Claims s). nc_NodeClassRef d = Some (cl_Name nc) \<longrightarrow> nc_Name d = nc_Name c"
  shows "\<exists>s1 r s2. Reconcile_termination E nc s = Some (s1, Ret r) \<and> ts_Class s1 = Some nc \<and> res_RequeueAfter r = 10 * minute_ns \<and>
    watch_requests ClaimDeleted c = [cl_Name nc] \<and>
    Reconcile_termination E nc (s1\<lparr>ts_Claims := filter (\<lambda>d. nc_Name d \<noteq> nc_Name c) (ts_Claims s)\<rparr>) = Some (s2, Ret no_requeue) \<and> ts_Class s2 = None"
proof -
  let ?claims = "filter (\<lambda>d. nc_NodeClassRef d = Some (cl_Name nc)) (ts_Claims s)"
  have f: "removeAll TerminationFinalizer (cl_Finalizers nc) = []" using assms(3) by (simp add: removeAll_filter_not_eq filter_empty_conv)
  have fin: "TerminationFinalizer \<in> set (cl_Finalizers nc)" using assms(3) by simp
  have ne: "?claims \<noteq> []" using assms(6,7) by (auto simp: filter_empty_conv)
  have gone: "filter (\<lambda>d. nc_NodeClassRef d = Some (cl_Name nc)) (filter (\<lambda>d. nc_Name d \<noteq> nc_Name c) (ts_Claims s)) = []"
    using assms(8) by (auto simp: filter_empty_conv)
  let ?s1 = "s\<lparr>ts_Events := ts_Events s @ [WaitingOnNodeClaimTerminationEvent nc (map nc_Name ?claims)]\<rparr>"
  note run = Reconcile_termination_def finalize_def Let_def gbind_def gwrap_def gcatch_def glift_def gget_def gmodify_def gret_def patch_finalizers_def
  have "Reconcile_termination E nc s = Some (?s1, Ret \<lparr>res_Requeue = False, res_RequeueAfter = 10 * minute_ns\<rparr>)"
    using assms(2,4) fin ne by (simp add: run)
  moreover have "\<exists>s2. Reconcile_termination E nc (?s1\<lparr>ts_Claims := filter (\<lambda>d. nc_Name d \<noteq> nc_Name c) (ts_Claims s)\<rparr>) = Some (s2, Ret no_requeue) \<and> ts_Class s2 = None"
    using assms(2,4,5) fin gone f by (simp add: run stored_class_def)
  moreover have "watch_requests ClaimDeleted c = [cl_Name nc]" using assms(7) by (simp add: watch_requests_def watch_passes_def)
  ultimately show ?thesis using assms(1) by force
qed


theorem class_goes_with_last_claim_witness:
  "\<exists>(s1 :: unit term_state) s2 (c :: unit nodeClaim). let nc = sample_class\<lparr>cl_DeletionTimestamp := Some 1, cl_Finalizers := [TerminationFinalizer]\<rparr>;
       E = \<lparr>te_List = Ret (), te_Patch = (\<lambda>_. Ret ()), te_Unwrap = False\<rparr> in
     ts_Class s1 = Some nc \<and> watch_requests ClaimDeleted c = [''default''] \<and>
     Reconcile_termination E nc (s1\<lparr>ts_Claims := []\<rparr>) = Some (s2, Ret no_requeue) \<and> ts_Class s2 = None"
proof -
  let ?nc = "sample_class\<lparr>cl_DeletionTimestamp := Some 1, cl_Finalizers := [TerminationFinalizer]\<rparr>"
  let ?E = "\<lparr>te_List = Ret (), te_Patch = (\<lambda>_. Ret ()), te_Unwrap = False\<rparr>"
  let ?c = "\<lparr>nc_Name = ''claim-1'', nc_UID = '''', nc_Labels = [], nc_Annotations = [], nc_CreationTimestamp = 0, nc_DeletionTimestamp = None,
     nc_NodeClassRef = Some ''default'', nc_Requirements = [], nc_Requests = [] :: (string, unit) gomap, nc_Taints = [], nc_StartupTaints = [],
     nc_ProviderID = '''', nc_ImageID = '''', nc_NodeName = '''', nc_Capacity = [], nc_Allocatable = [], nc_Conditions = []\<rparr>"
  let ?s = "\<lparr>ts_Claims = [?c], ts_Class = Some ?nc, ts_Events = []\<rparr>"
  have "\<exists>s1 r s2. Reconcile_termination ?E ?nc ?s = Some (s1, Ret r) \<and> ts_Class s1 = Some ?nc \<and> res_RequeueAfter r = 10 * minute_ns \<and>
    watch_requests ClaimDeleted ?c = [cl_Name ?nc] \<and>
    Reconcile_termination ?E ?nc (s1\<lparr>ts_Claims := filter (\<lambda>d. nc_Name d \<noteq> nc_Name ?c) (ts_Claims ?s)\<rparr>) = Some (s2, Ret no_requeue) \<and> ts_Class s2 = None"
    by (rule class_goes_with_last_claim) (simp_all add: sample_class_def)
  then obtain s1 s2 where "ts_Class s1 = Some ?nc" "watch_requests ClaimDeleted ?c = [cl_Name ?nc]"
      "Reconcile_termination ?E ?nc (s1\<lparr>ts_Claims := filter (\<lambda>d. nc_Name d \<noteq> nc_Name ?c) (ts_Claims ?s)\<rparr>) = Some (s2, Ret no_requeue)" "ts_Class s2 = None"
    by blast
  then show ?thesis unfolding Let_def by (intro exI [of _ s1] exI [of _ s2] exI [of _ ?c]) (simp add: sample_class_def)
qed

end
