(* ===== verification/Parallel.thy ===== *)
theory Parallel
  imports Prelude "HOL-Library.Sublist"
begin

text \<open>
  \<open>workqueue.ParallelizeUntil\<close> as the sources use it: a bounded number of workers take the indices below \<open>m\<close> in order and run the same function on
  each; the function of index \<open>i\<close> makes the calls \<open>calls i\<close> one after the other and then writes \<open>errs[i]\<close>.  A configuration is the queue of
  indices not taken, the calls that each running index has left, the calls made so far and the error slice.  The locale states
  what holds whatever the schedule: an execution cannot get stuck or run forever, and when it is over every call was made
  once, those of one index in their order, and the error slice (of length \<open>n \<ge> m\<close>) is filled as by a sequential loop.
\<close>

type_synonym ('c, 'e) pool = "nat list \<times> (nat \<rightharpoonup> 'c list) \<times> 'c list \<times> 'e option list"

inductive pool_step :: "nat \<Rightarrow> (nat \<Rightarrow> 'c list) \<Rightarrow> (nat \<Rightarrow> 'e option) \<Rightarrow> ('c, 'e) pool \<Rightarrow> ('c, 'e) pool \<Rightarrow> bool"
  for workers calls err where
  pick: "card (dom run) < workers \<Longrightarrow> pool_step workers calls err (i # q, run, tr, errs) (q, run(i \<mapsto> calls i), tr, errs)"
| call: "run i = Some (c # cs) \<Longrightarrow> pool_step workers calls err (q, run, tr, errs) (q, run(i \<mapsto> cs), tr @ [c], errs)"
| finish: "run i = Some [] \<Longrightarrow> pool_step workers calls err (q, run, tr, errs) (q, run(i := None), tr, errs[i := err i])"

definition pool_init :: "nat \<Rightarrow> nat \<Rightarrow> ('c, 'e) pool" where
  "pool_init m n = ([0..<m], Map.empty, [], replicate n None)"

definition pool_final :: "('c, 'e) pool \<Rightarrow> bool" where
  "pool_final cfg \<longleftrightarrow> (case cfg of (q, run, tr, errs) \<Rightarrow> q = [] \<and> run = Map.empty)"

text \<open>The calls that index \<open>i\<close> has yet to make.\<close>

definition left_of :: "(nat \<Rightarrow> 'c list) \<Rightarrow> nat list \<Rightarrow> (nat \<rightharpoonup> 'c list) \<Rightarrow> nat \<Rightarrow> 'c list" where
  "left_of calls q run i = (if i \<in> set q then calls i else case run i of None \<Rightarrow> [] | Some cs \<Rightarrow> cs)"

locale task_pool =
  fixes workers m n :: nat and calls :: "nat \<Rightarrow> 'c list" and err :: "nat \<Rightarrow> 'e option"
  assumes workers_pos: "0 < workers" and slots: "m \<le> n"
begin

definition pool_inv :: "('c, 'e) pool \<Rightarrow> bool" where
  "pool_inv cfg \<longleftrightarrow> (case cfg of (q, run, tr, errs) \<Rightarrow>
     distinct q \<and> set q \<inter> dom run = {} \<and> set q \<union> dom run \<subseteq> {..<m} \<and> length errs = n \<and>
     (\<forall>i < n. errs ! i = (if i \<in> set q \<union> dom run \<or> m \<le> i then None else err i)) \<and>
     (\<forall>i < m. \<exists>d. calls i = d @ left_of calls q run i \<and> subseq d tr) \<and>
     mset tr + (\<Sum>i<m. mset (left_of calls q run i)) = (\<Sum>i<m. mset (calls i)))"

definition pool_measure :: "('c, 'e) pool \<Rightarrow> nat" where
  "pool_measure cfg = (case cfg of (q, run, tr, errs) \<Rightarrow> 2 * length q + card (dom run) + (\<Sum>i<m. length (left_of calls q run i)))"

abbreviation pool_steps :: "('c, 'e) pool \<Rightarrow> ('c, 'e) pool \<Rightarrow> bool" where
  "pool_steps \<equiv> (pool_step workers calls err)\<^sup>*\<^sup>*"

lemma inv_init: "pool_inv (pool_init m n)"
proof -
  have "left_of calls [0..<m] Map.empty i = calls i" if "i < m" for i using that by (simp add: left_of_def)
  then show ?thesis by (auto simp: pool_inv_def pool_init_def intro!: sum.cong)
qed

lemma left_of_pick: "i \<notin> set q \<Longrightarrow> left_of calls q (run(i \<mapsto> calls i)) j = left_of calls (i # q) run j"
  by (auto simp: left_of_def)

lemma left_of_call: "run i = Some (c # cs) \<Longrightarrow> i \<notin> set q \<Longrightarrow>
    left_of calls q run j = (if j = i then [c] else []) @ left_of calls q (run(i \<mapsto> cs)) j"
  by (auto simp: left_of_def)

lemma left_of_finish: "run i = Some [] \<Longrightarrow> left_of calls q (run(i := None)) j = left_of calls q run j"
  by (auto simp: left_of_def)

lemma sum_left_call:
  assumes "run i = Some (c # cs)" and "i \<notin> set q" and "i < m"
  shows "(\<Sum>j<m. mset (left_of calls q run j)) = {#c#} + (\<Sum>j<m. mset (left_of calls q (run(i \<mapsto> cs)) j))"
    "(\<Sum>j<m. length (left_of calls q run j)) = Suc (\<Sum>j<m. length (left_of calls q (run(i \<mapsto> cs)) j))"
proof -
  have "(\<Sum>j<m. mset (left_of calls q run j)) = (\<Sum>j<m. (if j = i then {#c#} else {#}) + mset (left_of calls q (run(i \<mapsto> cs)) j))"
    using assms by (intro sum.cong) (auto simp: left_of_def)
  then show "(\<Sum>j<m. mset (left_of calls q run j)) = {#c#} + (\<Sum>j<m. mset (left_of calls q (run(i \<mapsto> cs)) j))"
    using assms(3) by (simp add: sum.distrib)
  have "(\<Sum>j<m. length (left_of calls q run j)) = (\<Sum>j<m. (if j = i then 1 else 0) + length (left_of calls q (run(i \<mapsto> cs)) j))"
    using assms by (intro sum.cong) (auto simp: left_of_def)
  then show "(\<Sum>j<m. length (left_of calls q run j)) = Suc (\<Sum>j<m. length (left_of calls q (run(i \<mapsto> cs)) j))"
    using assms(3) by (simp add: sum.distrib)
qed

lemma inv_finite: "pool_inv (q, run, tr, errs) \<Longrightarrow> finite (dom run)"
  unfolding pool_inv_def by (auto intro: finite_subset [of _ "{..<m}"])

lemma inv_done: "pool_inv (q, run, tr, errs) \<Longrightarrow> j < m \<Longrightarrow> \<exists>d. calls j = d @ left_of calls q run j \<and> subseq d tr"
  by (simp add: pool_inv_def)

lemma subseq_snoc: "subseq d tr \<Longrightarrow> subseq d (tr @ [c])" "subseq d tr \<Longrightarrow> subseq (d @ [c]) (tr @ [c])"
  by (simp_all add: subseq_append_le_same_iff list_emb_append_mono subseq_rev_drop_many)

lemma done_call:
  assumes "run i = Some (c # cs)" "i \<notin> set q" "pool_inv (q, run, tr, errs)" "j < m"
  shows "\<exists>d. calls j = d @ left_of calls q (run(i \<mapsto> cs)) j \<and> subseq d (tr @ [c])"
proof -
  obtain d where d: "calls j = d @ left_of calls q run j" "subseq d tr" using inv_done [OF assms(3,4)] by blast
  have "calls j = (d @ (if j = i then [c] else [])) @ left_of calls q (run(i \<mapsto> cs)) j"
    using d(1) left_of_call [of run i c cs q j] assms(1,2) by simp
  moreover have "subseq (d @ (if j = i then [c] else [])) (tr @ [c])" using d(2) by (simp add: subseq_snoc)
  ultimately show ?thesis by blast
qed

lemma inv_step: "pool_step workers calls err cfg cfg' \<Longrightarrow> pool_inv cfg \<Longrightarrow> pool_inv cfg'"
proof (induction rule: pool_step.induct)
  case (pick run i q tr errs)
  then have "i \<notin> set q" by (simp add: pool_inv_def)
  with pick show ?case by (auto simp: pool_inv_def left_of_pick)
next
  case (call run i c cs q tr errs)
  then have i: "i \<notin> set q" "i < m" by (auto simp: pool_inv_def)
  have dm: "dom (run(i \<mapsto> cs)) = dom run" using call.hyps by auto
  have "\<forall>j < m. \<exists>d. calls j = d @ left_of calls q (run(i \<mapsto> cs)) j \<and> subseq d (tr @ [c])"
    using done_call [OF call.hyps i(1) call.prems] by blast
  with call.prems i sum_left_call(1) [of run, OF call.hyps i] show ?case
    unfolding pool_inv_def prod.case dm by (simp add: ac_simps)
next
  case (finish run i q tr errs)
  then have "i < length errs" "i \<notin> set q" "i < m" using slots by (auto simp: pool_inv_def)
  with finish show ?case by (auto simp: pool_inv_def left_of_finish nth_list_update)
qed

lemma inv_steps: "pool_steps cfg cfg' \<Longrightarrow> pool_inv cfg \<Longrightarrow> pool_inv cfg'"
  by (induction rule: rtranclp_induct) (auto intro: inv_step)

text \<open>Every schedule ends, and no configuration is stuck before the end.\<close>

lemma measure_step: "pool_step workers calls err cfg cfg' \<Longrightarrow> pool_inv cfg \<Longrightarrow> pool_measure cfg' < pool_measure cfg"
proof (induction rule: pool_step.induct)
  case (pick run i q tr errs)
  then have "i \<notin> set q" "i \<notin> dom run" by (auto simp: pool_inv_def)
  with inv_finite [OF pick.prems] show ?case by (simp add: pool_measure_def left_of_pick)
next
  case (call run i c cs q tr errs)
  then have i: "i \<notin> set q" "i < m" by (auto simp: pool_inv_def)
  have dm: "dom (run(i \<mapsto> cs)) = dom run" using call.hyps by auto
  show ?case unfolding pool_measure_def prod.case dm sum_left_call(2) [of run, OF call.hyps i] by simp
next
  case (finish run i q tr errs)
  then have "card (dom run - {i}) < card (dom run)" using inv_finite [OF finish.prems] by (intro card_Diff1_less) auto
  with finish show ?case by (simp add: pool_measure_def left_of_finish)
qed

lemma steps_bounded:
  assumes "(pool_step workers calls err ^^ k) cfg cfg'" "pool_inv cfg"
  shows "pool_measure cfg' + k \<le> pool_measure cfg"
  using assms
proof (induction k arbitrary: cfg')
  case (Suc k)
  then obtain c where c: "(pool_step workers calls err ^^ k) cfg c" "pool_step workers calls err c cfg'" by auto
  from c(1) Suc.prems(2) have "pool_inv c" by (meson inv_steps relpowp_imp_rtranclp)
  with measure_step [OF c(2)] Suc.IH [OF c(1) Suc.prems(2)] show ?case by simp
qed simp

lemma progress:
  assumes "pool_inv cfg" "\<not> pool_final cfg"
  shows "\<exists>cfg'. pool_step workers calls err cfg cfg'"
proof -
  obtain q run tr errs where cfg: "cfg = (q, run, tr, errs)" by (cases cfg)
  show ?thesis
  proof (cases "run = Map.empty")
    case True
    with assms(2) cfg obtain i q' where "q = i # q'" by (cases q) (auto simp: pool_final_def)
    with True cfg workers_pos show ?thesis by (auto intro!: exI pool_step.pick)
  next
    case False
    then obtain i cs where "run i = Some cs" by fastforce
    with cfg show ?thesis by (cases cs) (blast intro: pool_step.call pool_step.finish)+
  qed
qed

lemma can_finish: "pool_inv cfg \<Longrightarrow> \<exists>cfg'. pool_steps cfg cfg' \<and> pool_final cfg'"
proof (induction "pool_measure cfg" arbitrary: cfg rule: less_induct)
  case less
  show ?case
  proof (cases "pool_final cfg")
    case False
    then obtain c where c: "pool_step workers calls err cfg c" using progress less.prems by blast
    from less.hyps [OF measure_step [OF c less.prems] inv_step [OF c less.prems]] c show ?thesis
      by (meson converse_rtranclp_into_rtranclp)
  qed blast
qed

text \<open>What an execution that is over has done.\<close>

lemma final_spec:
  assumes "pool_steps (pool_init m n) (q, run, tr, errs)" "pool_final (q, run, tr, errs)"
  shows "mset tr = mset (concat (map calls [0..<m]))" "i < m \<Longrightarrow> subseq (calls i) tr"
    "errs = map err [0..<m] @ replicate (n - m) None"
proof -
  have f: "q = []" "run = Map.empty" using assms(2) by (simp_all add: pool_final_def)
  have I: "pool_inv ([], Map.empty, tr, errs)" using inv_steps [OF assms(1) inv_init] f by simp
  have left: "left_of calls [] Map.empty j = []" for j by (simp add: left_of_def)
  show "mset tr = mset (concat (map calls [0..<m]))"
    using I by (simp add: pool_inv_def left mset_concat sum_list_distinct_conv_sum_set atLeast0LessThan comp_def)
  show "i < m \<Longrightarrow> subseq (calls i) tr" using I by (simp add: pool_inv_def left)
  show "errs = map err [0..<m] @ replicate (n - m) None"
    using I slots by (auto simp: pool_inv_def nth_append intro!: nth_equalityI)
qed

end

end
