(* ===== verification/GarbageCollection.thy ===== *)
theory GarbageCollection
  imports CloudProvider Parallel "HOL-Library.Word"
begin

text \<open>
  \<open>pkg/controllers/nodeclaim/garbagecollection\<close>: the loop that terminates the instances that no node claim stands for, and removes their nodes.
  The lists of the Kubernetes API and \<open>workqueue.ParallelizeUntil\<close> are parameters; the requests sent are recorded in
  the order in which they are made.
\<close>

section \<open>Parallel tasks\<close>

text \<open>\<open>ParallelizeUntil(ctx, workers, m, f)\<close> for a context that is not cancelled: the order of the calls of the tasks and the contents of the error
  slice of length \<open>n\<close> at the end.  What is relied on is that this is the end of some execution of the pool.\<close>

type_synonym ('c, 'e) parallelize = "nat \<Rightarrow> nat \<Rightarrow> nat \<Rightarrow> (nat \<Rightarrow> 'c list) \<Rightarrow> (nat \<Rightarrow> 'e option) \<Rightarrow> 'c list \<times> 'e option list"

definition parallel_ok :: "('c, 'e) parallelize \<Rightarrow> bool" where
  "parallel_ok P \<longleftrightarrow> (\<forall>w m n calls err. 0 < w \<longrightarrow> m \<le> n \<longrightarrow>
     (pool_step w calls err)\<^sup>*\<^sup>* (pool_init m n) ([], Map.empty, fst (P w m n calls err), snd (P w m n calls err)))"

text \<open>The tasks one after the other.\<close>

definition sequential :: "('c, 'e) parallelize" where
  "sequential w m n calls err = (concat (map calls [0..<m]), map err [0..<m] @ replicate (n - m) None)"

section \<open>The controller\<close>

definition is_Panic :: "'a outcome \<Rightarrow> bool" where
  "is_Panic r \<longleftrightarrow> (case r of Panic _ \<Rightarrow> True | _ \<Rightarrow> False)"

datatype gc_call = TerminateCall string | DeleteNodeCall string

record ('r, 'q, 'c, 'u, 't) gc_env =
  ge_CP :: "('r, 'q, 'c, 'u, 't) cp_env"
  ge_NodeClaims :: "'q nodeClaim list outcome"
  ge_Nodes :: "node list outcome"
  ge_DeleteNode :: "node \<Rightarrow> unit outcome"
  ge_Now :: int
  ge_Pool :: "(gc_call, goerr) parallelize"

record ('c, 'u, 't) gc_state =
  gs_CP :: "('c, 'u, 't) cp_state"
  gs_Calls :: "gc_call list"
  gs_successfulCount :: "64 word"

definition managed_claim :: "'q nodeClaim \<Rightarrow> bool" where
  "managed_claim nc \<longleftrightarrow> mget (nc_Annotations nc) ManagedByAnnotationKey \<noteq> ''''"

definition resolvedProviderIDs :: "'q nodeClaim list \<Rightarrow> string list" where
  "resolvedProviderIDs claims = filter (\<lambda>p. p \<noteq> '''') (map nc_ProviderID claims)"

definition node_of :: "'q nodeClaim \<Rightarrow> node list \<Rightarrow> node option" where
  "node_of claim nodes = List.find (\<lambda>n. node_ProviderID n = nc_ProviderID claim) nodes"

definition unreachable :: "node \<Rightarrow> bool" where
  "unreachable n \<longleftrightarrow> List.find (\<lambda>t. taint_Key t = ''node.kubernetes.io/unreachable'') (node_Taints n) \<noteq> None"

text \<open>A task: the requests it sends, in order, and what it returns.\<close>

type_synonym task = "gc_call list \<times> unit outcome"

definition delete_node :: "('r, 'q, 'c, 'u, 't) gc_env \<Rightarrow> node option \<Rightarrow> task" where
  "delete_node G n_ptr =
     (case n_ptr of None \<Rightarrow> ([], Ret ())
      | Some n \<Rightarrow> ([DeleteNodeCall (node_Name n)],
          case ge_DeleteNode G n of Err e \<Rightarrow> IgnoreNotFound (ce_Unwrap (ge_CP G)) () e | r \<Rightarrow> r))"

definition garbageCollect :: "('r, 'q, 'c, 'u, 't) gc_env \<Rightarrow> 'q nodeClaim \<Rightarrow> node list \<Rightarrow> task" where
  "garbageCollect G claim nodes =
     (let t = TerminateCall (nc_ProviderID claim); cleanup = delete_node G (node_of claim nodes) in
      case Delete_claim (ge_CP G) claim of
        Panic s \<Rightarrow> ([t], Panic s)
      | Err e \<Rightarrow> (if IsNodeClaimNotFoundError (ce_Unwrap (ge_CP G)) e then (t # fst cleanup, snd cleanup) else ([t], Err e))
      | Ret _ \<Rightarrow> (t # fst cleanup, snd cleanup))"

definition garbageNode :: "('r, 'q, 'c, 'u, 't) gc_env \<Rightarrow> 'q nodeClaim \<Rightarrow> node list \<Rightarrow> task" where
  "garbageNode G claim nodes =
     delete_node G (case node_of claim nodes of None \<Rightarrow> None | Some n \<Rightarrow> if unreachable n then Some n else None)"

definition orphan :: "('r, 'q, 'c, 'u, 't) gc_env \<Rightarrow> string list \<Rightarrow> int \<Rightarrow> 'q nodeClaim \<Rightarrow> bool" where
  "orphan G resolved age claim \<longleftrightarrow> nc_ProviderID claim \<notin> set resolved \<and> ge_Now G - nc_CreationTimestamp claim > age"

definition collect_tasks :: "('r, 'q, 'c, 'u, 't) gc_env \<Rightarrow> string list \<Rightarrow> node list \<Rightarrow> 'q nodeClaim list \<Rightarrow> task list" where
  "collect_tasks G resolved nodes retrieved =
     map (\<lambda>c. if orphan G resolved (30 * second_ns) c then garbageCollect G c nodes else ([], Ret ()))
       (filter (\<lambda>c. managed_claim c \<and> nc_DeletionTimestamp c = None) retrieved)"

definition node_tasks :: "('r, 'q, 'c, 'u, 't) gc_env \<Rightarrow> string list \<Rightarrow> node list \<Rightarrow> 'q nodeClaim list \<Rightarrow> task list" where
  "node_tasks G resolved nodes retrieved =
     map (\<lambda>c. if orphan G resolved (5 * minute_ns) c then garbageNode G c nodes else ([], Ret ()))
       (filter (\<lambda>c. managed_claim c \<and> nc_DeletionTimestamp c \<noteq> None) retrieved)"

definition task_err :: "task \<Rightarrow> goerr option" where
  "task_err t = (case snd t of Err e \<Rightarrow> Some e | _ \<Rightarrow> None)"

text \<open>The tasks on ten workers, with an error slice of length \<open>n\<close>.  A task that panics stops the program.\<close>

definition run_tasks :: "('r, 'q, 'c, 'u, 't) gc_env \<Rightarrow> nat \<Rightarrow> task list \<Rightarrow> (('c, 'u, 't) gc_state, goerr option list) go" where
  "run_tasks G n ts = (\<lambda>s.
     case ge_Pool G 10 (length ts) n (\<lambda>i. fst (ts ! i)) (\<lambda>i. task_err (ts ! i)) of (tr, errs) \<Rightarrow>
       Some (s\<lparr>gs_Calls := gs_Calls s @ tr\<rparr>, if list_ex (\<lambda>t. is_Panic (snd t)) ts then Panic ''worker'' else Ret errs))"

definition list_on :: "('r, 'q, 'c, 'u, 't) gc_env \<Rightarrow> (('c, 'u, 't) gc_state, 'q nodeClaim list) go" where
  "list_on G = (\<lambda>s. case List_claims (ge_CP G) (gs_CP s) of None \<Rightarrow> None | Some (cp, r) \<Rightarrow> Some (s\<lparr>gs_CP := cp\<rparr>, r))"

definition Reconcile_gc :: "('r, 'q, 'c, 'u, 't) gc_env \<Rightarrow> (('c, 'u, 't) gc_state, reconcile_result) go" where
  "Reconcile_gc G =
     gbind (gwrap ''listing cloudprovider machines'' (list_on G)) (\<lambda>retrieved.
     gbind (glift (ge_NodeClaims G)) (\<lambda>claims.
     gbind (glift (ge_Nodes G)) (\<lambda>nodes.
     let resolved = resolvedProviderIDs claims in
     gbind (run_tasks G (length retrieved) (collect_tasks G resolved nodes retrieved)) (\<lambda>errs.
     gbind (run_tasks G (length retrieved) (node_tasks G resolved nodes retrieved)) (\<lambda>errs2.
       case multierr_Combine (errs @ errs2) of
         Some e \<Rightarrow> glift (Err e)
       | None \<Rightarrow>
           gbind (gmodify (\<lambda>s. s\<lparr>gs_successfulCount := gs_successfulCount s + 1\<rparr>)) (\<lambda>_.
           gbind (gget gs_successfulCount) (\<lambda>k.
             gret \<lparr>res_Requeue = False, res_RequeueAfter = (if k \<le> 20 then 10 * second_ns else 2 * minute_ns)\<rparr>)))))))"

section \<open>The pool of the controller\<close>

text \<open>The contract of the pool holds for the tasks of the controller, whatever they are.\<close>

interpretation gc_pool: task_pool 10 "length ts" "length ts + spare" "\<lambda>i. fst (ts ! i)" "\<lambda>i. task_err (ts ! i)"
  by unfold_locales simp_all

lemma calls_steps: "run i = Some cs \<Longrightarrow> (pool_step w calls err)\<^sup>*\<^sup>* (q, run, tr, errs) (q, run(i \<mapsto> []), tr @ cs, errs)"
proof (induction cs arbitrary: run tr)
  case (Cons c cs)
  have "pool_step w calls err (q, run, tr, errs) (q, run(i \<mapsto> cs), tr @ [c], errs)" using Cons.prems by (rule pool_step.call)
  moreover have "(pool_step w calls err)\<^sup>*\<^sup>* (q, run(i \<mapsto> cs), tr @ [c], errs) (q, run(i \<mapsto> []), tr @ c # cs, errs)"
    using Cons.IH [of "run(i \<mapsto> cs)" "tr @ [c]", OF fun_upd_same] by (simp only: fun_upd_upd append_assoc append.simps)
  ultimately show ?case by (rule converse_rtranclp_into_rtranclp)
qed (simp add: fun_upd_idem)

lemma index_steps:
  assumes "0 < w"
  shows "(pool_step w calls err)\<^sup>*\<^sup>* (i # q, Map.empty, tr, errs) (q, Map.empty, tr @ calls i, errs[i := err i])"
proof -
  have "pool_step w calls err (i # q, Map.empty, tr, errs) (q, [i \<mapsto> calls i], tr, errs)" using assms by (intro pool_step.pick) simp
  also have "(pool_step w calls err)\<^sup>*\<^sup>* (q, [i \<mapsto> calls i], tr, errs) (q, [i \<mapsto> []], tr @ calls i, errs)"
    using calls_steps [of "[i \<mapsto> calls i]" i "calls i"] by simp
  also have "pool_step w calls err (q, [i \<mapsto> []], tr @ calls i, errs) (q, ([i \<mapsto> []])(i := None), tr @ calls i, errs[i := err i])"
    by (rule pool_step.finish) simp
  finally show ?thesis by simp
qed

lemma sequential_ok: "parallel_ok sequential"
proof -
  have run: "(pool_step w calls err)\<^sup>*\<^sup>* (pool_init m n) ([k..<m], Map.empty, concat (map calls [0..<k]), map err [0..<k] @ replicate (n - k) None)"
    if "0 < w" "m \<le> n" "k \<le> m" for w m n k and calls :: "nat \<Rightarrow> 'c list" and err :: "nat \<Rightarrow> 'e option"
    using that(3)
  proof (induction k)
    case (Suc k)
    have k: "[k..<m] = k # [Suc k..<m]" using Suc.prems by (simp add: upt_conv_Cons)
    have upd: "(map err [0..<k] @ replicate (n - k) None)[k := err k] = map err [0..<Suc k] @ replicate (n - Suc k) None"
      using Suc.prems that(2) by (simp add: list_update_append Suc_diff_Suc [symmetric])
    have "concat (map calls [0..<Suc k]) = concat (map calls [0..<k]) @ calls k" by simp
    then show ?case
      using rtranclp_trans [OF Suc.IH [OF Suc_leD [OF Suc.prems], unfolded k] index_steps [OF that(1)]] by (simp only: upd)
  qed (simp add: pool_init_def)
  show ?thesis unfolding parallel_ok_def sequential_def fst_conv snd_conv
    by (intro allI impI) (use run [OF _ _ order_refl] in simp)
qed

lemma pool_result:
  assumes "parallel_ok P" and "length ts \<le> n"
  defines "res \<equiv> P 10 (length ts) n (\<lambda>i. fst (ts ! i)) (\<lambda>i. task_err (ts ! i))"
  shows "mset (fst res) = mset (concat (map fst ts))" "t \<in> set ts \<Longrightarrow> subseq (fst t) (fst res)"
    "snd res = map task_err ts @ replicate (n - length ts) None"
proof -
  have n: "length ts + (n - length ts) = n" using assms(2) by simp
  have "(pool_step 10 (\<lambda>i. fst (ts ! i)) (\<lambda>i. task_err (ts ! i)))\<^sup>*\<^sup>* (pool_init (length ts) n) ([], Map.empty, fst res, snd res)"
    using assms(1,2) by (simp add: parallel_ok_def res_def)
  note f = gc_pool.final_spec [where ts = ts and spare = "n - length ts", unfolded n, OF this]
  have fin: "pool_final ([], Map.empty, fst res, snd res)" by (simp add: pool_final_def)
  have ix: "map (\<lambda>i. fst (ts ! i)) [0..<length ts] = map fst ts" "map (\<lambda>i. task_err (ts ! i)) [0..<length ts] = map task_err ts"
    by (rule nth_equalityI, simp_all)+
  show "mset (fst res) = mset (concat (map fst ts))" using f(1) [OF fin] by (simp only: ix)
  show "t \<in> set ts \<Longrightarrow> subseq (fst t) (fst res)" using f(2) [OF fin] by (metis in_set_conv_nth)
  show "snd res = map task_err ts @ replicate (n - length ts) None" using f(3) [OF fin] by (simp only: ix diff_add_inverse)
qed

definition tasks_result :: "nat \<Rightarrow> task list \<Rightarrow> goerr option list outcome" where
  "tasks_result n ts = (if list_ex (\<lambda>t. is_Panic (snd t)) ts then Panic ''worker'' else Ret (map task_err ts @ replicate (n - length ts) None))"

definition interleaves :: "task list \<Rightarrow> gc_call list \<Rightarrow> bool" where
  "interleaves ts tr \<longleftrightarrow> mset tr = mset (concat (map fst ts)) \<and> (\<forall>t \<in> set ts. subseq (fst t) tr)"

lemma run_tasks_spec:
  assumes "parallel_ok (ge_Pool G)" and "length ts \<le> n"
  obtains tr where "interleaves ts tr" and "\<And>s. run_tasks G n ts s = Some (s\<lparr>gs_Calls := gs_Calls s @ tr\<rparr>, tasks_result n ts)"
proof -
  obtain tr errs where "ge_Pool G 10 (length ts) n (\<lambda>i. fst (ts ! i)) (\<lambda>i. task_err (ts ! i)) = (tr, errs)" by fastforce
  then show thesis
    using pool_result [OF assms] by (intro that [of tr]) (simp_all add: run_tasks_def tasks_result_def interleaves_def)
qed

section \<open>A pass of the controller\<close>

text \<open>The result of a pass once the three lists are there, whatever the schedule.\<close>

definition pass_result :: "64 word \<Rightarrow> nat \<Rightarrow> task list \<Rightarrow> task list \<Rightarrow> reconcile_result outcome" where
  "pass_result k n ts ts2 = obind (tasks_result n ts) (\<lambda>errs. obind (tasks_result n ts2) (\<lambda>errs2.
     of_err \<lparr>res_Requeue = False, res_RequeueAfter = (if k + 1 \<le> 20 then 10 * second_ns else 2 * minute_ns)\<rparr> (multierr_Combine (errs @ errs2))))"

definition is_Ret :: "'a outcome \<Rightarrow> bool" where
  "is_Ret r \<longleftrightarrow> (case r of Ret _ \<Rightarrow> True | _ \<Rightarrow> False)"

lemma task_counts: "length (collect_tasks G ids nodes cs) \<le> length cs" "length (node_tasks G ids nodes cs) \<le> length cs"
  by (simp_all add: collect_tasks_def node_tasks_def)

lemma Reconcile_gc_listed:
  assumes "parallel_ok (ge_Pool G)" and "List_claims (ge_CP G) (gs_CP s) = Some (cp, Ret retrieved)" and "ge_NodeClaims G = Ret claims"
    and "ge_Nodes G = Ret nodes"
    and ts_def: "ts = collect_tasks G (resolvedProviderIDs claims) nodes retrieved" and ts2_def: "ts2 = node_tasks G (resolvedProviderIDs claims) nodes retrieved"
    and r_def: "r = pass_result (gs_successfulCount s) (length retrieved) ts ts2"
  obtains tr tr2 where "interleaves ts tr" and "interleaves ts2 tr2"
    and "Reconcile_gc G s = Some (\<lparr>gs_CP = cp, gs_Calls = gs_Calls s @ tr @ (if list_ex (\<lambda>t. is_Panic (snd t)) ts then [] else tr2),
      gs_successfulCount = gs_successfulCount s + (if is_Ret r then 1 else 0)\<rparr>, r)"
proof -
  obtain tr where tr: "interleaves ts tr" "\<And>s. run_tasks G (length retrieved) ts s = Some (s\<lparr>gs_Calls := gs_Calls s @ tr\<rparr>, tasks_result (length retrieved) ts)"
    using run_tasks_spec [OF assms(1) task_counts(1)] unfolding ts_def by blast
  obtain tr2 where tr2: "interleaves ts2 tr2" "\<And>s. run_tasks G (length retrieved) ts2 s = Some (s\<lparr>gs_Calls := gs_Calls s @ tr2\<rparr>, tasks_result (length retrieved) ts2)"
    using run_tasks_spec [OF assms(1) task_counts(2)] unfolding ts2_def by blast
  have l: "gwrap ''listing cloudprovider machines'' (list_on G) s = Some (s\<lparr>gs_CP := cp\<rparr>, Ret retrieved)"
    by (simp add: gwrap_Ret_iff list_on_def assms(2))
  have "Reconcile_gc G s = Some (\<lparr>gs_CP = cp, gs_Calls = gs_Calls s @ tr @ (if list_ex (\<lambda>t. is_Panic (snd t)) ts then [] else tr2),
      gs_successfulCount = gs_successfulCount s + (if is_Ret r then 1 else 0)\<rparr>, r)"
    unfolding Reconcile_gc_def
    by (auto simp add: gbind_def l glift_def gmodify_def gget_def gret_def assms(3,4) Let_def ts_def [symmetric] ts2_def [symmetric]
          tr(2) tr2(2) r_def pass_result_def tasks_result_def of_err_def is_Ret_def intro!: gc_state.equality split: option.split)
  with tr(1) tr2(1) show thesis by (rule that)
qed

lemma Reconcile_gc_inv:
  assumes "parallel_ok (ge_Pool G)" and "List_claims (ge_CP G) (gs_CP s) = Some (cp, Ret cs)" and "ge_NodeClaims G = Ret claims"
    and "ge_Nodes G = Ret nodes" and "Reconcile_gc G s = Some (s', r)"
    and "ts = collect_tasks G (resolvedProviderIDs claims) nodes cs" and "ts2 = node_tasks G (resolvedProviderIDs claims) nodes cs"
  obtains tr tr2 where "interleaves ts tr" and "interleaves ts2 tr2" and "r = pass_result (gs_successfulCount s) (length cs) ts ts2"
    and "gs_CP s' = cp" and "gs_Calls s' = gs_Calls s @ tr @ (if list_ex (\<lambda>t. is_Panic (snd t)) ts then [] else tr2)"
    and "gs_successfulCount s' = gs_successfulCount s + (if is_Ret r then 1 else 0)"
  by (rule Reconcile_gc_listed [OF assms(1-4,6,7) refl]) (rule that, use assms(5) in auto)

lemma Reconcile_gc_unlisted:
  assumes "Reconcile_gc G s = Some (s', r)" and "\<not> (\<exists>cp cs claims nodes. List_claims (ge_CP G) (gs_CP s) = Some (cp, Ret cs) \<and>
      ge_NodeClaims G = Ret claims \<and> ge_Nodes G = Ret nodes)"
  shows "gs_Calls s' = gs_Calls s \<and> gs_successfulCount s' = gs_successfulCount s \<and> \<not> is_Ret r \<and>
    Reconcile_gc (G\<lparr>ge_Pool := P\<rparr>) s = Some (s', r)"
  using assms
  by (auto simp: Reconcile_gc_def gbind_def gwrap_def gcatch_def glift_def list_on_def is_Ret_def split: option.splits prod.splits outcome.splits)

section \<open>What a pass deletes\<close>

lemma interleaves_set: "interleaves ts tr \<Longrightarrow> set tr = (\<Union>t \<in> set ts. set (fst t))"
  unfolding interleaves_def by (drule conjunct1, drule mset_eq_setD) simp

lemma node_of_Some: "node_of c nodes = Some n \<Longrightarrow> n \<in> set nodes \<and> node_ProviderID n = nc_ProviderID c"
  by (auto simp: node_of_def find_Some_iff)

lemma collect_calls:
  assumes "t \<in> set (collect_tasks G ids nodes cs)" and "x \<in> set (fst t)"
  obtains c where "c \<in> set cs" "nc_DeletionTimestamp c = None" "orphan G ids (30 * second_ns) c"
    "x = TerminateCall (nc_ProviderID c) \<or> (\<exists>n. node_of c nodes = Some n \<and> x = DeleteNodeCall (node_Name n))"
  using assms
  by (auto simp: collect_tasks_def garbageCollect_def Let_def delete_node_def split: if_splits outcome.splits option.splits)

lemma node_calls:
  assumes "t \<in> set (node_tasks G ids nodes cs)" and "x \<in> set (fst t)"
  obtains c n where "c \<in> set cs" "nc_DeletionTimestamp c \<noteq> None" "orphan G ids (5 * minute_ns) c"
    "node_of c nodes = Some n" "unreachable n" "x = DeleteNodeCall (node_Name n)"
  using assms by (auto simp: node_tasks_def garbageNode_def delete_node_def split: if_splits option.splits)

text \<open>The instance behind a retrieved claim.\<close>

lemma retrieved_instance:
  assumes "List_claims E s = Some (s', Ret cs)" and "c \<in> set cs"
  obtains insts i where "List_instances (ce_Fuel E) (ie_Compute (ce_Inst E)) (ce_Opts E) = Some (Ret insts)" "i \<in> set insts"
    "in_Id i = Some (nc_ProviderID c)" "in_TimeCreated i = Some (nc_CreationTimestamp c)" "(nc_DeletionTimestamp c \<noteq> None) = terminating i"
    "managed_tag (ce_Opts E) i = Some (ClusterName (ce_Opts E))"
proof -
  obtain insts where l: "List_instances (ce_Fuel E) (ie_Compute (ce_Inst E)) (ce_Opts E) = Some (Ret insts)"
    and all: "list_all2 (\<lambda>i c. in_Id i = Some (nc_ProviderID c) \<and> in_TimeCreated i = Some (nc_CreationTimestamp c) \<and>
      (nc_DeletionTimestamp c \<noteq> None) = terminating i \<and>
      map_of (nc_Annotations c) ManagedByAnnotationKey = managed_tag (ce_Opts E) i) insts cs"
    using List_claims_all2 [OF assms(1)] by blast
  from all assms(2) obtain i where "i \<in> set insts" "in_Id i = Some (nc_ProviderID c)" "in_TimeCreated i = Some (nc_CreationTimestamp c)"
      "(nc_DeletionTimestamp c \<noteq> None) = terminating i"
    by (auto simp: list_all2_conv_all_nth in_set_conv_nth simp del: not_None_eq) blast
  with l show thesis using List_instances_managed [OF l] by (intro that)
qed

text \<open>A managed instance that no node claim stands for and that is older than the given age.\<close>

definition orphan_instance :: "('r, 'q, 'c, 'u, 't) gc_env \<Rightarrow> int \<Rightarrow> oci_instance \<Rightarrow> bool" where
  "orphan_instance G age i \<longleftrightarrow>
     (\<exists>insts. List_instances (ce_Fuel (ge_CP G)) (ie_Compute (ce_Inst (ge_CP G))) (ce_Opts (ge_CP G)) = Some (Ret insts) \<and> i \<in> set insts) \<and>
     managed_tag (ce_Opts (ge_CP G)) i = Some (ClusterName (ce_Opts (ge_CP G))) \<and>
     (\<exists>created. in_TimeCreated i = Some created \<and> ge_Now G - created > age) \<and>
     (\<exists>claims. ge_NodeClaims G = Ret claims \<and> (\<forall>c \<in> set claims. nc_ProviderID c \<noteq> '''' \<longrightarrow> in_Id i \<noteq> Some (nc_ProviderID c)))"

lemma orphan_claim_instance:
  assumes "List_claims (ge_CP G) s = Some (s', Ret cs)" and "c \<in> set cs" and "orphan G (resolvedProviderIDs claims) age c" and "ge_NodeClaims G = Ret claims"
  obtains i where "orphan_instance G age i" "in_Id i = Some (nc_ProviderID c)" "(nc_DeletionTimestamp c \<noteq> None) = terminating i"
proof -
  from assms(1,2) obtain insts i where i: "List_instances (ce_Fuel (ge_CP G)) (ie_Compute (ce_Inst (ge_CP G))) (ce_Opts (ge_CP G)) = Some (Ret insts)" "i \<in> set insts"
    "in_Id i = Some (nc_ProviderID c)" "in_TimeCreated i = Some (nc_CreationTimestamp c)" "(nc_DeletionTimestamp c \<noteq> None) = terminating i"
    "managed_tag (ce_Opts (ge_CP G)) i = Some (ClusterName (ce_Opts (ge_CP G)))"
    by (rule retrieved_instance)
  show thesis
  proof (rule that [of i])
    show "orphan_instance G age i" using i assms(3,4) by (auto simp: orphan_instance_def orphan_def resolvedProviderIDs_def)
  qed (fact i)+
qed

text \<open>C1. Whatever the schedule of the ten workers and whatever the outcome of a pass, the pass only terminates instances that carry the cluster's own
  tag, are not being terminated already, were created more than thirty seconds ago and have no node claim; and it only removes nodes
  of such instances, or unreachable nodes of instances that are terminating and older than five minutes.\<close>

theorem gc_deletes_only_orphans:
  assumes "parallel_ok (ge_Pool G)" and "Reconcile_gc G s = Some (s', r)"
  shows "\<exists>new. gs_Calls s' = gs_Calls s @ new \<and>
    (\<forall>ident. TerminateCall ident \<in> set new \<longrightarrow> (\<exists>i. orphan_instance G (30 * second_ns) i \<and> \<not> terminating i \<and> in_Id i = Some ident)) \<and>
    (\<forall>name. DeleteNodeCall name \<in> set new \<longrightarrow> (\<exists>nodes n i. ge_Nodes G = Ret nodes \<and> n \<in> set nodes \<and> node_Name n = name \<and> in_Id i = Some (node_ProviderID n) \<and>
       (if terminating i then orphan_instance G (5 * minute_ns) i \<and> unreachable n else orphan_instance G (30 * second_ns) i)))"
proof (cases "\<exists>cp cs claims nodes. List_claims (ge_CP G) (gs_CP s) = Some (cp, Ret cs) \<and> ge_NodeClaims G = Ret claims \<and> ge_Nodes G = Ret nodes")
  case True
  then obtain cp cs claims nodes where l: "List_claims (ge_CP G) (gs_CP s) = Some (cp, Ret cs)" "ge_NodeClaims G = Ret claims" "ge_Nodes G = Ret nodes" by blast
  let ?ts = "collect_tasks G (resolvedProviderIDs claims) nodes cs" and ?ts2 = "node_tasks G (resolvedProviderIDs claims) nodes cs"
  obtain tr tr2 where t: "interleaves ?ts tr" "interleaves ?ts2 tr2"
    and s': "gs_Calls s' = gs_Calls s @ tr @ (if list_ex (\<lambda>t. is_Panic (snd t)) ?ts then [] else tr2)"
    by (rule Reconcile_gc_inv [OF assms(1) l assms(2) refl refl]) (rule that)
  let ?new = "tr @ (if list_ex (\<lambda>t. is_Panic (snd t)) ?ts then [] else tr2)"
  have sub: "set ?new \<subseteq> (\<Union>t \<in> set ?ts. set (fst t)) \<union> (\<Union>t \<in> set ?ts2. set (fst t))" using t by (auto simp: interleaves_set)
  have "\<exists>i. orphan_instance G (30 * second_ns) i \<and> \<not> terminating i \<and> in_Id i = Some ident" if "TerminateCall ident \<in> set ?new" for ident
    using subsetD [OF sub that] l by (auto elim!: collect_calls node_calls elim: orphan_claim_instance)
  moreover have "\<exists>n i. n \<in> set nodes \<and> node_Name n = name \<and> in_Id i = Some (node_ProviderID n) \<and>
       (if terminating i then orphan_instance G (5 * minute_ns) i \<and> unreachable n else orphan_instance G (30 * second_ns) i)"
    if "DeleteNodeCall name \<in> set ?new" for name
    using subsetD [OF sub that] l
    by (auto elim!: collect_calls node_calls dest!: node_of_Some elim!: orphan_claim_instance) metis+
  ultimately show ?thesis using s' l(3) by blast
next
  case False
  from Reconcile_gc_unlisted [OF assms(2) this] show ?thesis by simp
qed


text \<open>The instances that a pass terminates.\<close>

fun terminated_id :: "gc_call \<Rightarrow> string option" where
  "terminated_id (TerminateCall ident) = Some ident"
| "terminated_id (DeleteNodeCall name) = None"

definition victim :: "('r, 'q, 'c, 'u, 't) gc_env \<Rightarrow> 'q nodeClaim list \<Rightarrow> oci_instance \<Rightarrow> bool" where
  "victim G claims i \<longleftrightarrow> \<not> terminating i \<and> ge_Now G - the (in_TimeCreated i) > 30 * second_ns \<and> the (in_Id i) \<notin> set (resolvedProviderIDs claims)"

lemma map_filter_mset: "mset xs = mset ys \<Longrightarrow> mset (List.map_filter f xs) = mset (List.map_filter f ys)"
  by (simp add: List.map_filter_def)

lemma map_filter_append: "List.map_filter f (xs @ ys) = List.map_filter f xs @ List.map_filter f ys"
  by (simp add: List.map_filter_def)

lemma map_filter_concat: "List.map_filter f (concat (map g ts)) = concat (map (\<lambda>t. List.map_filter f (g t)) ts)"
  by (induction ts) (simp_all add: List.map_filter_def)

lemma concat_if_singleton: "concat (map (\<lambda>x. if P x then [f x] else []) xs) = map f (filter P xs)"
  by (induction xs) simp_all

lemma tasks_result_Ret: "tasks_result n ts = Ret errs \<Longrightarrow> (\<forall>t \<in> set ts. \<not> is_Panic (snd t)) \<and> errs = map task_err ts @ replicate (n - length ts) None"
  by (simp add: tasks_result_def list_ex_iff split: if_splits)

lemma pass_ok:
  assumes "pass_result k n ts ts2 = Ret res" and "t \<in> set ts \<union> set ts2"
  shows "snd t = Ret ()"
proof -
  obtain e e2 where e: "tasks_result n ts = Ret e" "tasks_result n ts2 = Ret e2" "multierr_Combine (e @ e2) = None"
    using assms(1) by (auto simp: pass_result_def obind_eq_Ret_iff of_err_def split: option.splits)
  note r = tasks_result_Ret [OF e(1)] tasks_result_Ret [OF e(2)]
  have "\<not> is_Panic (snd t)" using assms(2) r by blast
  moreover have "task_err t \<in> set (e @ e2)" using assms(2) r by auto
  then have "task_err t = None" using e(3) unfolding multierr_Combine_None by blast
  ultimately show ?thesis by (cases "snd t") (auto simp: is_Panic_def task_err_def)
qed

lemma collect_ok_calls:
  assumes "snd (garbageCollect G c nodes) = Ret ()"
  shows "fst (garbageCollect G c nodes) = TerminateCall (nc_ProviderID c) # fst (delete_node G (node_of c nodes))"
  using assms by (auto simp: garbageCollect_def Let_def split: outcome.splits if_splits)

lemma delete_node_ids: "List.map_filter terminated_id (fst (delete_node G n_ptr)) = []"
  by (simp add: delete_node_def List.map_filter_def split: option.split)

lemma collect_ids:
  assumes "\<forall>t \<in> set (collect_tasks G ids nodes cs). snd t = Ret ()"
  shows "List.map_filter terminated_id (concat (map fst (collect_tasks G ids nodes cs))) =
    map nc_ProviderID (filter (\<lambda>c. managed_claim c \<and> nc_DeletionTimestamp c = None \<and> orphan G ids (30 * second_ns) c) cs)"
proof -
  let ?m = "filter (\<lambda>c. managed_claim c \<and> nc_DeletionTimestamp c = None) cs"
  have "List.map_filter terminated_id (fst (if orphan G ids (30 * second_ns) c then garbageCollect G c nodes else ([], Ret ()))) =
      (if orphan G ids (30 * second_ns) c then [nc_ProviderID c] else [])" if "c \<in> set ?m" for c
    using assms that by (auto simp: collect_tasks_def collect_ok_calls delete_node_ids map_filter_simps)
  then have "List.map_filter terminated_id (concat (map fst (collect_tasks G ids nodes cs))) =
      concat (map (\<lambda>c. if orphan G ids (30 * second_ns) c then [nc_ProviderID c] else []) ?m)"
    unfolding map_filter_concat collect_tasks_def map_map comp_def by (intro arg_cong [where f = concat] map_cong) simp_all
  then show ?thesis by (simp add: concat_if_singleton conj_ac)
qed

lemma node_ids: "List.map_filter terminated_id (concat (map fst (node_tasks G ids nodes cs))) = []"
  by (auto simp: map_filter_concat node_tasks_def garbageNode_def delete_node_ids List.map_filter_def[of _ "[]"])

lemma victims_retrieved:
  assumes "list_all2 (\<lambda>i c. in_Id i = Some (nc_ProviderID c) \<and> in_TimeCreated i = Some (nc_CreationTimestamp c) \<and>
      (nc_DeletionTimestamp c \<noteq> None) = terminating i \<and> map_of (nc_Annotations c) ManagedByAnnotationKey = Some v) insts cs" and "v \<noteq> ''''"
  shows "map nc_ProviderID (filter (\<lambda>c. managed_claim c \<and> nc_DeletionTimestamp c = None \<and> orphan G (resolvedProviderIDs claims) (30 * second_ns) c) cs) =
    map (\<lambda>i. the (in_Id i)) (filter (victim G claims) insts)"
  using assms by (induction rule: list_all2_induct) (auto simp: managed_claim_def mget_def victim_def orphan_def)

lemma collect_order:
  assumes "interleaves (collect_tasks G ids nodes cs) tr" and "\<forall>t \<in> set (collect_tasks G ids nodes cs). snd t = Ret ()"
    and "c \<in> set cs" "managed_claim c" "nc_DeletionTimestamp c = None" "orphan G ids (30 * second_ns) c" "node_of c nodes = Some n"
  shows "subseq [TerminateCall (nc_ProviderID c), DeleteNodeCall (node_Name n)] tr"
proof -
  have m: "garbageCollect G c nodes \<in> set (collect_tasks G ids nodes cs)" using assms(3-6) by (force simp: collect_tasks_def)
  then have "fst (garbageCollect G c nodes) = [TerminateCall (nc_ProviderID c), DeleteNodeCall (node_Name n)]"
    using collect_ok_calls [of G c nodes] assms(2,7) by (simp add: delete_node_def)
  with m assms(1) show ?thesis unfolding interleaves_def by metis
qed

text \<open>C6. A pass that succeeds has terminated every instance of the cluster that is not terminating, is older than thirty seconds and has no node claim,
  each exactly once, and has removed the node of such an instance after it.  The pass is counted (in 64 bits) and runs again after
  ten seconds until twenty passes were counted, after two minutes from then on.\<close>

theorem Reconcile_gc_spec:
  assumes "parallel_ok (ge_Pool G)" and "ClusterName (ce_Opts (ge_CP G)) \<noteq> ''''" and "Reconcile_gc G s = Some (s', Ret res)"
    and "List_instances (ce_Fuel (ge_CP G)) (ie_Compute (ce_Inst (ge_CP G))) (ce_Opts (ge_CP G)) = Some (Ret insts)"
    and "ge_NodeClaims G = Ret claims" and "ge_Nodes G = Ret nodes"
  shows "\<exists>new. gs_Calls s' = gs_Calls s @ new \<and>
    mset (List.map_filter terminated_id new) = mset (map (\<lambda>i. the (in_Id i)) (filter (victim G claims) insts)) \<and>
    (\<forall>i \<in> set insts. \<forall>n. victim G claims i \<longrightarrow> List.find (\<lambda>n. node_ProviderID n = the (in_Id i)) nodes = Some n \<longrightarrow>
       subseq [TerminateCall (the (in_Id i)), DeleteNodeCall (node_Name n)] new) \<and>
    gs_successfulCount s' = gs_successfulCount s + 1 \<and>
    res_RequeueAfter res = (if gs_successfulCount s' \<le> 20 then 10 * second_ns else 2 * minute_ns)"
proof -
  have "is_Ret (Ret res)" by (simp add: is_Ret_def)
  then obtain cp cs where l: "List_claims (ge_CP G) (gs_CP s) = Some (cp, Ret cs)" using Reconcile_gc_unlisted [OF assms(3)] by blast
  let ?ts = "collect_tasks G (resolvedProviderIDs claims) nodes cs" and ?ts2 = "node_tasks G (resolvedProviderIDs claims) nodes cs"
  obtain tr tr2 where t: "interleaves ?ts tr" "interleaves ?ts2 tr2"
    and r: "pass_result (gs_successfulCount s) (length cs) ?ts ?ts2 = Ret res" "gs_successfulCount s' = gs_successfulCount s + 1"
    and s': "gs_Calls s' = gs_Calls s @ tr @ (if list_ex (\<lambda>t. is_Panic (snd t)) ?ts then [] else tr2)"
    by (rule Reconcile_gc_inv [OF assms(1) l assms(5,6,3) refl refl]) (rule that, auto simp: is_Ret_def dest: sym)
  have ok: "\<forall>t \<in> set ?ts. snd t = Ret ()" using pass_ok [OF r(1)] by blast
  then have np: "\<not> list_ex (\<lambda>t. is_Panic (snd t)) ?ts" by (auto simp: list_ex_iff is_Panic_def)
  have all: "list_all2 (\<lambda>i c. in_Id i = Some (nc_ProviderID c) \<and> in_TimeCreated i = Some (nc_CreationTimestamp c) \<and>
      (nc_DeletionTimestamp c \<noteq> None) = terminating i \<and>
      map_of (nc_Annotations c) ManagedByAnnotationKey = Some (ClusterName (ce_Opts (ge_CP G)))) insts cs"
    using List_claims_all2 [OF l] List_instances_managed [OF assms(4)] assms(4) by (auto elim!: list.rel_mono_strong)
  have "mset (List.map_filter terminated_id (tr @ tr2)) = mset (map (\<lambda>i. the (in_Id i)) (filter (victim G claims) insts))"
    using map_filter_mset [of tr _ terminated_id, OF interleaves_def [THEN iffD1, OF t(1), THEN conjunct1]]
      map_filter_mset [of tr2 _ terminated_id, OF interleaves_def [THEN iffD1, OF t(2), THEN conjunct1]]
    by (simp only: collect_ids [OF ok] node_ids victims_retrieved [OF all assms(2)] map_filter_append mset_append) simp
  moreover have "subseq [TerminateCall (the (in_Id i)), DeleteNodeCall (node_Name n)] (tr @ tr2)"
    if i: "i \<in> set insts" "victim G claims i" "List.find (\<lambda>n. node_ProviderID n = the (in_Id i)) nodes = Some n" for i n
  proof -
    obtain c where c: "c \<in> set cs" "in_Id i = Some (nc_ProviderID c)" "in_TimeCreated i = Some (nc_CreationTimestamp c)"
        "(nc_DeletionTimestamp c \<noteq> None) = terminating i" "map_of (nc_Annotations c) ManagedByAnnotationKey = Some (ClusterName (ce_Opts (ge_CP G)))"
      using all i(1) by (auto simp: list_all2_conv_all_nth in_set_conv_nth simp del: not_None_eq) blast
    then have "subseq [TerminateCall (nc_ProviderID c), DeleteNodeCall (node_Name n)] tr"
      using i(2,3) assms(2) by (intro collect_order [OF t(1) ok]) (auto simp: managed_claim_def mget_def victim_def orphan_def node_of_def)
    then show ?thesis using c(2) by (simp add: subseq_rev_drop_many)
  qed
  moreover have "res_RequeueAfter res = (if gs_successfulCount s' \<le> 20 then 10 * second_ns else 2 * minute_ns)"
    using r by (auto simp: pass_result_def obind_eq_Ret_iff of_err_def split: option.splits)
  ultimately show ?thesis using s' np r(2) by auto
qed


section \<open>Examples\<close>

text \<open>A cluster without node claims, with one instance that is a minute old and the node of it.\<close>

definition sample_gc :: "(unit, unit, string \<rightharpoonup> oci_subnet list \<times> int, string \<rightharpoonup> unit \<times> int, unit) gc_env" where
  "sample_gc = \<lparr>ge_CP = poolless_cp, ge_NodeClaims = Ret [], ge_Nodes = Ret [\<lparr>node_Name = ''node-1'', node_ProviderID = ''n1'', node_Taints = []\<rparr>],
     ge_DeleteNode = (\<lambda>_. Ret ()), ge_Now = minute_ns, ge_Pool = sequential\<rparr>"

definition sample_gc_state :: "(string \<rightharpoonup> oci_subnet list \<times> int, string \<rightharpoonup> unit \<times> int, unit) gc_state" where
  "sample_gc_state = \<lparr>gs_CP = sample_cp_state, gs_Calls = [], gs_successfulCount = 0\<rparr>"

lemma sample_gc_pool: "parallel_ok (ge_Pool sample_gc)"
  by (simp add: sample_gc_def sequential_ok)

lemma sample_gc_list:
  obtains c where "List_claims poolless_cp sample_cp_state = Some (sample_cp_state, Ret [c])" "nc_ProviderID c = ''n1''" "nc_CreationTimestamp c = 5"
    "nc_DeletionTimestamp c = None" "managed_claim c"
proof -
  obtain c where c: "List_claims poolless_cp sample_cp_state = Some (sample_cp_state, Ret [c])" using poolless_list by blast
  have "managed_tag sample_opts sample_instance = Some (ClusterName sample_opts)"
    using List_instances_managed [OF poolless_instances] by (simp add: poolless_sel)
  then show thesis using List_claims_all2 [OF c] poolless_instances c
    by (intro that [of c]) (auto simp: managed_claim_def mget_def poolless_sel sample_instance_def terminating_def sample_opts_def)
qed

lemma sample_delete: "Delete_claim poolless_cp c = Ret ()"
  by (simp add: Delete_claim_def Delete_instance_def poolless_sel sample_cp_def sample_env_def)

lemma sample_gc_run:
  "Reconcile_gc sample_gc sample_gc_state = Some (\<lparr>gs_CP = sample_cp_state, gs_Calls = [TerminateCall ''n1'', DeleteNodeCall ''node-1''], gs_successfulCount = 1\<rparr>,
     Ret \<lparr>res_Requeue = False, res_RequeueAfter = 10 * second_ns\<rparr>)"
proof -
  obtain c where c: "List_claims poolless_cp sample_cp_state = Some (sample_cp_state, Ret [c])" "nc_ProviderID c = ''n1''" "nc_CreationTimestamp c = 5"
    "nc_DeletionTimestamp c = None" "managed_claim c" by (rule sample_gc_list)
  let ?nodes = "[\<lparr>node_Name = ''node-1'', node_ProviderID = ''n1'', node_Taints = []\<rparr>]"
  have ts: "collect_tasks sample_gc [] ?nodes [c] = [([TerminateCall ''n1'', DeleteNodeCall ''node-1''], Ret ())]" "node_tasks sample_gc [] ?nodes [c] = []"
    using c by (simp_all add: collect_tasks_def node_tasks_def orphan_def garbageCollect_def delete_node_def node_of_def sample_gc_def sample_delete Let_def)
  have "gwrap ''listing cloudprovider machines'' (list_on sample_gc) sample_gc_state = Some (sample_gc_state, Ret [c])"
    using c(1) by (simp add: gwrap_Ret_iff list_on_def sample_gc_def sample_gc_state_def)
  then show ?thesis
    by (simp add: Reconcile_gc_def gbind_def glift_def gmodify_def gget_def gret_def Let_def resolvedProviderIDs_def sample_gc_def)
      (simp add: gbind_def gmodify_def gget_def gret_def ts [unfolded sample_gc_def] run_tasks_def sequential_def is_Panic_def task_err_def multierr_Combine_def map_filter_simps sample_gc_state_def)
qed

theorem gc_deletes_only_orphans_witness:
  "\<exists>i. orphan_instance sample_gc (30 * second_ns) i \<and> \<not> terminating i \<and> in_Id i = Some ''n1''"
  using gc_deletes_only_orphans [OF sample_gc_pool sample_gc_run] by (auto simp: sample_gc_state_def)


theorem Reconcile_gc_spec_witness:
  "\<exists>new. List.map_filter terminated_id new = [''n1''] \<and> subseq [TerminateCall ''n1'', DeleteNodeCall ''node-1''] new \<and>
     filter (victim sample_gc []) [sample_instance] = [sample_instance]"
proof -
  have v: "victim sample_gc [] sample_instance"
    by (simp add: victim_def sample_instance_def terminating_def sample_gc_def resolvedProviderIDs_def)
  have "ClusterName (ce_Opts (ge_CP sample_gc)) \<noteq> ''''" by (simp add: sample_gc_def poolless_sel sample_opts_def)
  moreover have "List_instances (ce_Fuel (ge_CP sample_gc)) (ie_Compute (ce_Inst (ge_CP sample_gc))) (ce_Opts (ge_CP sample_gc)) = Some (Ret [sample_instance])"
    using poolless_instances by (simp add: sample_gc_def)
  ultimately obtain new where "mset (List.map_filter terminated_id new) = mset (map (\<lambda>i. the (in_Id i)) (filter (victim sample_gc []) [sample_instance]))"
      and "\<forall>i \<in> set [sample_instance]. \<forall>n. victim sample_gc [] i \<longrightarrow>
        List.find (\<lambda>n. node_ProviderID n = the (in_Id i)) [\<lparr>node_Name = ''node-1'', node_ProviderID = ''n1'', node_Taints = []\<rparr>] = Some n \<longrightarrow>
        subseq [TerminateCall (the (in_Id i)), DeleteNodeCall (node_Name n)] new"
    using Reconcile_gc_spec [OF sample_gc_pool _ sample_gc_run, of "[sample_instance]" "[]" "[\<lparr>node_Name = ''node-1'', node_ProviderID = ''n1'', node_Taints = []\<rparr>]"]
    by (auto simp: sample_gc_def)
  then show ?thesis using v by (intro exI [of _ new]) (auto simp: sample_instance_def)
qed

definition sample_orphan :: "unit nodeClaim" where
  "sample_orphan = unit_claim\<lparr>nc_ProviderID := ''n1'', nc_Annotations := [(ManagedByAnnotationKey, ''c1'')]\<rparr>"


end
