(* ===== verification/Tagging.thy ===== *)
theory Tagging
  imports Instance Errors
begin

text \<open>
  \<open>pkg/controllers/nodeclaim/tagging\<close>: the controller that gives an instance the free-form tags of its node class once its node is known, and
  notes that on the node claim.  The state is the node claim that the API server holds and the tag requests sent;
  the pause after a request is not modelled.
\<close>

record 'q tag_env =
  tge_Compute :: compute_ops
  tge_NodeClass :: "string \<Rightarrow> ociNodeClass outcome"
  tge_Patch :: "'q nodeClaim \<Rightarrow> unit outcome"
  tge_Unwrap :: bool

record 'q tag_state =
  tgs_Claim :: "'q nodeClaim"
  tgs_Requests :: "(string \<times> labels) list"

definition isTaggable :: "'q nodeClaim \<Rightarrow> bool" where
  "isTaggable nc \<longleftrightarrow>
     (if mget (nc_Annotations nc) AnnotationInstanceTagged = ''true'' then False
      else if nc_NodeName nc = '''' then False
      else if nc_DeletionTimestamp nc \<noteq> None then False
      else True)"

text \<open>\<open>instanceProvider.CreateTags\<close> with the request it sends.\<close>

definition create_tags :: "'q tag_env \<Rightarrow> string \<Rightarrow> labels \<Rightarrow> ('q tag_state, unit) go" where
  "create_tags E ident tags =
     gbind (gmodify (\<lambda>s. s\<lparr>tgs_Requests := tgs_Requests s @ [(ident, tags)]\<rparr>)) (\<lambda>_. glift (CreateTags (tge_Compute E) ident tags))"

definition tagInstance :: "'q tag_env \<Rightarrow> 'q nodeClaim \<Rightarrow> string \<Rightarrow> ('q tag_state, unit) go" where
  "tagInstance E nc ident =
     gbind (glift (obind (deref (nc_NodeClassRef nc)) (tge_NodeClass E))) (\<lambda>nodeclass.
     gbind (gwrap ''tagging nodeclaim'' (glift (Get_instance (tge_Compute E) ident))) (\<lambda>getIns.
     let tags = lo_omit_by_keys (FreeFormTags (cl_Spec nodeclass)) (map fst (in_FreeformTags getIns)) in
     if tags = [] then gret ()
     else gwrap ''tagging nodeclaim'' (create_tags E ident tags)))"

definition patch_tagged :: "'q tag_env \<Rightarrow> 'q nodeClaim \<Rightarrow> ('q tag_state, unit) go" where
  "patch_tagged E nc = gbind (glift (tge_Patch E nc)) (\<lambda>_. gmodify (\<lambda>s. s\<lparr>tgs_Claim := nc\<rparr>))"

definition Reconcile_tagging :: "'q tag_env \<Rightarrow> 'q nodeClaim \<Rightarrow> ('q tag_state, reconcile_result) go" where
  "Reconcile_tagging E nodeClaim =
     (if \<not> isTaggable nodeClaim then gret no_requeue
      else (\<lambda>s. case tagInstance E nodeClaim (nc_ProviderID nodeClaim) s of
          None \<Rightarrow> None
        | Some (s', Panic p) \<Rightarrow> Some (s', Panic p)
        | Some (s', Err e) \<Rightarrow> Some (s', IgnoreNodeClaimNotFoundError (tge_Unwrap E) no_requeue e)
        | Some (s', Ret _) \<Rightarrow>
            (let claim' = nodeClaim\<lparr>nc_Annotations := lo_assign (nc_Annotations nodeClaim) [(AnnotationInstanceTagged, ''true'')]\<rparr> in
             if gomap_eq (nc_Annotations claim') (nc_Annotations nodeClaim) then Some (s', Ret no_requeue)
             else gcatch (gbind (patch_tagged E claim') (\<lambda>_. gret no_requeue)) (\<lambda>e. glift (IgnoreNotFound (tge_Unwrap E) no_requeue e)) s')))"

section \<open>Lemmas\<close>

abbreviation tagged :: "'q nodeClaim \<Rightarrow> 'q nodeClaim" where
  "tagged c \<equiv> c\<lparr>nc_Annotations := lo_assign (nc_Annotations c) [(AnnotationInstanceTagged, ''true'')]\<rparr>"

lemma tagged_annotation: "mget (nc_Annotations (tagged c)) AnnotationInstanceTagged = ''true''"
  by (simp add: mget_def map_of_assign gomap_wf_def)

lemma tagged_not_taggable: "\<not> isTaggable (tagged c)"
  using tagged_annotation [of c] by (simp add: isTaggable_def)

lemma tagged_changes: "gomap_wf (nc_Annotations c) \<Longrightarrow> isTaggable c \<Longrightarrow> \<not> gomap_eq (nc_Annotations (tagged c)) (nc_Annotations c)"
  using tagged_annotation [of c] by (auto simp: gomap_eq_iff mget_def isTaggable_def split: if_splits)

text \<open>The tags that the class asks for and the instance does not have.\<close>

definition missing_tags :: "ociNodeClass \<Rightarrow> oci_instance \<Rightarrow> labels" where
  "missing_tags nodeclass i = lo_omit_by_keys (FreeFormTags (cl_Spec nodeclass)) (map fst (in_FreeformTags i))"

lemma tagInstance_known:
  assumes "nc_NodeClassRef claim = Some name" and "tge_NodeClass E name = Ret nodeclass" and "Get_instance (tge_Compute E) ident = Ret i"
  shows "tagInstance E claim ident s =
    (if missing_tags nodeclass i = [] then Some (s, Ret ())
     else Some (s\<lparr>tgs_Requests := tgs_Requests s @ [(ident, missing_tags nodeclass i)]\<rparr>,
       omap_err (Wrapf ''tagging nodeclaim'') (CreateTags (tge_Compute E) ident (missing_tags nodeclass i))))"
  using assms
  by (auto simp: tagInstance_def create_tags_def missing_tags_def Let_def gbind_def gwrap_def gcatch_def glift_def gret_def gmodify_def split: outcome.split)

section \<open>Properties\<close>

text \<open>C21. When the node of a claim is known and the claim is not being deleted, the controller asks the service at most once to set exactly those free-form tags of
  the node class whose keys the instance does not have, and not at all when there are none; the claim is marked as tagged when that worked
  and left alone when it failed, a missing instance being no error; a claim that is marked is not touched again.\<close>

theorem Reconcile_tagging_spec:
  assumes "isTaggable claim" and "gomap_wf (nc_Annotations claim)" and "nc_NodeClassRef claim = Some name" and "tge_NodeClass E name = Ret nodeclass"
    and "Get_instance (tge_Compute E) (nc_ProviderID claim) = Ret i" and "tge_Patch E = (\<lambda>_. Ret ())" and "Reconcile_tagging E claim s = Some (s', r)"
  shows "map_of (missing_tags nodeclass i) =
      (\<lambda>k. if k \<in> fst ` set (in_FreeformTags i) then None else map_of (FreeFormTags (cl_Spec nodeclass)) k) \<and>
    tgs_Requests s' = tgs_Requests s @ (if missing_tags nodeclass i = [] then [] else [(nc_ProviderID claim, missing_tags nodeclass i)]) \<and>
    (if missing_tags nodeclass i = [] \<or> CreateTags (tge_Compute E) (nc_ProviderID claim) (missing_tags nodeclass i) = Ret ()
     then r = Ret no_requeue \<and> tgs_Claim s' = tagged claim
     else tgs_Claim s' = tgs_Claim s \<and> r = (case CreateTags (tge_Compute E) (nc_ProviderID claim) (missing_tags nodeclass i) of
       Panic p \<Rightarrow> Panic p
     | Err e \<Rightarrow> if IsNodeClaimNotFoundError (tge_Unwrap E) e then Ret no_requeue else Err (Wrapf ''tagging nodeclaim'' e)
     | Ret _ \<Rightarrow> r)) \<and>
    Reconcile_tagging E (tagged claim) s' = Some (s', Ret no_requeue)"
proof -
  note t = tagInstance_known [OF assms(3,4,5)] and d = tagged_changes [OF assms(2,1)]
  have m: "map_of (missing_tags nodeclass i) =
      (\<lambda>k. if k \<in> fst ` set (in_FreeformTags i) then None else map_of (FreeFormTags (cl_Spec nodeclass)) k)"
    by (simp add: missing_tags_def map_of_omit)
  have again: "Reconcile_tagging E (tagged claim) s' = Some (s', Ret no_requeue)"
    using tagged_not_taggable [of claim] by (simp add: Reconcile_tagging_def gret_def)
  show ?thesis
  proof (cases "missing_tags nodeclass i = [] \<or> CreateTags (tge_Compute E) (nc_ProviderID claim) (missing_tags nodeclass i) = Ret ()")
    case True
    then show ?thesis using assms(1,6,7) d m again
      by (auto simp: Reconcile_tagging_def t Let_def patch_tagged_def gbind_def gcatch_def glift_def gret_def gmodify_def)
  next
    case False
    then show ?thesis using assms(1,7) m again
      by (auto simp: Reconcile_tagging_def t IgnoreNodeClaimNotFoundError_def split: outcome.splits)
  qed
qed

section \<open>Examples\<close>

text \<open>An instance that has the tag \<open>env\<close>, of a class that asks for \<open>team\<close> and \<open>env\<close>.\<close>

definition tag_claim :: "unit nodeClaim" where
  "tag_claim = \<lparr>nc_Name = ''claim-1'', nc_UID = ''u2'', nc_Labels = [], nc_Annotations = [], nc_CreationTimestamp = 0, nc_DeletionTimestamp = None,
     nc_NodeClassRef = Some ''default'', nc_Requirements = [], nc_Requests = [], nc_Taints = [], nc_StartupTaints = [], nc_ProviderID = ''n1'', nc_ImageID = '''',
     nc_NodeName = ''node-1'', nc_Capacity = [], nc_Allocatable = [], nc_Conditions = []\<rparr>"

definition tag_class :: ociNodeClass where
  "tag_class = launch_class\<lparr>cl_Spec := (cl_Spec launch_class)\<lparr>FreeFormTags := [(''team'', ''a''), (''env'', ''b'')]\<rparr>\<rparr>"

definition tag_instance :: oci_instance where
  "tag_instance = \<lparr>in_Id = Some ''n1'', in_Shape = None, in_AvailabilityDomain = None, in_ImageId = None, in_SourceImageId = None, in_TimeCreated = None,
     in_LifecycleState = LcRunning, in_DefinedTags = [], in_FreeformTags = [(''env'', ''x'')], in_Preemptible = False\<rparr>"

definition sample_tagging :: "unit tag_env" where
  "sample_tagging = \<lparr>tge_Compute = (ie_Compute sample_env)\<lparr>cmp_GetInstance := (\<lambda>_. Ret (Some 200, tag_instance))\<rparr>, tge_NodeClass = (\<lambda>_. Ret tag_class),
     tge_Patch = (\<lambda>_. Ret ()), tge_Unwrap = False\<rparr>"

theorem Reconcile_tagging_spec_witness:
  "\<exists>s'. Reconcile_tagging sample_tagging tag_claim \<lparr>tgs_Claim = tag_claim, tgs_Requests = []\<rparr> = Some (s', Ret no_requeue) \<and>
     tgs_Requests s' = [(''n1'', [(''team'', ''a'')])] \<and> tgs_Claim s' = tagged tag_claim"
proof -
  let ?s = "\<lparr>tgs_Claim = tag_claim, tgs_Requests = []\<rparr>"
  have g: "Get_instance (tge_Compute sample_tagging) (nc_ProviderID tag_claim) = Ret tag_instance"
    by (simp add: sample_tagging_def Get_instance_def tag_instance_def)
  have c: "isTaggable tag_claim" "gomap_wf (nc_Annotations tag_claim)" "nc_NodeClassRef tag_claim = Some ''default''" "nc_ProviderID tag_claim = ''n1''"
    by (simp_all add: isTaggable_def tag_claim_def mget_def)
  have e: "tge_NodeClass sample_tagging ''default'' = Ret tag_class" "tge_Patch sample_tagging = (\<lambda>_. Ret ())" by (simp_all add: sample_tagging_def)
  have m: "missing_tags tag_class tag_instance = [(''team'', ''a'')]" by (simp add: missing_tags_def lo_omit_by_keys_def tag_class_def tag_instance_def)
  have k: "CreateTags (tge_Compute sample_tagging) ''n1'' t = Ret ()" for t by (simp add: CreateTags_def sample_tagging_def sample_env_def)
  obtain s' r where r: "Reconcile_tagging sample_tagging tag_claim ?s = Some (s', r)"
    using tagInstance_known [OF c(3) e(1) g, of ?s] c e m k tagged_changes [OF c(2,1)]
    by (auto simp: Reconcile_tagging_def Let_def patch_tagged_def gcatch_def gbind_def glift_def gmodify_def gret_def)
  from Reconcile_tagging_spec [OF c(1-3) e(1) g e(2) r] show ?thesis by (simp add: r m k c)
qed

end
