(* ===== verification/Spec2Isabelle.thy ===== *)
theory Spec2Isabelle
  imports Utils OfferingCache External GoParse Apis Options Base64 OciConfig Bootstrap Pricing DefaultPrice InstanceType CloudProvider
    NodeClassHash NodeClassStatus NodeClassTermination
    InstanceTypeProvider GarbageCollection Tagging
begin

text \<open>
  A verification library of karpenter-oci, the cloud provider of karpenter for Oracle Cloud Infrastructure.

  The program.  Karpenter core decides which nodes a cluster needs and asks a cloud provider for them in terms of node claims.  \<open>pkg/cloudprovider\<close> answers with
  the providers under \<open>pkg/providers\<close>: the instance types with their offerings and prices, the subnets, security groups and images that a node class selects,
  the user data of a node, and the instances.  A launch that fails for lack of capacity is remembered in \<open>pkg/cache\<close>, which the offerings of later
  launches read.  Controllers under \<open>pkg/controllers\<close> keep the status, hash and finalizer of node classes, collect instances that
  no claim stands for, tag instances and refresh prices.  \<open>pkg/operator\<close> reads the options and credentials and builds all of it.

  The modelling.  Go values are records, datatypes and lists; a pointer is an option; a Go map is an association list without
  duplicate keys, the order of an iteration a parameter.  A call gives an \<open>outcome\<close>: a value, an error of the datatype \<open>goerr\<close>, or a panic.
  Code that changes a state is a function of type \<open>('s, 'a) go\<close> (\<open>GoState\<close>), which keeps the effects made before an error.  Floating-point
  numbers are \<open>gofloat\<close> (\<open>GoFloat\<close>: rationals rounded to 24 or 53 bits, infinities and NaN); integers wrap where the code can reach the bound.
  Times are integers in nanoseconds.  Code outside the repository (OCI's SDK, karpenter core, the Kubernetes client, go-cache,
  hashstructure, workqueue) is a record of functions or a parameter of the definitions, and what a theorem relies on is a named
  hypothesis (\<open>go_cache\<close>, \<open>order_law\<close>, \<open>offerings_law\<close>, \<open>cond_laws\<close>, \<open>serves\<close>, \<open>parallel_ok\<close>), shown to hold of a concrete function.

  The theories, in the order of the code.
  \<^item> \<open>Prelude\<close>, \<open>GoStr\<close>, \<open>GoFloat\<close>, \<open>GoParse\<close>, \<open>GoState\<close>, \<open>Errors\<close>, \<open>Net\<close>, \<open>Base64\<close>: outcomes, maps, strings, numbers, state, errors and the parts of Go's
    standard library that the sources use.
  \<^item> \<open>External\<close>, \<open>RefOps\<close>: the data and operations of the packages outside; a reference instance of karpenter's requirements for the examples.
  \<^item> \<open>Utils\<close> (\<open>pkg/utils\<close>), \<open>Apis\<close> (\<open>pkg/apis\<close>), \<open>Options\<close> (\<open>pkg/operator/options\<close>), \<open>OciConfig\<close> (\<open>pkg/operator\<close>): values, the node class with its
    validation and hash, flags and credentials with every error path.
  \<^item> \<open>OfferingCache\<close> (\<open>pkg/cache\<close>): the cache of unavailable offerings; the locale \<open>go_cache\<close> is the contract of the third-party cache, \<open>offering_store\<close> what
    the clients rely on.  After any history of operations an offering is unavailable exactly when an abstract log of marks says so.
  \<^item> \<open>Pricing\<close>, \<open>DefaultPrice\<close> (\<open>pkg/providers/pricing\<close> and its controller): price items, the price of a size, the refresh, the built-in catalogue.
  \<^item> \<open>Paging\<close>, \<open>InstanceType\<close>, \<open>InstanceTypeProvider\<close> (\<open>pkg/providers/instancetype\<close>): listing shapes page by page, splitting flexible shapes, merging
    availability domains, offerings, requirements, capacity and reservations.
  \<^item> \<open>Selector\<close>, \<open>Subnet\<close>, \<open>SecurityGroup\<close>, \<open>ImageFamily\<close>: selection by terms with a cache (the locale \<open>selector_provider\<close>, interpreted
    on the three providers), free addresses, launch templates; \<open>Bootstrap\<close>: user data of the three image
    families, and a step relation for the concurrent use of the shared Ubuntu variables.
  \<^item> \<open>Instance\<close> (\<open>pkg/providers/instance\<close>): the launch request, capacity errors, and the other requests.
  \<^item> \<open>CloudProvider\<close> (\<open>pkg/cloudprovider\<close>): create, list, get, delete, instance types and drift over the providers.
  \<^item> \<open>NodeClassHash\<close>, \<open>NodeClassStatus\<close>, \<open>NodeClassTermination\<close>, \<open>Tagging\<close>, \<open>GarbageCollection\<close> (\<open>pkg/controllers\<close>): one pass of each controller with every branch.
    \<open>Parallel\<close> is the contract of \<open>workqueue.ParallelizeUntil\<close> as a step relation of workers and the locale \<open>task_pool\<close>; it is interpreted
    on the tasks of garbage collection, whose passes are shown to be independent of the schedule, to end, and to delete orphans only and all of them.
  \<^item> This theory: the life of a node class, in which launches, the status and the termination controller interleave with users and karpenter core.

  Fuel.  The loops over pages ask until the service sends no further token, which it may never do; they take a fuel of one unit
  per request, and listing is shown to succeed when the fuel exceeds the number of pages.  Everything else is total.

  Not modelled: \<open>pkg/fake\<close>, \<open>pkg/test\<close> and \<open>test\<close> (test code), the generated deep copies (identities on values), metrics, logging, the
  \<open>Register\<close> methods (but for the watch of the termination controller) and \<open>NewControllers\<close> (wiring of the manager), the main function, the Helm charts, cancellation of contexts, mutexes (each
  locked section is one step), and that slices returned from a cache share their elements.  A controller reads the API server's
  present objects; a stale informer cache is not modelled.
\<close>

section \<open>The life of a node class\<close>

text \<open>
  The cloud provider, the status controller and the termination controller share the node classes and the node claims of the API server.  A state holds the
  classes by name, the claims, the names of the claims for which an instance was launched, and the state of the cloud provider.  The steps are those of the three
  components as they are modelled, on the object that the server holds at that moment, and the changes that users and karpenter
  core make to the objects.  \<open>SE\<close>, \<open>TE\<close> and \<open>CE\<close> give the answers of the services, which may be others at every step.
\<close>

record ('q, 'c, 'u, 't) life =
  lf_Classes :: "string \<rightharpoonup> ociNodeClass"
  lf_Claims :: "'q nodeClaim list"
  lf_Launched :: "string set"
  lf_Provider :: "('c, 'u, 't) cp_state"

definition get_class :: "(string \<rightharpoonup> ociNodeClass) \<Rightarrow> string \<Rightarrow> ociNodeClass outcome" where
  "get_class m name = (case m name of None \<Rightarrow> Err (StatusError ReasonNotFound '''') | Some nc \<Rightarrow> Ret nc)"

definition class_ready :: "cond_ops \<Rightarrow> ociNodeClass \<Rightarrow> bool" where
  "class_ready C nc \<longleftrightarrow> cond_is CondTrue (nc_GetCondition C nc ConditionReady)"

inductive life_step :: "cond_ops \<Rightarrow> (nat \<Rightarrow> ('r\<^sub>2, 'q\<^sub>2, 'k, 'g, 'i) status_env) \<Rightarrow> (nat \<Rightarrow> term_env) \<Rightarrow> (nat \<Rightarrow> ('r, 'q, 'c, 'u, 't) cp_env) \<Rightarrow>
    ('q, 'c, 'u, 't) life \<Rightarrow> ('q, 'c, 'u, 't) life \<Rightarrow> bool" for C SE TE CE where
  create_class: "lf_Classes s (cl_Name nc) = None \<Longrightarrow> \<not> class_ready C nc \<Longrightarrow> cl_DeletionTimestamp nc = None \<Longrightarrow>
    life_step C SE TE CE s (s\<lparr>lf_Classes := (lf_Classes s)(cl_Name nc \<mapsto> nc)\<rparr>)"
| edit_class: "lf_Classes s name = Some nc \<Longrightarrow>
    life_step C SE TE CE s (s\<lparr>lf_Classes := (lf_Classes s)(name \<mapsto> nc\<lparr>cl_Spec := spec, cl_Annotations := annotations\<rparr>)\<rparr>)"
| delete_class: "lf_Classes s name = Some nc \<Longrightarrow>
    life_step C SE TE CE s (s\<lparr>lf_Classes := (lf_Classes s)(name := stored_class (nc\<lparr>cl_DeletionTimestamp := Some now\<rparr>))\<rparr>)"
| add_claim: "\<forall>c \<in> set (lf_Claims s). nc_Name c \<noteq> nc_Name claim \<Longrightarrow> nc_Name claim \<notin> lf_Launched s \<Longrightarrow>
    life_step C SE TE CE s (s\<lparr>lf_Claims := lf_Claims s @ [claim]\<rparr>)"
| edit_claim: "nc_Name claim' = nc_Name claim \<Longrightarrow> nc_NodeClassRef claim' = nc_NodeClassRef claim \<Longrightarrow> lf_Claims s = xs @ claim # ys \<Longrightarrow>
    life_step C SE TE CE s (s\<lparr>lf_Claims := xs @ claim' # ys\<rparr>)"
| remove_claim: "life_step C SE TE CE s (s\<lparr>lf_Claims := filter (\<lambda>c. nc_Name c \<noteq> name) (lf_Claims s), lf_Launched := lf_Launched s - {name}\<rparr>)"
| launch: "claim \<in> set (lf_Claims s) \<Longrightarrow> ce_Conds (CE k) = C \<Longrightarrow>
    Create_claim ((CE k)\<lparr>ce_NodeClass := get_class (lf_Classes s)\<rparr>) claim (lf_Provider s) = Some (p, Ret c) \<Longrightarrow>
    life_step C SE TE CE s (s\<lparr>lf_Launched := insert (nc_Name claim) (lf_Launched s), lf_Provider := p\<rparr>)"
| status_pass: "lf_Classes s name = Some nc \<Longrightarrow> ne_Conds (SE k) = C \<Longrightarrow> ns_Class t = nc \<Longrightarrow> ns_Work t = nc \<Longrightarrow>
    Reconcile_status (SE k) t = Some (t', r) \<Longrightarrow>
    life_step C SE TE CE s (s\<lparr>lf_Classes := (lf_Classes s)(name \<mapsto> ns_Class t')\<rparr>)"
| termination_pass: "lf_Classes s name = Some nc \<Longrightarrow>
    Reconcile_termination (TE k) nc \<lparr>ts_Claims = lf_Claims s, ts_Class = Some nc, ts_Events = []\<rparr> = Some (t', r) \<Longrightarrow>
    life_step C SE TE CE s (s\<lparr>lf_Classes := (lf_Classes s)(name := ts_Class t')\<rparr>)"

definition life_init :: "('c, 'u, 't) cp_state \<Rightarrow> ('q, 'c, 'u, 't) life" where
  "life_init p = \<lparr>lf_Classes = Map.empty, lf_Claims = [], lf_Launched = {}, lf_Provider = p\<rparr>"

subsection \<open>What the status controller leaves alone\<close>

definition same_object :: "ociNodeClass \<Rightarrow> ociNodeClass \<Rightarrow> bool" where
  "same_object a b \<longleftrightarrow> cl_Name a = cl_Name b \<and> cl_Finalizers a = cl_Finalizers b \<and> cl_DeletionTimestamp a = cl_DeletionTimestamp b"

lemma same_object_set:
  "same_object (set_images E imgs nc) nc" "set_subnets E sns nc = Ret nc' \<Longrightarrow> same_object nc' nc" "set_groups E sgs nc = Ret nc' \<Longrightarrow> same_object nc' nc"
  by (auto simp: same_object_def set_images_def set_subnets_def set_groups_def obind_eq_Ret_iff split: if_splits)

text \<open>Both the object in memory and the one of the server stay the same object.\<close>

definition keeps_objects :: "('k, 'g, 'i) status_state \<Rightarrow> ('k, 'g, 'i) status_state \<Rightarrow> bool" where
  "keeps_objects s s' \<longleftrightarrow> (\<forall>nc. same_object (ns_Work s) nc \<and> same_object (ns_Class s) nc \<longrightarrow> same_object (ns_Work s') nc \<and> same_object (ns_Class s') nc)"

lemma keeps_objects_preorder: "reflp keeps_objects" "transp keeps_objects"
  by (auto simp: keeps_objects_def intro!: reflpI transpI)

lemmas objects_intros = keeps_gbind [OF keeps_objects_preorder(2)] keeps_gcatch [OF keeps_objects_preorder(2)]
  keeps_gwrap [OF keeps_objects_preorder] keeps_gmapM [OF keeps_objects_preorder] keeps_pure [OF keeps_objects_preorder(1)] keeps_gmodify

lemma keeps_objects_work: "same_object nc (ns_Work s) \<Longrightarrow> keeps_objects s (s\<lparr>ns_Work := nc\<rparr>)"
  by (auto simp: keeps_objects_def same_object_def)

lemma keeps_set_work:
  assumes "\<And>nc nc'. f nc = Ret nc' \<Longrightarrow> same_object nc' nc"
  shows "keeps keeps_objects (gbind (gget ns_Work) (\<lambda>nc. gbind (glift (f nc)) (\<lambda>nc'. gbind (gmodify (\<lambda>s. s\<lparr>ns_Work := nc'\<rparr>)) (\<lambda>_. gret (g nc)))))"
  unfolding keeps_def using assms reflpD [OF keeps_objects_preorder(1)]
  by (auto simp: gbind_def gget_def glift_def gmodify_def gret_def intro: keeps_objects_work split: outcome.splits)

lemma keeps_patch_status: "keeps keeps_objects (patch_status E)"
  by (auto simp: keeps_def patch_status_def keeps_objects_def gbind_def gget_def glift_def gmodify_def split: outcome.splits)

lemma keeps_reconcilers:
  "keeps keeps_objects (Reconcile_images E)" "keeps keeps_objects (Reconcile_subnets E)" "keeps keeps_objects (Reconcile_groups E)"
proof -
  have list: "keeps keeps_objects (\<lambda>s. case l s of (c, r) \<Rightarrow> Some (upd c s, r))"
    if "\<And>c s. ns_Work (upd c s) = ns_Work s \<and> ns_Class (upd c s) = ns_Class s" for l and upd :: "'x \<Rightarrow> ('k, 'g, 'i) status_state \<Rightarrow> ('k, 'g, 'i) status_state"
    using that by (auto simp: keeps_def keeps_objects_def split: prod.splits)
  show "keeps keeps_objects (Reconcile_images E)" unfolding Reconcile_images_def
    by (intro objects_intros list keeps_objects_work same_object_set) simp_all
  show "keeps keeps_objects (Reconcile_subnets E)" unfolding Reconcile_subnets_def
    by (intro keeps_gbind [OF keeps_objects_preorder(2)] keeps_gwrap [OF keeps_objects_preorder] list keeps_set_work) (auto intro: same_object_set)
  show "keeps keeps_objects (Reconcile_groups E)" unfolding Reconcile_groups_def
    by (intro keeps_gbind [OF keeps_objects_preorder(2)] keeps_gwrap [OF keeps_objects_preorder] list keeps_set_work) (auto intro: same_object_set)
qed

lemma keeps_rest: "keeps keeps_objects (reconcile_rest E)"
  unfolding reconcile_rest_def run_reconciler_def
  by (auto intro!: objects_intros keeps_reconcilers keeps_patch_status split: prod.splits)

lemma status_frame:
  assumes "Reconcile_status E t = Some (t', r)" and "ns_Class t = ns_Work t"
  shows "ns_Class t' = ns_Class t \<or> TerminationFinalizer \<in> set (cl_Finalizers (ns_Class t')) \<and>
    cl_Name (ns_Class t') = cl_Name (ns_Class t) \<and> cl_DeletionTimestamp (ns_Class t') = cl_DeletionTimestamp (ns_Class t) \<and>
    set (cl_Finalizers (ns_Class t)) \<subseteq> set (cl_Finalizers (ns_Class t'))"
proof -
  have rest: "same_object (ns_Class u') (ns_Class u)" if "reconcile_rest E u = Some (u', r)" "ns_Class u = ns_Work u" for u u'
    using keepsD [OF keeps_rest that(1)] that(2) by (auto simp: keeps_objects_def same_object_def)
  show ?thesis
  proof (cases "TerminationFinalizer \<in> set (cl_Finalizers (ns_Work t))")
    case True
    then show ?thesis using rest [of t t'] assms by (auto simp: Reconcile_status_def gbind_def gget_def same_object_def)
  next
    case False
    let ?nc = "(ns_Work t)\<lparr>cl_Finalizers := cl_Finalizers (ns_Work t) @ [TerminationFinalizer]\<rparr>"
    from False assms have "ns_Class t' = ns_Class t \<or> reconcile_rest E (t\<lparr>ns_Work := ?nc, ns_Class := ?nc\<rparr>) = Some (t', r)"
      by (auto simp: Reconcile_status_def add_finalizer_def gbind_def gget_def glift_def gmodify_def gcatch_def gret_def Let_def split: outcome.splits if_splits)
    then show ?thesis using rest [of "t\<lparr>ns_Work := ?nc, ns_Class := ?nc\<rparr>" t'] assms(2) by (auto simp: same_object_def)
  qed
qed

subsection \<open>The invariant\<close>

definition guarded :: "(string \<rightharpoonup> ociNodeClass) \<Rightarrow> 'q nodeClaim \<Rightarrow> bool" where
  "guarded m c \<longleftrightarrow> (\<exists>name nc. nc_NodeClassRef c = Some name \<and> m name = Some nc \<and> TerminationFinalizer \<in> set (cl_Finalizers nc))"

definition life_inv :: "cond_ops \<Rightarrow> ('q, 'c, 'u, 't) life \<Rightarrow> bool" where
  "life_inv C s \<longleftrightarrow>
     (\<forall>name nc. lf_Classes s name = Some nc \<longrightarrow> cl_Name nc = name \<and>
        (class_ready C nc \<and> cl_DeletionTimestamp nc = None \<longrightarrow> TerminationFinalizer \<in> set (cl_Finalizers nc))) \<and>
     distinct (map nc_Name (lf_Claims s)) \<and> lf_Launched s \<subseteq> nc_Name ` set (lf_Claims s) \<and>
     (\<forall>c \<in> set (lf_Claims s). nc_Name c \<in> lf_Launched s \<longrightarrow> guarded (lf_Classes s) c)"

lemma guarded_upd:
  assumes "guarded m c" and "nc_NodeClassRef c = Some name \<Longrightarrow> \<exists>nc'. x = Some nc' \<and> TerminationFinalizer \<in> set (cl_Finalizers nc')"
  shows "guarded (m(name := x)) c"
proof -
  obtain n nc where n: "nc_NodeClassRef c = Some n" "m n = Some nc" "TerminationFinalizer \<in> set (cl_Finalizers nc)" using assms(1) by (auto simp: guarded_def)
  with assms(2) show ?thesis by (cases "n = name") (auto simp: guarded_def)
qed

lemma life_inv_class:
  assumes "life_inv C s"
    and "\<And>nc'. x = Some nc' \<Longrightarrow> cl_Name nc' = name \<and> (class_ready C nc' \<and> cl_DeletionTimestamp nc' = None \<longrightarrow> TerminationFinalizer \<in> set (cl_Finalizers nc'))"
    and "\<And>c. c \<in> set (lf_Claims s) \<Longrightarrow> nc_NodeClassRef c = Some name \<Longrightarrow> guarded (lf_Classes s) c \<Longrightarrow>
      \<exists>nc'. x = Some nc' \<and> TerminationFinalizer \<in> set (cl_Finalizers nc')"
  shows "life_inv C (s\<lparr>lf_Classes := (lf_Classes s)(name := x)\<rparr>)"
proof -
  have "guarded ((lf_Classes s)(name := x)) c" if "c \<in> set (lf_Claims s)" "nc_Name c \<in> lf_Launched s" for c
    using assms(1,3) that by (intro guarded_upd) (auto simp: life_inv_def)
  with assms(1,2) show ?thesis by (simp add: life_inv_def)
qed

lemma launch_guarded:
  assumes "life_inv C s" and "ce_Conds E = C" and "Create_claim (E\<lparr>ce_NodeClass := get_class (lf_Classes s)\<rparr>) claim p = Some (p', Ret c)"
  shows "guarded (lf_Classes s) claim"
proof -
  obtain nc where nc: "resolveNodeClassFromNodeClaim (E\<lparr>ce_NodeClass := get_class (lf_Classes s)\<rparr>) claim = Ret nc" "class_ready C nc"
    by (rule Create_claim_ready [OF assms(3)]) (use assms(2) in \<open>simp add: class_ready_def\<close>)
  then obtain name where "nc_NodeClassRef claim = Some name" "lf_Classes s name = Some nc" "cl_DeletionTimestamp nc = None"
    by (auto simp: resolveNodeClass_live get_class_def split: option.splits)
  with nc(2) assms(1) show ?thesis by (auto simp: guarded_def life_inv_def)
qed

lemma life_inv_step: "life_step C SE TE CE s s' \<Longrightarrow> life_inv C s \<Longrightarrow> life_inv C s'"
proof (induction rule: life_step.induct)
  case (create_class s nc)
  then show ?case by (intro life_inv_class) (auto simp: guarded_def)
next
  case (edit_class s name nc spec annotations)
  then show ?case
    by (intro life_inv_class) (auto simp: guarded_def life_inv_def class_ready_def nc_GetCondition_def GetConditions_def)
next
  case (delete_class s name nc now)
  then show ?case by (intro life_inv_class) (auto simp: guarded_def life_inv_def stored_class_def split: if_splits)
next
  case (launch claim s k p c)
  then have "guarded (lf_Classes s) claim" by (intro launch_guarded)
  with launch show ?case by (auto simp: life_inv_def) (metis distinct_map inj_on_def)
next
  case (status_pass s name nc k t t' r)
  then show ?case using status_frame [OF status_pass.hyps(5)] by (intro life_inv_class) (auto simp: guarded_def life_inv_def)
next
  case (termination_pass s name nc k t' r)
  then show ?case using Reconcile_termination_removes [OF termination_pass.hyps(2)]
    by (intro life_inv_class) (auto simp: guarded_def life_inv_def stored_class_def split: if_splits)
qed (auto simp: life_inv_def guarded_def intro: distinct_map_filter)

lemma life_inv_init: "life_inv C (life_init p)"
  by (simp add: life_inv_def life_init_def)

text \<open>C3. From the empty cluster, or from any state in which the invariant holds, whatever the order of the steps of users, karpenter core, the status and the
  termination controller and the launches: every claim with a launched instance is still there and refers to a node class that still exists and
  still has karpenter's finalizer.  A class never goes away under its instances.\<close>

theorem class_outlives_claims:
  assumes "life_inv C s\<^sub>0" and "(life_step C SE TE CE)\<^sup>*\<^sup>* s\<^sub>0 s"
  shows "life_inv C (life_init p) \<and> life_inv C s \<and>
    (\<forall>name \<in> lf_Launched s. \<exists>claim cls nc. claim \<in> set (lf_Claims s) \<and> nc_Name claim = name \<and> nc_NodeClassRef claim = Some cls \<and>
       lf_Classes s cls = Some nc \<and> cl_Name nc = cls \<and> TerminationFinalizer \<in> set (cl_Finalizers nc))"
proof -
  have "life_inv C s" using assms(2,1) by (induction rule: rtranclp_induct) (auto intro: life_inv_step)
  moreover from this have "\<exists>claim cls nc. claim \<in> set (lf_Claims s) \<and> nc_Name claim = name \<and> nc_NodeClassRef claim = Some cls \<and>
       lf_Classes s cls = Some nc \<and> cl_Name nc = cls \<and> TerminationFinalizer \<in> set (cl_Finalizers nc)" if "name \<in> lf_Launched s" for name
    using that by (fastforce simp: life_inv_def guarded_def)
  ultimately show ?thesis using life_inv_init by blast
qed

text \<open>A class that is ready, a claim, and the launch for it.\<close>

lemma Create_ready_class_reader: "Create_ready (E\<lparr>ce_NodeClass := f\<rparr>) claim nc = Create_ready E claim nc"
proof -
  have "types_of (E\<lparr>ce_NodeClass := f\<rparr>) = types_of E" "Create_instance_go (E\<lparr>ce_NodeClass := f\<rparr>) = Create_instance_go E"
      "instanceToNodeClaim (E\<lparr>ce_NodeClass := f\<rparr>) = instanceToNodeClaim E"
    by (simp_all add: types_of_def Create_instance_go_def instanceToNodeClaim_def fun_eq_iff Let_def cong: option.case_cong)
  then show ?thesis by (simp add: Create_ready_def resolveInstanceTypes_def cong: if_cong)
qed

definition sample_life :: "(unit, string \<rightharpoonup> oci_subnet list \<times> int, string \<rightharpoonup> unit \<times> int, unit) life" where
  "sample_life = \<lparr>lf_Classes = [''default'' \<mapsto> ready_class], lf_Claims = [unit_claim], lf_Launched = {}, lf_Provider = sample_cp_state\<rparr>"

theorem class_outlives_claims_witness:
  "\<exists>s nc. (life_step (ce_Conds (sample_cp [(2, 15)])) (\<lambda>_. status_sample) (\<lambda>_. undefined) (\<lambda>_. sample_cp [(2, 15)]))\<^sup>*\<^sup>* sample_life s \<and>
     lf_Launched s = {''claim-1''} \<and> lf_Classes s ''default'' = Some nc \<and> TerminationFinalizer \<in> set (cl_Finalizers nc)"
proof -
  let ?E = "sample_cp [(2, 15)]" and ?step = "life_step (ce_Conds (sample_cp [(2, 15)])) (\<lambda>_. status_sample) (\<lambda>_. undefined) (\<lambda>_. sample_cp [(2, 15)])"
  have cl: "cl_Name ready_class = ''default''" "TerminationFinalizer \<in> set (cl_Finalizers ready_class)"
    "nc_NodeClassRef unit_claim = Some ''default''" "nc_Name unit_claim = ''claim-1''" "cl_DeletionTimestamp ready_class = None"
    by (simp_all add: ready_class_def launch_class_def sample_class_def unit_claim_def)
  then have inv: "life_inv (ce_Conds ?E) sample_life" by (simp add: life_inv_def sample_life_def)
  obtain p c where "Create_claim ?E unit_claim sample_cp_state = Some (p, Ret c)" using unit_create by blast
  moreover have "resolveNodeClassFromNodeClaim (?E\<lparr>ce_NodeClass := get_class [''default'' \<mapsto> ready_class]\<rparr>) unit_claim = resolveNodeClassFromNodeClaim ?E unit_claim"
    using cl by (simp add: resolveNodeClassFromNodeClaim_def get_class_def sample_cp_sel)
  ultimately have "Create_claim (?E\<lparr>ce_NodeClass := get_class [''default'' \<mapsto> ready_class]\<rparr>) unit_claim sample_cp_state = Some (p, Ret c)"
    using cl by (simp add: Create_claim_def Create_ready_class_reader resolveNodeClassFromNodeClaim_def sample_cp_sel live_class_def ready_condition [unfolded sample_cp_sel])
  then have "?step sample_life (sample_life\<lparr>lf_Launched := insert (nc_Name unit_claim) (lf_Launched sample_life), lf_Provider := p\<rparr>)"
    by (intro life_step.launch [where k = 0]) (simp_all add: sample_life_def)
  then have s: "?step\<^sup>*\<^sup>* sample_life (sample_life\<lparr>lf_Launched := {''claim-1''}, lf_Provider := p\<rparr>)" using cl by (simp add: sample_life_def r_into_rtranclp)
  from class_outlives_claims [OF inv s] show ?thesis using s cl by (auto simp: sample_life_def)
qed

end
